(* ===== verification/Prelude.thy ===== *)
theory Prelude
  imports Main "HOL-Library.Multiset"
begin

text \<open>
  Shared vocabulary of the development: the integer types of the runtime and the arithmetic
  the pallets use on them (checked, saturating and wrapping), the result type with Rust's
  \<open>?\<close> operator as \<open>and_then\<close>, \<open>ensure!\<close> as \<open>ensure\<close>, \<open>Option::ok_or\<close> and
  \<open>Result::map_err\<close>, little-endian byte strings, and the generic lemmas that invert them.

  Unsigned machine integers are natural numbers; every operation that can leave the range of
  its Rust type is written with the largest value of that type as an argument
  (\<open>checked_add u128_max a b\<close>). Arithmetic the source leaves unchecked wraps around, because
  the release profile of the workspace does not turn overflow checks on.

  \<open>result_simps\<close> collects the inversion rules: they turn "this handler returned \<open>Ok\<close>" into
  the conjunction of its guards and the equations of its intermediate values, without case
  splits; the components add the inversions of their own operations.
\<close>

named_theorems result_simps
named_theorems currency_simps

type_synonym account_id = nat
type_synonym class_id = nat
type_synonym instance_id = nat
type_synonym asset_id = nat
type_synonym balance = nat
type_synonym block_number = nat
type_synonym byte = nat

section \<open>Machine integers\<close>

definition u32_max :: nat where "u32_max = 4294967295"
definition u64_max :: nat where "u64_max = 18446744073709551615"
definition u128_max :: nat where "u128_max = 340282366920938463463374607431768211455"

definition checked_add :: "nat \<Rightarrow> nat \<Rightarrow> nat \<Rightarrow> nat option" where
  "checked_add m a b = (if a + b \<le> m then Some (a + b) else None)"

definition checked_mul :: "nat \<Rightarrow> nat \<Rightarrow> nat \<Rightarrow> nat option" where
  "checked_mul m a b = (if a * b \<le> m then Some (a * b) else None)"

definition checked_sub :: "nat \<Rightarrow> nat \<Rightarrow> nat option" where
  "checked_sub a b = (if b \<le> a then Some (a - b) else None)"

definition checked_div :: "nat \<Rightarrow> nat \<Rightarrow> nat option" where
  "checked_div a b = (if b = 0 then None else Some (a div b))"

definition saturating_sub :: "nat \<Rightarrow> nat \<Rightarrow> nat" where
  "saturating_sub a b = (if b \<le> a then a - b else 0)"

definition saturating_add :: "nat \<Rightarrow> nat \<Rightarrow> nat \<Rightarrow> nat" where
  "saturating_add m a b = min m (a + b)"

definition wrapping_add :: "nat \<Rightarrow> nat \<Rightarrow> nat \<Rightarrow> nat" where
  "wrapping_add m a b = (a + b) mod Suc m"

definition wrapping_sub :: "nat \<Rightarrow> nat \<Rightarrow> nat \<Rightarrow> nat" where
  "wrapping_sub m a b = (a + (Suc m - b)) mod Suc m"

definition wrapping_mul :: "nat \<Rightarrow> nat \<Rightarrow> nat \<Rightarrow> nat" where
  "wrapping_mul m a b = (a * b) mod Suc m"

section \<open>Results\<close>

definition and_then :: "'e + 'a \<Rightarrow> ('a \<Rightarrow> 'e + 'b) \<Rightarrow> 'e + 'b" where
  "and_then m f = (case m of Inl e \<Rightarrow> Inl e | Inr x \<Rightarrow> f x)"

definition ensure :: "bool \<Rightarrow> 'e \<Rightarrow> 'e + unit" where
  "ensure b e = (if b then Inr () else Inl e)"

definition ok_or :: "'a option \<Rightarrow> 'e \<Rightarrow> 'e + 'a" where
  "ok_or x e = (case x of None \<Rightarrow> Inl e | Some v \<Rightarrow> Inr v)"

definition map_err :: "('e \<Rightarrow> 'f) \<Rightarrow> 'e + 'a \<Rightarrow> 'f + 'a" where
  "map_err g m = (case m of Inl e \<Rightarrow> Inl (g e) | Inr x \<Rightarrow> Inr x)"

definition is_ok :: "'e + 'a \<Rightarrow> bool" where
  "is_ok m = (case m of Inl _ \<Rightarrow> False | Inr _ \<Rightarrow> True)"

section \<open>Little-endian bytes\<close>

fun to_le_bytes :: "nat \<Rightarrow> nat \<Rightarrow> byte list" where
  "to_le_bytes 0 n = []"
| "to_le_bytes (Suc k) n = n mod 256 # to_le_bytes k (n div 256)"

fun from_le_bytes :: "byte list \<Rightarrow> nat" where
  "from_le_bytes [] = 0"
| "from_le_bytes (b # bs) = b + 256 * from_le_bytes bs"

section \<open>Inversion and computation rules\<close>

lemma and_then_Inr [simp]: "and_then (Inr x) f = f x"
  by (simp add: and_then_def)

lemma and_then_Inl [simp]: "and_then (Inl e) f = Inl e"
  by (simp add: and_then_def)

lemma and_then_eq_Inr [simp, result_simps]:
  "and_then m f = Inr y \<longleftrightarrow> (\<exists>x. m = Inr x \<and> f x = Inr y)"
  by (cases m) auto

lemma and_then_eq_Inl:
  "and_then m f = Inl e \<longleftrightarrow> m = Inl e \<or> (\<exists>x. m = Inr x \<and> f x = Inl e)"
  by (cases m) auto

lemma and_then_assoc: "and_then (and_then m f) g = and_then m (\<lambda>x. and_then (f x) g)"
  by (cases m) auto

lemma ensure_True [simp]: "ensure True e = Inr ()"
  by (simp add: ensure_def)

lemma ensure_False [simp]: "ensure False e = Inl e"
  by (simp add: ensure_def)

lemma ensure_eq_Inr [simp, result_simps]: "ensure b e = Inr u \<longleftrightarrow> b"
  by (simp add: ensure_def)

lemma ensure_eq_Inl [simp, result_simps]: "ensure b e = Inl e' \<longleftrightarrow> \<not> b \<and> e' = e"
  by (auto simp: ensure_def)

lemma ok_or_Some [simp]: "ok_or (Some x) e = Inr x"
  by (simp add: ok_or_def)

lemma ok_or_None [simp]: "ok_or None e = Inl e"
  by (simp add: ok_or_def)

lemma ok_or_eq_Inr [simp, result_simps]: "ok_or x e = Inr y \<longleftrightarrow> x = Some y"
  by (cases x) auto

lemma ok_or_eq_Inl [simp, result_simps]: "ok_or x e = Inl e' \<longleftrightarrow> x = None \<and> e' = e"
  by (cases x) auto

lemma map_err_Inr [simp]: "map_err g (Inr x) = Inr x"
  by (simp add: map_err_def)

lemma map_err_Inl [simp]: "map_err g (Inl e) = Inl (g e)"
  by (simp add: map_err_def)

lemma map_err_eq_Inr [simp, result_simps]: "map_err g m = Inr y \<longleftrightarrow> m = Inr y"
  by (cases m) auto

lemma is_ok_Inr [simp]: "is_ok (Inr x)"
  by (simp add: is_ok_def)

lemma is_ok_Inl [simp]: "\<not> is_ok (Inl e)"
  by (simp add: is_ok_def)

lemma is_ok_iff: "is_ok m \<longleftrightarrow> (\<exists>x. m = Inr x)"
  by (cases m) auto

lemma checked_add_eq_Some [simp, result_simps]:
  "checked_add m a b = Some c \<longleftrightarrow> a + b \<le> m \<and> c = a + b"
  by (auto simp: checked_add_def)

lemma checked_mul_eq_Some [simp, result_simps]:
  "checked_mul m a b = Some c \<longleftrightarrow> a * b \<le> m \<and> c = a * b"
  by (auto simp: checked_mul_def)

lemma checked_sub_eq_Some [simp, result_simps]:
  "checked_sub a b = Some c \<longleftrightarrow> b \<le> a \<and> c = a - b"
  by (auto simp: checked_sub_def)

lemma checked_div_eq_Some [simp, result_simps]:
  "checked_div a b = Some c \<longleftrightarrow> b \<noteq> 0 \<and> c = a div b"
  by (auto simp: checked_div_def)

lemma wrapping_add_exact: "a + b \<le> m \<Longrightarrow> wrapping_add m a b = a + b"
  by (simp add: wrapping_add_def)

lemma wrapping_sub_exact: "b \<le> a \<Longrightarrow> a \<le> m \<Longrightarrow> wrapping_sub m a b = a - b"
proof -
  assume "b \<le> a" "a \<le> m"
  then have "a + (Suc m - b) = (a - b) + Suc m" and "a - b < Suc m" by simp_all
  then show ?thesis
    unfolding wrapping_sub_def by (metis mod_add_self2 mod_less)
qed

lemma wrapping_mul_exact: "a * b \<le> m \<Longrightarrow> wrapping_mul m a b = a * b"
  by (simp add: wrapping_mul_def)

lemma wrapping_add_le: "wrapping_add m a b \<le> m"
  using mod_less_divisor [of "Suc m" "a + b"] by (simp add: wrapping_add_def)

lemma saturating_sub_eq [simp]: "saturating_sub a b = a - b"
  by (simp add: saturating_sub_def)

section \<open>Bytes: length, bounds, round trips\<close>

lemma length_to_le_bytes [simp]: "length (to_le_bytes k n) = k"
  by (induction k arbitrary: n) auto

lemma from_to_le_bytes: "n < 256 ^ k \<Longrightarrow> from_le_bytes (to_le_bytes k n) = n"
proof (induction k arbitrary: n)
  case 0
  then show ?case by simp
next
  case (Suc k)
  from Suc.prems have "n div 256 < 256 ^ k"
    by (simp add: less_mult_imp_div_less mult.commute)
  then have "from_le_bytes (to_le_bytes k (n div 256)) = n div 256" by (rule Suc.IH)
  then show ?case by simp
qed

lemma from_le_bytes_append:
  "from_le_bytes (xs @ ys) = from_le_bytes xs + 256 ^ length xs * from_le_bytes ys"
  by (induction xs) (auto simp: algebra_simps)

lemma take_to_le_bytes: "take j (to_le_bytes k n) = to_le_bytes (min j k) n"
proof (induction k arbitrary: n j)
  case 0
  then show ?case by simp
next
  case (Suc k)
  then show ?case by (cases j) auto
qed

lemma to_le_bytes_mod: "j \<le> k \<Longrightarrow> to_le_bytes j (n mod 256 ^ k) = to_le_bytes j n"
proof (induction j arbitrary: n k)
  case 0
  then show ?case by simp
next
  case (Suc j)
  then obtain k' where k: "k = Suc k'" and j: "j \<le> k'" by (cases k) auto
  have "n mod 256 ^ k mod 256 = n mod 256"
    by (simp add: k mod_mult2_eq)
  moreover have "n mod 256 ^ k div 256 = n div 256 mod 256 ^ k'"
    by (simp add: k mod_mult2_eq)
  ultimately show ?case using Suc.IH [OF j] by simp
qed

section \<open>Maps\<close>

text \<open>\<open>StorageMap\<close> with \<open>ValueQuery\<close>: an absent key reads as the default of the value type.\<close>

definition value_query :: "'v \<Rightarrow> ('k \<rightharpoonup> 'v) \<Rightarrow> 'k \<Rightarrow> 'v" where
  "value_query d m k = (case m k of None \<Rightarrow> d | Some v \<Rightarrow> v)"

definition contains_key :: "('k \<rightharpoonup> 'v) \<Rightarrow> 'k \<Rightarrow> bool" where
  "contains_key m k = (m k \<noteq> None)"

lemma value_query_upd [simp]:
  "value_query d (m(k \<mapsto> v)) k' = (if k' = k then v else value_query d m k')"
  by (simp add: value_query_def)

lemma value_query_del [simp]:
  "value_query d (m(k := None)) k' = (if k' = k then d else value_query d m k')"
  by (simp add: value_query_def)

lemma value_query_Some [simp]: "m k = Some v \<Longrightarrow> value_query d m k = v"
  by (simp add: value_query_def)

lemma value_query_None [simp]: "m k = None \<Longrightarrow> value_query d m k = d"
  by (simp add: value_query_def)

lemma contains_key_iff: "contains_key m k \<longleftrightarrow> k \<in> dom m"
  by (auto simp: contains_key_def)

text \<open>The sum of a quantity over the entries of a map whose keys lie in a set.\<close>

definition map_sum :: "('v \<Rightarrow> nat) \<Rightarrow> ('k \<rightharpoonup> 'v) \<Rightarrow> 'k set \<Rightarrow> nat" where
  "map_sum g M K = (\<Sum>k\<in>dom M \<inter> K. g (the (M k)))"

lemma map_sum_empty [simp]: "map_sum g Map.empty K = 0"
  by (simp add: map_sum_def)

lemma map_sum_upd_out: "k \<notin> K \<Longrightarrow> map_sum g (M(k := v)) K = map_sum g M K"
  unfolding map_sum_def by (rule sum.cong) auto

lemma map_sum_split:
  assumes "finite (dom M)" "k \<in> K"
  shows "map_sum g M K = (case M k of None \<Rightarrow> 0 | Some x \<Rightarrow> g x) + map_sum g M (K - {k})"
proof (cases "M k")
  case None
  then have "dom M \<inter> (K - {k}) = dom M \<inter> K" by auto
  with None show ?thesis by (simp add: map_sum_def)
next
  case (Some x)
  then have "k \<in> dom M \<inter> K" using assms(2) by auto
  moreover have "dom M \<inter> K - {k} = dom M \<inter> (K - {k})" by auto
  ultimately show ?thesis
    using sum.remove [of "dom M \<inter> K" k "\<lambda>k. g (the (M k))"] assms(1) Some by (simp add: map_sum_def)
qed

lemma map_sum_upd:
  assumes "finite (dom M)" "k \<in> K"
  shows "map_sum g (M(k := v)) K + (case M k of None \<Rightarrow> 0 | Some x \<Rightarrow> g x) =
    map_sum g M K + (case v of None \<Rightarrow> 0 | Some x \<Rightarrow> g x)"
proof -
  have "finite (dom (M(k := v)))" using assms(1) by simp
  from map_sum_split [OF this assms(2), of g] map_sum_split [OF assms, of g] show ?thesis
    by (simp only: fun_upd_same map_sum_upd_out Diff_iff singleton_iff simp_thms)
qed

end
