(* ===== verification/Primitives.thy ===== *)
theory Primitives
  imports Prelude
begin

text \<open>
  The types the pallets share. From \<open>primitives/src\<close>: asset pairs and their storage order,
  exchange intentions, NFT class types with their permission table, the constants of the
  chain. From FRAME: dispatch origins, \<open>ensure_signed\<close>, \<open>ensure_root\<close> and the one
  \<open>DispatchError\<close> type, whose module errors are the error enumerations of the pallets, so a
  call that crosses pallets propagates the error it got.

  \<open>External n\<close> stands for any error value of code outside the repository (the token pallets,
  the asset registry, the uniques pallet): the pallets only propagate it.
\<close>

section \<open>Errors of the pallets\<close>

datatype xyk_error =
    CannotCreatePoolWithSameAssets | InsufficientLiquidity | InsufficientTradingAmount
  | ZeroLiquidity | ZeroInitialPrice | CreatePoolAssetAmountInvalid | InvalidMintedLiquidity
  | InvalidLiquidityAmount | AssetAmountExceededLimit | AssetAmountNotReachedLimit
  | InsufficientAssetBalance | InsufficientPoolAssetBalance | InsufficientNativeCurrencyBalance
  | TokenPoolNotFound | TokenPoolAlreadyExists | AddAssetAmountInvalid
  | RemoveAssetAmountInvalid | SellAssetAmountInvalid | BuyAssetAmountInvalid
  | FeeAmountInvalid | CannotApplyDiscount | MaxOutRatioExceeded | MaxInRatioExceeded
  | Overflow | CannotCreatePool

datatype lbp_error =
    CannotCreatePoolWithSameAssets | NotOwner | SaleStarted | SaleNotEnded | SaleIsNotRunning
  | MaxSaleDurationExceeded | CannotAddZeroLiquidity | InsufficientAssetBalance | PoolNotFound
  | PoolAlreadyExists | InvalidBlockRange | WeightCalculationError | InvalidWeight | ZeroAmount
  | MaxInRatioExceeded | MaxOutRatioExceeded | FeeAmountInvalid | TradingLimitReached
  | Overflow | NothingToUpdate | InsufficientLiquidity | InsufficientTradingAmount
  | FeeCollectorWithAssetAlreadyUsed

datatype exchange_error =
    TokenPoolNotFound | InsufficientAssetBalance | TradeAmountExceededLimit
  | TradeAmountNotReachedLimit | ZeroSpotPrice | MinimumTradeLimitNotReached
  | IntentionCountOverflow

datatype lm_error =
    Overflow | InsufficientBalanceInGlobalPool | InvalidPoolId | InvalidPlannedYieldingPeriods
  | InvalidBlocksPerPeriod | InvalidYieldPerPeriod | InvalidTotalRewards
  | InsufficientRewardCurrencyBalance | Forbidden | FarmNotFound | LiquidityPoolAlreadyExists
  | InvalidMultiplier | InvalidInitialRewardPercentage | InsufficientAmmSharesBalance
  | AmmPoolDoesNotExist | LiquidityPoolNotFound | FarmIsNotEmpty | RewardBalanceIsNotZero
  | LiquidityPoolMetadataNotFound | NftDoesNotExist | NftIdOverflow | InvalidNftId
  | LiquidityMiningCanceled | LiquidityMiningIsNotCanceled | InvalidDepositAmount
  | NotDepositOwner | CantFindDepositOwner | DoubleClaimInThePeriod | MissingIncentivizedAsset

datatype nft_error =
    NoAvailableInstanceId | NoAvailableClassId | TokenClassNotEmpty | ClassUnknown
  | InstanceUnknown | NotPermitted | IdReserved

datatype marketplace_error =
    NotTheTokenOwner | BuyFromSelf | NotForSale | ClassOrInstanceUnknown | OfferTooLow
  | UnknownOffer | OfferExpired | AlreadyOffered | WithdrawNotAuthorized | AcceptNotAuthorized
  | RoyaltyAlreadySet | NotInRange

datatype duster_error =
    AccountBlacklisted | AccountNotBlacklisted | ZeroBalance | BalanceSufficient
  | DustAccountNotSet | ReserveAccountNotSet

datatype dispatch_error =
    BadOrigin | CannotLookup
  | XYK xyk_error | LBP lbp_error | Exchange exchange_error | LM lm_error
  | NFT nft_error | Marketplace marketplace_error | Duster duster_error
  | External nat

type_synonym 'a result = "dispatch_error + 'a"

section \<open>Origins\<close>

datatype origin = Root | Signed account_id | Unsigned

definition ensure_signed :: "origin \<Rightarrow> account_id result" where
  "ensure_signed orig = (case orig of Signed w \<Rightarrow> Inr w | _ \<Rightarrow> Inl BadOrigin)"

definition ensure_root :: "origin \<Rightarrow> unit result" where
  "ensure_root orig = (case orig of Root \<Rightarrow> Inr () | _ \<Rightarrow> Inl BadOrigin)"

section \<open>Asset pairs\<close>

record asset_pair =
  asset_in :: asset_id
  asset_out :: asset_id

definition mk_pair :: "asset_id \<Rightarrow> asset_id \<Rightarrow> asset_pair" where
  "mk_pair a b = \<lparr>asset_in = a, asset_out = b\<rparr>"

definition ordered_pair :: "asset_pair \<Rightarrow> asset_id \<times> asset_id" where
  "ordered_pair p =
     (if asset_in p \<le> asset_out p then (asset_in p, asset_out p) else (asset_out p, asset_in p))"

definition pair_name :: "asset_pair \<Rightarrow> byte list" where
  "pair_name p =
     (let (asset_a, asset_b) = ordered_pair p
      in to_le_bytes 4 asset_a @ [72, 68, 84] @ to_le_bytes 4 asset_b)"

section \<open>Intentions and AMM transfers\<close>

datatype intention_type = SELL | BUY

record intention =
  int_who :: account_id
  int_assets :: asset_pair
  int_amount_in :: balance
  int_amount_out :: balance
  int_trade_limit :: balance
  int_discount :: bool
  int_sell_or_buy :: intention_type
  int_id :: nat

text \<open>
  \<open>AMMTransfer\<close> is declared by the traits crate; its fields are those the pallets construct
  and read.
\<close>

record amm_transfer =
  tr_origin :: account_id
  tr_assets :: asset_pair
  tr_amount :: balance
  tr_amount_out :: balance
  tr_discount :: bool
  tr_discount_amount :: balance
  tr_fee :: "asset_id \<times> balance"

section \<open>NFT class types and permissions\<close>

datatype class_type = MarketplaceClass | LiquidityMiningClass | Redeemable | Auction | HydraHeads

definition default_class_type :: class_type where
  "default_class_type = MarketplaceClass"

fun can_create :: "class_type \<Rightarrow> bool" where
  "can_create MarketplaceClass = True"
| "can_create _ = False"

fun can_mint :: "class_type \<Rightarrow> bool" where
  "can_mint MarketplaceClass = True"
| "can_mint _ = False"

fun can_transfer :: "class_type \<Rightarrow> bool" where
  "can_transfer MarketplaceClass = True"
| "can_transfer LiquidityMiningClass = True"
| "can_transfer _ = False"

fun can_burn :: "class_type \<Rightarrow> bool" where
  "can_burn MarketplaceClass = True"
| "can_burn _ = False"

fun can_destroy :: "class_type \<Rightarrow> bool" where
  "can_destroy MarketplaceClass = True"
| "can_destroy _ = False"

fun has_deposit :: "class_type \<Rightarrow> bool" where
  "has_deposit MarketplaceClass = True"
| "has_deposit _ = False"

datatype reserve_identifier = NftReserve | MarketplaceReserve | CountReserve

section \<open>Constants of the chain\<close>

definition UNITS :: balance where "UNITS = 1000000000000"
definition DOLLARS :: balance where "DOLLARS = UNITS * 100"
definition CENTS :: balance where "CENTS = DOLLARS div 100"
definition MILLICENTS :: balance where "MILLICENTS = CENTS div 1000"
definition NATIVE_EXISTENTIAL_DEPOSIT :: balance where "NATIVE_EXISTENTIAL_DEPOSIT = CENTS"

definition storage_deposit :: "nat \<Rightarrow> nat \<Rightarrow> balance" where
  "storage_deposit items bytes =
     wrapping_add u128_max
       (wrapping_mul u128_max (wrapping_mul u128_max items 2) DOLLARS)
       (wrapping_mul u128_max (wrapping_mul u128_max bytes 30) MILLICENTS)"

definition MILLISECS_PER_BLOCK :: nat where "MILLISECS_PER_BLOCK = 12000"
definition MINUTES :: block_number where "MINUTES = 60000 div MILLISECS_PER_BLOCK"
definition HOURS :: block_number where "HOURS = MINUTES * 60"
definition DAYS :: block_number where "DAYS = HOURS * 24"

definition CORE_ASSET_ID :: asset_id where "CORE_ASSET_ID = 0"
definition MAX_OUT_RATIO :: nat where "MAX_OUT_RATIO = 3"
definition MAX_IN_RATIO :: nat where "MAX_IN_RATIO = 3"
definition MIN_TRADING_LIMIT :: balance where "MIN_TRADING_LIMIT = 1000"
definition MIN_POOL_LIQUIDITY :: balance where "MIN_POOL_LIQUIDITY = 1000"

section \<open>Lemmas\<close>

lemma ensure_signed_eq_Inr [simp, result_simps]: "ensure_signed orig = Inr w \<longleftrightarrow> orig = Signed w"
  by (auto simp: ensure_signed_def split: origin.splits)

lemma ensure_signed_Signed [simp]: "ensure_signed (Signed w) = Inr w"
  by (simp add: ensure_signed_def)

lemma ensure_root_eq_Inr [simp, result_simps]: "ensure_root orig = Inr u \<longleftrightarrow> orig = Root"
  by (auto simp: ensure_root_def split: origin.splits)

lemma ensure_root_Root [simp]: "ensure_root Root = Inr ()"
  by (simp add: ensure_root_def)

lemma mk_pair_sel [simp]: "asset_in (mk_pair a b) = a" "asset_out (mk_pair a b) = b"
  by (simp_all add: mk_pair_def)

lemma ordered_pair_swap: "ordered_pair (mk_pair a b) = ordered_pair (mk_pair b a)"
  by (auto simp: ordered_pair_def mk_pair_def)

lemma ordered_pair_sorted: "fst (ordered_pair p) \<le> snd (ordered_pair p)"
  by (auto simp: ordered_pair_def)

lemma to_le_bytes_inj:
  assumes "a < 256 ^ k" "b < 256 ^ k" "to_le_bytes k a = to_le_bytes k b"
  shows "a = b"
  using assms from_to_le_bytes by metis

end
