(* ===== verification/Currency.thy ===== *)
theory Currency
  imports Primitives
begin

text \<open>
  The fungible-token interface the pallets are generic over (\<open>MultiCurrency\<close>,
  \<open>MultiCurrencyExtended\<close>, \<open>MultiReservableCurrency\<close>, \<open>MultiLockableCurrency\<close>,
  \<open>TransferAll\<close>). Its implementations are not part of the repository, so the operations are
  the fields of a record over an opaque storage type \<open>'w\<close>, and the documented contract of the
  traits is the locale \<open>multi_currency\<close> with its extensions \<open>reservable_currency\<close> and
  \<open>lockable_currency\<close>. An operation that fails returns \<open>Inl\<close> and leaves the storage as it was.

  The repository's own layer on top is modelled here: \<open>OrmlTokensAdapter\<close>
  (\<open>runtime/common/src/adapter.rs\<close>), which forwards to the tokens pallet and emits a transfer
  event, and the locked-balance getter of \<open>runtime/common/src/locked_balance.rs\<close>. The
  sublocales show that the adapter meets the contract whenever the tokens pallet does.

  \<open>lift_currency\<close> moves an interface to a larger storage, which is how a pallet that keeps
  its own maps beside the token storage offers the same operations.

  What the traits promise about balances is taken as exact: a transfer moves its amount and
  nothing else. Reaping of accounts under the existential deposit is not part of the traits'
  contract and is outside the model.
\<close>

datatype balance_status = StatusFree | StatusReserved

record 'w currency_ops =
  c_minimum_balance :: "'w \<Rightarrow> asset_id \<Rightarrow> balance"
  c_total_issuance :: "'w \<Rightarrow> asset_id \<Rightarrow> balance"
  c_total_balance :: "'w \<Rightarrow> asset_id \<Rightarrow> account_id \<Rightarrow> balance"
  c_free_balance :: "'w \<Rightarrow> asset_id \<Rightarrow> account_id \<Rightarrow> balance"
  c_ensure_can_withdraw :: "'w \<Rightarrow> asset_id \<Rightarrow> account_id \<Rightarrow> balance \<Rightarrow> unit result"
  c_transfer :: "'w \<Rightarrow> asset_id \<Rightarrow> account_id \<Rightarrow> account_id \<Rightarrow> balance \<Rightarrow> 'w result"
  c_deposit :: "'w \<Rightarrow> asset_id \<Rightarrow> account_id \<Rightarrow> balance \<Rightarrow> 'w result"
  c_withdraw :: "'w \<Rightarrow> asset_id \<Rightarrow> account_id \<Rightarrow> balance \<Rightarrow> 'w result"
  c_can_slash :: "'w \<Rightarrow> asset_id \<Rightarrow> account_id \<Rightarrow> balance \<Rightarrow> bool"
  c_slash :: "'w \<Rightarrow> asset_id \<Rightarrow> account_id \<Rightarrow> balance \<Rightarrow> balance \<times> 'w"
  c_update_balance :: "'w \<Rightarrow> asset_id \<Rightarrow> account_id \<Rightarrow> int \<Rightarrow> 'w result"
  c_can_reserve :: "'w \<Rightarrow> asset_id \<Rightarrow> account_id \<Rightarrow> balance \<Rightarrow> bool"
  c_slash_reserved :: "'w \<Rightarrow> asset_id \<Rightarrow> account_id \<Rightarrow> balance \<Rightarrow> balance \<times> 'w"
  c_reserved_balance :: "'w \<Rightarrow> asset_id \<Rightarrow> account_id \<Rightarrow> balance"
  c_reserve :: "'w \<Rightarrow> asset_id \<Rightarrow> account_id \<Rightarrow> balance \<Rightarrow> 'w result"
  c_unreserve :: "'w \<Rightarrow> asset_id \<Rightarrow> account_id \<Rightarrow> balance \<Rightarrow> balance \<times> 'w"
  c_repatriate_reserved ::
    "'w \<Rightarrow> asset_id \<Rightarrow> account_id \<Rightarrow> account_id \<Rightarrow> balance \<Rightarrow> balance_status \<Rightarrow> (balance \<times> 'w) result"
  c_set_lock :: "'w \<Rightarrow> string \<Rightarrow> asset_id \<Rightarrow> account_id \<Rightarrow> balance \<Rightarrow> 'w result"
  c_extend_lock :: "'w \<Rightarrow> string \<Rightarrow> asset_id \<Rightarrow> account_id \<Rightarrow> balance \<Rightarrow> 'w result"
  c_remove_lock :: "'w \<Rightarrow> string \<Rightarrow> asset_id \<Rightarrow> account_id \<Rightarrow> 'w result"
  c_transfer_all :: "'w \<Rightarrow> account_id \<Rightarrow> account_id \<Rightarrow> 'w result"
  c_native_locks :: "'w \<Rightarrow> account_id \<Rightarrow> (string \<times> balance) list"
  c_token_locks :: "'w \<Rightarrow> account_id \<Rightarrow> asset_id \<Rightarrow> (string \<times> balance) list"

section \<open>Locked balances\<close>

definition find_lock :: "string \<Rightarrow> (string \<times> balance) list \<Rightarrow> balance" where
  "find_lock lock_id ls =
     (case find (\<lambda>l. fst l = lock_id) ls of Some l \<Rightarrow> snd l | None \<Rightarrow> 0)"

definition get_by_lock ::
  "'w currency_ops \<Rightarrow> 'w \<Rightarrow> string \<Rightarrow> asset_id \<Rightarrow> account_id \<Rightarrow> balance" where
  "get_by_lock C s lock_id currency_id who =
     (if currency_id = CORE_ASSET_ID then find_lock lock_id (c_native_locks C s who)
      else find_lock lock_id (c_token_locks C s who currency_id))"

section \<open>The tokens adapter\<close>

datatype tokens_event = TokensTransfer asset_id account_id account_id balance

definition adapter_transfer ::
  "'w currency_ops \<Rightarrow> 'w \<times> tokens_event list \<Rightarrow> asset_id \<Rightarrow> account_id \<Rightarrow> account_id \<Rightarrow> balance
   \<Rightarrow> ('w \<times> tokens_event list) result" where
  "adapter_transfer T s a from_acc to_acc x =
     (case c_transfer T (fst s) a from_acc to_acc x of
        Inl e \<Rightarrow> Inl e
      | Inr w \<Rightarrow> Inr (w, snd s @ [TokensTransfer a from_acc to_acc x]))"

definition keep_events :: "'v \<times> 'ev list \<Rightarrow> 'w result \<Rightarrow> ('w \<times> 'ev list) result" where
  "keep_events s r = and_then r (\<lambda>w. Inr (w, snd s))"

definition orml_tokens_adapter :: "'w currency_ops \<Rightarrow> ('w \<times> tokens_event list) currency_ops" where
  "orml_tokens_adapter T = \<lparr>
     c_minimum_balance = (\<lambda>s. c_minimum_balance T (fst s)),
     c_total_issuance = (\<lambda>s. c_total_issuance T (fst s)),
     c_total_balance = (\<lambda>s. c_total_balance T (fst s)),
     c_free_balance = (\<lambda>s. c_free_balance T (fst s)),
     c_ensure_can_withdraw = (\<lambda>s. c_ensure_can_withdraw T (fst s)),
     c_transfer = adapter_transfer T,
     c_deposit = (\<lambda>s a w x. keep_events s (c_deposit T (fst s) a w x)),
     c_withdraw = (\<lambda>s a w x. keep_events s (c_withdraw T (fst s) a w x)),
     c_can_slash = (\<lambda>s. c_can_slash T (fst s)),
     c_slash = (\<lambda>s a w x. let (r, t) = c_slash T (fst s) a w x in (r, t, snd s)),
     c_update_balance = (\<lambda>s a w x. keep_events s (c_update_balance T (fst s) a w x)),
     c_can_reserve = (\<lambda>s. c_can_reserve T (fst s)),
     c_slash_reserved = (\<lambda>s a w x. let (r, t) = c_slash_reserved T (fst s) a w x in (r, t, snd s)),
     c_reserved_balance = (\<lambda>s. c_reserved_balance T (fst s)),
     c_reserve = (\<lambda>s a w x. keep_events s (c_reserve T (fst s) a w x)),
     c_unreserve = (\<lambda>s a w x. let (r, t) = c_unreserve T (fst s) a w x in (r, t, snd s)),
     c_repatriate_reserved = (\<lambda>s a f t x st.
        and_then (c_repatriate_reserved T (fst s) a f t x st) (\<lambda>(r, w). Inr (r, w, snd s))),
     c_set_lock = (\<lambda>s i a w x. keep_events s (c_set_lock T (fst s) i a w x)),
     c_extend_lock = (\<lambda>s i a w x. keep_events s (c_extend_lock T (fst s) i a w x)),
     c_remove_lock = (\<lambda>s i a w. keep_events s (c_remove_lock T (fst s) i a w)),
     c_transfer_all = (\<lambda>s f t. keep_events s (c_transfer_all T (fst s) f t)),
     c_native_locks = (\<lambda>s. c_native_locks T (fst s)),
     c_token_locks = (\<lambda>s. c_token_locks T (fst s))\<rparr>"

section \<open>Lifting an interface to a larger storage\<close>

definition lift_currency ::
  "('s \<Rightarrow> 'w) \<Rightarrow> ('w \<Rightarrow> 's \<Rightarrow> 's) \<Rightarrow> 'w currency_ops \<Rightarrow> 's currency_ops" where
  "lift_currency gt pt C = \<lparr>
     c_minimum_balance = (\<lambda>s. c_minimum_balance C (gt s)),
     c_total_issuance = (\<lambda>s. c_total_issuance C (gt s)),
     c_total_balance = (\<lambda>s. c_total_balance C (gt s)),
     c_free_balance = (\<lambda>s. c_free_balance C (gt s)),
     c_ensure_can_withdraw = (\<lambda>s. c_ensure_can_withdraw C (gt s)),
     c_transfer = (\<lambda>s a f t x. and_then (c_transfer C (gt s) a f t x) (\<lambda>w. Inr (pt w s))),
     c_deposit = (\<lambda>s a w x. and_then (c_deposit C (gt s) a w x) (\<lambda>w. Inr (pt w s))),
     c_withdraw = (\<lambda>s a w x. and_then (c_withdraw C (gt s) a w x) (\<lambda>w. Inr (pt w s))),
     c_can_slash = (\<lambda>s. c_can_slash C (gt s)),
     c_slash = (\<lambda>s a w x. let (r, t) = c_slash C (gt s) a w x in (r, pt t s)),
     c_update_balance = (\<lambda>s a w x. and_then (c_update_balance C (gt s) a w x) (\<lambda>w. Inr (pt w s))),
     c_can_reserve = (\<lambda>s. c_can_reserve C (gt s)),
     c_slash_reserved = (\<lambda>s a w x. let (r, t) = c_slash_reserved C (gt s) a w x in (r, pt t s)),
     c_reserved_balance = (\<lambda>s. c_reserved_balance C (gt s)),
     c_reserve = (\<lambda>s a w x. and_then (c_reserve C (gt s) a w x) (\<lambda>w. Inr (pt w s))),
     c_unreserve = (\<lambda>s a w x. let (r, t) = c_unreserve C (gt s) a w x in (r, pt t s)),
     c_repatriate_reserved = (\<lambda>s a f t x st.
        and_then (c_repatriate_reserved C (gt s) a f t x st) (\<lambda>(r, w). Inr (r, pt w s))),
     c_set_lock = (\<lambda>s i a w x. and_then (c_set_lock C (gt s) i a w x) (\<lambda>w. Inr (pt w s))),
     c_extend_lock = (\<lambda>s i a w x. and_then (c_extend_lock C (gt s) i a w x) (\<lambda>w. Inr (pt w s))),
     c_remove_lock = (\<lambda>s i a w. and_then (c_remove_lock C (gt s) i a w) (\<lambda>w. Inr (pt w s))),
     c_transfer_all = (\<lambda>s f t. and_then (c_transfer_all C (gt s) f t) (\<lambda>w. Inr (pt w s))),
     c_native_locks = (\<lambda>s. c_native_locks C (gt s)),
     c_token_locks = (\<lambda>s. c_token_locks C (gt s))\<rparr>"

section \<open>Balance sheets\<close>

text \<open>What the operations do to the sheet of balances, as functions of asset and account.\<close>

type_synonym sheet = "asset_id \<Rightarrow> account_id \<Rightarrow> balance"

definition sheet_add :: "asset_id \<Rightarrow> account_id \<Rightarrow> balance \<Rightarrow> sheet \<Rightarrow> sheet" where
  "sheet_add a w x B = B(a := (B a)(w := B a w + x))"

definition sheet_sub :: "asset_id \<Rightarrow> account_id \<Rightarrow> balance \<Rightarrow> sheet \<Rightarrow> sheet" where
  "sheet_sub a w x B = B(a := (B a)(w := B a w - x))"

definition sheet_move :: "asset_id \<Rightarrow> account_id \<Rightarrow> account_id \<Rightarrow> balance \<Rightarrow> sheet \<Rightarrow> sheet" where
  "sheet_move a f t x B = (if f = t then B else sheet_add a t x (sheet_sub a f x B))"

section \<open>The contract of the traits\<close>

locale multi_currency =
  fixes C :: "'w currency_ops"
  assumes transfer_free:
      "c_transfer C s a f t x = Inr s' \<Longrightarrow>
         c_free_balance C s' = sheet_move a f t x (c_free_balance C s)"
    and transfer_funds: "c_transfer C s a f t x = Inr s' \<Longrightarrow> f \<noteq> t \<Longrightarrow> x \<le> c_free_balance C s a f"
    and transfer_reserved:
      "c_transfer C s a f t x = Inr s' \<Longrightarrow> c_reserved_balance C s' = c_reserved_balance C s"
    and deposit_free:
      "c_deposit C s a w x = Inr s' \<Longrightarrow> c_free_balance C s' = sheet_add a w x (c_free_balance C s)"
    and deposit_reserved:
      "c_deposit C s a w x = Inr s' \<Longrightarrow> c_reserved_balance C s' = c_reserved_balance C s"
    and withdraw_free:
      "c_withdraw C s a w x = Inr s' \<Longrightarrow> c_free_balance C s' = sheet_sub a w x (c_free_balance C s)"
    and withdraw_funds: "c_withdraw C s a w x = Inr s' \<Longrightarrow> x \<le> c_free_balance C s a w"
    and withdraw_reserved:
      "c_withdraw C s a w x = Inr s' \<Longrightarrow> c_reserved_balance C s' = c_reserved_balance C s"
    and total_balance: "c_total_balance C s a w = c_free_balance C s a w + c_reserved_balance C s a w"

locale reservable_currency = multi_currency C for C :: "'w currency_ops" +
  assumes reserve_free:
      "c_reserve C s a w x = Inr s' \<Longrightarrow> c_free_balance C s' = sheet_sub a w x (c_free_balance C s)"
    and reserve_funds: "c_reserve C s a w x = Inr s' \<Longrightarrow> x \<le> c_free_balance C s a w"
    and reserve_reserved:
      "c_reserve C s a w x = Inr s' \<Longrightarrow>
         c_reserved_balance C s' = sheet_add a w x (c_reserved_balance C s)"
    and unreserve_free:
      "c_unreserve C s a w x = (r, s') \<Longrightarrow>
         c_free_balance C s' =
           sheet_add a w (min x (c_reserved_balance C s a w)) (c_free_balance C s)"
    and unreserve_reserved:
      "c_unreserve C s a w x = (r, s') \<Longrightarrow>
         c_reserved_balance C s' = sheet_sub a w x (c_reserved_balance C s)"
    and repatriate_free:
      "c_repatriate_reserved C s a f t x StatusFree = Inr (r, s') \<Longrightarrow>
         c_free_balance C s' =
           sheet_add a t (min x (c_reserved_balance C s a f)) (c_free_balance C s)"
    and repatriate_reserved:
      "c_repatriate_reserved C s a f t x StatusFree = Inr (r, s') \<Longrightarrow>
         c_reserved_balance C s' = sheet_sub a f x (c_reserved_balance C s)"

locale lockable_currency = multi_currency C for C :: "'w currency_ops" +
  assumes set_lock_free: "c_set_lock C s i a w x = Inr s' \<Longrightarrow> c_free_balance C s' = c_free_balance C s"
    and set_lock_get: "c_set_lock C s i a w x = Inr s' \<Longrightarrow> x \<noteq> 0 \<Longrightarrow> get_by_lock C s' i a w = x"
    and set_lock_zero:
      "c_set_lock C s i a w 0 = Inr s' \<Longrightarrow> get_by_lock C s i a w = 0 \<Longrightarrow> get_by_lock C s' i a w = 0"
    and set_lock_frame:
      "c_set_lock C s i a w x = Inr s' \<Longrightarrow> (j, b, v) \<noteq> (i, a, w) \<Longrightarrow>
         get_by_lock C s' j b v = get_by_lock C s j b v"
    and remove_lock_free: "c_remove_lock C s i a w = Inr s' \<Longrightarrow> c_free_balance C s' = c_free_balance C s"
    and remove_lock_get: "c_remove_lock C s i a w = Inr s' \<Longrightarrow> get_by_lock C s' i a w = 0"
    and transfer_locks: "c_transfer C s a f t x = Inr s' \<Longrightarrow> get_by_lock C s' = get_by_lock C s"

section \<open>Sheet arithmetic\<close>

lemma sheet_add_apply [simp]:
  "sheet_add a w x B b v = (if b = a \<and> v = w then B b v + x else B b v)"
  by (simp add: sheet_add_def)

lemma sheet_sub_apply [simp]:
  "sheet_sub a w x B b v = (if b = a \<and> v = w then B b v - x else B b v)"
  by (simp add: sheet_sub_def)

lemma sheet_move_apply [simp]:
  "sheet_move a f t x B b v =
     (if b = a \<and> f \<noteq> t then if v = f then B b v - x else if v = t then B b v + x else B b v
      else B b v)"
  by (auto simp: sheet_move_def)

lemma sheet_move_zero [simp]: "sheet_move a f t 0 B = B"
  by (intro ext) simp

lemma sheet_move_self [simp]: "sheet_move a f f x B = B"
  by (simp add: sheet_move_def)

lemma sheet_add_zero [simp]: "sheet_add a w 0 B = B"
  by (intro ext) simp

lemma sheet_sub_zero [simp]: "sheet_sub a w 0 B = B"
  by (intro ext) simp

lemma find_lock_Nil [simp]: "find_lock i [] = 0"
  by (simp add: find_lock_def)

lemma find_lock_Cons [simp]: "find_lock i (l # ls) = (if fst l = i then snd l else find_lock i ls)"
  by (simp add: find_lock_def)

lemma find_lock_filter_same: "find_lock i (filter (\<lambda>l. fst l \<noteq> i) ls) = 0"
  by (induction ls) auto

lemma find_lock_filter_other: "j \<noteq> i \<Longrightarrow> find_lock j (filter (\<lambda>l. fst l \<noteq> i) ls) = find_lock j ls"
  by (induction ls) auto

section \<open>The adapter and the lifting keep the contract\<close>

lemma keep_events_eq_Inr [simp, result_simps]:
  "keep_events s r = Inr s' \<longleftrightarrow> (\<exists>w. r = Inr w \<and> s' = (w, snd s))"
  by (auto simp: keep_events_def)

lemma adapter_transfer_eq_Inr [simp, result_simps]:
  "adapter_transfer T s a f t x = Inr s' \<longleftrightarrow>
     (\<exists>w. c_transfer T (fst s) a f t x = Inr w \<and> s' = (w, snd s @ [TokensTransfer a f t x]))"
  by (auto simp: adapter_transfer_def split: sum.splits)

lemma get_by_lock_adapter [simp]:
  "get_by_lock (orml_tokens_adapter T) s = get_by_lock T (fst s)"
  by (intro ext) (simp add: get_by_lock_def orml_tokens_adapter_def)

lemma get_by_lock_lift [simp]:
  "get_by_lock (lift_currency gt pt C) s = get_by_lock C (gt s)"
  by (intro ext) (simp add: get_by_lock_def lift_currency_def)

lemma adapter_sel [simp]:
  "c_free_balance (orml_tokens_adapter T) s = c_free_balance T (fst s)"
  "c_reserved_balance (orml_tokens_adapter T) s = c_reserved_balance T (fst s)"
  "c_total_balance (orml_tokens_adapter T) s = c_total_balance T (fst s)"
  "c_transfer (orml_tokens_adapter T) = adapter_transfer T"
  "c_deposit (orml_tokens_adapter T) s a w x = keep_events s (c_deposit T (fst s) a w x)"
  "c_withdraw (orml_tokens_adapter T) s a w x = keep_events s (c_withdraw T (fst s) a w x)"
  "c_reserve (orml_tokens_adapter T) s a w x = keep_events s (c_reserve T (fst s) a w x)"
  "c_unreserve (orml_tokens_adapter T) s a w x =
     (let (r, t) = c_unreserve T (fst s) a w x in (r, t, snd s))"
  "c_repatriate_reserved (orml_tokens_adapter T) s a f t x st =
     and_then (c_repatriate_reserved T (fst s) a f t x st) (\<lambda>(r, w). Inr (r, w, snd s))"
  "c_set_lock (orml_tokens_adapter T) s i a w x = keep_events s (c_set_lock T (fst s) i a w x)"
  "c_remove_lock (orml_tokens_adapter T) s i a w = keep_events s (c_remove_lock T (fst s) i a w)"
  by (simp_all add: orml_tokens_adapter_def)

locale orml_tokens = multi_currency T for T :: "'w currency_ops"

locale orml_tokens_reservable = reservable_currency T for T :: "'w currency_ops"

locale orml_tokens_lockable = lockable_currency T for T :: "'w currency_ops"

sublocale orml_tokens \<subseteq> adapter: multi_currency "orml_tokens_adapter T"
  by unfold_locales
    (auto simp: transfer_free transfer_reserved deposit_free
      deposit_reserved withdraw_free withdraw_reserved total_balance
      dest: transfer_funds withdraw_funds)

sublocale orml_tokens_reservable \<subseteq> orml_tokens T
  by unfold_locales

sublocale orml_tokens_reservable \<subseteq> adapter: reservable_currency "orml_tokens_adapter T"
  by unfold_locales
    (auto simp: reserve_free reserve_reserved unreserve_free
      unreserve_reserved repatriate_free repatriate_reserved
      split: prod.splits dest: reserve_funds)

sublocale orml_tokens_lockable \<subseteq> orml_tokens T
  by unfold_locales

sublocale orml_tokens_lockable \<subseteq> adapter: lockable_currency "orml_tokens_adapter T"
  by unfold_locales
    (auto simp: set_lock_free remove_lock_free transfer_locks
      dest: set_lock_get set_lock_zero set_lock_frame remove_lock_get)

lemma lift_currency_sel [simp]:
  "c_free_balance (lift_currency gt pt C) s = c_free_balance C (gt s)"
  "c_reserved_balance (lift_currency gt pt C) s = c_reserved_balance C (gt s)"
  "c_total_balance (lift_currency gt pt C) s = c_total_balance C (gt s)"
  by (simp_all add: lift_currency_def)

lemma multi_currency_lift:
  assumes "multi_currency C" and gp: "\<And>w s. gt (pt w s) = w"
  shows "multi_currency (lift_currency gt pt C)"
proof -
  note laws = multi_currency.transfer_free [OF assms(1)] multi_currency.transfer_reserved [OF assms(1)]
    multi_currency.deposit_free [OF assms(1)] multi_currency.deposit_reserved [OF assms(1)]
    multi_currency.withdraw_free [OF assms(1)] multi_currency.withdraw_reserved [OF assms(1)]
    multi_currency.total_balance [OF assms(1)]
  show ?thesis
    by unfold_locales
      (auto simp: lift_currency_def gp laws
        dest: multi_currency.transfer_funds [OF assms(1)] multi_currency.withdraw_funds [OF assms(1)])
qed

lemma reservable_currency_lift:
  assumes "reservable_currency C" and gp: "\<And>w s. gt (pt w s) = w"
  shows "reservable_currency (lift_currency gt pt C)"
proof -
  have m: "multi_currency C" using assms(1) by (simp add: reservable_currency_def)
  note laws = reservable_currency.reserve_free [OF assms(1)]
    reservable_currency.reserve_reserved [OF assms(1)]
    reservable_currency.unreserve_free [OF assms(1)]
    reservable_currency.unreserve_reserved [OF assms(1)]
    reservable_currency.repatriate_free [OF assms(1)]
    reservable_currency.repatriate_reserved [OF assms(1)]
  show ?thesis
    by (intro reservable_currency.intro multi_currency_lift m gp
          reservable_currency_axioms.intro)
      (auto simp: lift_currency_def gp laws split: prod.splits
        dest: reservable_currency.reserve_funds [OF assms(1)])
qed

lemma lockable_currency_lift:
  assumes "lockable_currency C" and gp: "\<And>w s. gt (pt w s) = w"
  shows "lockable_currency (lift_currency gt pt C)"
proof -
  have m: "multi_currency C" using assms(1) by (simp add: lockable_currency_def)
  have get: "get_by_lock (lift_currency gt pt C) s = get_by_lock C (gt s)" for s
    by (intro ext) (simp add: get_by_lock_def lift_currency_def)
  have ops: "c_set_lock (lift_currency gt pt C) s i a w x =
        and_then (c_set_lock C (gt s) i a w x) (\<lambda>w. Inr (pt w s))"
      "c_remove_lock (lift_currency gt pt C) s i a w =
        and_then (c_remove_lock C (gt s) i a w) (\<lambda>w. Inr (pt w s))"
      "c_transfer (lift_currency gt pt C) s a f t x =
        and_then (c_transfer C (gt s) a f t x) (\<lambda>w. Inr (pt w s))" for s i a w x f t
    by (simp_all add: lift_currency_def)
  note laws = lockable_currency.set_lock_free [OF assms(1)] lockable_currency.set_lock_get [OF assms(1)]
    lockable_currency.remove_lock_free [OF assms(1)] lockable_currency.remove_lock_get [OF assms(1)]
    lockable_currency.transfer_locks [OF assms(1)]
  show ?thesis
    by (intro lockable_currency.intro multi_currency_lift m gp lockable_currency_axioms.intro)
      (auto simp: get ops gp laws
        dest: lockable_currency.set_lock_frame [OF assms(1)] lockable_currency.set_lock_zero [OF assms(1)])
qed

end
