(* ===== verification/AMM.thy ===== *)
theory AMM
  imports Currency
begin

text \<open>
  The interface between the pools and their clients. \<open>amm_ops\<close> has one field per required
  method of the trait \<open>AMM\<close>, over the storage \<open>'p\<close> of the pool; \<open>XYK\<close> and \<open>LBP\<close> implement
  it, \<open>Exchange\<close> and \<open>Liquidity_Mining\<close> are generic over it. The provided methods \<open>AMM::sell\<close> and
  \<open>AMM::buy\<close> and the numeric routines of the math crate are code outside the repository:
  the former are parameters of the pallets with the hypotheses \<open>default_sell_spec\<close> and
  \<open>default_buy_spec\<close> (validate, then execute), the latter the fields of \<open>math_ops\<close>.
  A \<open>Result\<close> of the math crate is an option, since every caller discards its error value.

  The locale \<open>amm\<close> is the contract of the validation methods. \<open>bought\<close> and \<open>cost\<close> say
  how an implementation reads a validated buy: the two pools fill the amount fields of
  \<open>AMMTransfer\<close> the other way round.
\<close>

record 'p amm_ops =
  amm_exists :: "'p \<Rightarrow> asset_pair \<Rightarrow> bool"
  amm_get_pair_id :: "asset_pair \<Rightarrow> account_id"
  amm_get_share_token :: "'p \<Rightarrow> asset_pair \<Rightarrow> asset_id"
  amm_get_pool_assets :: "'p \<Rightarrow> account_id \<Rightarrow> asset_id list option"
  amm_get_spot_price_unchecked :: "'p \<Rightarrow> asset_id \<Rightarrow> asset_id \<Rightarrow> balance \<Rightarrow> balance"
  amm_validate_sell ::
    "'p \<Rightarrow> account_id \<Rightarrow> asset_pair \<Rightarrow> balance \<Rightarrow> balance \<Rightarrow> bool \<Rightarrow> amm_transfer result"
  amm_execute_sell :: "'p \<Rightarrow> amm_transfer \<Rightarrow> 'p result"
  amm_validate_buy ::
    "'p \<Rightarrow> account_id \<Rightarrow> asset_pair \<Rightarrow> balance \<Rightarrow> balance \<Rightarrow> bool \<Rightarrow> amm_transfer result"
  amm_execute_buy :: "'p \<Rightarrow> amm_transfer \<Rightarrow> 'p result"
  amm_get_min_trading_limit :: balance
  amm_get_min_pool_liquidity :: balance
  amm_get_max_in_ratio :: nat
  amm_get_max_out_ratio :: nat
  amm_get_fee :: "'p \<Rightarrow> account_id \<Rightarrow> nat \<times> nat"

type_synonym 'p default_trade =
  "'p amm_ops \<Rightarrow> 'p \<Rightarrow> account_id \<Rightarrow> asset_pair \<Rightarrow> balance \<Rightarrow> balance \<Rightarrow> bool \<Rightarrow> 'p result"

definition default_sell_spec :: "'p default_trade \<Rightarrow> bool" where
  "default_sell_spec D \<longleftrightarrow>
     (\<forall>A s who assets amount limit discount.
        D A s who assets amount limit discount =
          and_then (amm_validate_sell A s who assets amount limit discount) (amm_execute_sell A s))"

definition default_buy_spec :: "'p default_trade \<Rightarrow> bool" where
  "default_buy_spec D \<longleftrightarrow>
     (\<forall>A s who assets amount limit discount.
        D A s who assets amount limit discount =
          and_then (amm_validate_buy A s who assets amount limit discount) (amm_execute_buy A s))"

record math_ops =
  m_xyk_out_given_in :: "balance \<Rightarrow> balance \<Rightarrow> balance \<Rightarrow> balance option"
  m_xyk_in_given_out :: "balance \<Rightarrow> balance \<Rightarrow> balance \<Rightarrow> balance option"
  m_xyk_spot_price :: "balance \<Rightarrow> balance \<Rightarrow> balance \<Rightarrow> balance option"
  m_xyk_liquidity_in :: "balance \<Rightarrow> balance \<Rightarrow> balance \<Rightarrow> balance option"
  m_xyk_liquidity_out ::
    "balance \<Rightarrow> balance \<Rightarrow> balance \<Rightarrow> balance \<Rightarrow> (balance \<times> balance) option"
  m_pool_trade_fee :: "balance \<Rightarrow> nat \<times> nat \<Rightarrow> balance option"
  m_checked_mul_int :: "nat \<Rightarrow> balance \<Rightarrow> balance option"
  m_lbp_linear_weights ::
    "block_number \<Rightarrow> block_number \<Rightarrow> nat \<Rightarrow> nat \<Rightarrow> block_number \<Rightarrow> nat option"
  m_lbp_out_given_in :: "balance \<Rightarrow> balance \<Rightarrow> nat \<Rightarrow> nat \<Rightarrow> balance \<Rightarrow> balance option"
  m_lbp_in_given_out :: "balance \<Rightarrow> balance \<Rightarrow> nat \<Rightarrow> nat \<Rightarrow> balance \<Rightarrow> balance option"
  m_lbp_spot_price :: "balance \<Rightarrow> balance \<Rightarrow> nat \<Rightarrow> nat \<Rightarrow> balance \<Rightarrow> balance option"

text \<open>
  The documented constant-product formulas: selling \<open>x\<close> into reserves \<open>i\<close>, \<open>o\<close> yields at most
  \<open>o * x / (i + x)\<close>; buying \<open>x\<close> out of them costs at least \<open>i * x / (o - x)\<close>; removing \<open>l\<close> of
  \<open>t\<close> shares pays at most the proportional part of each reserve.
\<close>

definition xyk_math_spec :: "math_ops \<Rightarrow> bool" where
  "xyk_math_spec M \<longleftrightarrow>
     (\<forall>i r x y. m_xyk_out_given_in M i r x = Some y \<longrightarrow> y * (i + x) \<le> r * x) \<and>
     (\<forall>r i x y. m_xyk_in_given_out M r i x = Some y \<longrightarrow> i * x \<le> y * (r - x)) \<and>
     (\<forall>ra rb l t ya yb. m_xyk_liquidity_out M ra rb l t = Some (ya, yb) \<longrightarrow>
        ya * t \<le> ra * l \<and> yb * t \<le> rb * l)"

locale amm =
  fixes A :: "'p amm_ops"
    and fb :: "'p \<Rightarrow> asset_id \<Rightarrow> account_id \<Rightarrow> balance"
    and bought :: "amm_transfer \<Rightarrow> balance"
    and cost :: "amm_transfer \<Rightarrow> balance"
  assumes sell_trade:
      "amm_validate_sell A s who assets amount limit discount = Inr t \<Longrightarrow>
         tr_origin t = who \<and> tr_assets t = assets"
    and sell_exists:
      "amm_validate_sell A s who assets amount limit discount = Inr t \<Longrightarrow> amm_exists A s assets"
    and sell_limit:
      "amm_validate_sell A s who assets amount limit discount = Inr t \<Longrightarrow> limit \<le> tr_amount_out t"
    and sell_funds:
      "amm_validate_sell A s who assets amount limit discount = Inr t \<Longrightarrow>
         amount \<le> fb s (asset_in assets) who"
    and sell_amount:
      "amm_validate_sell A s who assets amount limit discount = Inr t \<Longrightarrow>
         asset_in assets \<noteq> asset_out assets \<Longrightarrow>
         tr_amount t + (if fst (tr_fee t) = asset_in assets then snd (tr_fee t) else 0) = amount"
    and buy_trade:
      "amm_validate_buy A s who assets amount limit discount = Inr t \<Longrightarrow>
         tr_origin t = who \<and> tr_assets t = assets"
    and buy_exists:
      "amm_validate_buy A s who assets amount limit discount = Inr t \<Longrightarrow> amm_exists A s assets"
    and buy_amount:
      "amm_validate_buy A s who assets amount limit discount = Inr t \<Longrightarrow> bought t = amount"
    and buy_limit:
      "amm_validate_buy A s who assets amount limit discount = Inr t \<Longrightarrow> cost t \<le> limit"
    and buy_funds:
      "amm_validate_buy A s who assets amount limit discount = Inr t \<Longrightarrow>
         cost t \<le> fb s (asset_in assets) who"
begin

text \<open>No trade is validated on a pair without a pool, whatever its side.\<close>

lemma no_pool_no_trade:
  assumes "\<not> amm_exists A s assets"
  shows "\<exists>e. amm_validate_sell A s who assets amount limit discount = Inl e"
    and "\<exists>e. amm_validate_buy A s who assets amount limit discount = Inl e"
  using assms sell_exists buy_exists by (meson sum.exhaust)+

text \<open>A trade of the trait's provided methods runs only on a validated transfer.\<close>

lemma default_sell_validated:
  assumes "default_sell_spec D" "D A s who assets amount limit discount = Inr s'"
  obtains t where "amm_validate_sell A s who assets amount limit discount = Inr t"
    and "amm_execute_sell A s t = Inr s'" and "tr_origin t = who" and "tr_assets t = assets"
    and "limit \<le> tr_amount_out t"
  using assms sell_trade sell_limit by (fastforce simp: default_sell_spec_def)

lemma default_buy_validated:
  assumes "default_buy_spec D" "D A s who assets amount limit discount = Inr s'"
  obtains t where "amm_validate_buy A s who assets amount limit discount = Inr t"
    and "amm_execute_buy A s t = Inr s'" and "tr_origin t = who" and "tr_assets t = assets"
    and "bought t = amount" and "cost t \<le> limit"
  using assms buy_trade buy_amount buy_limit by (fastforce simp: default_buy_spec_def)

end

end
