(* ===== verification/Ledger.thy ===== *)
theory Ledger
  imports Currency
begin

text \<open>
  A plain ledger with free and reserved balances and named locks: an executable implementation
  of the token interface. It shows that the contract of \<open>Currency\<close> can be met, and the
  concrete instances of the theorems of the components run on it.
\<close>

record ledger =
  l_free :: sheet
  l_reserved :: sheet
  l_locks :: "asset_id \<Rightarrow> account_id \<Rightarrow> (string \<times> balance) list"

definition empty_ledger :: ledger where
  "empty_ledger = \<lparr>l_free = (\<lambda>_ _. 0), l_reserved = (\<lambda>_ _. 0), l_locks = (\<lambda>_ _. [])\<rparr>"

definition ledger_of :: "((asset_id \<times> account_id) \<times> balance) list \<Rightarrow> ledger" where
  "ledger_of xs = empty_ledger\<lparr>l_free := (\<lambda>a w. value_query 0 (map_of xs) (a, w))\<rparr>"

definition ledger_transfer ::
  "ledger \<Rightarrow> asset_id \<Rightarrow> account_id \<Rightarrow> account_id \<Rightarrow> balance \<Rightarrow> ledger result" where
  "ledger_transfer s a f t x =
     (if f = t then Inr s
      else if l_free s a f < x then Inl (External 0)
      else Inr (s\<lparr>l_free := sheet_move a f t x (l_free s)\<rparr>))"

definition ledger_deposit :: "ledger \<Rightarrow> asset_id \<Rightarrow> account_id \<Rightarrow> balance \<Rightarrow> ledger result" where
  "ledger_deposit s a w x = Inr (s\<lparr>l_free := sheet_add a w x (l_free s)\<rparr>)"

definition ledger_withdraw :: "ledger \<Rightarrow> asset_id \<Rightarrow> account_id \<Rightarrow> balance \<Rightarrow> ledger result" where
  "ledger_withdraw s a w x =
     (if l_free s a w < x then Inl (External 0)
      else Inr (s\<lparr>l_free := sheet_sub a w x (l_free s)\<rparr>))"

definition ledger_reserve :: "ledger \<Rightarrow> asset_id \<Rightarrow> account_id \<Rightarrow> balance \<Rightarrow> ledger result" where
  "ledger_reserve s a w x =
     (if l_free s a w < x then Inl (External 0)
      else Inr (s\<lparr>l_free := sheet_sub a w x (l_free s), l_reserved := sheet_add a w x (l_reserved s)\<rparr>))"

definition ledger_unreserve :: "ledger \<Rightarrow> asset_id \<Rightarrow> account_id \<Rightarrow> balance \<Rightarrow> balance \<times> ledger" where
  "ledger_unreserve s a w x =
     (x - l_reserved s a w,
      s\<lparr>l_free := sheet_add a w (min x (l_reserved s a w)) (l_free s),
        l_reserved := sheet_sub a w x (l_reserved s)\<rparr>)"

definition ledger_repatriate ::
  "ledger \<Rightarrow> asset_id \<Rightarrow> account_id \<Rightarrow> account_id \<Rightarrow> balance \<Rightarrow> balance_status \<Rightarrow> (balance \<times> ledger) result" where
  "ledger_repatriate s a f t x st =
     (if st = StatusFree
      then Inr (x - l_reserved s a f,
        s\<lparr>l_free := sheet_add a t (min x (l_reserved s a f)) (l_free s),
          l_reserved := sheet_sub a f x (l_reserved s)\<rparr>)
      else Inl (External 1))"

definition ledger_set_lock ::
  "ledger \<Rightarrow> string \<Rightarrow> asset_id \<Rightarrow> account_id \<Rightarrow> balance \<Rightarrow> ledger result" where
  "ledger_set_lock s i a w x =
     Inr (s\<lparr>l_locks := (l_locks s)(a := (l_locks s a)(w :=
        (i, x) # filter (\<lambda>l. fst l \<noteq> i) (l_locks s a w)))\<rparr>)"

definition ledger_remove_lock :: "ledger \<Rightarrow> string \<Rightarrow> asset_id \<Rightarrow> account_id \<Rightarrow> ledger result" where
  "ledger_remove_lock s i a w =
     Inr (s\<lparr>l_locks := (l_locks s)(a := (l_locks s a)(w :=
        filter (\<lambda>l. fst l \<noteq> i) (l_locks s a w)))\<rparr>)"

definition ledger_ops :: "ledger currency_ops" where
  "ledger_ops = \<lparr>
     c_minimum_balance = (\<lambda>_ _. 0),
     c_total_issuance = (\<lambda>_ _. 0),
     c_total_balance = (\<lambda>s a w. l_free s a w + l_reserved s a w),
     c_free_balance = l_free,
     c_ensure_can_withdraw = (\<lambda>s a w x. ensure (x \<le> l_free s a w) (External 0)),
     c_transfer = ledger_transfer,
     c_deposit = ledger_deposit,
     c_withdraw = ledger_withdraw,
     c_can_slash = (\<lambda>s a w x. x \<le> l_free s a w),
     c_slash = (\<lambda>s a w x. (x - l_free s a w, s\<lparr>l_free := sheet_sub a w x (l_free s)\<rparr>)),
     c_update_balance = (\<lambda>s a w x.
        if 0 \<le> x then ledger_deposit s a w (nat x) else ledger_withdraw s a w (nat (- x))),
     c_can_reserve = (\<lambda>s a w x. x \<le> l_free s a w),
     c_slash_reserved = (\<lambda>s a w x.
        (x - l_reserved s a w, s\<lparr>l_reserved := sheet_sub a w x (l_reserved s)\<rparr>)),
     c_reserved_balance = l_reserved,
     c_reserve = ledger_reserve,
     c_unreserve = ledger_unreserve,
     c_repatriate_reserved = ledger_repatriate,
     c_set_lock = ledger_set_lock,
     c_extend_lock = (\<lambda>s i a w x. ledger_set_lock s i a w (max x (find_lock i (l_locks s a w)))),
     c_remove_lock = ledger_remove_lock,
     c_transfer_all = (\<lambda>s f t. Inl (External 2)),
     c_native_locks = (\<lambda>s w. l_locks s CORE_ASSET_ID w),
     c_token_locks = (\<lambda>s w a. l_locks s a w)\<rparr>"

lemma ledger_ops_sel [simp]:
  "c_free_balance ledger_ops = l_free"
  "c_reserved_balance ledger_ops = l_reserved"
  "c_total_balance ledger_ops s a w = l_free s a w + l_reserved s a w"
  "c_transfer ledger_ops = ledger_transfer"
  "c_deposit ledger_ops = ledger_deposit"
  "c_withdraw ledger_ops = ledger_withdraw"
  "c_reserve ledger_ops = ledger_reserve"
  "c_unreserve ledger_ops = ledger_unreserve"
  "c_repatriate_reserved ledger_ops = ledger_repatriate"
  "c_set_lock ledger_ops = ledger_set_lock"
  "c_remove_lock ledger_ops = ledger_remove_lock"
  by (simp_all add: ledger_ops_def)

lemma get_by_lock_ledger [simp]: "get_by_lock ledger_ops s i a w = find_lock i (l_locks s a w)"
  by (simp add: get_by_lock_def ledger_ops_def)

lemma ledger_of_sel [simp]:
  "l_free (ledger_of xs) a w = value_query 0 (map_of xs) (a, w)"
  "l_reserved (ledger_of xs) a w = 0"
  "l_locks (ledger_of xs) a w = []"
  by (simp_all add: ledger_of_def empty_ledger_def)

lemmas ledger_defs = ledger_transfer_def ledger_deposit_def ledger_withdraw_def ledger_reserve_def
  ledger_unreserve_def ledger_repatriate_def ledger_set_lock_def ledger_remove_lock_def

interpretation ledger: reservable_currency ledger_ops
  by unfold_locales (auto simp: ledger_defs split: if_splits)

interpretation ledger: lockable_currency ledger_ops
  by unfold_locales
    (auto simp: ledger_defs find_lock_filter_same find_lock_filter_other fun_eq_iff split: if_splits)

interpretation ledger_tokens: orml_tokens_reservable ledger_ops
  by unfold_locales

interpretation ledger_tokens: orml_tokens_lockable ledger_ops
  by unfold_locales

end
