(* ===== verification/Instances.thy ===== *)
theory Instances
  imports AMM Ledger
begin

text \<open>
  Executable instances of the parameters of \<open>AMM\<close>: the documented formulas of the math crate
  on natural numbers, and the provided trade methods of the trait. They show that the
  hypotheses about those parameters can be met, and the concrete instances of the theorems
  of the pools use them.
\<close>

definition formula_math :: math_ops where
  "formula_math = \<lparr>
     m_xyk_out_given_in = (\<lambda>i r x. if i + x = 0 then None else Some (r * x div (i + x))),
     m_xyk_in_given_out = (\<lambda>r i x. if x < r then Some (i * x div (r - x) + 1) else None),
     m_xyk_spot_price = (\<lambda>i r x. if i = 0 then None else Some (x * r div i)),
     m_xyk_liquidity_in = (\<lambda>ra rb x. if ra = 0 then None else Some (x * rb div ra)),
     m_xyk_liquidity_out = (\<lambda>ra rb l t. if t = 0 then None else Some (ra * l div t, rb * l div t)),
     m_pool_trade_fee = (\<lambda>x (n, d). if d = 0 then None else Some (x * n div d)),
     m_checked_mul_int = (\<lambda>p x. Some (p * x div 1000000000000000000)),
     m_lbp_linear_weights = (\<lambda>s e i f n. if n < s \<or> e < n \<or> e = s then None
        else Some ((i * (e - n) + f * (n - s)) div (e - s))),
     m_lbp_out_given_in = (\<lambda>i r wi wo x. if i + x = 0 then None else Some (r * x div (i + x))),
     m_lbp_in_given_out = (\<lambda>i r wi wo x. if x < r then Some (i * x div (r - x) + 1) else None),
     m_lbp_spot_price = (\<lambda>i r wi wo x. if i * wo = 0 then None else Some (x * r * wi div (i * wo)))\<rparr>"

definition run_sell :: "'p default_trade" where
  "run_sell A s who assets amount limit discount =
     and_then (amm_validate_sell A s who assets amount limit discount) (amm_execute_sell A s)"

definition run_buy :: "'p default_trade" where
  "run_buy A s who assets amount limit discount =
     and_then (amm_validate_buy A s who assets amount limit discount) (amm_execute_buy A s)"

lemma run_sell_spec: "default_sell_spec run_sell"
  by (simp add: default_sell_spec_def run_sell_def)

lemma run_buy_spec: "default_buy_spec run_buy"
  by (simp add: default_buy_spec_def run_buy_def)

lemma le_Suc_div_mult: "0 < d \<Longrightarrow> n \<le> (n div d + 1) * (d::nat)"
  by (metis Suc_eq_plus1 add.commute dividend_less_div_times less_imp_le mult_Suc)

lemma formula_math_spec: "xyk_math_spec formula_math"
proof -
  have "i * x \<le> (i * x div (r - x) + 1) * (r - x)" if "x < r" for i x r :: nat
    using that by (intro le_Suc_div_mult) simp
  then show ?thesis
    by (auto simp: xyk_math_spec_def formula_math_def div_times_less_eq_dividend
        simp del: mult_Suc split: if_splits)
qed

end
