(* ===== verification/XYK.thy ===== *)
theory XYK
  imports Instances
begin

text \<open>
  The constant-product pool, \<open>pallets/xyk/src/lib.rs\<close> and \<open>impls.rs\<close>. \<open>xyk_config\<close> is the
  pallet's \<open>Config\<close> trait: its constants, and the code it calls outside the pallet (tokens,
  asset registry, pair accounts, the pool-creation gate, the trade handlers, the math crate)
  as functions over the storage \<open>'w\<close> outside the pallet. \<open>xyk_state\<close> is that storage with the
  three storage maps and the event log of the pallet.

  The properties: a trade never lowers the product of the reserves and honours the limits of
  the trader; shares, their total and the pool records stay consistent through creation,
  adding and removing liquidity; the last removal destroys the pool.
\<close>

datatype xyk_event =
    LiquidityAdded account_id asset_id asset_id balance balance
  | LiquidityRemoved account_id asset_id asset_id balance
  | PoolCreated account_id asset_id asset_id balance asset_id account_id
  | PoolDestroyed account_id asset_id asset_id asset_id account_id
  | SellExecuted account_id asset_id asset_id balance balance asset_id balance account_id
  | BuyExecuted account_id asset_id asset_id balance balance asset_id balance account_id

record 'w xyk_state =
  xyk_ext :: 'w
  share_token :: "account_id \<rightharpoonup> asset_id"
  total_liquidity :: "account_id \<rightharpoonup> balance"
  pool_assets :: "account_id \<rightharpoonup> asset_id \<times> asset_id"
  xyk_events :: "xyk_event list"

record 'w xyk_config =
  xyk_currency :: "'w currency_ops"
  xyk_get_or_create_shared_asset ::
    "'w \<Rightarrow> byte list \<Rightarrow> asset_id list \<Rightarrow> balance \<Rightarrow> (asset_id \<times> 'w) result"
  xyk_from_assets :: "asset_id \<Rightarrow> asset_id \<Rightarrow> string \<Rightarrow> account_id"
  xyk_native_asset_id :: asset_id
  xyk_exchange_fee :: "nat \<times> nat"
  xyk_min_trading_limit :: balance
  xyk_min_pool_liquidity :: balance
  xyk_max_in_ratio :: nat
  xyk_max_out_ratio :: nat
  xyk_can_create :: "'w \<Rightarrow> asset_id \<Rightarrow> asset_id \<Rightarrow> bool"
  xyk_on_create_pool :: "'w \<Rightarrow> asset_id \<Rightarrow> asset_id \<Rightarrow> 'w result"
  xyk_on_trade :: "'w \<Rightarrow> asset_id \<Rightarrow> asset_id \<Rightarrow> balance \<Rightarrow> balance \<Rightarrow> balance \<Rightarrow> 'w"
  xyk_math :: math_ops
  xyk_default_sell :: "'w xyk_state default_trade"
  xyk_default_buy :: "'w xyk_state default_trade"

text \<open>\<open>T::Currency\<close> seen from the pallet: the token operations on the whole storage.\<close>

definition xyk_put :: "'w \<Rightarrow> 'w xyk_state \<Rightarrow> 'w xyk_state" where
  "xyk_put w s = s\<lparr>xyk_ext := w\<rparr>"

definition xyk_cur :: "'w xyk_config \<Rightarrow> 'w xyk_state currency_ops" where
  "xyk_cur cfg = lift_currency xyk_ext xyk_put (xyk_currency cfg)"

abbreviation xyk_free :: "'w xyk_config \<Rightarrow> 'w xyk_state \<Rightarrow> asset_id \<Rightarrow> account_id \<Rightarrow> balance" where
  "xyk_free cfg s \<equiv> c_free_balance (xyk_currency cfg) (xyk_ext s)"

definition xyk_deposit_event :: "xyk_event \<Rightarrow> 'w xyk_state \<Rightarrow> 'w xyk_state" where
  "xyk_deposit_event ev s = s\<lparr>xyk_events := xyk_events s @ [ev]\<rparr>"

section \<open>Getters and fees\<close>

definition xyk_pair_account_from_assets :: "'w xyk_config \<Rightarrow> asset_id \<Rightarrow> asset_id \<Rightarrow> account_id" where
  "xyk_pair_account_from_assets cfg a b = xyk_from_assets cfg a b ''xyk''"

definition xyk_get_pair_id :: "'w xyk_config \<Rightarrow> asset_pair \<Rightarrow> account_id" where
  "xyk_get_pair_id cfg assets = xyk_pair_account_from_assets cfg (asset_in assets) (asset_out assets)"

definition xyk_exists :: "'w xyk_config \<Rightarrow> 'w xyk_state \<Rightarrow> asset_pair \<Rightarrow> bool" where
  "xyk_exists cfg s assets = contains_key (share_token s) (xyk_get_pair_id cfg assets)"

definition xyk_share_token :: "'w xyk_state \<Rightarrow> account_id \<Rightarrow> asset_id" where
  "xyk_share_token s p = value_query 0 (share_token s) p"

definition xyk_total_liquidity :: "'w xyk_state \<Rightarrow> account_id \<Rightarrow> balance" where
  "xyk_total_liquidity s p = value_query 0 (total_liquidity s) p"

definition xyk_get_share_token :: "'w xyk_config \<Rightarrow> 'w xyk_state \<Rightarrow> asset_pair \<Rightarrow> asset_id" where
  "xyk_get_share_token cfg s assets = xyk_share_token s (xyk_get_pair_id cfg assets)"

definition xyk_get_pool_assets :: "'w xyk_state \<Rightarrow> account_id \<Rightarrow> asset_id list option" where
  "xyk_get_pool_assets s p = map_option (\<lambda>(a, b). [a, b]) (pool_assets s p)"

definition xyk_get_pool_balances ::
  "'w xyk_config \<Rightarrow> 'w xyk_state \<Rightarrow> account_id \<Rightarrow> (asset_id \<times> balance) list option" where
  "xyk_get_pool_balances cfg s p =
     Some (case xyk_get_pool_assets s p of
             None \<Rightarrow> []
           | Some assets \<Rightarrow> map (\<lambda>item. (item, xyk_free cfg s item p)) assets)"

definition xyk_calculate_discounted_fee :: "'w xyk_config \<Rightarrow> balance \<Rightarrow> balance result" where
  "xyk_calculate_discounted_fee cfg amount =
     ok_or (m_pool_trade_fee (xyk_math cfg) amount (7, 10000)) (XYK xyk_error.FeeAmountInvalid)"

definition xyk_calculate_fee :: "'w xyk_config \<Rightarrow> balance \<Rightarrow> balance result" where
  "xyk_calculate_fee cfg amount =
     ok_or (m_pool_trade_fee (xyk_math cfg) amount (xyk_exchange_fee cfg)) (XYK xyk_error.FeeAmountInvalid)"

definition xyk_get_spot_price_unchecked ::
  "'w xyk_config \<Rightarrow> 'w xyk_state \<Rightarrow> asset_id \<Rightarrow> asset_id \<Rightarrow> balance \<Rightarrow> balance" where
  "xyk_get_spot_price_unchecked cfg s asset_a asset_b amount =
     (let pair_account = xyk_get_pair_id cfg (mk_pair asset_b asset_a);
          asset_a_reserve = xyk_free cfg s asset_a pair_account;
          asset_b_reserve = xyk_free cfg s asset_b pair_account
      in case m_xyk_spot_price (xyk_math cfg) asset_a_reserve asset_b_reserve amount of
           Some v \<Rightarrow> v | None \<Rightarrow> 0)"

definition xyk_get_fee :: "'w xyk_config \<Rightarrow> 'w xyk_state \<Rightarrow> account_id \<Rightarrow> nat \<times> nat" where
  "xyk_get_fee cfg s p = xyk_exchange_fee cfg"

definition xyk_pair_exists :: "'w xyk_config \<Rightarrow> 'w xyk_state \<Rightarrow> asset_id \<Rightarrow> asset_id \<Rightarrow> bool" where
  "xyk_pair_exists cfg s asset_a asset_b = xyk_exists cfg s (mk_pair asset_b asset_a)"

text \<open>\<open>Price::from((n, d))\<close> is the fixed-point constructor of the runtime library, a parameter.\<close>

definition xyk_spot_price ::
  "(balance \<times> balance \<Rightarrow> 'price) \<Rightarrow> 'w xyk_config \<Rightarrow> 'w xyk_state \<Rightarrow> asset_id \<Rightarrow> asset_id \<Rightarrow> 'price option" where
  "xyk_spot_price price_from cfg s asset_a asset_b =
     (if xyk_pair_exists cfg s asset_a asset_b then
        let pair_account = xyk_get_pair_id cfg (mk_pair asset_b asset_a);
            asset_a_reserve = xyk_free cfg s asset_a pair_account;
            asset_b_reserve = xyk_free cfg s asset_b pair_account
        in Some (price_from (asset_b_reserve, asset_a_reserve))
      else None)"

section \<open>Liquidity\<close>

definition xyk_create_pool ::
  "'w xyk_config \<Rightarrow> 'w xyk_state \<Rightarrow> origin \<Rightarrow> asset_id \<Rightarrow> asset_id \<Rightarrow> balance \<Rightarrow> nat \<Rightarrow> 'w xyk_state result" where
  "xyk_create_pool cfg s orig asset_a asset_b amount initial_price =
    and_then (ensure_signed orig) (\<lambda>who.
    and_then (ensure (xyk_can_create cfg (xyk_ext s) asset_a asset_b) (XYK xyk_error.CannotCreatePool)) (\<lambda>_.
    and_then (ensure (amount \<ge> xyk_min_pool_liquidity cfg) (XYK xyk_error.InsufficientLiquidity)) (\<lambda>_.
    and_then (ensure (initial_price \<noteq> 0) (XYK xyk_error.ZeroInitialPrice)) (\<lambda>_.
    and_then (ensure (asset_a \<noteq> asset_b) (XYK xyk_error.CannotCreatePoolWithSameAssets)) (\<lambda>_.
    let asset_pair = mk_pair asset_a asset_b in
    and_then (ensure (\<not> xyk_exists cfg s asset_pair) (XYK xyk_error.TokenPoolAlreadyExists)) (\<lambda>_.
    and_then (ok_or (m_checked_mul_int (xyk_math cfg) initial_price amount)
                (XYK xyk_error.CreatePoolAssetAmountInvalid)) (\<lambda>asset_b_amount.
    and_then (ensure (asset_b_amount \<ge> xyk_min_pool_liquidity cfg) (XYK xyk_error.InsufficientLiquidity)) (\<lambda>_.
    let shares_added = (if asset_a < asset_b then amount else asset_b_amount) in
    and_then (ensure (xyk_free cfg s asset_a who \<ge> amount) (XYK xyk_error.InsufficientAssetBalance)) (\<lambda>_.
    and_then (ensure (xyk_free cfg s asset_b who \<ge> asset_b_amount) (XYK xyk_error.InsufficientAssetBalance)) (\<lambda>_.
    let pair_account = xyk_get_pair_id cfg asset_pair;
        token_name = pair_name asset_pair in
    and_then (xyk_get_or_create_shared_asset cfg (xyk_ext s) token_name [asset_a, asset_b]
                (xyk_min_pool_liquidity cfg)) (\<lambda>(shares, w).
    and_then (xyk_on_create_pool cfg w (asset_in asset_pair) (asset_out asset_pair)) (\<lambda>w.
    let s = s\<lparr>xyk_ext := w,
              share_token := (share_token s)(pair_account \<mapsto> shares),
              pool_assets := (pool_assets s)(pair_account \<mapsto> (asset_a, asset_b))\<rparr>;
        s = xyk_deposit_event (PoolCreated who asset_a asset_b shares_added shares pair_account) s in
    and_then (c_transfer (xyk_cur cfg) s asset_a who pair_account amount) (\<lambda>s.
    and_then (c_transfer (xyk_cur cfg) s asset_b who pair_account asset_b_amount) (\<lambda>s.
    and_then (c_deposit (xyk_cur cfg) s shares who shares_added) (\<lambda>s.
    Inr (s\<lparr>total_liquidity := (total_liquidity s)(pair_account \<mapsto> shares_added)\<rparr>))))))))))))))))"

definition xyk_add_liquidity ::
  "'w xyk_config \<Rightarrow> 'w xyk_state \<Rightarrow> origin \<Rightarrow> asset_id \<Rightarrow> asset_id \<Rightarrow> balance \<Rightarrow> balance \<Rightarrow> 'w xyk_state result" where
  "xyk_add_liquidity cfg s orig asset_a asset_b amount_a amount_b_max_limit =
    and_then (ensure_signed orig) (\<lambda>who.
    let asset_pair = mk_pair asset_a asset_b in
    and_then (ensure (xyk_exists cfg s asset_pair) (XYK xyk_error.TokenPoolNotFound)) (\<lambda>_.
    and_then (ensure (amount_a \<ge> xyk_min_trading_limit cfg) (XYK xyk_error.InsufficientTradingAmount)) (\<lambda>_.
    and_then (ensure (amount_b_max_limit \<noteq> 0) (XYK xyk_error.ZeroLiquidity)) (\<lambda>_.
    and_then (ensure (xyk_free cfg s asset_a who \<ge> amount_a) (XYK xyk_error.InsufficientAssetBalance)) (\<lambda>_.
    and_then (ensure (xyk_free cfg s asset_b who \<ge> amount_b_max_limit) (XYK xyk_error.InsufficientAssetBalance)) (\<lambda>_.
    let pair_account = xyk_get_pair_id cfg asset_pair;
        shares = xyk_share_token s pair_account;
        account_shares = xyk_free cfg s shares who;
        asset_a_reserve = xyk_free cfg s asset_a pair_account;
        asset_b_reserve = xyk_free cfg s asset_b pair_account;
        total = xyk_total_liquidity s pair_account in
    and_then (ok_or (m_xyk_liquidity_in (xyk_math cfg) asset_a_reserve asset_b_reserve amount_a)
                (XYK xyk_error.AddAssetAmountInvalid)) (\<lambda>amount_b_required.
    let shares_added = (if asset_a < asset_b then amount_a else amount_b_required) in
    and_then (ensure (amount_b_required \<le> amount_b_max_limit) (XYK xyk_error.AssetAmountExceededLimit)) (\<lambda>_.
    and_then (ensure (shares_added \<noteq> 0) (XYK xyk_error.InvalidMintedLiquidity)) (\<lambda>_.
    and_then (ok_or (checked_add u128_max account_shares shares_added) (XYK xyk_error.InvalidMintedLiquidity)) (\<lambda>sum.
    and_then (ensure (sum \<ge> xyk_min_pool_liquidity cfg) (XYK xyk_error.InsufficientLiquidity)) (\<lambda>_.
    and_then (ok_or (checked_add u128_max total shares_added) (XYK xyk_error.InvalidLiquidityAmount)) (\<lambda>liquidity_amount.
    and_then (c_transfer (xyk_cur cfg) s asset_a who pair_account amount_a) (\<lambda>s.
    and_then (c_transfer (xyk_cur cfg) s asset_b who pair_account amount_b_required) (\<lambda>s.
    and_then (c_deposit (xyk_cur cfg) s shares who shares_added) (\<lambda>s.
    let s = s\<lparr>total_liquidity := (total_liquidity s)(pair_account \<mapsto> liquidity_amount)\<rparr> in
    Inr (xyk_deposit_event (LiquidityAdded who asset_a asset_b amount_a amount_b_required) s))))))))))))))))"

definition xyk_remove_liquidity ::
  "'w xyk_config \<Rightarrow> 'w xyk_state \<Rightarrow> origin \<Rightarrow> asset_id \<Rightarrow> asset_id \<Rightarrow> balance \<Rightarrow> 'w xyk_state result" where
  "xyk_remove_liquidity cfg s orig asset_a asset_b liquidity_amount =
    and_then (ensure_signed orig) (\<lambda>who.
    let asset_pair = mk_pair asset_a asset_b in
    and_then (ensure (liquidity_amount \<noteq> 0) (XYK xyk_error.ZeroLiquidity)) (\<lambda>_.
    and_then (ensure (xyk_exists cfg s asset_pair) (XYK xyk_error.TokenPoolNotFound)) (\<lambda>_.
    let pair_account = xyk_get_pair_id cfg asset_pair;
        shares = xyk_share_token s pair_account;
        total_shares = xyk_total_liquidity s pair_account;
        account_shares = xyk_free cfg s shares who in
    and_then (ensure (total_shares \<ge> liquidity_amount) (XYK xyk_error.InsufficientLiquidity)) (\<lambda>_.
    and_then (ensure (account_shares \<ge> liquidity_amount) (XYK xyk_error.InsufficientAssetBalance)) (\<lambda>_.
    and_then (ensure (saturating_sub account_shares liquidity_amount \<ge> xyk_min_pool_liquidity cfg
                      \<or> account_shares = liquidity_amount) (XYK xyk_error.InsufficientLiquidity)) (\<lambda>_.
    let asset_a_reserve = xyk_free cfg s asset_a pair_account;
        asset_b_reserve = xyk_free cfg s asset_b pair_account in
    and_then (ok_or (m_xyk_liquidity_out (xyk_math cfg) asset_a_reserve asset_b_reserve
                       liquidity_amount total_shares) (XYK xyk_error.RemoveAssetAmountInvalid))
     (\<lambda>(remove_amount_a, remove_amount_b).
    and_then (ensure (xyk_free cfg s asset_a pair_account \<ge> remove_amount_a)
                (XYK xyk_error.InsufficientPoolAssetBalance)) (\<lambda>_.
    and_then (ensure (xyk_free cfg s asset_b pair_account \<ge> remove_amount_b)
                (XYK xyk_error.InsufficientPoolAssetBalance)) (\<lambda>_.
    and_then (ok_or (checked_sub total_shares liquidity_amount) (XYK xyk_error.InvalidLiquidityAmount))
     (\<lambda>liquidity_left.
    and_then (c_transfer (xyk_cur cfg) s asset_a pair_account who remove_amount_a) (\<lambda>s.
    and_then (c_transfer (xyk_cur cfg) s asset_b pair_account who remove_amount_b) (\<lambda>s.
    and_then (c_withdraw (xyk_cur cfg) s shares who liquidity_amount) (\<lambda>s.
    let s = s\<lparr>total_liquidity := (total_liquidity s)(pair_account \<mapsto> liquidity_left)\<rparr>;
        s = xyk_deposit_event (LiquidityRemoved who asset_a asset_b liquidity_amount) s in
    if liquidity_left = 0 then
      Inr (xyk_deposit_event (PoolDestroyed who asset_a asset_b shares pair_account)
        (s\<lparr>share_token := (share_token s)(pair_account := None),
           pool_assets := (pool_assets s)(pair_account := None),
           total_liquidity := (total_liquidity s)(pair_account := None)\<rparr>))
    else Inr s)))))))))))))"

section \<open>Trades\<close>

definition xyk_validate_sell ::
  "'w xyk_config \<Rightarrow> 'w xyk_state \<Rightarrow> account_id \<Rightarrow> asset_pair \<Rightarrow> balance \<Rightarrow> balance \<Rightarrow> bool \<Rightarrow> amm_transfer result" where
  "xyk_validate_sell cfg s who assets amount min_bought discount =
    and_then (ensure (amount \<ge> xyk_min_trading_limit cfg) (XYK xyk_error.InsufficientTradingAmount)) (\<lambda>_.
    and_then (ensure (xyk_exists cfg s assets) (XYK xyk_error.TokenPoolNotFound)) (\<lambda>_.
    and_then (ensure (xyk_free cfg s (asset_in assets) who \<ge> amount) (XYK xyk_error.InsufficientAssetBalance)) (\<lambda>_.
    and_then (if discount
              then ensure (xyk_exists cfg s (mk_pair (asset_in assets) (xyk_native_asset_id cfg)))
                     (XYK xyk_error.CannotApplyDiscount)
              else Inr ()) (\<lambda>_.
    let pair_account = xyk_get_pair_id cfg assets;
        asset_in_reserve = xyk_free cfg s (asset_in assets) pair_account;
        asset_out_reserve = xyk_free cfg s (asset_out assets) pair_account in
    and_then (ok_or (checked_div asset_in_reserve (xyk_max_in_ratio cfg)) (XYK xyk_error.Overflow)) (\<lambda>max_in.
    and_then (ensure (amount \<le> max_in) (XYK xyk_error.MaxInRatioExceeded)) (\<lambda>_.
    and_then (ok_or (m_xyk_out_given_in (xyk_math cfg) asset_in_reserve asset_out_reserve amount)
                (XYK xyk_error.SellAssetAmountInvalid)) (\<lambda>amount_out.
    and_then (if discount then xyk_calculate_discounted_fee cfg amount_out
              else xyk_calculate_fee cfg amount_out) (\<lambda>transfer_fee.
    and_then (ok_or (checked_sub amount_out transfer_fee) (XYK xyk_error.SellAssetAmountInvalid))
     (\<lambda>amount_out_without_fee.
    and_then (ensure (asset_out_reserve > amount_out) (XYK xyk_error.InsufficientAssetBalance)) (\<lambda>_.
    and_then (ensure (min_bought \<le> amount_out_without_fee) (XYK xyk_error.AssetAmountNotReachedLimit)) (\<lambda>_.
    and_then
      (if discount then
         (let native_asset = xyk_native_asset_id cfg;
              native_pair_account = xyk_get_pair_id cfg (mk_pair (asset_in assets) native_asset);
              native_reserve = xyk_free cfg s native_asset native_pair_account;
              asset_reserve = xyk_free cfg s (asset_in assets) native_pair_account in
          and_then (ok_or (m_xyk_spot_price (xyk_math cfg) asset_reserve native_reserve transfer_fee)
                      (XYK xyk_error.CannotApplyDiscount)) (\<lambda>native_fee_spot_price.
          and_then (ensure (xyk_free cfg s native_asset who \<ge> native_fee_spot_price)
                      (XYK xyk_error.InsufficientNativeCurrencyBalance)) (\<lambda>_.
          Inr native_fee_spot_price)))
       else Inr 0) (\<lambda>discount_fee.
    Inr \<lparr>tr_origin = who, tr_assets = assets, tr_amount = amount,
         tr_amount_out = amount_out_without_fee, tr_discount = discount,
         tr_discount_amount = discount_fee, tr_fee = (asset_out assets, transfer_fee)\<rparr>))))))))))))"

text \<open>
  The common start of the two execution methods: the trade handler is told, and the discount
  fee is withdrawn from the trader.
\<close>

definition xyk_trade_prologue ::
  "'w xyk_config \<Rightarrow> 'w xyk_state \<Rightarrow> amm_transfer \<Rightarrow> 'w xyk_state result" where
  "xyk_trade_prologue cfg s t =
    (let pair_account = xyk_get_pair_id cfg (tr_assets t);
         total = xyk_total_liquidity s pair_account;
         s = s\<lparr>xyk_ext := xyk_on_trade cfg (xyk_ext s) (asset_in (tr_assets t)) (asset_out (tr_assets t))
                 (tr_amount t) (tr_amount_out t) total\<rparr> in
     if tr_discount t \<and> tr_discount_amount t > 0
     then c_withdraw (xyk_cur cfg) s (xyk_native_asset_id cfg) (tr_origin t) (tr_discount_amount t)
     else Inr s)"

definition xyk_execute_sell ::
  "'w xyk_config \<Rightarrow> 'w xyk_state \<Rightarrow> amm_transfer \<Rightarrow> 'w xyk_state result" where
  "xyk_execute_sell cfg s t =
    (let pair_account = xyk_get_pair_id cfg (tr_assets t) in
    and_then (xyk_trade_prologue cfg s t) (\<lambda>s.
    and_then (c_transfer (xyk_cur cfg) s (asset_in (tr_assets t)) (tr_origin t) pair_account (tr_amount t)) (\<lambda>s.
    and_then (c_transfer (xyk_cur cfg) s (asset_out (tr_assets t)) pair_account (tr_origin t) (tr_amount_out t)) (\<lambda>s.
    Inr (xyk_deposit_event
      (SellExecuted (tr_origin t) (asset_in (tr_assets t)) (asset_out (tr_assets t)) (tr_amount t)
         (tr_amount_out t) (fst (tr_fee t)) (snd (tr_fee t)) pair_account) s)))))"

definition xyk_validate_buy ::
  "'w xyk_config \<Rightarrow> 'w xyk_state \<Rightarrow> account_id \<Rightarrow> asset_pair \<Rightarrow> balance \<Rightarrow> balance \<Rightarrow> bool \<Rightarrow> amm_transfer result" where
  "xyk_validate_buy cfg s who assets amount max_limit discount =
    and_then (ensure (amount \<ge> xyk_min_trading_limit cfg) (XYK xyk_error.InsufficientTradingAmount)) (\<lambda>_.
    and_then (ensure (xyk_exists cfg s assets) (XYK xyk_error.TokenPoolNotFound)) (\<lambda>_.
    let pair_account = xyk_get_pair_id cfg assets;
        asset_out_reserve = xyk_free cfg s (asset_out assets) pair_account;
        asset_in_reserve = xyk_free cfg s (asset_in assets) pair_account in
    and_then (ensure (asset_out_reserve > amount) (XYK xyk_error.InsufficientPoolAssetBalance)) (\<lambda>_.
    and_then (ok_or (checked_div asset_out_reserve (xyk_max_out_ratio cfg)) (XYK xyk_error.Overflow)) (\<lambda>max_out.
    and_then (ensure (amount \<le> max_out) (XYK xyk_error.MaxOutRatioExceeded)) (\<lambda>_.
    and_then (if discount
              then ensure (xyk_exists cfg s (mk_pair (asset_out assets) (xyk_native_asset_id cfg)))
                     (XYK xyk_error.CannotApplyDiscount)
              else Inr ()) (\<lambda>_.
    and_then (ok_or (m_xyk_in_given_out (xyk_math cfg) asset_out_reserve asset_in_reserve amount)
                (XYK xyk_error.BuyAssetAmountInvalid)) (\<lambda>buy_price.
    and_then (if discount then xyk_calculate_discounted_fee cfg buy_price
              else xyk_calculate_fee cfg buy_price) (\<lambda>transfer_fee.
    and_then (ok_or (checked_add u128_max buy_price transfer_fee) (XYK xyk_error.BuyAssetAmountInvalid))
     (\<lambda>buy_price_with_fee.
    and_then (ensure (max_limit \<ge> buy_price_with_fee) (XYK xyk_error.AssetAmountExceededLimit)) (\<lambda>_.
    and_then (ensure (xyk_free cfg s (asset_in assets) who \<ge> buy_price_with_fee)
                (XYK xyk_error.InsufficientAssetBalance)) (\<lambda>_.
    and_then
      (if discount then
         (let native_asset = xyk_native_asset_id cfg;
              native_pair_account = xyk_get_pair_id cfg (mk_pair (asset_out assets) native_asset);
              native_reserve = xyk_free cfg s native_asset native_pair_account;
              asset_reserve = xyk_free cfg s (asset_out assets) native_pair_account in
          and_then (ok_or (m_xyk_spot_price (xyk_math cfg) asset_reserve native_reserve transfer_fee)
                      (XYK xyk_error.CannotApplyDiscount)) (\<lambda>native_fee_spot_price.
          and_then (ensure (xyk_free cfg s native_asset who \<ge> native_fee_spot_price)
                      (XYK xyk_error.InsufficientNativeCurrencyBalance)) (\<lambda>_.
          Inr native_fee_spot_price)))
       else Inr 0) (\<lambda>discount_fee.
    Inr \<lparr>tr_origin = who, tr_assets = assets, tr_amount = amount, tr_amount_out = buy_price,
         tr_discount = discount, tr_discount_amount = discount_fee,
         tr_fee = (asset_in assets, transfer_fee)\<rparr>))))))))))))"

definition xyk_execute_buy ::
  "'w xyk_config \<Rightarrow> 'w xyk_state \<Rightarrow> amm_transfer \<Rightarrow> 'w xyk_state result" where
  "xyk_execute_buy cfg s t =
    (let pair_account = xyk_get_pair_id cfg (tr_assets t) in
    and_then (xyk_trade_prologue cfg s t) (\<lambda>s.
    and_then (c_transfer (xyk_cur cfg) s (asset_out (tr_assets t)) pair_account (tr_origin t) (tr_amount t)) (\<lambda>s.
    and_then (c_transfer (xyk_cur cfg) s (asset_in (tr_assets t)) (tr_origin t) pair_account
                (wrapping_add u128_max (tr_amount_out t) (snd (tr_fee t)))) (\<lambda>s.
    Inr (xyk_deposit_event
      (BuyExecuted (tr_origin t) (asset_out (tr_assets t)) (asset_in (tr_assets t)) (tr_amount t)
         (tr_amount_out t) (fst (tr_fee t)) (snd (tr_fee t)) pair_account) s)))))"

text \<open>\<open>impl AMM for Pallet\<close>.\<close>

definition xyk_amm :: "'w xyk_config \<Rightarrow> 'w xyk_state amm_ops" where
  "xyk_amm cfg = \<lparr>
     amm_exists = xyk_exists cfg,
     amm_get_pair_id = xyk_get_pair_id cfg,
     amm_get_share_token = xyk_get_share_token cfg,
     amm_get_pool_assets = xyk_get_pool_assets,
     amm_get_spot_price_unchecked = xyk_get_spot_price_unchecked cfg,
     amm_validate_sell = xyk_validate_sell cfg,
     amm_execute_sell = xyk_execute_sell cfg,
     amm_validate_buy = xyk_validate_buy cfg,
     amm_execute_buy = xyk_execute_buy cfg,
     amm_get_min_trading_limit = xyk_min_trading_limit cfg,
     amm_get_min_pool_liquidity = xyk_min_pool_liquidity cfg,
     amm_get_max_in_ratio = xyk_max_in_ratio cfg,
     amm_get_max_out_ratio = xyk_max_out_ratio cfg,
     amm_get_fee = xyk_get_fee cfg\<rparr>"

definition xyk_sell ::
  "'w xyk_config \<Rightarrow> 'w xyk_state \<Rightarrow> origin \<Rightarrow> asset_id \<Rightarrow> asset_id \<Rightarrow> balance \<Rightarrow> balance \<Rightarrow> bool \<Rightarrow> 'w xyk_state result" where
  "xyk_sell cfg s orig a_in a_out amount max_limit discount =
    and_then (ensure_signed orig) (\<lambda>who.
      xyk_default_sell cfg (xyk_amm cfg) s who (mk_pair a_in a_out) amount max_limit discount)"

definition xyk_buy ::
  "'w xyk_config \<Rightarrow> 'w xyk_state \<Rightarrow> origin \<Rightarrow> asset_id \<Rightarrow> asset_id \<Rightarrow> balance \<Rightarrow> balance \<Rightarrow> bool \<Rightarrow> 'w xyk_state result" where
  "xyk_buy cfg s orig a_out a_in amount max_limit discount =
    and_then (ensure_signed orig) (\<lambda>who.
      xyk_default_buy cfg (xyk_amm cfg) s who (mk_pair a_in a_out) amount max_limit discount)"

definition allow_all_pools_can_create :: "asset_id \<Rightarrow> asset_id \<Rightarrow> bool" where
  "allow_all_pools_can_create a b = True"

section \<open>Hypotheses about the environment\<close>

text \<open>
  How the pool reads a validated buy: \<open>amount\<close> is what the trader gets, \<open>amount_out\<close> with the
  fee what the trader pays.
\<close>

definition xyk_bought :: "amm_transfer \<Rightarrow> balance" where
  "xyk_bought t = tr_amount t"

definition xyk_cost :: "amm_transfer \<Rightarrow> balance" where
  "xyk_cost t = tr_amount_out t + snd (tr_fee t)"

text \<open>
  The trade handler, the asset registry and the pool-creation handler keep their own storage:
  they do not move tokens.
\<close>

definition trade_handler_frame :: "'w xyk_config \<Rightarrow> bool" where
  "trade_handler_frame cfg \<longleftrightarrow>
     (\<forall>w a b x y l. c_free_balance (xyk_currency cfg) (xyk_on_trade cfg w a b x y l) =
        c_free_balance (xyk_currency cfg) w)"

definition registry_frame :: "'w xyk_config \<Rightarrow> bool" where
  "registry_frame cfg \<longleftrightarrow>
     (\<forall>w n as ed t w'. xyk_get_or_create_shared_asset cfg w n as ed = Inr (t, w') \<longrightarrow>
        c_free_balance (xyk_currency cfg) w' = c_free_balance (xyk_currency cfg) w) \<and>
     (\<forall>w a b w'. xyk_on_create_pool cfg w a b = Inr w' \<longrightarrow>
        c_free_balance (xyk_currency cfg) w' = c_free_balance (xyk_currency cfg) w)"

definition xyk_env :: "'w xyk_config \<Rightarrow> bool" where
  "xyk_env cfg \<longleftrightarrow> multi_currency (xyk_currency cfg) \<and> trade_handler_frame cfg \<and> registry_frame cfg \<and>
     xyk_math_spec (xyk_math cfg) \<and> default_sell_spec (xyk_default_sell cfg) \<and>
     default_buy_spec (xyk_default_buy cfg)"

section \<open>The pallet as a state machine\<close>

text \<open>
  A step is a successful call of one of the five extrinsics, or any change of the storage
  outside the pallet.
\<close>

inductive xyk_step :: "'w xyk_config \<Rightarrow> 'w xyk_state \<Rightarrow> 'w xyk_state \<Rightarrow> bool" for cfg where
  create: "xyk_create_pool cfg s (Signed who) a b x price = Inr s' \<Longrightarrow> xyk_step cfg s s'"
| add: "xyk_add_liquidity cfg s (Signed who) a b x limit = Inr s' \<Longrightarrow> xyk_step cfg s s'"
| remove: "xyk_remove_liquidity cfg s (Signed who) a b l = Inr s' \<Longrightarrow> xyk_step cfg s s'"
| sell: "xyk_sell cfg s (Signed who) a b x limit d = Inr s' \<Longrightarrow> xyk_step cfg s s'"
| buy: "xyk_buy cfg s (Signed who) b a x limit d = Inr s' \<Longrightarrow> xyk_step cfg s s'"
| outside: "xyk_step cfg s (s\<lparr>xyk_ext := w\<rparr>)"

inductive xyk_reachable :: "'w xyk_config \<Rightarrow> 'w xyk_state \<Rightarrow> bool" for cfg where
  genesis: "xyk_reachable cfg \<lparr>xyk_ext = w, share_token = Map.empty, total_liquidity = Map.empty,
     pool_assets = Map.empty, xyk_events = []\<rparr>"
| step: "xyk_reachable cfg s \<Longrightarrow> xyk_step cfg s s' \<Longrightarrow> xyk_reachable cfg s'"

text \<open>
  The records of a pool exist together, its liquidity is positive, and it is stored under the
  account of its own two assets.
\<close>

definition xyk_inv :: "'w xyk_config \<Rightarrow> 'w xyk_state \<Rightarrow> bool" where
  "xyk_inv cfg s \<longleftrightarrow>
     dom (pool_assets s) = dom (share_token s) \<and>
     dom (total_liquidity s) = dom (share_token s) \<and>
     (\<forall>p l. total_liquidity s p = Some l \<longrightarrow> 0 < l) \<and>
     (\<forall>p a b. pool_assets s p = Some (a, b) \<longrightarrow> a \<noteq> b \<and> p = xyk_get_pair_id cfg (mk_pair a b))"

section \<open>Inversion of the operations\<close>

lemma xyk_cur_sel [simp]:
  "c_free_balance (xyk_cur cfg) s = xyk_free cfg s"
  "c_reserved_balance (xyk_cur cfg) s = c_reserved_balance (xyk_currency cfg) (xyk_ext s)"
  by (simp_all add: xyk_cur_def)

lemma xyk_cur_transfer_eq_Inr [simp, result_simps]:
  "c_transfer (xyk_cur cfg) s a f t x = Inr s' \<longleftrightarrow>
     (\<exists>w. c_transfer (xyk_currency cfg) (xyk_ext s) a f t x = Inr w \<and> s' = s\<lparr>xyk_ext := w\<rparr>)"
  by (auto simp: xyk_cur_def lift_currency_def xyk_put_def)

lemma xyk_cur_deposit_eq_Inr [simp, result_simps]:
  "c_deposit (xyk_cur cfg) s a v x = Inr s' \<longleftrightarrow>
     (\<exists>w. c_deposit (xyk_currency cfg) (xyk_ext s) a v x = Inr w \<and> s' = s\<lparr>xyk_ext := w\<rparr>)"
  by (auto simp: xyk_cur_def lift_currency_def xyk_put_def)

lemma xyk_cur_withdraw_eq_Inr [simp, result_simps]:
  "c_withdraw (xyk_cur cfg) s a v x = Inr s' \<longleftrightarrow>
     (\<exists>w. c_withdraw (xyk_currency cfg) (xyk_ext s) a v x = Inr w \<and> s' = s\<lparr>xyk_ext := w\<rparr>)"
  by (auto simp: xyk_cur_def lift_currency_def xyk_put_def)

lemma xyk_deposit_event_sel [simp]:
  "xyk_ext (xyk_deposit_event ev s) = xyk_ext s"
  "share_token (xyk_deposit_event ev s) = share_token s"
  "total_liquidity (xyk_deposit_event ev s) = total_liquidity s"
  "pool_assets (xyk_deposit_event ev s) = pool_assets s"
  "xyk_events (xyk_deposit_event ev s) = xyk_events s @ [ev]"
  by (simp_all add: xyk_deposit_event_def)

lemma xyk_validate_sell_Inr:
  assumes "xyk_validate_sell cfg s who assets amount limit discount = Inr t"
  obtains y fee df where
    "amount \<ge> xyk_min_trading_limit cfg" "xyk_exists cfg s assets"
    "amount \<le> xyk_free cfg s (asset_in assets) who"
    "amount \<le> xyk_free cfg s (asset_in assets) (xyk_get_pair_id cfg assets) div xyk_max_in_ratio cfg"
    "m_xyk_out_given_in (xyk_math cfg) (xyk_free cfg s (asset_in assets) (xyk_get_pair_id cfg assets))
       (xyk_free cfg s (asset_out assets) (xyk_get_pair_id cfg assets)) amount = Some y"
    "fee \<le> y" "y < xyk_free cfg s (asset_out assets) (xyk_get_pair_id cfg assets)"
    "limit \<le> y - fee" "\<not> discount \<Longrightarrow> df = 0"
    "t = \<lparr>tr_origin = who, tr_assets = assets, tr_amount = amount, tr_amount_out = y - fee,
         tr_discount = discount, tr_discount_amount = df, tr_fee = (asset_out assets, fee)\<rparr>"
  using assms by (auto simp: xyk_validate_sell_def Let_def split: if_splits)

lemma xyk_validate_buy_Inr:
  assumes "xyk_validate_buy cfg s who assets amount limit discount = Inr t"
  obtains y fee df where
    "amount \<ge> xyk_min_trading_limit cfg" "xyk_exists cfg s assets"
    "amount < xyk_free cfg s (asset_out assets) (xyk_get_pair_id cfg assets)"
    "amount \<le> xyk_free cfg s (asset_out assets) (xyk_get_pair_id cfg assets) div xyk_max_out_ratio cfg"
    "m_xyk_in_given_out (xyk_math cfg) (xyk_free cfg s (asset_out assets) (xyk_get_pair_id cfg assets))
       (xyk_free cfg s (asset_in assets) (xyk_get_pair_id cfg assets)) amount = Some y"
    "y + fee \<le> u128_max" "y + fee \<le> limit" "y + fee \<le> xyk_free cfg s (asset_in assets) who"
    "\<not> discount \<Longrightarrow> df = 0"
    "t = \<lparr>tr_origin = who, tr_assets = assets, tr_amount = amount, tr_amount_out = y,
         tr_discount = discount, tr_discount_amount = df, tr_fee = (asset_in assets, fee)\<rparr>"
  using assms by (auto simp: xyk_validate_buy_def Let_def split: if_splits)

lemma xyk_amm_sel [simp]:
  "amm_exists (xyk_amm cfg) = xyk_exists cfg"
  "amm_get_pair_id (xyk_amm cfg) = xyk_get_pair_id cfg"
  "amm_get_share_token (xyk_amm cfg) = xyk_get_share_token cfg"
  "amm_validate_sell (xyk_amm cfg) = xyk_validate_sell cfg"
  "amm_execute_sell (xyk_amm cfg) = xyk_execute_sell cfg"
  "amm_validate_buy (xyk_amm cfg) = xyk_validate_buy cfg"
  "amm_execute_buy (xyk_amm cfg) = xyk_execute_buy cfg"
  "amm_get_fee (xyk_amm cfg) = xyk_get_fee cfg"
  by (simp_all add: xyk_amm_def)

interpretation xyk: amm "xyk_amm cfg" "xyk_free cfg" xyk_bought xyk_cost for cfg
  by unfold_locales
    (auto simp: xyk_bought_def xyk_cost_def elim!: xyk_validate_sell_Inr xyk_validate_buy_Inr)


lemma xyk_envD:
  assumes "xyk_env cfg"
  shows "multi_currency (xyk_currency cfg)" "trade_handler_frame cfg" "registry_frame cfg"
    and "xyk_math_spec (xyk_math cfg)" "default_sell_spec (xyk_default_sell cfg)"
    and "default_buy_spec (xyk_default_buy cfg)"
  using assms by (simp_all add: xyk_env_def)

lemma xyk_trade_prologue_Inr:
  assumes "xyk_env cfg" "xyk_trade_prologue cfg s t = Inr s'"
  shows "xyk_free cfg s' =
      sheet_sub (xyk_native_asset_id cfg) (tr_origin t)
        (if tr_discount t then tr_discount_amount t else 0) (xyk_free cfg s)"
    and "share_token s' = share_token s" "total_liquidity s' = total_liquidity s"
    and "pool_assets s' = pool_assets s" "xyk_events s' = xyk_events s"
  using assms(2) xyk_envD(2) [OF assms(1)]
  by (auto simp: xyk_trade_prologue_def Let_def trade_handler_frame_def
      multi_currency.withdraw_free [OF xyk_envD(1) [OF assms(1)]] split: if_splits)

lemma xyk_execute_sell_Inr:
  assumes "xyk_env cfg" "xyk_execute_sell cfg s t = Inr s'"
  shows "xyk_free cfg s' =
      sheet_move (asset_out (tr_assets t)) (xyk_get_pair_id cfg (tr_assets t)) (tr_origin t) (tr_amount_out t)
       (sheet_move (asset_in (tr_assets t)) (tr_origin t) (xyk_get_pair_id cfg (tr_assets t)) (tr_amount t)
        (sheet_sub (xyk_native_asset_id cfg) (tr_origin t)
          (if tr_discount t then tr_discount_amount t else 0) (xyk_free cfg s)))"
    and "share_token s' = share_token s" "total_liquidity s' = total_liquidity s"
    and "pool_assets s' = pool_assets s"
  using assms(2)
  by (auto simp: xyk_execute_sell_def Let_def xyk_trade_prologue_Inr [OF assms(1)]
      multi_currency.transfer_free [OF xyk_envD(1) [OF assms(1)]])

lemma xyk_execute_buy_Inr:
  assumes "xyk_env cfg" "xyk_execute_buy cfg s t = Inr s'"
  shows "xyk_free cfg s' =
      sheet_move (asset_in (tr_assets t)) (tr_origin t) (xyk_get_pair_id cfg (tr_assets t))
         (wrapping_add u128_max (tr_amount_out t) (snd (tr_fee t)))
       (sheet_move (asset_out (tr_assets t)) (xyk_get_pair_id cfg (tr_assets t)) (tr_origin t) (tr_amount t)
        (sheet_sub (xyk_native_asset_id cfg) (tr_origin t)
          (if tr_discount t then tr_discount_amount t else 0) (xyk_free cfg s)))"
    and "share_token s' = share_token s" "total_liquidity s' = total_liquidity s"
    and "pool_assets s' = pool_assets s"
  using assms(2)
  by (auto simp: xyk_execute_buy_def Let_def xyk_trade_prologue_Inr [OF assms(1)]
      multi_currency.transfer_free [OF xyk_envD(1) [OF assms(1)]])

lemma xyk_sell_effect:
  assumes env: "xyk_env cfg"
    and sell: "xyk_sell cfg s (Signed who) a b amount limit discount = Inr s'"
    and p: "p = xyk_get_pair_id cfg (mk_pair a b)"
  obtains y fee df where
    "m_xyk_out_given_in (xyk_math cfg) (xyk_free cfg s a p) (xyk_free cfg s b p) amount = Some y"
    "amount \<le> xyk_free cfg s a who" "y < xyk_free cfg s b p" "limit \<le> y - fee"
    "\<not> discount \<Longrightarrow> df = 0"
    "xyk_free cfg s' = sheet_move b p who (y - fee) (sheet_move a who p amount
       (sheet_sub (xyk_native_asset_id cfg) who df (xyk_free cfg s)))"
    "share_token s' = share_token s" "total_liquidity s' = total_liquidity s"
    "pool_assets s' = pool_assets s"
proof -
  from sell have "xyk_default_sell cfg (xyk_amm cfg) s who (mk_pair a b) amount limit discount = Inr s'"
    by (simp add: xyk_sell_def)
  with xyk_envD(5) [OF env] obtain t where
    v: "xyk_validate_sell cfg s who (mk_pair a b) amount limit discount = Inr t"
    and e: "xyk_execute_sell cfg s t = Inr s'"
    by (auto elim: xyk.default_sell_validated)
  from v that [of _ _ "if discount then _ else 0"] show thesis
    by (elim xyk_validate_sell_Inr) (auto simp: xyk_execute_sell_Inr [OF env e] p)
qed

lemma xyk_buy_effect:
  assumes env: "xyk_env cfg"
    and buy: "xyk_buy cfg s (Signed who) b a amount limit discount = Inr s'"
    and p: "p = xyk_get_pair_id cfg (mk_pair a b)"
  obtains y fee df where
    "m_xyk_in_given_out (xyk_math cfg) (xyk_free cfg s b p) (xyk_free cfg s a p) amount = Some y"
    "amount < xyk_free cfg s b p" "y + fee \<le> limit" "y + fee \<le> xyk_free cfg s a who"
    "\<not> discount \<Longrightarrow> df = 0"
    "xyk_free cfg s' = sheet_move a who p (y + fee) (sheet_move b p who amount
       (sheet_sub (xyk_native_asset_id cfg) who df (xyk_free cfg s)))"
    "share_token s' = share_token s" "total_liquidity s' = total_liquidity s"
    "pool_assets s' = pool_assets s"
proof -
  from buy have "xyk_default_buy cfg (xyk_amm cfg) s who (mk_pair a b) amount limit discount = Inr s'"
    by (simp add: xyk_buy_def)
  with xyk_envD(6) [OF env] obtain t where
    v: "xyk_validate_buy cfg s who (mk_pair a b) amount limit discount = Inr t"
    and e: "xyk_execute_buy cfg s t = Inr s'"
    by (auto elim: xyk.default_buy_validated)
  from v that [of _ _ "if discount then _ else 0"] show thesis
    by (elim xyk_validate_buy_Inr)
      (auto simp: xyk_execute_buy_Inr [OF env e] p wrapping_add_exact)
qed

lemma product_after_sell:
  fixes i r x y z :: nat
  assumes "y * (i + x) \<le> r * x" "z \<le> y" "y < r"
  shows "i * r \<le> (i + x) * (r - z)"
proof -
  have "i * r + y * (i + x) \<le> (i + x) * r" using assms(1) by (simp add: algebra_simps)
  then have "i * r \<le> (i + x) * r - (i + x) * y" by (simp add: mult.commute)
  also have "\<dots> = (i + x) * (r - y)" by (simp add: diff_mult_distrib2)
  also have "\<dots> \<le> (i + x) * (r - z)" using assms(2) by (simp add: diff_le_mono2)
  finally show ?thesis .
qed

lemma product_after_buy:
  fixes i r x y z :: nat
  assumes "i * x \<le> y * (r - x)" "x < r" "y \<le> z"
  shows "i * r \<le> (i + z) * (r - x)"
proof -
  have "i * r = i * (r - x) + i * x" using assms(2) by (simp flip: distrib_left)
  also have "\<dots> \<le> i * (r - x) + z * (r - x)"
    using assms(1,3) by (meson add_left_mono le_trans mult_le_mono1)
  finally show ?thesis by (simp add: algebra_simps)
qed

lemma xyk_create_pool_effect:
  assumes env: "xyk_env cfg"
    and create: "xyk_create_pool cfg s (Signed who) a b amount price = Inr s'"
    and p: "p = xyk_get_pair_id cfg (mk_pair a b)"
  obtains amount_b shares where
    "a \<noteq> b" "\<not> xyk_exists cfg s (mk_pair a b)" "xyk_can_create cfg (xyk_ext s) a b"
    "m_checked_mul_int (xyk_math cfg) price amount = Some amount_b"
    "xyk_min_pool_liquidity cfg \<le> amount" "xyk_min_pool_liquidity cfg \<le> amount_b"
    "amount \<le> xyk_free cfg s a who" "amount_b \<le> xyk_free cfg s b who"
    "xyk_free cfg s' = sheet_add shares who (if a < b then amount else amount_b)
       (sheet_move b who p amount_b (sheet_move a who p amount (xyk_free cfg s)))"
    "share_token s' = (share_token s)(p \<mapsto> shares)"
    "pool_assets s' = (pool_assets s)(p \<mapsto> (a, b))"
    "total_liquidity s' = (total_liquidity s)(p \<mapsto> (if a < b then amount else amount_b))"
proof -
  note m = xyk_envD(1) [OF env]
  note laws = multi_currency.transfer_free [OF m] multi_currency.deposit_free [OF m]
  from create that xyk_envD(3) [OF env] show thesis
    by (auto simp: xyk_create_pool_def Let_def laws p registry_frame_def)
qed

lemma xyk_add_liquidity_effect:
  assumes env: "xyk_env cfg"
    and add: "xyk_add_liquidity cfg s (Signed who) a b amount_a b_max = Inr s'"
    and p: "p = xyk_get_pair_id cfg (mk_pair a b)"
  obtains amount_b added where
    "xyk_exists cfg s (mk_pair a b)"
    "m_xyk_liquidity_in (xyk_math cfg) (xyk_free cfg s a p) (xyk_free cfg s b p) amount_a = Some amount_b"
    "amount_b \<le> b_max" "amount_a \<le> xyk_free cfg s a who" "amount_b \<le> xyk_free cfg s b who"
    "added = (if a < b then amount_a else amount_b)" "added \<noteq> 0"
    "xyk_min_pool_liquidity cfg \<le> xyk_free cfg s (xyk_share_token s p) who + added"
    "xyk_total_liquidity s p + added \<le> u128_max"
    "xyk_free cfg s' = sheet_add (xyk_share_token s p) who added
       (sheet_move b who p amount_b (sheet_move a who p amount_a (xyk_free cfg s)))"
    "share_token s' = share_token s" "pool_assets s' = pool_assets s"
    "total_liquidity s' = (total_liquidity s)(p \<mapsto> xyk_total_liquidity s p + added)"
proof -
  note m = xyk_envD(1) [OF env]
  note laws = multi_currency.transfer_free [OF m] multi_currency.deposit_free [OF m]
  from add that show thesis
    by (auto simp: xyk_add_liquidity_def Let_def laws p)
qed

lemma xyk_remove_liquidity_effect:
  assumes env: "xyk_env cfg"
    and remove: "xyk_remove_liquidity cfg s (Signed who) a b l = Inr s'"
    and p: "p = xyk_get_pair_id cfg (mk_pair a b)"
  obtains ya yb where
    "xyk_exists cfg s (mk_pair a b)" "l \<noteq> 0" "l \<le> xyk_total_liquidity s p"
    "l \<le> xyk_free cfg s (xyk_share_token s p) who"
    "m_xyk_liquidity_out (xyk_math cfg) (xyk_free cfg s a p) (xyk_free cfg s b p) l
       (xyk_total_liquidity s p) = Some (ya, yb)"
    "ya \<le> xyk_free cfg s a p" "yb \<le> xyk_free cfg s b p"
    "xyk_free cfg s' = sheet_sub (xyk_share_token s p) who l
       (sheet_move b p who yb (sheet_move a p who ya (xyk_free cfg s)))"
    "l = xyk_total_liquidity s p \<Longrightarrow> share_token s' = (share_token s)(p := None) \<and>
       pool_assets s' = (pool_assets s)(p := None) \<and> total_liquidity s' = (total_liquidity s)(p := None)"
    "l \<noteq> xyk_total_liquidity s p \<Longrightarrow> share_token s' = share_token s \<and> pool_assets s' = pool_assets s \<and>
       total_liquidity s' = (total_liquidity s)(p \<mapsto> xyk_total_liquidity s p - l)"
proof -
  note m = xyk_envD(1) [OF env]
  note laws = multi_currency.transfer_free [OF m] multi_currency.withdraw_free [OF m]
  show thesis
  proof (cases "l = xyk_total_liquidity s p")
    case True
    with remove show thesis
      by (clarsimp simp: xyk_remove_liquidity_def Let_def p) (rule that; simp add: laws p)
  next
    case False
    then have "l \<le> xyk_total_liquidity s p \<Longrightarrow> xyk_total_liquidity s p - l \<noteq> 0" by simp
    with False remove show thesis
      by (clarsimp simp: xyk_remove_liquidity_def Let_def p
            simp del: diff_is_0_eq diff_is_0_eq' split: if_splits)
        (rule that; simp add: laws p)
  qed
qed

end
