(* ===== verification/XYK_Props.thy ===== *)
theory XYK_Props
  imports XYK
begin

text \<open>
  The properties of the constant-product pool: the invariant of the pool records over all
  reachable states, the product of the reserves, the limits of the trader, the value of the
  shares, and concrete runs on the executable ledger.
\<close>

section \<open>The invariant of the pool records\<close>

lemma xyk_existsE:
  assumes "xyk_exists cfg s (mk_pair a b)" "xyk_inv cfg s"
  shows "xyk_get_pair_id cfg (mk_pair a b) \<in> dom (share_token s)"
    and "0 < xyk_total_liquidity s (xyk_get_pair_id cfg (mk_pair a b))"
proof -
  show 1: "xyk_get_pair_id cfg (mk_pair a b) \<in> dom (share_token s)"
    using assms(1) by (auto simp: xyk_exists_def contains_key_def)
  with assms(2) have "xyk_get_pair_id cfg (mk_pair a b) \<in> dom (total_liquidity s)"
    by (simp add: xyk_inv_def)
  then obtain l where l: "total_liquidity s (xyk_get_pair_id cfg (mk_pair a b)) = Some l" by auto
  with assms(2) have "0 < l" unfolding xyk_inv_def by blast
  with l show "0 < xyk_total_liquidity s (xyk_get_pair_id cfg (mk_pair a b))"
    by (simp add: xyk_total_liquidity_def value_query_def)
qed

lemma xyk_step_inv:
  assumes "xyk_step cfg s s'" "xyk_env cfg" "0 < xyk_min_pool_liquidity cfg" "xyk_inv cfg s"
  shows "xyk_inv cfg s'"
  using assms(1)
proof cases
  case (create who a b x price)
  from assms(2) create refl show ?thesis
    by (rule xyk_create_pool_effect) (use assms(3,4) in \<open>auto simp: xyk_inv_def\<close>)
next
  case (add who a b x limit)
  from assms(2) add refl show ?thesis
  proof (rule xyk_add_liquidity_effect)
  qed (use assms(4) in \<open>auto simp: xyk_inv_def xyk_exists_def contains_key_def\<close>)
next
  case (remove who a b l)
  from assms(2) remove refl show ?thesis
  proof (rule xyk_remove_liquidity_effect)
    assume ex: "xyk_exists cfg s (mk_pair a b)"
      and le: "l \<le> xyk_total_liquidity s (xyk_get_pair_id cfg (mk_pair a b))"
      and whole: "l = xyk_total_liquidity s (xyk_get_pair_id cfg (mk_pair a b)) \<Longrightarrow>
        share_token s' = (share_token s)(xyk_get_pair_id cfg (mk_pair a b) := None) \<and>
        pool_assets s' = (pool_assets s)(xyk_get_pair_id cfg (mk_pair a b) := None) \<and>
        total_liquidity s' = (total_liquidity s)(xyk_get_pair_id cfg (mk_pair a b) := None)"
      and part: "l \<noteq> xyk_total_liquidity s (xyk_get_pair_id cfg (mk_pair a b)) \<Longrightarrow>
        share_token s' = share_token s \<and> pool_assets s' = pool_assets s \<and>
        total_liquidity s' = (total_liquidity s)(xyk_get_pair_id cfg (mk_pair a b) \<mapsto>
          xyk_total_liquidity s (xyk_get_pair_id cfg (mk_pair a b)) - l)"
    show "xyk_inv cfg s'"
    proof (cases "l = xyk_total_liquidity s (xyk_get_pair_id cfg (mk_pair a b))")
      case True
      with whole assms(4) show ?thesis by (auto simp: xyk_inv_def)
    next
      case False
      with part le assms(4) xyk_existsE(1) [OF ex assms(4)] show ?thesis
        by (auto simp: xyk_inv_def)
    qed
  qed
next
  case (sell who a b x limit d)
  from assms(2) sell refl show ?thesis
    by (rule xyk_sell_effect) (use assms(4) in \<open>simp add: xyk_inv_def\<close>)
next
  case (buy who b a x limit d)
  from assms(2) buy refl show ?thesis
    by (rule xyk_buy_effect) (use assms(4) in \<open>simp add: xyk_inv_def\<close>)
next
  case (outside w)
  with assms(4) show ?thesis by (simp add: xyk_inv_def)
qed

text \<open>
  C9. In every state that successful extrinsics reach from an empty pallet, whatever happens to
  the storage outside it, the share token, the asset pair and the total liquidity of a pool are
  recorded together, under the account of the pair, for two different assets and a positive
  liquidity.
\<close>

theorem xyk_reachable_invariant:
  assumes "xyk_reachable cfg s" "xyk_env cfg" "0 < xyk_min_pool_liquidity cfg"
  shows "xyk_inv cfg s"
  using assms(1)
proof induction
  case (genesis w)
  show ?case by (simp add: xyk_inv_def)
next
  case (step s s')
  with xyk_step_inv assms(2,3) show ?case by blast
qed

lemma share_value_after_removal:
  fixes r l y t :: nat
  assumes "y * t \<le> r * l"
  shows "r * (t - l) \<le> (r - y) * t"
  using assms by (simp add: diff_mult_distrib diff_mult_distrib2 diff_le_mono2)

section \<open>A concrete pool\<close>

definition demo_xyk :: "ledger xyk_config" where
  "demo_xyk = \<lparr>
     xyk_currency = ledger_ops,
     xyk_get_or_create_shared_asset = (\<lambda>w n as ed. Inr (100 + sum_list as, w)),
     xyk_from_assets = (\<lambda>a b _. 1000 + 10 * min a b + max a b),
     xyk_native_asset_id = 0,
     xyk_exchange_fee = (2, 1000),
     xyk_min_trading_limit = 10,
     xyk_min_pool_liquidity = 100,
     xyk_max_in_ratio = 3,
     xyk_max_out_ratio = 3,
     xyk_can_create = (\<lambda>_ _ _. True),
     xyk_on_create_pool = (\<lambda>w _ _. Inr w),
     xyk_on_trade = (\<lambda>w _ _ _ _ _. w),
     xyk_math = formula_math,
     xyk_default_sell = run_sell,
     xyk_default_buy = run_buy\<rparr>"

text \<open>Pools 1-2 (account 1012) and 0-1 (account 1001); accounts 7 and 8 trade.\<close>

definition demo_xyk_state :: "ledger xyk_state" where
  "demo_xyk_state = \<lparr>
     xyk_ext = ledger_of [((1, 1012), 6000), ((2, 1012), 9000), ((0, 1001), 5000), ((1, 1001), 5000),
       ((0, 7), 2000), ((1, 7), 2000), ((2, 7), 3000), ((103, 7), 5500), ((103, 8), 500), ((1, 9), 1000), ((2, 9), 1000)],
     share_token = [1012 \<mapsto> 103, 1001 \<mapsto> 101],
     total_liquidity = [1012 \<mapsto> 6000, 1001 \<mapsto> 5000],
     pool_assets = [1012 \<mapsto> (1, 2), 1001 \<mapsto> (0, 1)],
     xyk_events = []\<rparr>"

text \<open>A trader with 1251000 units of the native asset, and a pallet with no pool.\<close>

definition demo_poor_state :: "ledger xyk_state" where
  "demo_poor_state = demo_xyk_state\<lparr>xyk_ext := ledger_of 
     [((0, 1001), 5000000), ((1, 1001), 5000000), ((0, 7), 1251000)]\<rparr>"

definition demo_empty_state :: "ledger xyk_state" where
  "demo_empty_state = \<lparr>xyk_ext = ledger_of [((1, 7), 2000), ((2, 7), 3000)], share_token = Map.empty,
     total_liquidity = Map.empty, pool_assets = Map.empty, xyk_events = []\<rparr>"

lemma demo_xyk_env: "xyk_env demo_xyk"
  using ledger.multi_currency_axioms run_sell_spec run_buy_spec formula_math_spec
  by (auto simp: xyk_env_def demo_xyk_def trade_handler_frame_def registry_frame_def)

lemmas xyk_run_simps =
  demo_xyk_def demo_xyk_state_def formula_math_def run_sell_def run_buy_def Let_def
  xyk_get_pair_id_def xyk_pair_account_from_assets_def xyk_exists_def contains_key_def value_query_def
  mk_pair_def xyk_amm_def xyk_share_token_def xyk_total_liquidity_def
  xyk_sell_def xyk_buy_def xyk_validate_sell_def xyk_validate_buy_def
  xyk_execute_sell_def xyk_execute_buy_def xyk_calculate_fee_def xyk_calculate_discounted_fee_def
  xyk_create_pool_def xyk_add_liquidity_def xyk_remove_liquidity_def
  xyk_trade_prologue_def xyk_cur_def lift_currency_def xyk_put_def xyk_deposit_event_def
  ledger_defs checked_div_def checked_sub_def checked_add_def saturating_sub_def u128_max_def
  wrapping_add_def

lemma demo_pair_id: "1012 = xyk_get_pair_id demo_xyk (mk_pair 1 2)"
  by (simp add: xyk_run_simps)

lemma demo_records:
  "xyk_share_token demo_xyk_state 1012 = 103" "xyk_total_liquidity demo_xyk_state 1012 = 6000"
  by (simp_all add: xyk_run_simps)

lemma demo_sell_ok: "\<exists>s'. xyk_sell demo_xyk demo_xyk_state (Signed 7) 1 2 600 400 False = Inr s'"
  by (simp add: xyk_run_simps)

lemma demo_buy_ok: "\<exists>s'. xyk_buy demo_xyk demo_xyk_state (Signed 7) 2 1 600 800 False = Inr s'"
  by (simp add: xyk_run_simps)

lemma demo_remove_ok: "\<exists>s'. xyk_remove_liquidity demo_xyk demo_xyk_state (Signed 7) 1 2 1000 = Inr s'"
  by (simp add: xyk_run_simps)

lemma demo_add_ok: "\<exists>s'. xyk_add_liquidity demo_xyk demo_xyk_state (Signed 7) 1 2 600 1000 = Inr s'"
  by (simp add: xyk_run_simps)

section \<open>Trades\<close>

text \<open>
  C1. A successful sell never lowers the product of the two reserves of the pool, with or
  without discount, given that the math crate rounds in favour of the pool.
\<close>

theorem xyk_sell_product:
  assumes "xyk_env cfg"
    and "xyk_sell cfg s (Signed who) a b amount limit discount = Inr s'"
    and "p = xyk_get_pair_id cfg (mk_pair a b)" "a \<noteq> b" "who \<noteq> p"
  shows "xyk_free cfg s a p * xyk_free cfg s b p \<le> xyk_free cfg s' a p * xyk_free cfg s' b p"
  using xyk_sell_effect [OF assms(1-3)]
proof cases
  case (1 y fee df)
  then have "y * (xyk_free cfg s a p + amount) \<le> xyk_free cfg s b p * amount"
    using xyk_envD(4) [OF assms(1)] by (auto simp: xyk_math_spec_def)
  with 1 assms(4,5) product_after_sell [of y _ amount _ "y - fee"] show ?thesis by simp
qed

theorem xyk_sell_product_witness:
  "\<exists>s'. xyk_sell demo_xyk demo_xyk_state (Signed 7) 1 2 600 400 False = Inr s' \<and>
     xyk_free demo_xyk demo_xyk_state 1 1012 * xyk_free demo_xyk demo_xyk_state 2 1012
       \<le> xyk_free demo_xyk s' 1 1012 * xyk_free demo_xyk s' 2 1012"
proof -
  from demo_sell_ok obtain s' where
    s': "xyk_sell demo_xyk demo_xyk_state (Signed 7) 1 2 600 400 False = Inr s'" ..
  from xyk_sell_product [OF demo_xyk_env s' demo_pair_id] s' show ?thesis by auto
qed

text \<open>C2. A successful buy never lowers the product of the two reserves of the pool.\<close>

theorem xyk_buy_product:
  assumes "xyk_env cfg"
    and "xyk_buy cfg s (Signed who) b a amount limit discount = Inr s'"
    and "p = xyk_get_pair_id cfg (mk_pair a b)" "a \<noteq> b" "who \<noteq> p"
  shows "xyk_free cfg s a p * xyk_free cfg s b p \<le> xyk_free cfg s' a p * xyk_free cfg s' b p"
  using xyk_buy_effect [OF assms(1-3)]
proof cases
  case (1 y fee df)
  then have "xyk_free cfg s a p * amount \<le> y * (xyk_free cfg s b p - amount)"
    using xyk_envD(4) [OF assms(1)] by (auto simp: xyk_math_spec_def)
  with 1 assms(4,5) product_after_buy [of _ amount y _ "y + fee"] show ?thesis by simp
qed

theorem xyk_buy_product_witness:
  "\<exists>s'. xyk_buy demo_xyk demo_xyk_state (Signed 7) 2 1 600 800 False = Inr s' \<and>
     xyk_free demo_xyk demo_xyk_state 1 1012 * xyk_free demo_xyk demo_xyk_state 2 1012
       \<le> xyk_free demo_xyk s' 1 1012 * xyk_free demo_xyk s' 2 1012"
proof -
  from demo_buy_ok obtain s' where
    s': "xyk_buy demo_xyk demo_xyk_state (Signed 7) 2 1 600 800 False = Inr s'" ..
  from xyk_buy_product [OF demo_xyk_env s' demo_pair_id] s' show ?thesis by auto
qed





text \<open>
  The execution of a validated buy can fail: validation compares the price and the discount
  fee with the trader's balance one by one, so a trader who pays both in the native asset and
  owns enough for each but not for their sum passes validation, and the buy returns the error
  of the token transfer.
\<close>

lemma xyk_validated_buy_fails:
  "\<exists>t. xyk_validate_buy demo_xyk demo_poor_state 7 (mk_pair 0 1) 1000000 3000000 True = Inr t \<and>
     xyk_execute_buy demo_xyk demo_poor_state t = Inl (External 0)"
  by (simp add: demo_poor_state_def xyk_run_simps)

section \<open>Liquidity\<close>

text \<open>
  C26. Removing liquidity never lowers what a remaining share is worth in either asset; removing
  the last share deletes the three records of the pool, and only then.
\<close>

theorem xyk_remove_liquidity_no_dilution:
  assumes "xyk_env cfg"
    and "xyk_remove_liquidity cfg s (Signed who) a b l = Inr s'"
    and "p = xyk_get_pair_id cfg (mk_pair a b)" "a \<noteq> b" "who \<noteq> p" "xyk_share_token s p \<notin> {a, b}"
  shows "xyk_free cfg s a p * (xyk_total_liquidity s p - l) \<le> xyk_free cfg s' a p * xyk_total_liquidity s p \<and>
    xyk_free cfg s b p * (xyk_total_liquidity s p - l) \<le> xyk_free cfg s' b p * xyk_total_liquidity s p \<and>
    xyk_free cfg s' (xyk_share_token s p) who + l = xyk_free cfg s (xyk_share_token s p) who \<and>
    (xyk_exists cfg s' (mk_pair a b) \<longleftrightarrow> l < xyk_total_liquidity s p) \<and>
    xyk_total_liquidity s' p = xyk_total_liquidity s p - l"
  using xyk_remove_liquidity_effect [OF assms(1-3)]
proof cases
  case (1 ya yb)
  then have le: "ya * xyk_total_liquidity s p \<le> xyk_free cfg s a p * l"
      "yb * xyk_total_liquidity s p \<le> xyk_free cfg s b p * l"
    using xyk_envD(4) [OF assms(1)] by (auto simp: xyk_math_spec_def)
  have "xyk_exists cfg s' (mk_pair a b) \<longleftrightarrow> l < xyk_total_liquidity s p"
    "xyk_total_liquidity s' p = xyk_total_liquidity s p - l"
    using 1 assms(3) by (cases "l = xyk_total_liquidity s p";
        simp add: xyk_exists_def contains_key_def xyk_total_liquidity_def value_query_def)+
  with 1 le assms(4-6) share_value_after_removal show ?thesis by simp
qed

theorem xyk_remove_liquidity_no_dilution_witness:
  "\<exists>s'. xyk_remove_liquidity demo_xyk demo_xyk_state (Signed 7) 1 2 1000 = Inr s' \<and>
     xyk_free demo_xyk demo_xyk_state 1 1012 * (6000 - 1000) \<le> xyk_free demo_xyk s' 1 1012 * 6000 \<and>
     xyk_exists demo_xyk s' (mk_pair 1 2) \<and> xyk_total_liquidity s' 1012 = 5000"
proof -
  from demo_remove_ok obtain s' where
    s': "xyk_remove_liquidity demo_xyk demo_xyk_state (Signed 7) 1 2 1000 = Inr s'" ..
  from xyk_remove_liquidity_no_dilution [OF demo_xyk_env s' demo_pair_id] s' show ?thesis
    by (auto simp: demo_records)
qed



text \<open>
  Once a sale has raised the reserve of the asset with the smaller id above the total
  shares, adding liquidity and removing it at once is a profit in both assets: account 9
  gains 54 units of one asset and 68 of the other.
\<close>

lemma xyk_add_then_remove_profit:
  "\<exists>s1 s2 s3. xyk_sell demo_xyk demo_xyk_state (Signed 7) 1 2 600 400 False = Inr s1 \<and>
     xyk_add_liquidity demo_xyk s1 (Signed 9) 1 2 600 1000 = Inr s2 \<and>
     xyk_remove_liquidity demo_xyk s2 (Signed 9) 1 2 600 = Inr s3 \<and>
     xyk_free demo_xyk s1 1 9 = 1000 \<and> xyk_free demo_xyk s3 1 9 = 1054 \<and>
     xyk_free demo_xyk s1 2 9 = 1000 \<and> xyk_free demo_xyk s3 2 9 = 1068"
  by (simp add: xyk_run_simps)

theorem xyk_reachable_invariant_witness:
  "\<exists>s'. xyk_create_pool demo_xyk demo_empty_state (Signed 7) 1 2 1000 2000000000000000000 = Inr s' \<and>
     xyk_inv demo_xyk s' \<and> xyk_exists demo_xyk s' (mk_pair 2 1)"
proof -
  have "\<exists>s'. xyk_create_pool demo_xyk demo_empty_state (Signed 7) 1 2 1000 2000000000000000000 = Inr s'
      \<and> xyk_exists demo_xyk s' (mk_pair 2 1)"
    by (simp add: xyk_run_simps demo_empty_state_def)
  then obtain s' where
    s': "xyk_create_pool demo_xyk demo_empty_state (Signed 7) 1 2 1000 2000000000000000000 = Inr s'"
    and ex: "xyk_exists demo_xyk s' (mk_pair 2 1)" by blast
  have "xyk_reachable demo_xyk demo_empty_state"
    unfolding demo_empty_state_def by (rule xyk_reachable.genesis)
  with s' have "xyk_reachable demo_xyk s'" by (blast intro: xyk_reachable.step xyk_step.create)
  from xyk_reachable_invariant [OF this demo_xyk_env] s' ex show ?thesis by (simp add: demo_xyk_def)
qed

end
