(* ===== verification/LBP.thy ===== *)
theory LBP
  imports Instances
begin

text \<open>
  The liquidity bootstrapping pool, \<open>pallets/lbp/src/lib.rs\<close>. A pool sells one asset for an
  accumulated one between two blocks, with weights that move linearly over the sale; fees are
  sent to the fee collector of the pool and locked there until the pool is removed.

  \<open>lbp_config\<close> is the \<open>Config\<close> trait; the current block is read from the storage \<open>'w\<close> outside
  the pallet. \<open>Pool\<close> is the record \<open>lbp_pool\<close>; \<open>lbp_state\<close> holds the storage maps \<open>PoolData\<close> and
  \<open>FeeCollectorWithAsset\<close> and the events.
\<close>

datatype weight_curve_type = Linear

definition MAX_WEIGHT :: nat where "MAX_WEIGHT = 100000000"
definition MAX_SALE_DURATION :: nat where "MAX_SALE_DURATION = (60 * 60 * 24 div 6) * 14"
definition COLLECTOR_LOCK_ID :: string where "COLLECTOR_LOCK_ID = ''lbpcllct''"

record lbp_pool =
  lp_owner :: account_id
  lp_start :: "block_number option"
  lp_end :: "block_number option"
  lp_assets :: "asset_id \<times> asset_id"
  lp_initial_weight :: nat
  lp_final_weight :: nat
  lp_weight_curve :: weight_curve_type
  lp_fee :: "nat \<times> nat"
  lp_fee_collector :: account_id
  lp_repay_target :: balance

definition lbp_pool_new ::
  "account_id \<Rightarrow> asset_id \<Rightarrow> asset_id \<Rightarrow> nat \<Rightarrow> nat \<Rightarrow> weight_curve_type \<Rightarrow> nat \<times> nat \<Rightarrow> account_id \<Rightarrow> balance \<Rightarrow> lbp_pool" where
  "lbp_pool_new pool_owner asset_a asset_b initial_weight final_weight weight_curve fee fee_collector repay_target =
     \<lparr>lp_owner = pool_owner, lp_start = None, lp_end = None, lp_assets = (asset_a, asset_b),
      lp_initial_weight = initial_weight, lp_final_weight = final_weight,
      lp_weight_curve = weight_curve, lp_fee = fee, lp_fee_collector = fee_collector,
      lp_repay_target = repay_target\<rparr>"

datatype lbp_event =
    PoolCreated account_id lbp_pool
  | PoolUpdated account_id lbp_pool
  | LiquidityAdded account_id asset_id asset_id balance balance
  | LiquidityRemoved account_id asset_id asset_id balance balance
  | SellExecuted account_id asset_id asset_id balance balance asset_id balance
  | BuyExecuted account_id asset_id asset_id balance balance asset_id balance

record 'w lbp_state =
  lbp_ext :: 'w
  lbp_pool_data :: "account_id \<rightharpoonup> lbp_pool"
  fee_collector_with_asset :: "account_id \<times> asset_id \<rightharpoonup> bool"
  lbp_events :: "lbp_event list"

record 'w lbp_config =
  lbp_currency :: "'w currency_ops"
  lbp_locked_balance :: "'w \<Rightarrow> string \<Rightarrow> asset_id \<Rightarrow> account_id \<Rightarrow> balance"
  lbp_create_pool_origin :: "origin \<Rightarrow> unit result"
  lbp_weight_function ::
    "weight_curve_type \<Rightarrow> block_number \<Rightarrow> block_number \<Rightarrow> nat \<Rightarrow> nat \<Rightarrow> block_number \<Rightarrow> nat option"
  lbp_from_assets :: "asset_id \<Rightarrow> asset_id \<Rightarrow> string \<Rightarrow> account_id"
  lbp_min_trading_limit :: balance
  lbp_min_pool_liquidity :: balance
  lbp_max_in_ratio :: nat
  lbp_max_out_ratio :: nat
  lbp_current_block_number :: "'w \<Rightarrow> block_number"
  lbp_math :: math_ops
  lbp_default_sell :: "'w lbp_state default_trade"
  lbp_default_buy :: "'w lbp_state default_trade"

definition lbp_put :: "'w \<Rightarrow> 'w lbp_state \<Rightarrow> 'w lbp_state" where
  "lbp_put w s = s\<lparr>lbp_ext := w\<rparr>"

definition lbp_cur :: "'w lbp_config \<Rightarrow> 'w lbp_state currency_ops" where
  "lbp_cur cfg = lift_currency lbp_ext lbp_put (lbp_currency cfg)"

abbreviation lbp_free :: "'w lbp_config \<Rightarrow> 'w lbp_state \<Rightarrow> asset_id \<Rightarrow> account_id \<Rightarrow> balance" where
  "lbp_free cfg s \<equiv> c_free_balance (lbp_currency cfg) (lbp_ext s)"

abbreviation lbp_now :: "'w lbp_config \<Rightarrow> 'w lbp_state \<Rightarrow> block_number" where
  "lbp_now cfg s \<equiv> lbp_current_block_number cfg (lbp_ext s)"

definition lbp_deposit_event :: "lbp_event \<Rightarrow> 'w lbp_state \<Rightarrow> 'w lbp_state" where
  "lbp_deposit_event ev s = s\<lparr>lbp_events := lbp_events s @ [ev]\<rparr>"

section \<open>Weights, fees and the phase of a sale\<close>

definition lbp_calculate_weight ::
  "math_ops \<Rightarrow> weight_curve_type \<Rightarrow> block_number \<Rightarrow> block_number \<Rightarrow> nat \<Rightarrow> nat \<Rightarrow> block_number \<Rightarrow> nat option" where
  "lbp_calculate_weight M weight_curve start end_block initial_weight final_weight at =
     m_lbp_linear_weights M start end_block initial_weight final_weight at"

definition lbp_unwrap_or_zero :: "block_number option \<Rightarrow> block_number" where
  "lbp_unwrap_or_zero b = (case b of Some n \<Rightarrow> n | None \<Rightarrow> 0)"

definition lbp_repay_fee :: "nat \<times> nat" where
  "lbp_repay_fee = (2, 10)"

definition lbp_pair_account_from_assets :: "'w lbp_config \<Rightarrow> asset_id \<Rightarrow> asset_id \<Rightarrow> account_id" where
  "lbp_pair_account_from_assets cfg a b = lbp_from_assets cfg a b ''lbp''"

definition lbp_calculate_weights ::
  "'w lbp_config \<Rightarrow> lbp_pool \<Rightarrow> block_number \<Rightarrow> (nat \<times> nat) result" where
  "lbp_calculate_weights cfg pool at =
     and_then (ok_or (lbp_weight_function cfg (lp_weight_curve pool) (lbp_unwrap_or_zero (lp_start pool))
                        (lbp_unwrap_or_zero (lp_end pool)) (lp_initial_weight pool)
                        (lp_final_weight pool) at) (LBP WeightCalculationError))
       (\<lambda>weight_a. Inr (weight_a, saturating_sub MAX_WEIGHT weight_a))"

definition lbp_validate_pool_data :: "'w lbp_config \<Rightarrow> 'w lbp_state \<Rightarrow> lbp_pool \<Rightarrow> unit result" where
  "lbp_validate_pool_data cfg s pool =
    (let now = lbp_now cfg s in
     and_then (ensure (case (lp_start pool, lp_end pool) of
          (Some start, Some end_block) \<Rightarrow> now < start \<and> start < end_block
        | (None, None) \<Rightarrow> True
        | _ \<Rightarrow> False) (LBP InvalidBlockRange)) (\<lambda>_.
     and_then (ensure (saturating_sub (lbp_unwrap_or_zero (lp_end pool)) (lbp_unwrap_or_zero (lp_start pool))
                         < MAX_SALE_DURATION) (LBP MaxSaleDurationExceeded)) (\<lambda>_.
     and_then (ensure (lp_initial_weight pool \<noteq> 0 \<and> lp_initial_weight pool < MAX_WEIGHT \<and>
                       lp_final_weight pool \<noteq> 0 \<and> lp_final_weight pool < MAX_WEIGHT)
                 (LBP InvalidWeight)) (\<lambda>_.
     ensure (snd (lp_fee pool) \<noteq> 0) (LBP lbp_error.FeeAmountInvalid)))))"

definition lbp_get_sorted_weight ::
  "'w lbp_config \<Rightarrow> asset_id \<Rightarrow> block_number \<Rightarrow> lbp_pool \<Rightarrow> (nat \<times> nat) result" where
  "lbp_get_sorted_weight cfg a_in now pool =
     (case lbp_calculate_weights cfg pool now of
        Inr weights \<Rightarrow>
          if a_in = fst (lp_assets pool) then Inr (fst weights, snd weights)
          else Inr (snd weights, fst weights)
      | Inl _ \<Rightarrow> Inl (LBP InvalidWeight))"

definition lbp_is_pool_running :: "'w lbp_config \<Rightarrow> 'w lbp_state \<Rightarrow> lbp_pool \<Rightarrow> bool" where
  "lbp_is_pool_running cfg s pool =
     (let now = lbp_now cfg s in
      case (lp_start pool, lp_end pool) of
        (Some start, Some end_block) \<Rightarrow> start \<le> now \<and> now \<le> end_block
      | _ \<Rightarrow> False)"

definition lbp_has_pool_started :: "'w lbp_config \<Rightarrow> 'w lbp_state \<Rightarrow> lbp_pool \<Rightarrow> bool" where
  "lbp_has_pool_started cfg s pool =
     (let now = lbp_now cfg s in
      case lp_start pool of Some start \<Rightarrow> start \<le> now | None \<Rightarrow> False)"

definition lbp_collected_fees :: "'w lbp_config \<Rightarrow> 'w lbp_state \<Rightarrow> lbp_pool \<Rightarrow> balance" where
  "lbp_collected_fees cfg s pool =
     lbp_locked_balance cfg (lbp_ext s) COLLECTOR_LOCK_ID (fst (lp_assets pool)) (lp_fee_collector pool)"

definition lbp_is_repay_fee_applied :: "'w lbp_config \<Rightarrow> 'w lbp_state \<Rightarrow> lbp_pool \<Rightarrow> bool" where
  "lbp_is_repay_fee_applied cfg s pool = (lbp_collected_fees cfg s pool < lp_repay_target pool)"

definition lbp_calculate_fees ::
  "'w lbp_config \<Rightarrow> 'w lbp_state \<Rightarrow> lbp_pool \<Rightarrow> balance \<Rightarrow> balance result" where
  "lbp_calculate_fees cfg s pool amount =
     (let fee = (if lbp_is_repay_fee_applied cfg s pool then lbp_repay_fee else lp_fee pool)
      in ok_or (m_pool_trade_fee (lbp_math cfg) amount (fst fee, snd fee)) (LBP lbp_error.FeeAmountInvalid))"

section \<open>Pool identity\<close>

definition lbp_exists :: "'w lbp_config \<Rightarrow> 'w lbp_state \<Rightarrow> asset_pair \<Rightarrow> bool" where
  "lbp_exists cfg s assets =
     (let pair_account = lbp_pair_account_from_assets cfg (asset_in assets) (asset_out assets)
      in contains_key (lbp_pool_data s) pair_account)"

definition lbp_get_pair_id :: "'w lbp_config \<Rightarrow> asset_pair \<Rightarrow> account_id" where
  "lbp_get_pair_id cfg assets = lbp_pair_account_from_assets cfg (asset_in assets) (asset_out assets)"

definition lbp_get_share_token :: "'w lbp_state \<Rightarrow> asset_pair \<Rightarrow> asset_id" where
  "lbp_get_share_token s assets = u32_max"

definition lbp_get_pool_assets :: "'w lbp_state \<Rightarrow> account_id \<Rightarrow> asset_id list option" where
  "lbp_get_pool_assets s p =
     (case lbp_pool_data s p of
        Some pool \<Rightarrow> Some [fst (lp_assets pool), snd (lp_assets pool)]
      | None \<Rightarrow> None)"

definition lbp_get_fee :: "'w lbp_state \<Rightarrow> account_id \<Rightarrow> nat \<times> nat" where
  "lbp_get_fee s p = (case lbp_pool_data s p of Some pool \<Rightarrow> lp_fee pool | None \<Rightarrow> (0, 0))"

definition lbp_get_spot_price_unchecked ::
  "'w lbp_config \<Rightarrow> 'w lbp_state \<Rightarrow> asset_id \<Rightarrow> asset_id \<Rightarrow> balance \<Rightarrow> balance" where
  "lbp_get_spot_price_unchecked cfg s asset_a asset_b amount =
    (let pool_id = lbp_get_pair_id cfg (mk_pair asset_a asset_b);
         asset_a_reserve = lbp_free cfg s asset_a pool_id;
         asset_b_reserve = lbp_free cfg s asset_b pool_id in
     case lbp_pool_data s pool_id of
       None \<Rightarrow> 0
     | Some pool \<Rightarrow>
         (case lbp_get_sorted_weight cfg asset_a (lbp_now cfg s) pool of
            Inl _ \<Rightarrow> 0
          | Inr (weight_in, weight_out) \<Rightarrow>
              (case m_lbp_spot_price (lbp_math cfg) asset_a_reserve asset_b_reserve weight_in weight_out amount of
                 Some v \<Rightarrow> v | None \<Rightarrow> 0)))"

section \<open>Life cycle\<close>

definition lbp_create_pool ::
  "'w lbp_config \<Rightarrow> 'w lbp_state \<Rightarrow> origin \<Rightarrow> account_id \<Rightarrow> asset_id \<Rightarrow> balance \<Rightarrow> asset_id \<Rightarrow> balance
   \<Rightarrow> nat \<Rightarrow> nat \<Rightarrow> weight_curve_type \<Rightarrow> nat \<times> nat \<Rightarrow> account_id \<Rightarrow> balance \<Rightarrow> 'w lbp_state result" where
  "lbp_create_pool cfg s orig pool_owner asset_a asset_a_amount asset_b asset_b_amount
     initial_weight final_weight weight_curve fee fee_collector repay_target =
    and_then (lbp_create_pool_origin cfg orig) (\<lambda>_.
    and_then (ensure (asset_a_amount \<ge> lbp_min_pool_liquidity cfg \<and> asset_b_amount \<ge> lbp_min_pool_liquidity cfg)
                (LBP lbp_error.InsufficientLiquidity)) (\<lambda>_.
    and_then (ensure (asset_a \<noteq> asset_b) (LBP lbp_error.CannotCreatePoolWithSameAssets)) (\<lambda>_.
    let asset_pair = mk_pair asset_a asset_b in
    and_then (ensure (\<not> lbp_exists cfg s asset_pair) (LBP PoolAlreadyExists)) (\<lambda>_.
    and_then (ensure (\<not> contains_key (fee_collector_with_asset s) (fee_collector, asset_a))
                (LBP FeeCollectorWithAssetAlreadyUsed)) (\<lambda>_.
    and_then (ensure (lbp_free cfg s asset_a pool_owner \<ge> asset_a_amount)
                (LBP lbp_error.InsufficientAssetBalance)) (\<lambda>_.
    and_then (ensure (lbp_free cfg s asset_b pool_owner \<ge> asset_b_amount)
                (LBP lbp_error.InsufficientAssetBalance)) (\<lambda>_.
    let pool_data = lbp_pool_new pool_owner asset_a asset_b initial_weight final_weight weight_curve
          fee fee_collector repay_target in
    and_then (lbp_validate_pool_data cfg s pool_data) (\<lambda>_.
    let pool_id = lbp_get_pair_id cfg asset_pair;
        s = s\<lparr>lbp_pool_data := (lbp_pool_data s)(pool_id \<mapsto> pool_data),
              fee_collector_with_asset := (fee_collector_with_asset s)((fee_collector, asset_a) \<mapsto> True)\<rparr>;
        s = lbp_deposit_event (PoolCreated pool_id pool_data) s in
    and_then (c_transfer (lbp_cur cfg) s asset_a pool_owner pool_id asset_a_amount) (\<lambda>s.
    and_then (c_transfer (lbp_cur cfg) s asset_b pool_owner pool_id asset_b_amount) (\<lambda>s.
    Inr (lbp_deposit_event (LiquidityAdded pool_id asset_a asset_b asset_a_amount asset_b_amount) s)))))))))))"

text \<open>The new fee collector is registered and the old one removed, if the new one is unused.\<close>

definition lbp_replace_fee_collector ::
  "'w lbp_state \<Rightarrow> lbp_pool \<Rightarrow> account_id option \<Rightarrow> ('w lbp_state \<times> lbp_pool) result" where
  "lbp_replace_fee_collector s pool fee_collector =
     (case fee_collector of
        None \<Rightarrow> Inr (s, pool)
      | Some updated_fee_collector \<Rightarrow>
          and_then (ensure (\<not> value_query False (fee_collector_with_asset s)
                                (updated_fee_collector, fst (lp_assets pool)))
                      (LBP FeeCollectorWithAssetAlreadyUsed)) (\<lambda>_.
          let m = (fee_collector_with_asset s)((lp_fee_collector pool, fst (lp_assets pool)) := None);
              m = m((updated_fee_collector, fst (lp_assets pool)) \<mapsto> True)
          in Inr (s\<lparr>fee_collector_with_asset := m\<rparr>, pool\<lparr>lp_fee_collector := updated_fee_collector\<rparr>)))"

text \<open>The optional fields of an update replace those of the pool.\<close>

definition lbp_apply_update ::
  "lbp_pool \<Rightarrow> account_id option \<Rightarrow> block_number option \<Rightarrow> block_number option \<Rightarrow> nat option \<Rightarrow> nat option
   \<Rightarrow> (nat \<times> nat) option \<Rightarrow> lbp_pool" where
  "lbp_apply_update pool pool_owner start end_block initial_weight final_weight fee =
    pool\<lparr>lp_owner := (case pool_owner of Some v \<Rightarrow> v | None \<Rightarrow> lp_owner pool),
      lp_start := (case start of Some v \<Rightarrow> Some v | None \<Rightarrow> lp_start pool),
      lp_end := (case end_block of Some v \<Rightarrow> Some v | None \<Rightarrow> lp_end pool),
      lp_initial_weight := (case initial_weight of Some v \<Rightarrow> v | None \<Rightarrow> lp_initial_weight pool),
      lp_final_weight := (case final_weight of Some v \<Rightarrow> v | None \<Rightarrow> lp_final_weight pool),
      lp_fee := (case fee of Some v \<Rightarrow> v | None \<Rightarrow> lp_fee pool)\<rparr>"

definition lbp_update_pool_data ::
  "'w lbp_config \<Rightarrow> 'w lbp_state \<Rightarrow> origin \<Rightarrow> account_id \<Rightarrow> account_id option \<Rightarrow> block_number option
   \<Rightarrow> block_number option \<Rightarrow> nat option \<Rightarrow> nat option \<Rightarrow> (nat \<times> nat) option \<Rightarrow> account_id option
   \<Rightarrow> balance option \<Rightarrow> 'w lbp_state result" where
  "lbp_update_pool_data cfg s orig pool_id pool_owner start end_block initial_weight final_weight fee
     fee_collector repay_target =
    and_then (ensure_signed orig) (\<lambda>who.
    and_then (ok_or (lbp_pool_data s pool_id) (LBP PoolNotFound)) (\<lambda>pool.
    and_then (ensure (start \<noteq> None \<or> end_block \<noteq> None \<or> initial_weight \<noteq> None \<or> final_weight \<noteq> None
                      \<or> fee \<noteq> None \<or> fee_collector \<noteq> None \<or> repay_target \<noteq> None)
                (LBP NothingToUpdate)) (\<lambda>_.
    and_then (ensure (who = lp_owner pool) (LBP NotOwner)) (\<lambda>_.
    and_then (ensure (\<not> lbp_has_pool_started cfg s pool) (LBP SaleStarted)) (\<lambda>_.
    let pool = lbp_apply_update pool pool_owner start end_block initial_weight final_weight fee in
    and_then (lbp_replace_fee_collector s pool fee_collector) (\<lambda>(s, pool).
    let pool = pool\<lparr>lp_repay_target := (case repay_target of Some v \<Rightarrow> v | None \<Rightarrow> lp_repay_target pool)\<rparr> in
    and_then (lbp_validate_pool_data cfg s pool) (\<lambda>_.
    Inr ((lbp_deposit_event (PoolUpdated pool_id pool) s)
      \<lparr>lbp_pool_data := (lbp_pool_data s)(pool_id \<mapsto> pool)\<rparr>))))))))"

definition lbp_add_liquidity ::
  "'w lbp_config \<Rightarrow> 'w lbp_state \<Rightarrow> origin \<Rightarrow> asset_id \<times> balance \<Rightarrow> asset_id \<times> balance \<Rightarrow> 'w lbp_state result" where
  "lbp_add_liquidity cfg s orig in_a in_b =
    and_then (ensure_signed orig) (\<lambda>who.
    let asset_a = fst in_a; asset_b = fst in_b; amount_a = snd in_a; amount_b = snd in_b;
        pool_id = lbp_pair_account_from_assets cfg asset_a asset_b in
    and_then (ok_or (lbp_pool_data s pool_id) (LBP PoolNotFound)) (\<lambda>pool_data.
    and_then (ensure (who = lp_owner pool_data) (LBP NotOwner)) (\<lambda>_.
    and_then (ensure (amount_a \<noteq> 0 \<or> amount_b \<noteq> 0) (LBP CannotAddZeroLiquidity)) (\<lambda>_.
    and_then (if amount_a \<noteq> 0 then ensure (lbp_free cfg s asset_a who \<ge> amount_a)
                (LBP lbp_error.InsufficientAssetBalance) else Inr ()) (\<lambda>_.
    and_then (if amount_b \<noteq> 0 then ensure (lbp_free cfg s asset_b who \<ge> amount_b)
                (LBP lbp_error.InsufficientAssetBalance) else Inr ()) (\<lambda>_.
    and_then (c_transfer (lbp_cur cfg) s asset_a who pool_id amount_a) (\<lambda>s.
    and_then (c_transfer (lbp_cur cfg) s asset_b who pool_id amount_b) (\<lambda>s.
    Inr (lbp_deposit_event (LiquidityAdded pool_id asset_a asset_b amount_a amount_b) s)))))))))"

definition lbp_remove_liquidity ::
  "'w lbp_config \<Rightarrow> 'w lbp_state \<Rightarrow> origin \<Rightarrow> account_id \<Rightarrow> 'w lbp_state result" where
  "lbp_remove_liquidity cfg s orig pool_id =
    and_then (ensure_signed orig) (\<lambda>who.
    and_then (ok_or (lbp_pool_data s pool_id) (LBP PoolNotFound)) (\<lambda>pool_data.
    and_then (ensure (who = lp_owner pool_data) (LBP NotOwner)) (\<lambda>_.
    and_then (ensure (\<not> lbp_is_pool_running cfg s pool_data) (LBP SaleNotEnded)) (\<lambda>_.
    let asset_a = fst (lp_assets pool_data); asset_b = snd (lp_assets pool_data);
        amount_a = lbp_free cfg s asset_a pool_id;
        amount_b = lbp_free cfg s asset_b pool_id in
    and_then (c_transfer (lbp_cur cfg) s asset_a pool_id who amount_a) (\<lambda>s.
    and_then (c_transfer (lbp_cur cfg) s asset_b pool_id who amount_b) (\<lambda>s.
    and_then (if lbp_collected_fees cfg s pool_data > 0
              then c_remove_lock (lbp_cur cfg) s COLLECTOR_LOCK_ID asset_a (lp_fee_collector pool_data)
              else Inr s) (\<lambda>s.
    let s = s\<lparr>fee_collector_with_asset := (fee_collector_with_asset s)
                ((lp_fee_collector pool_data, fst (lp_assets pool_data)) := None),
              lbp_pool_data := (lbp_pool_data s)(pool_id := None)\<rparr> in
    Inr (lbp_deposit_event (LiquidityRemoved pool_id asset_a asset_b amount_a amount_b) s))))))))"

section \<open>Trades\<close>

definition lbp_execute_trade :: "'w lbp_config \<Rightarrow> 'w lbp_state \<Rightarrow> amm_transfer \<Rightarrow> 'w lbp_state result" where
  "lbp_execute_trade cfg s t =
    (let pool_account = lbp_get_pair_id cfg (tr_assets t) in
    and_then (ok_or (lbp_pool_data s pool_account) (LBP PoolNotFound)) (\<lambda>pool.
    and_then (c_transfer (lbp_cur cfg) s (asset_in (tr_assets t)) (tr_origin t) pool_account (tr_amount t)) (\<lambda>s.
    and_then (c_transfer (lbp_cur cfg) s (asset_out (tr_assets t)) pool_account (tr_origin t) (tr_amount_out t)) (\<lambda>s.
    let fee_asset = fst (tr_fee t); fee_amount = snd (tr_fee t);
        fee_payer = (if asset_in (tr_assets t) = fee_asset then tr_origin t else pool_account) in
    and_then (c_transfer (lbp_cur cfg) s fee_asset fee_payer (lp_fee_collector pool) fee_amount) (\<lambda>s.
    let collected_fee_total = wrapping_add u128_max (lbp_collected_fees cfg s pool) fee_amount in
    c_set_lock (lbp_cur cfg) s COLLECTOR_LOCK_ID fee_asset (lp_fee_collector pool) collected_fee_total)))))"

definition lbp_validate_sell ::
  "'w lbp_config \<Rightarrow> 'w lbp_state \<Rightarrow> account_id \<Rightarrow> asset_pair \<Rightarrow> balance \<Rightarrow> balance \<Rightarrow> bool \<Rightarrow> amm_transfer result" where
  "lbp_validate_sell cfg s who assets amount min_bought discount =
    and_then (ensure (amount \<noteq> 0) (LBP ZeroAmount)) (\<lambda>_.
    and_then (ensure (lbp_free cfg s (asset_in assets) who \<ge> amount) (LBP lbp_error.InsufficientAssetBalance)) (\<lambda>_.
    let pool_id = lbp_get_pair_id cfg assets in
    and_then (ok_or (lbp_pool_data s pool_id) (LBP PoolNotFound)) (\<lambda>pool_data.
    and_then (ensure (lbp_is_pool_running cfg s pool_data) (LBP SaleIsNotRunning)) (\<lambda>_.
    let now = lbp_now cfg s in
    and_then (lbp_get_sorted_weight cfg (asset_in assets) now pool_data) (\<lambda>(weight_in, weight_out).
    let asset_in_reserve = lbp_free cfg s (asset_in assets) pool_id;
        asset_out_reserve = lbp_free cfg s (asset_out assets) pool_id in
    and_then (ok_or (checked_div asset_in_reserve MAX_IN_RATIO) (LBP lbp_error.Overflow)) (\<lambda>max_in.
    and_then (ensure (amount \<le> max_in) (LBP lbp_error.MaxInRatioExceeded)) (\<lambda>_.
    let fee_asset = fst (lp_assets pool_data) in
    if fee_asset = asset_in assets then
      and_then (lbp_calculate_fees cfg s pool_data amount) (\<lambda>fee.
      and_then (ok_or (m_lbp_out_given_in (lbp_math cfg) asset_in_reserve asset_out_reserve weight_in weight_out amount)
                  (LBP lbp_error.Overflow)) (\<lambda>amount_out.
      and_then (ok_or (checked_div asset_out_reserve MAX_OUT_RATIO) (LBP lbp_error.Overflow)) (\<lambda>max_out.
      and_then (ensure (amount_out \<le> max_out) (LBP lbp_error.MaxOutRatioExceeded)) (\<lambda>_.
      and_then (ensure (min_bought \<le> amount_out) (LBP TradingLimitReached)) (\<lambda>_.
      and_then (ok_or (checked_sub amount fee) (LBP lbp_error.Overflow)) (\<lambda>amount_without_fee.
      Inr \<lparr>tr_origin = who, tr_assets = assets, tr_amount = amount_without_fee, tr_amount_out = amount_out,
           tr_discount = False, tr_discount_amount = 0, tr_fee = (fee_asset, fee)\<rparr>))))))
    else
      and_then (ok_or (m_lbp_out_given_in (lbp_math cfg) asset_in_reserve asset_out_reserve weight_in weight_out amount)
                  (LBP lbp_error.Overflow)) (\<lambda>calculated_out.
      and_then (lbp_calculate_fees cfg s pool_data calculated_out) (\<lambda>fee.
      and_then (ok_or (checked_sub calculated_out fee) (LBP lbp_error.Overflow)) (\<lambda>amount_out_without_fee.
      and_then (ok_or (checked_div asset_out_reserve MAX_OUT_RATIO) (LBP lbp_error.Overflow)) (\<lambda>max_out.
      and_then (ensure (calculated_out \<le> max_out) (LBP lbp_error.MaxOutRatioExceeded)) (\<lambda>_.
      and_then (ensure (min_bought \<le> amount_out_without_fee) (LBP TradingLimitReached)) (\<lambda>_.
      Inr \<lparr>tr_origin = who, tr_assets = assets, tr_amount = amount, tr_amount_out = amount_out_without_fee,
           tr_discount = False, tr_discount_amount = 0, tr_fee = (fee_asset, fee)\<rparr>)))))))))))))"

definition lbp_execute_sell :: "'w lbp_config \<Rightarrow> 'w lbp_state \<Rightarrow> amm_transfer \<Rightarrow> 'w lbp_state result" where
  "lbp_execute_sell cfg s t =
    and_then (lbp_execute_trade cfg s t) (\<lambda>s.
    Inr (lbp_deposit_event (SellExecuted (tr_origin t) (asset_in (tr_assets t)) (asset_out (tr_assets t))
      (tr_amount t) (tr_amount_out t) (fst (tr_fee t)) (snd (tr_fee t))) s))"

definition lbp_validate_buy ::
  "'w lbp_config \<Rightarrow> 'w lbp_state \<Rightarrow> account_id \<Rightarrow> asset_pair \<Rightarrow> balance \<Rightarrow> balance \<Rightarrow> bool \<Rightarrow> amm_transfer result" where
  "lbp_validate_buy cfg s who assets amount max_sold discount =
    and_then (ensure (amount \<noteq> 0) (LBP ZeroAmount)) (\<lambda>_.
    and_then (ensure (lbp_free cfg s (asset_in assets) who \<ge> max_sold) (LBP lbp_error.InsufficientAssetBalance)) (\<lambda>_.
    let pool_id = lbp_get_pair_id cfg assets in
    and_then (ok_or (lbp_pool_data s pool_id) (LBP PoolNotFound)) (\<lambda>pool_data.
    and_then (ensure (lbp_is_pool_running cfg s pool_data) (LBP SaleIsNotRunning)) (\<lambda>_.
    let now = lbp_now cfg s in
    and_then (lbp_get_sorted_weight cfg (asset_in assets) now pool_data) (\<lambda>(weight_in, weight_out).
    let asset_in_reserve = lbp_free cfg s (asset_in assets) pool_id;
        asset_out_reserve = lbp_free cfg s (asset_out assets) pool_id in
    and_then (ok_or (checked_div asset_out_reserve MAX_OUT_RATIO) (LBP lbp_error.Overflow)) (\<lambda>max_out.
    and_then (ensure (amount \<le> max_out) (LBP lbp_error.MaxOutRatioExceeded)) (\<lambda>_.
    let fee_asset = fst (lp_assets pool_data) in
    if fee_asset = asset_out assets then
      and_then (lbp_calculate_fees cfg s pool_data amount) (\<lambda>fee.
      and_then (ok_or (checked_add u128_max amount fee) (LBP lbp_error.Overflow)) (\<lambda>amount_out_plus_fee.
      and_then (ok_or (m_lbp_in_given_out (lbp_math cfg) asset_in_reserve asset_out_reserve weight_in weight_out
                         amount_out_plus_fee) (LBP lbp_error.Overflow)) (\<lambda>calculated_in.
      and_then (ok_or (checked_div asset_in_reserve MAX_IN_RATIO) (LBP lbp_error.Overflow)) (\<lambda>max_in.
      and_then (ensure (calculated_in \<le> max_in) (LBP lbp_error.MaxInRatioExceeded)) (\<lambda>_.
      and_then (ensure (max_sold \<ge> calculated_in) (LBP TradingLimitReached)) (\<lambda>_.
      Inr \<lparr>tr_origin = who, tr_assets = assets, tr_amount = calculated_in, tr_amount_out = amount,
           tr_discount = False, tr_discount_amount = 0, tr_fee = (fee_asset, fee)\<rparr>))))))
    else
      and_then (ok_or (m_lbp_in_given_out (lbp_math cfg) asset_in_reserve asset_out_reserve weight_in weight_out amount)
                  (LBP lbp_error.Overflow)) (\<lambda>calculated_in.
      and_then (lbp_calculate_fees cfg s pool_data calculated_in) (\<lambda>fee.
      and_then (ok_or (checked_sub calculated_in fee) (LBP lbp_error.Overflow)) (\<lambda>calculated_in_without_fee.
      and_then (ok_or (checked_div asset_in_reserve MAX_IN_RATIO) (LBP lbp_error.Overflow)) (\<lambda>max_in.
      and_then (ensure (calculated_in \<le> max_in) (LBP lbp_error.MaxInRatioExceeded)) (\<lambda>_.
      and_then (ensure (max_sold \<ge> calculated_in) (LBP TradingLimitReached)) (\<lambda>_.
      Inr \<lparr>tr_origin = who, tr_assets = assets, tr_amount = calculated_in_without_fee, tr_amount_out = amount,
           tr_discount = False, tr_discount_amount = 0, tr_fee = (fee_asset, fee)\<rparr>)))))))))))))"

definition lbp_execute_buy :: "'w lbp_config \<Rightarrow> 'w lbp_state \<Rightarrow> amm_transfer \<Rightarrow> 'w lbp_state result" where
  "lbp_execute_buy cfg s t =
    and_then (lbp_execute_trade cfg s t) (\<lambda>s.
    Inr (lbp_deposit_event (BuyExecuted (tr_origin t) (asset_out (tr_assets t)) (asset_in (tr_assets t))
      (tr_amount t) (tr_amount_out t) (fst (tr_fee t)) (snd (tr_fee t))) s))"

definition lbp_amm :: "'w lbp_config \<Rightarrow> 'w lbp_state amm_ops" where
  "lbp_amm cfg = \<lparr>
     amm_exists = lbp_exists cfg,
     amm_get_pair_id = lbp_get_pair_id cfg,
     amm_get_share_token = lbp_get_share_token,
     amm_get_pool_assets = lbp_get_pool_assets,
     amm_get_spot_price_unchecked = lbp_get_spot_price_unchecked cfg,
     amm_validate_sell = lbp_validate_sell cfg,
     amm_execute_sell = lbp_execute_sell cfg,
     amm_validate_buy = lbp_validate_buy cfg,
     amm_execute_buy = lbp_execute_buy cfg,
     amm_get_min_trading_limit = lbp_min_trading_limit cfg,
     amm_get_min_pool_liquidity = lbp_min_pool_liquidity cfg,
     amm_get_max_in_ratio = lbp_max_in_ratio cfg,
     amm_get_max_out_ratio = lbp_max_out_ratio cfg,
     amm_get_fee = lbp_get_fee\<rparr>"

definition lbp_sell ::
  "'w lbp_config \<Rightarrow> 'w lbp_state \<Rightarrow> origin \<Rightarrow> asset_id \<Rightarrow> asset_id \<Rightarrow> balance \<Rightarrow> balance \<Rightarrow> 'w lbp_state result" where
  "lbp_sell cfg s orig a_in a_out amount max_limit =
    and_then (ensure_signed orig) (\<lambda>who.
      lbp_default_sell cfg (lbp_amm cfg) s who (mk_pair a_in a_out) amount max_limit False)"

definition lbp_buy ::
  "'w lbp_config \<Rightarrow> 'w lbp_state \<Rightarrow> origin \<Rightarrow> asset_id \<Rightarrow> asset_id \<Rightarrow> balance \<Rightarrow> balance \<Rightarrow> 'w lbp_state result" where
  "lbp_buy cfg s orig a_out a_in amount max_limit =
    and_then (ensure_signed orig) (\<lambda>who.
      lbp_default_buy cfg (lbp_amm cfg) s who (mk_pair a_in a_out) amount max_limit False)"

text \<open>\<open>DisallowWhenLBPPoolRunning\<close>: the gate the constant-product pool asks before creation.\<close>

definition disallow_when_lbp_pool_running :: "'w lbp_config \<Rightarrow> 'w lbp_state \<Rightarrow> asset_id \<Rightarrow> asset_id \<Rightarrow> bool" where
  "disallow_when_lbp_pool_running cfg s asset_a asset_b =
    (let pool_id = lbp_pair_account_from_assets cfg asset_a asset_b; now = lbp_now cfg s in
     case lbp_pool_data s pool_id of
       Some data \<Rightarrow> (case lp_end data of Some end_block \<Rightarrow> end_block < now | None \<Rightarrow> False)
     | None \<Rightarrow> True)"

section \<open>The token operations seen from the pallet\<close>

lemma lbp_cur_sel [simp]:
  "c_free_balance (lbp_cur cfg) s = lbp_free cfg s"
  by (simp add: lbp_cur_def)

lemma lbp_cur_transfer_eq_Inr [simp, result_simps]:
  "c_transfer (lbp_cur cfg) s a f t x = Inr s' \<longleftrightarrow>
     (\<exists>w. c_transfer (lbp_currency cfg) (lbp_ext s) a f t x = Inr w \<and> s' = s\<lparr>lbp_ext := w\<rparr>)"
  by (auto simp: lbp_cur_def lift_currency_def lbp_put_def)

lemma lbp_cur_set_lock_eq_Inr [simp, result_simps]:
  "c_set_lock (lbp_cur cfg) s i a v x = Inr s' \<longleftrightarrow>
     (\<exists>w. c_set_lock (lbp_currency cfg) (lbp_ext s) i a v x = Inr w \<and> s' = s\<lparr>lbp_ext := w\<rparr>)"
  by (auto simp: lbp_cur_def lift_currency_def lbp_put_def)

lemma lbp_cur_remove_lock_eq_Inr [simp, result_simps]:
  "c_remove_lock (lbp_cur cfg) s i a v = Inr s' \<longleftrightarrow>
     (\<exists>w. c_remove_lock (lbp_currency cfg) (lbp_ext s) i a v = Inr w \<and> s' = s\<lparr>lbp_ext := w\<rparr>)"
  by (auto simp: lbp_cur_def lift_currency_def lbp_put_def)

lemma lbp_deposit_event_sel [simp]:
  "lbp_ext (lbp_deposit_event ev s) = lbp_ext s"
  "lbp_pool_data (lbp_deposit_event ev s) = lbp_pool_data s"
  "fee_collector_with_asset (lbp_deposit_event ev s) = fee_collector_with_asset s"
  "lbp_events (lbp_deposit_event ev s) = lbp_events s @ [ev]"
  by (simp_all add: lbp_deposit_event_def)

section \<open>Validated trades\<close>

text \<open>
  What the trader gives and gets. For a sell the amount and the fee in the sold asset make up
  the amount asked for; for a buy the cost is the amount and the fee in the asset paid.
\<close>

definition lbp_bought :: "amm_transfer \<Rightarrow> balance" where
  "lbp_bought t = tr_amount_out t"

definition lbp_cost :: "amm_transfer \<Rightarrow> balance" where
  "lbp_cost t = (if fst (tr_fee t) = asset_out (tr_assets t) then tr_amount t
     else tr_amount t + snd (tr_fee t))"

lemma lbp_validate_sell_Inr:
  assumes "lbp_validate_sell cfg s who assets amount limit discount = Inr t"
  obtains pool fee where
    "lbp_pool_data s (lbp_get_pair_id cfg assets) = Some pool" "lbp_is_pool_running cfg s pool"
    "amount \<noteq> 0" "amount \<le> lbp_free cfg s (asset_in assets) who"
    "amount \<le> lbp_free cfg s (asset_in assets) (lbp_get_pair_id cfg assets) div MAX_IN_RATIO"
    "tr_origin t = who" "tr_assets t = assets" "\<not> tr_discount t" "limit \<le> tr_amount_out t"
    "tr_fee t = (fst (lp_assets pool), fee)"
    "tr_amount t + (if fst (lp_assets pool) = asset_in assets then fee else 0) = amount"
    "tr_amount_out t + (if fst (lp_assets pool) = asset_in assets then 0 else fee)
       \<le> lbp_free cfg s (asset_out assets) (lbp_get_pair_id cfg assets) div MAX_OUT_RATIO"
  using assms by (auto simp: lbp_validate_sell_def Let_def split: if_splits prod.splits)

lemma lbp_validate_buy_Inr:
  assumes "lbp_validate_buy cfg s who assets amount limit discount = Inr t"
  obtains pool fee where
    "lbp_pool_data s (lbp_get_pair_id cfg assets) = Some pool" "lbp_is_pool_running cfg s pool"
    "amount \<noteq> 0" "limit \<le> lbp_free cfg s (asset_in assets) who"
    "amount \<le> lbp_free cfg s (asset_out assets) (lbp_get_pair_id cfg assets) div MAX_OUT_RATIO"
    "tr_origin t = who" "tr_assets t = assets" "\<not> tr_discount t" "tr_amount_out t = amount"
    "tr_fee t = (fst (lp_assets pool), fee)" "lbp_cost t \<le> limit"
    "lbp_cost t \<le> lbp_free cfg s (asset_in assets) (lbp_get_pair_id cfg assets) div MAX_IN_RATIO"
  using assms by (auto simp: lbp_validate_buy_def lbp_cost_def Let_def split: if_splits prod.splits)

lemma lbp_amm_sel [simp]:
  "amm_exists (lbp_amm cfg) = lbp_exists cfg"
  "amm_get_pair_id (lbp_amm cfg) = lbp_get_pair_id cfg"
  "amm_validate_sell (lbp_amm cfg) = lbp_validate_sell cfg"
  "amm_execute_sell (lbp_amm cfg) = lbp_execute_sell cfg"
  "amm_validate_buy (lbp_amm cfg) = lbp_validate_buy cfg"
  "amm_execute_buy (lbp_amm cfg) = lbp_execute_buy cfg"
  by (simp_all add: lbp_amm_def)

lemma lbp_exists_iff: "lbp_exists cfg s assets \<longleftrightarrow> lbp_pool_data s (lbp_get_pair_id cfg assets) \<noteq> None"
  by (simp add: lbp_exists_def lbp_get_pair_id_def contains_key_def)

interpretation lbp: amm "lbp_amm cfg" "lbp_free cfg" lbp_bought lbp_cost for cfg
  by unfold_locales
    (auto simp: lbp_bought_def lbp_exists_iff elim!: lbp_validate_sell_Inr lbp_validate_buy_Inr)

end
