(* ===== verification/LBP_Props.thy ===== *)
theory LBP_Props
  imports LBP
begin

text \<open>
  The properties of the liquidity bootstrapping pool: the invariant of its two storage maps
  (valid parameters, one pool per fee collector and accumulated asset), what a trade does to
  the balances and to the lock of the fee collector, the protection of a running sale, and the
  release of everything when the pool is removed.
\<close>

section \<open>Environment and effects\<close>

definition lbp_env :: "'w lbp_config \<Rightarrow> bool" where
  "lbp_env cfg \<longleftrightarrow> lockable_currency (lbp_currency cfg) \<and>
     lbp_locked_balance cfg = get_by_lock (lbp_currency cfg) \<and>
     default_sell_spec (lbp_default_sell cfg) \<and> default_buy_spec (lbp_default_buy cfg)"

lemma lbp_envD:
  assumes "lbp_env cfg"
  shows "lockable_currency (lbp_currency cfg)" "multi_currency (lbp_currency cfg)"
    and "lbp_locked_balance cfg = get_by_lock (lbp_currency cfg)"
    and "default_sell_spec (lbp_default_sell cfg)" "default_buy_spec (lbp_default_buy cfg)"
  using assms by (simp_all add: lbp_env_def lockable_currency_def)

lemma set_lock_get_total:
  assumes "lockable_currency C" "c_set_lock C s i a w (l + x) = Inr s'" "get_by_lock C s i a w = l"
  shows "get_by_lock C s' i a w = l + x"
proof (cases "l + x = 0")
  case True
  with assms(2,3) lockable_currency.set_lock_zero [OF assms(1)] show ?thesis by simp
next
  case False
  with assms(2) lockable_currency.set_lock_get [OF assms(1)] show ?thesis by simp
qed

lemma lbp_execute_trade_effect:
  assumes env: "lbp_env cfg"
    and run: "lbp_execute_trade cfg s t = Inr s'"
    and pool: "lbp_pool_data s p = Some pool"
    and p: "p = lbp_get_pair_id cfg (tr_assets t)"
    and fee: "tr_fee t = (fst (lp_assets pool), fee)"
    and payer: "payer = (if asset_in (tr_assets t) = fst (lp_assets pool) then tr_origin t else p)"
  shows "lbp_free cfg s' = sheet_move (fst (lp_assets pool)) payer (lp_fee_collector pool) fee
      (sheet_move (asset_out (tr_assets t)) p (tr_origin t) (tr_amount_out t)
        (sheet_move (asset_in (tr_assets t)) (tr_origin t) p (tr_amount t) (lbp_free cfg s)))"
    and "lbp_collected_fees cfg s pool + fee \<le> u128_max \<Longrightarrow>
      lbp_collected_fees cfg s' pool = lbp_collected_fees cfg s pool + fee"
    and "payer \<noteq> lp_fee_collector pool \<Longrightarrow> fee \<le> sheet_move (asset_out (tr_assets t)) p (tr_origin t) (tr_amount_out t)
        (sheet_move (asset_in (tr_assets t)) (tr_origin t) p (tr_amount t) (lbp_free cfg s)) (fst (lp_assets pool)) payer"
    and "lbp_pool_data s' = lbp_pool_data s"
    and "fee_collector_with_asset s' = fee_collector_with_asset s"
proof -
  note m = lbp_envD(2) [OF env] and l = lbp_envD(1) [OF env] and g = lbp_envD(3) [OF env]
  note free = multi_currency.transfer_free [OF m]
  from run pool fee obtain w1 w2 w3 w4 where
    t1: "c_transfer (lbp_currency cfg) (lbp_ext s) (asset_in (tr_assets t)) (tr_origin t) p (tr_amount t) = Inr w1"
    and t2: "c_transfer (lbp_currency cfg) w1 (asset_out (tr_assets t)) p (tr_origin t) (tr_amount_out t) = Inr w2"
    and t3: "c_transfer (lbp_currency cfg) w2 (fst (lp_assets pool)) payer (lp_fee_collector pool) fee = Inr w3"
    and t4: "c_set_lock (lbp_currency cfg) w3 COLLECTOR_LOCK_ID (fst (lp_assets pool)) (lp_fee_collector pool)
       (wrapping_add u128_max (lbp_collected_fees cfg (s\<lparr>lbp_ext := w3\<rparr>) pool) fee) = Inr w4"
    and s': "s' = s\<lparr>lbp_ext := w4\<rparr>"
    by (auto simp: lbp_execute_trade_def Let_def payer simp flip: p)
  have locks: "get_by_lock (lbp_currency cfg) w3 = get_by_lock (lbp_currency cfg) (lbp_ext s)"
    using t1 t2 t3 lockable_currency.transfer_locks [OF l] by simp
  then have cf: "lbp_collected_fees cfg (s\<lparr>lbp_ext := w3\<rparr>) pool = lbp_collected_fees cfg s pool"
    by (simp add: lbp_collected_fees_def g)
  show "lbp_free cfg s' = sheet_move (fst (lp_assets pool)) payer (lp_fee_collector pool) fee
      (sheet_move (asset_out (tr_assets t)) p (tr_origin t) (tr_amount_out t)
        (sheet_move (asset_in (tr_assets t)) (tr_origin t) p (tr_amount t) (lbp_free cfg s)))"
    using s' lockable_currency.set_lock_free [OF l t4] free [OF t1] free [OF t2] free [OF t3] by simp
  show "lbp_collected_fees cfg s' pool = lbp_collected_fees cfg s pool + fee"
    if "lbp_collected_fees cfg s pool + fee \<le> u128_max"
    using set_lock_get_total [OF l, of w3 _ _ _ "lbp_collected_fees cfg s pool" fee w4] t4 cf s' that locks
    by (simp add: wrapping_add_exact lbp_collected_fees_def g)
  show "fee \<le> sheet_move (asset_out (tr_assets t)) p (tr_origin t) (tr_amount_out t)
        (sheet_move (asset_in (tr_assets t)) (tr_origin t) p (tr_amount t) (lbp_free cfg s)) (fst (lp_assets pool)) payer"
    if "payer \<noteq> lp_fee_collector pool"
    using multi_currency.transfer_funds [OF m t3 that] free [OF t1] free [OF t2] by simp
qed (use run fee in \<open>auto simp: lbp_execute_trade_def Let_def\<close>)

lemma lbp_trade_frame:
  assumes "lbp_execute_trade cfg s t = Inr s'"
  shows "lbp_pool_data s' = lbp_pool_data s" "fee_collector_with_asset s' = fee_collector_with_asset s"
  using assms by (cases "tr_fee t"; auto simp: lbp_execute_trade_def Let_def)+

lemma lbp_sell_effect:
  assumes env: "lbp_env cfg" and sell: "lbp_sell cfg s (Signed who) a b amount limit = Inr s'"
    and p: "p = lbp_get_pair_id cfg (mk_pair a b)"
  obtains t pool fee s1 where
    "lbp_execute_trade cfg s t = Inr s1" "lbp_ext s' = lbp_ext s1"
    "lbp_pool_data s' = lbp_pool_data s" "fee_collector_with_asset s' = fee_collector_with_asset s"
    "lbp_pool_data s p = Some pool" "lbp_is_pool_running cfg s pool"
    "amount \<le> lbp_free cfg s a who" "tr_origin t = who" "tr_assets t = mk_pair a b"
    "limit \<le> tr_amount_out t" "tr_fee t = (fst (lp_assets pool), fee)"
    "tr_amount t + (if fst (lp_assets pool) = a then fee else 0) = amount"
    "tr_amount_out t + (if fst (lp_assets pool) = a then 0 else fee) \<le> lbp_free cfg s b p div MAX_OUT_RATIO"
proof -
  from sell have "lbp_default_sell cfg (lbp_amm cfg) s who (mk_pair a b) amount limit False = Inr s'"
    by (simp add: lbp_sell_def)
  with lbp_envD(4) [OF env] obtain t where
    v: "lbp_validate_sell cfg s who (mk_pair a b) amount limit False = Inr t"
    and e: "lbp_execute_sell cfg s t = Inr s'"
    by (auto elim: lbp.default_sell_validated)
  from e obtain s1 where s1: "lbp_execute_trade cfg s t = Inr s1" and "lbp_ext s' = lbp_ext s1"
    and "lbp_pool_data s' = lbp_pool_data s1" "fee_collector_with_asset s' = fee_collector_with_asset s1"
    by (auto simp: lbp_execute_sell_def)
  with v that p lbp_trade_frame [OF s1] show thesis by (elim lbp_validate_sell_Inr) simp
qed

lemma lbp_buy_effect:
  assumes env: "lbp_env cfg" and buy: "lbp_buy cfg s (Signed who) b a amount limit = Inr s'"
    and p: "p = lbp_get_pair_id cfg (mk_pair a b)"
  obtains t pool fee s1 where
    "lbp_execute_trade cfg s t = Inr s1" "lbp_ext s' = lbp_ext s1"
    "lbp_pool_data s' = lbp_pool_data s" "fee_collector_with_asset s' = fee_collector_with_asset s"
    "lbp_pool_data s p = Some pool" "lbp_is_pool_running cfg s pool"
    "tr_origin t = who" "tr_assets t = mk_pair a b" "tr_amount_out t = amount"
    "amount \<le> lbp_free cfg s b p div MAX_OUT_RATIO"
    "tr_fee t = (fst (lp_assets pool), fee)" "lbp_cost t \<le> limit" "limit \<le> lbp_free cfg s a who"
proof -
  from buy have "lbp_default_buy cfg (lbp_amm cfg) s who (mk_pair a b) amount limit False = Inr s'"
    by (simp add: lbp_buy_def)
  with lbp_envD(5) [OF env] obtain t where
    v: "lbp_validate_buy cfg s who (mk_pair a b) amount limit False = Inr t"
    and e: "lbp_execute_buy cfg s t = Inr s'"
    by (auto elim: lbp.default_buy_validated)
  from e obtain s1 where s1: "lbp_execute_trade cfg s t = Inr s1" and "lbp_ext s' = lbp_ext s1"
    and "lbp_pool_data s' = lbp_pool_data s1" "fee_collector_with_asset s' = fee_collector_with_asset s1"
    by (auto simp: lbp_execute_buy_def)
  with v that p lbp_trade_frame [OF s1] show thesis by (elim lbp_validate_buy_Inr) simp
qed

section \<open>The pallet as a state machine\<close>

text \<open>A call is a successful extrinsic; outside the calls the rest of the chain moves on.\<close>

inductive lbp_call :: "'w lbp_config \<Rightarrow> 'w lbp_state \<Rightarrow> 'w lbp_state \<Rightarrow> bool" for cfg where
  create: "lbp_create_pool cfg s orig owner a x b y iw fw wc fee fc rt = Inr s' \<Longrightarrow> lbp_call cfg s s'"
| update: "lbp_update_pool_data cfg s orig p owner st en iw fw fee fc rt = Inr s' \<Longrightarrow> lbp_call cfg s s'"
| add: "lbp_add_liquidity cfg s orig ax by' = Inr s' \<Longrightarrow> lbp_call cfg s s'"
| remove: "lbp_remove_liquidity cfg s orig p = Inr s' \<Longrightarrow> lbp_call cfg s s'"
| sell: "lbp_sell cfg s (Signed who) a b x limit = Inr s' \<Longrightarrow> lbp_call cfg s s'"
| buy: "lbp_buy cfg s (Signed who) b a x limit = Inr s' \<Longrightarrow> lbp_call cfg s s'"

inductive lbp_reachable :: "'w lbp_config \<Rightarrow> 'w lbp_state \<Rightarrow> bool" for cfg where
  genesis: "lbp_reachable cfg \<lparr>lbp_ext = w, lbp_pool_data = Map.empty,
     fee_collector_with_asset = Map.empty, lbp_events = []\<rparr>"
| call: "lbp_reachable cfg s \<Longrightarrow> lbp_call cfg s s' \<Longrightarrow> lbp_reachable cfg s'"
| outside: "lbp_reachable cfg s \<Longrightarrow> lbp_reachable cfg (s\<lparr>lbp_ext := w\<rparr>)"

definition lbp_pool_valid :: "lbp_pool \<Rightarrow> bool" where
  "lbp_pool_valid pool \<longleftrightarrow> fst (lp_assets pool) \<noteq> snd (lp_assets pool) \<and>
     0 < lp_initial_weight pool \<and> lp_initial_weight pool < MAX_WEIGHT \<and>
     0 < lp_final_weight pool \<and> lp_final_weight pool < MAX_WEIGHT \<and> snd (lp_fee pool) \<noteq> 0 \<and>
     (case (lp_start pool, lp_end pool) of
        (Some start, Some end_block) \<Rightarrow> start < end_block \<and> end_block - start < MAX_SALE_DURATION
      | (None, None) \<Rightarrow> True
      | _ \<Rightarrow> False)"

definition lbp_key :: "lbp_pool \<Rightarrow> account_id \<times> asset_id" where
  "lbp_key pool = (lp_fee_collector pool, fst (lp_assets pool))"

definition lbp_inv :: "'w lbp_config \<Rightarrow> 'w lbp_state \<Rightarrow> bool" where
  "lbp_inv cfg s \<longleftrightarrow>
     (\<forall>p pool. lbp_pool_data s p = Some pool \<longrightarrow>
        lbp_pool_valid pool \<and> p = lbp_get_pair_id cfg (mk_pair (fst (lp_assets pool)) (snd (lp_assets pool)))) \<and>
     (\<forall>k. fee_collector_with_asset s k =
        (if \<exists>p pool. lbp_pool_data s p = Some pool \<and> lbp_key pool = k then Some True else None)) \<and>
     (\<forall>p q pool pool'. lbp_pool_data s p = Some pool \<longrightarrow> lbp_pool_data s q = Some pool' \<longrightarrow>
        lbp_key pool = lbp_key pool' \<longrightarrow> p = q)"

lemma lbp_pool_valid_iff:
  "lbp_validate_pool_data cfg s pool = Inr u \<Longrightarrow> fst (lp_assets pool) \<noteq> snd (lp_assets pool) \<Longrightarrow> lbp_pool_valid pool"
  by (auto simp: lbp_validate_pool_data_def lbp_pool_valid_def lbp_unwrap_or_zero_def Let_def
      split: option.splits)

lemma lbp_invI:
  assumes "\<And>p pool. lbp_pool_data s p = Some pool \<Longrightarrow> lbp_pool_valid pool \<and>
      p = lbp_get_pair_id cfg (mk_pair (fst (lp_assets pool)) (snd (lp_assets pool)))"
    and "\<And>p pool. lbp_pool_data s p = Some pool \<Longrightarrow> fee_collector_with_asset s (lbp_key pool) = Some True"
    and "\<And>k v. fee_collector_with_asset s k = Some v \<Longrightarrow> \<exists>p pool. lbp_pool_data s p = Some pool \<and> lbp_key pool = k"
    and "\<And>p q pool pool'. lbp_pool_data s p = Some pool \<Longrightarrow> lbp_pool_data s q = Some pool' \<Longrightarrow>
      lbp_key pool = lbp_key pool' \<Longrightarrow> p = q"
  shows "lbp_inv cfg s"
  using assms unfolding lbp_inv_def by (auto) (metis not_None_eq)+

lemma lbp_invD:
  assumes "lbp_inv cfg s"
  shows "lbp_pool_data s p = Some pool \<Longrightarrow> lbp_pool_valid pool"
    and "lbp_pool_data s p = Some pool \<Longrightarrow> p = lbp_get_pair_id cfg (mk_pair (fst (lp_assets pool)) (snd (lp_assets pool)))"
    and "lbp_pool_data s p = Some pool \<Longrightarrow> fee_collector_with_asset s (lbp_key pool) = Some True"
    and "fee_collector_with_asset s k = Some v \<Longrightarrow> \<exists>p pool. lbp_pool_data s p = Some pool \<and> lbp_key pool = k"
    and "lbp_pool_data s p = Some pool \<Longrightarrow> lbp_pool_data s q = Some pool' \<Longrightarrow> lbp_key pool = lbp_key pool' \<Longrightarrow> p = q"
    and "fee_collector_with_asset s k \<noteq> Some False"
  using assms unfolding lbp_inv_def
  by (blast, blast, metis, metis option.distinct(1), blast, metis option.distinct(1) option.inject)

lemma lbp_inv_frame:
  "lbp_inv cfg s \<Longrightarrow> lbp_pool_data s' = lbp_pool_data s \<Longrightarrow>
     fee_collector_with_asset s' = fee_collector_with_asset s \<Longrightarrow> lbp_inv cfg s'"
  by (simp add: lbp_inv_def)

lemma lbp_create_pool_effect:
  assumes "lbp_create_pool cfg s orig owner a x b y iw fw wc fee fc rt = Inr s'"
  obtains pool where "pool = lbp_pool_new owner a b iw fw wc fee fc rt" "a \<noteq> b"
    "lbp_pool_data s (lbp_get_pair_id cfg (mk_pair a b)) = None"
    "fee_collector_with_asset s (fc, a) = None" "lbp_pool_valid pool"
    "lbp_pool_data s' = (lbp_pool_data s)(lbp_get_pair_id cfg (mk_pair a b) \<mapsto> pool)"
    "fee_collector_with_asset s' = (fee_collector_with_asset s)((fc, a) \<mapsto> True)"
proof -
  let ?pool = "lbp_pool_new owner a b iw fw wc fee fc rt"
  have "fst (lp_assets ?pool) = a" "snd (lp_assets ?pool) = b" by (simp_all add: lbp_pool_new_def)
  with assms have "a \<noteq> b" "lbp_pool_valid ?pool"
    by (auto simp: lbp_create_pool_def Let_def intro: lbp_pool_valid_iff)
  with assms that show thesis
    by (auto simp: lbp_create_pool_def Let_def lbp_exists_iff contains_key_def)
qed

lemma lbp_update_pool_data_effect:
  assumes "lbp_update_pool_data cfg s orig p owner st en iw fw fee fc rt = Inr s'"
  obtains pool pool' where "lbp_pool_data s p = Some pool" "\<not> lbp_has_pool_started cfg s pool"
    "orig = Signed (lp_owner pool)" "lp_assets pool' = lp_assets pool"
    "fst (lp_assets pool) \<noteq> snd (lp_assets pool) \<Longrightarrow> lbp_pool_valid pool'"
    "lbp_pool_data s' = (lbp_pool_data s)(p \<mapsto> pool')"
    "fc = None \<Longrightarrow> lp_fee_collector pool' = lp_fee_collector pool \<and>
       fee_collector_with_asset s' = fee_collector_with_asset s"
    "\<And>c. fc = Some c \<Longrightarrow> lp_fee_collector pool' = c \<and>
       \<not> value_query False (fee_collector_with_asset s) (lbp_key pool') \<and>
       fee_collector_with_asset s' = (fee_collector_with_asset s)(lbp_key pool := None, lbp_key pool' \<mapsto> True)"
proof -
  have keep: "lp_assets (lbp_apply_update pool owner st en iw fw fee) = lp_assets pool"
    "lp_fee_collector (lbp_apply_update pool owner st en iw fw fee) = lp_fee_collector pool" for pool
    by (simp_all add: lbp_apply_update_def)
  from assms obtain pool s1 pool1 where
    o: "orig = Signed (lp_owner pool)" and pool: "lbp_pool_data s p = Some pool"
    and ns: "\<not> lbp_has_pool_started cfg s pool"
    and r: "lbp_replace_fee_collector s (lbp_apply_update pool owner st en iw fw fee) fc = Inr (s1, pool1)"
    and v: "lbp_validate_pool_data cfg s1 (pool1\<lparr>lp_repay_target := case rt of Some v \<Rightarrow> v | None \<Rightarrow> lp_repay_target pool1\<rparr>) = Inr ()"
    and s': "lbp_pool_data s' = (lbp_pool_data s1)(p \<mapsto> pool1\<lparr>lp_repay_target := case rt of Some v \<Rightarrow> v | None \<Rightarrow> lp_repay_target pool1\<rparr>)"
      "fee_collector_with_asset s' = fee_collector_with_asset s1"
    by (cases orig) (auto simp: lbp_update_pool_data_def Let_def ensure_signed_def)
  from v have valid: "fst (lp_assets pool1) \<noteq> snd (lp_assets pool1) \<Longrightarrow>
      lbp_pool_valid (pool1\<lparr>lp_repay_target := case rt of Some v \<Rightarrow> v | None \<Rightarrow> lp_repay_target pool1\<rparr>)"
    by (intro lbp_pool_valid_iff) auto
  show thesis
    by (rule that [of pool "pool1\<lparr>lp_repay_target := case rt of Some v \<Rightarrow> v | None \<Rightarrow> lp_repay_target pool1\<rparr>", OF pool ns o])
      (use r s' valid in \<open>auto simp: lbp_replace_fee_collector_def Let_def
        lbp_key_def keep split: option.splits\<close>)
qed

lemma lbp_remove_liquidity_effect:
  assumes env: "lbp_env cfg" and remove: "lbp_remove_liquidity cfg s orig p = Inr s'"
  obtains pool where "lbp_pool_data s p = Some pool" "\<not> lbp_is_pool_running cfg s pool"
    "orig = Signed (lp_owner pool)"
    "lbp_pool_data s' = (lbp_pool_data s)(p := None)"
    "fee_collector_with_asset s' = (fee_collector_with_asset s)(lbp_key pool := None)"
    "lbp_free cfg s' = sheet_move (snd (lp_assets pool)) p (lp_owner pool) (lbp_free cfg s (snd (lp_assets pool)) p)
       (sheet_move (fst (lp_assets pool)) p (lp_owner pool) (lbp_free cfg s (fst (lp_assets pool)) p) (lbp_free cfg s))"
    "lbp_collected_fees cfg s' pool = 0"
proof -
  note m = lbp_envD(2) [OF env] and l = lbp_envD(1) [OF env] and g = lbp_envD(3) [OF env]
  from remove obtain pool w1 w2 s3 where pool: "lbp_pool_data s p = Some pool"
    and nr: "\<not> lbp_is_pool_running cfg s pool" and o: "orig = Signed (lp_owner pool)"
    and t1: "c_transfer (lbp_currency cfg) (lbp_ext s) (fst (lp_assets pool)) p (lp_owner pool)
       (lbp_free cfg s (fst (lp_assets pool)) p) = Inr w1"
    and t2: "c_transfer (lbp_currency cfg) w1 (snd (lp_assets pool)) p (lp_owner pool)
       (lbp_free cfg s (snd (lp_assets pool)) p) = Inr w2"
    and t3: "(if lbp_collected_fees cfg (s\<lparr>lbp_ext := w2\<rparr>) pool > 0
       then c_remove_lock (lbp_cur cfg) (s\<lparr>lbp_ext := w2\<rparr>) COLLECTOR_LOCK_ID (fst (lp_assets pool)) (lp_fee_collector pool)
       else Inr (s\<lparr>lbp_ext := w2\<rparr>)) = Inr s3"
    and s': "lbp_pool_data s' = (lbp_pool_data s3)(p := None)" "lbp_ext s' = lbp_ext s3"
      "fee_collector_with_asset s' = (fee_collector_with_asset s3)(lbp_key pool := None)"
    by (cases orig) (auto simp: lbp_remove_liquidity_def Let_def lbp_key_def ensure_signed_def cong: if_cong)
  note free = multi_currency.transfer_free [OF m t1] multi_currency.transfer_free [OF m t2]
  from t3 have "lbp_pool_data s3 = lbp_pool_data s" "fee_collector_with_asset s3 = fee_collector_with_asset s"
    "lbp_free cfg s3 = c_free_balance (lbp_currency cfg) w2" "lbp_collected_fees cfg s3 pool = 0"
    by (auto simp: lbp_collected_fees_def g lockable_currency.remove_lock_free [OF l]
        lockable_currency.remove_lock_get [OF l] split: if_splits)
  then show thesis using s' free by (intro that [OF pool nr o]) (simp_all add: lbp_collected_fees_def)
qed

section \<open>Preservation of the invariant\<close>

lemma lbp_add_liquidity_frame:
  assumes "lbp_add_liquidity cfg s orig ax y = Inr s'"
  shows "lbp_pool_data s' = lbp_pool_data s" "fee_collector_with_asset s' = fee_collector_with_asset s"
  using assms by (clarsimp simp: lbp_add_liquidity_def Let_def)+

lemma lbp_inv_put:
  assumes inv: "lbp_inv cfg s" and new: "lbp_pool_valid new"
    and p: "p = lbp_get_pair_id cfg (mk_pair (fst (lp_assets new)) (snd (lp_assets new)))"
    and unused: "\<And>q pool. q \<noteq> p \<Longrightarrow> lbp_pool_data s q = Some pool \<Longrightarrow> lbp_key pool \<noteq> lbp_key new"
    and pools: "lbp_pool_data s' = (lbp_pool_data s)(p \<mapsto> new)"
    and fees: "fee_collector_with_asset s' =
      (case lbp_pool_data s p of None \<Rightarrow> fee_collector_with_asset s
       | Some old \<Rightarrow> (fee_collector_with_asset s)(lbp_key old := None))(lbp_key new \<mapsto> True)"
  shows "lbp_inv cfg s'"
proof (rule lbp_invI)
  fix q pool assume q: "lbp_pool_data s' q = Some pool"
  with pools new p lbp_invD(1,2) [OF inv] show "lbp_pool_valid pool \<and>
      q = lbp_get_pair_id cfg (mk_pair (fst (lp_assets pool)) (snd (lp_assets pool)))"
    by (cases "q = p") auto
  show "fee_collector_with_asset s' (lbp_key pool) = Some True"
  proof (cases "q = p")
    case True
    with q pools fees show ?thesis by simp
  next
    case False
    with q pools have q': "lbp_pool_data s q = Some pool" by simp
    from lbp_invD(5) [OF inv q'] False
    have "lbp_pool_data s p = Some old \<Longrightarrow> lbp_key old \<noteq> lbp_key pool" for old by metis
    with q' lbp_invD(3) [OF inv q'] unused [OF False q'] fees show ?thesis by (auto split: option.splits)
  qed
next
  fix k v assume k: "fee_collector_with_asset s' k = Some v"
  show "\<exists>q pool. lbp_pool_data s' q = Some pool \<and> lbp_key pool = k"
  proof (cases "k = lbp_key new")
    case True
    with pools show ?thesis by (metis fun_upd_same)
  next
    case False
    with k fees have "fee_collector_with_asset s k = Some v"
      and old: "lbp_pool_data s p = Some old \<Longrightarrow> lbp_key old \<noteq> k" for old
      by (auto split: option.splits if_splits)
    from lbp_invD(4) [OF inv this(1)] old pools show ?thesis by (metis fun_upd_apply)
  qed
next
  fix q r pool pool'
  assume "lbp_pool_data s' q = Some pool" "lbp_pool_data s' r = Some pool'" "lbp_key pool = lbp_key pool'"
  with pools unused lbp_invD(5) [OF inv] show "q = r" by (auto split: if_splits)
qed

lemma lbp_inv_delete:
  assumes inv: "lbp_inv cfg s" and p: "lbp_pool_data s p = Some old"
    and pools: "lbp_pool_data s' = (lbp_pool_data s)(p := None)"
    and fees: "fee_collector_with_asset s' = (fee_collector_with_asset s)(lbp_key old := None)"
  shows "lbp_inv cfg s'"
proof (rule lbp_invI)
  fix q pool assume "lbp_pool_data s' q = Some pool"
  with pools have q: "lbp_pool_data s q = Some pool" "q \<noteq> p" by (auto split: if_splits)
  with lbp_invD(1,2) [OF inv] show "lbp_pool_valid pool \<and>
      q = lbp_get_pair_id cfg (mk_pair (fst (lp_assets pool)) (snd (lp_assets pool)))" by blast
  from q p lbp_invD(5) [OF inv] have "lbp_key pool \<noteq> lbp_key old" by metis
  with fees lbp_invD(3) [OF inv q(1)] show "fee_collector_with_asset s' (lbp_key pool) = Some True" by simp
next
  fix k v assume "fee_collector_with_asset s' k = Some v"
  with fees have k: "fee_collector_with_asset s k = Some v" "k \<noteq> lbp_key old" by (auto split: if_splits)
  from lbp_invD(4) [OF inv k(1)] k(2) p pools
  show "\<exists>q pool. lbp_pool_data s' q = Some pool \<and> lbp_key pool = k"
    by (metis fun_upd_other option.inject)
next
  fix q r pool pool'
  assume "lbp_pool_data s' q = Some pool" "lbp_pool_data s' r = Some pool'" "lbp_key pool = lbp_key pool'"
  with pools lbp_invD(5) [OF inv] show "q = r" by (auto split: if_splits)
qed

lemma lbp_inv_create:
  assumes inv: "lbp_inv cfg s" and create: "lbp_create_pool cfg s orig owner a x b y iw fw wc fee fc rt = Inr s'"
  shows "lbp_inv cfg s'"
  using lbp_create_pool_effect [OF create]
proof cases
  case (1 pool)
  then have key: "lbp_key pool = (fc, a)" and "lp_assets pool = (a, b)"
    by (simp_all add: lbp_key_def lbp_pool_new_def)
  moreover have "lbp_key pool' \<noteq> (fc, a)" if "lbp_pool_data s q = Some pool'" for q pool'
    using lbp_invD(3) [OF inv that] 1(4) by auto
  ultimately show ?thesis using 1 by (intro lbp_inv_put [OF inv 1(5) _ _ 1(6)]) auto
qed

lemma lbp_inv_update:
  assumes inv: "lbp_inv cfg s" and update: "lbp_update_pool_data cfg s orig p owner st en iw fw fee fc rt = Inr s'"
  shows "lbp_inv cfg s'"
  using lbp_update_pool_data_effect [OF update]
proof cases
  case (1 pool pool')
  have valid: "lbp_pool_valid pool'"
    using 1(5) lbp_invD(1) [OF inv 1(1)] by (simp add: lbp_pool_valid_def)
  have p: "p = lbp_get_pair_id cfg (mk_pair (fst (lp_assets pool')) (snd (lp_assets pool')))"
    using lbp_invD(2) [OF inv 1(1)] 1(4) by simp
  have old: "fee_collector_with_asset s (lbp_key pool) = Some True" by (rule lbp_invD(3) [OF inv 1(1)])
  show ?thesis
  proof (rule lbp_inv_put [OF inv valid p _ 1(6)])
    fix q pool2 assume q: "q \<noteq> p" "lbp_pool_data s q = Some pool2"
    show "lbp_key pool2 \<noteq> lbp_key pool'"
    proof (cases fc)
      case None
      with 1(4,7) lbp_invD(5) [OF inv q(2) 1(1)] q(1) show ?thesis by (auto simp: lbp_key_def)
    next
      case (Some c)
      with 1(8) [OF Some] lbp_invD(3) [OF inv q(2)] show ?thesis by auto
    qed
  next
    show "fee_collector_with_asset s' = (case lbp_pool_data s p of None \<Rightarrow> fee_collector_with_asset s
       | Some old \<Rightarrow> (fee_collector_with_asset s)(lbp_key old := None))(lbp_key pool' \<mapsto> True)"
      using 1(1,4,7,8) old by (cases fc) (auto simp: lbp_key_def fun_upd_idem)
  qed
qed

lemma lbp_call_inv:
  assumes "lbp_call cfg s s'" "lbp_env cfg" "lbp_inv cfg s"
  shows "lbp_inv cfg s'"
  using assms(1)
proof cases
  case create
  with assms(3) show ?thesis by (rule lbp_inv_create)
next
  case update
  with assms(3) show ?thesis by (rule lbp_inv_update)
next
  case add
  with assms(3) lbp_add_liquidity_frame [OF add] show ?thesis by (blast intro: lbp_inv_frame)
next
  case (remove orig p)
  from assms(2) remove show ?thesis
    by (rule lbp_remove_liquidity_effect) (blast intro: lbp_inv_delete assms(3))
next
  case sell
  from assms(2) sell refl show ?thesis
    by (rule lbp_sell_effect) (blast intro: lbp_inv_frame assms(3))
next
  case buy
  from assms(2) buy refl show ?thesis
    by (rule lbp_buy_effect) (blast intro: lbp_inv_frame assms(3))
qed

text \<open>
  C13. In every reachable state each pool is stored under the account of its two different
  assets, has weights and a fee in range and either no schedule or one shorter than the
  longest sale; the fee-collector table lists exactly the collectors of the pools with
  their accumulated asset, and no two pools share such an entry.
\<close>

theorem lbp_reachable_invariant:
  assumes "lbp_reachable cfg s" "lbp_env cfg"
  shows "lbp_inv cfg s"
  using assms(1)
proof induction
  case (genesis w)
  show ?case by (rule lbp_invI) auto
next
  case (call s s')
  with lbp_call_inv assms(2) show ?case by blast
next
  case (outside s w)
  then show ?case by (auto intro: lbp_inv_frame)
qed

section \<open>A concrete sale\<close>

text \<open>
  The accumulated asset 1 and the sold asset 2, block 50 of a sale from 10 to 100. The current
  block is the second component of the outside storage.
\<close>

definition demo_lbp :: "(ledger \<times> block_number) lbp_config" where
  "demo_lbp = \<lparr>
     lbp_currency = lift_currency fst (\<lambda>w s. (w, snd s)) ledger_ops,
     lbp_locked_balance = get_by_lock (lift_currency fst (\<lambda>w s. (w, snd s)) ledger_ops),
     lbp_create_pool_origin = ensure_root,
     lbp_weight_function = lbp_calculate_weight formula_math,
     lbp_from_assets = (\<lambda>a b _. 1000 + 10 * min a b + max a b),
     lbp_min_trading_limit = 10,
     lbp_min_pool_liquidity = 100,
     lbp_max_in_ratio = 3,
     lbp_max_out_ratio = 3,
     lbp_current_block_number = snd,
     lbp_math = formula_math,
     lbp_default_sell = run_sell,
     lbp_default_buy = run_buy\<rparr>"

definition demo_pool :: lbp_pool where
  "demo_pool = \<lparr>lp_owner = 7, lp_start = Some 10, lp_end = Some 100, lp_assets = (1, 2),
     lp_initial_weight = 20000000, lp_final_weight = 80000000, lp_weight_curve = Linear,
     lp_fee = (2, 1000), lp_fee_collector = 9, lp_repay_target = 500\<rparr>"

definition demo_sale :: "block_number \<Rightarrow> (ledger \<times> block_number) lbp_state" where
  "demo_sale now = \<lparr>
     lbp_ext = (ledger_of [((1, 1012), 6000), ((2, 1012), 9000), ((1, 8), 2000), ((2, 8), 3000)], now),
     lbp_pool_data = [1012 \<mapsto> demo_pool],
     fee_collector_with_asset = [(9, 1) \<mapsto> True],
     lbp_events = []\<rparr>"

lemma demo_lbp_env: "lbp_env demo_lbp"
  using lockable_currency_lift [OF ledger.lockable_currency_axioms, of fst "\<lambda>w s. (w, snd s)"]
    run_sell_spec run_buy_spec
  by (simp add: lbp_env_def demo_lbp_def)

lemmas lbp_run_simps =
  demo_lbp_def demo_sale_def demo_pool_def formula_math_def run_sell_def run_buy_def Let_def
  lbp_get_pair_id_def lbp_pair_account_from_assets_def lbp_exists_def contains_key_def value_query_def
  mk_pair_def lbp_amm_def lbp_sell_def lbp_buy_def lbp_validate_sell_def lbp_validate_buy_def
  lbp_execute_sell_def lbp_execute_buy_def lbp_execute_trade_def lbp_is_pool_running_def
  lbp_has_pool_started_def lbp_get_sorted_weight_def lbp_calculate_weights_def lbp_calculate_weight_def
  lbp_unwrap_or_zero_def lbp_calculate_fees_def lbp_is_repay_fee_applied_def lbp_collected_fees_def
  lbp_repay_fee_def lbp_create_pool_def lbp_update_pool_data_def lbp_add_liquidity_def lbp_remove_liquidity_def
  lbp_validate_pool_data_def lbp_pool_new_def lbp_apply_update_def lbp_replace_fee_collector_def
  MAX_WEIGHT_def MAX_SALE_DURATION_def MAX_IN_RATIO_def MAX_OUT_RATIO_def
  lbp_cur_def lift_currency_def lbp_put_def lbp_deposit_event_def get_by_lock_def find_lock_def
  ledger_defs ledger_ops_def checked_div_def checked_sub_def checked_add_def u128_max_def wrapping_add_def
  ensure_root_def CORE_ASSET_ID_def

lemma demo_lbp_sell_ok: "\<exists>s'. lbp_sell demo_lbp (demo_sale 50) (Signed 8) 1 2 600 400 = Inr s'"
  by (simp add: lbp_run_simps)

lemma demo_lbp_buy_ok: "\<exists>s'. lbp_buy demo_lbp (demo_sale 50) (Signed 8) 2 1 600 1000 = Inr s'"
  by (simp add: lbp_run_simps)

lemma demo_lbp_remove_ok: "\<exists>s'. lbp_remove_liquidity demo_lbp (demo_sale 101) (Signed 7) 1012 = Inr s'"
  by (simp add: lbp_run_simps)

definition demo_lbp_genesis :: "(ledger \<times> block_number) lbp_state" where
  "demo_lbp_genesis = \<lparr>lbp_ext = (ledger_of [((1, 8), 2000), ((2, 8), 3000)], 5), lbp_pool_data = Map.empty,
     fee_collector_with_asset = Map.empty, lbp_events = []\<rparr>"

lemma demo_lbp_pair_id: "1012 = lbp_get_pair_id demo_lbp (mk_pair 1 2)"
  by (simp add: lbp_run_simps)

lemma demo_lbp_pool: "lbp_pool_data (demo_sale now) 1012 = Some demo_pool"
  by (simp add: demo_sale_def)

lemma demo_lbp_bounds:
  "lbp_collected_fees demo_lbp (demo_sale now) demo_pool + lbp_free demo_lbp (demo_sale now) 1 8 +
     lbp_free demo_lbp (demo_sale now) 2 1012 \<le> u128_max"
  by (simp add: lbp_run_simps)

lemma demo_lbp_inv: "lbp_inv demo_lbp (demo_sale now)"
proof (rule lbp_invI)
qed (auto simp: lbp_key_def lbp_pool_valid_def lbp_run_simps split: if_splits)


section \<open>Trades\<close>

text \<open>
  C21. A sell in a bootstrapping pool happens only inside the sale. It takes exactly the amount
  from the seller, fee included, pays at least the limit, sends the fee to the collector and
  raises the lock there by the same fee; no other balance of the two assets changes.
\<close>

theorem lbp_sell_limits:
  assumes "lbp_env cfg" "lbp_sell cfg s (Signed who) a b amount limit = Inr s'"
    and "p = lbp_get_pair_id cfg (mk_pair a b)" "lbp_pool_data s p = Some pool"
    and "a \<noteq> b" "who \<noteq> p" "lp_fee_collector pool \<notin> {who, p}" "fst (lp_assets pool) \<in> {a, b}"
    and "lbp_collected_fees cfg s pool + lbp_free cfg s a who + lbp_free cfg s b p \<le> u128_max"
  shows "lbp_is_pool_running cfg s pool \<and>
    lbp_free cfg s' a who + amount = lbp_free cfg s a who \<and>
    lbp_free cfg s b who + limit \<le> lbp_free cfg s' b who \<and>
    (\<exists>fee. lbp_free cfg s' (fst (lp_assets pool)) (lp_fee_collector pool) =
        lbp_free cfg s (fst (lp_assets pool)) (lp_fee_collector pool) + fee \<and>
      lbp_collected_fees cfg s' pool = lbp_collected_fees cfg s pool + fee) \<and>
    lbp_free cfg s' a p + lbp_free cfg s' a who + lbp_free cfg s' a (lp_fee_collector pool) =
      lbp_free cfg s a p + lbp_free cfg s a who + lbp_free cfg s a (lp_fee_collector pool) \<and>
    lbp_free cfg s' b p + lbp_free cfg s' b who + lbp_free cfg s' b (lp_fee_collector pool) =
      lbp_free cfg s b p + lbp_free cfg s b who + lbp_free cfg s b (lp_fee_collector pool)"
  using lbp_sell_effect [OF assms(1-3)]
proof cases
  case (1 t pool' fee s1)
  then have [simp]: "pool' = pool" using assms(4) by simp
  have *: "tr_amount t + (if fst (lp_assets pool) = a then fee else 0) = amount"
    "amount \<le> lbp_free cfg s a who"
    "tr_amount_out t + (if fst (lp_assets pool) = a then 0 else fee) \<le> lbp_free cfg s b p"
    using 1(7,12,13) by (auto intro: le_trans [OF _ div_le_dividend])
  note e = lbp_execute_trade_effect [OF assms(1) 1(1) assms(4) _ _ refl, of fee]
  have f: "lbp_free cfg s' = sheet_move (fst (lp_assets pool)) (if a = fst (lp_assets pool) then who else p)
      (lp_fee_collector pool) fee (sheet_move b p who (tr_amount_out t) (sheet_move a who p (tr_amount t) (lbp_free cfg s)))"
    and c: "lbp_collected_fees cfg s pool + fee \<le> u128_max \<Longrightarrow>
      lbp_collected_fees cfg s' pool = lbp_collected_fees cfg s pool + fee"
    using e(1,2) 1 assms(3) by (simp_all add: lbp_collected_fees_def mk_pair_def)
  have fee: "lbp_collected_fees cfg s pool + fee \<le> u128_max"
    using * assms(9) by (auto split: if_splits)
  show ?thesis using 1(6,10) * f c [OF fee] assms(5-8)
    by (cases "fst (lp_assets pool) = a") auto
qed

theorem lbp_sell_limits_witness:
  "\<exists>s'. lbp_sell demo_lbp (demo_sale 50) (Signed 8) 1 2 600 400 = Inr s' \<and>
     lbp_free demo_lbp s' 1 8 + 600 = lbp_free demo_lbp (demo_sale 50) 1 8 \<and>
     lbp_free demo_lbp (demo_sale 50) 2 8 + 400 \<le> lbp_free demo_lbp s' 2 8"
proof -
  from demo_lbp_sell_ok obtain s' where
    s': "lbp_sell demo_lbp (demo_sale 50) (Signed 8) 1 2 600 400 = Inr s'" ..
  from lbp_sell_limits [OF demo_lbp_env s' demo_lbp_pair_id demo_lbp_pool] s' demo_lbp_bounds show ?thesis
    by (simp add: demo_pool_def)
qed

text \<open>
  C22. A buy in a bootstrapping pool happens only inside the sale. It delivers exactly the
  amount, costs at most the limit, fee included, sends the fee to the collector and raises the
  lock there by the same fee; no other balance of the two assets changes.
\<close>

theorem lbp_buy_limits:
  assumes "lbp_env cfg" "lbp_buy cfg s (Signed who) b a amount limit = Inr s'"
    and "p = lbp_get_pair_id cfg (mk_pair a b)" "lbp_pool_data s p = Some pool"
    and "a \<noteq> b" "who \<noteq> p" "lp_fee_collector pool \<notin> {who, p}" "fst (lp_assets pool) \<in> {a, b}"
    and "lbp_collected_fees cfg s pool + lbp_free cfg s a who + lbp_free cfg s b p \<le> u128_max"
  shows "lbp_is_pool_running cfg s pool \<and>
    lbp_free cfg s' b who = lbp_free cfg s b who + amount \<and>
    lbp_free cfg s a who \<le> lbp_free cfg s' a who + limit \<and>
    (\<exists>fee. lbp_free cfg s' (fst (lp_assets pool)) (lp_fee_collector pool) =
        lbp_free cfg s (fst (lp_assets pool)) (lp_fee_collector pool) + fee \<and>
      lbp_collected_fees cfg s' pool = lbp_collected_fees cfg s pool + fee) \<and>
    lbp_free cfg s' a p + lbp_free cfg s' a who + lbp_free cfg s' a (lp_fee_collector pool) =
      lbp_free cfg s a p + lbp_free cfg s a who + lbp_free cfg s a (lp_fee_collector pool) \<and>
    lbp_free cfg s' b p + lbp_free cfg s' b who + lbp_free cfg s' b (lp_fee_collector pool) =
      lbp_free cfg s b p + lbp_free cfg s b who + lbp_free cfg s b (lp_fee_collector pool)"
  using lbp_buy_effect [OF assms(1-3)]
proof cases
  case (1 t pool' fee s1)
  then have [simp]: "pool' = pool" using assms(4) by simp
  have cost: "tr_amount t + (if fst (lp_assets pool) = a then fee else 0) \<le> limit"
    "limit \<le> lbp_free cfg s a who" "amount \<le> lbp_free cfg s b p"
    using 1(7-13) assms(5,8)
    by (auto simp: lbp_cost_def mk_pair_def split: if_splits intro: le_trans [OF _ div_le_dividend])
  note e = lbp_execute_trade_effect [OF assms(1) 1(1) assms(4) _ _ refl, of fee]
  have f: "lbp_free cfg s' = sheet_move (fst (lp_assets pool)) (if a = fst (lp_assets pool) then who else p)
      (lp_fee_collector pool) fee (sheet_move b p who amount (sheet_move a who p (tr_amount t) (lbp_free cfg s)))"
    and c: "lbp_collected_fees cfg s pool + fee \<le> u128_max \<Longrightarrow>
      lbp_collected_fees cfg s' pool = lbp_collected_fees cfg s pool + fee"
    using e(1,2) 1 assms(3) by (simp_all add: lbp_collected_fees_def mk_pair_def)
  have "a \<noteq> fst (lp_assets pool) \<Longrightarrow> fee \<le> lbp_free cfg s b p - amount"
    using e(3) 1 assms(3,5-8) by (auto simp: mk_pair_def)
  with cost have fee: "lbp_collected_fees cfg s pool + fee \<le> u128_max"
    "a \<noteq> fst (lp_assets pool) \<Longrightarrow> fee + amount \<le> lbp_free cfg s b p"
    using assms(9) by (cases "a = fst (lp_assets pool)"; auto)+
  show ?thesis using 1(6) cost f c [OF fee(1)] fee(2) assms(5-8)
    by (cases "fst (lp_assets pool) = a") auto
qed

theorem lbp_buy_limits_witness:
  "\<exists>s'. lbp_buy demo_lbp (demo_sale 50) (Signed 8) 2 1 600 1000 = Inr s' \<and>
     lbp_free demo_lbp s' 2 8 = lbp_free demo_lbp (demo_sale 50) 2 8 + 600 \<and>
     lbp_free demo_lbp (demo_sale 50) 1 8 \<le> lbp_free demo_lbp s' 1 8 + 1000"
proof -
  from demo_lbp_buy_ok obtain s' where
    s': "lbp_buy demo_lbp (demo_sale 50) (Signed 8) 2 1 600 1000 = Inr s'" ..
  from lbp_buy_limits [OF demo_lbp_env s' demo_lbp_pair_id demo_lbp_pool] s' demo_lbp_bounds show ?thesis
    by (simp add: demo_pool_def)
qed

text \<open>
  Outside the sale no trade goes through: with funds and a pool at hand both sides fail with
  SaleIsNotRunning.
\<close>

lemma lbp_no_trade_outside_sale:
  assumes "lbp_env cfg" "p = lbp_get_pair_id cfg (mk_pair a b)" "lbp_pool_data s p = Some pool"
    and "\<not> lbp_is_pool_running cfg s pool" "x \<noteq> 0" "x \<le> lbp_free cfg s a who" "limit \<le> lbp_free cfg s a who"
  shows "lbp_sell cfg s (Signed who) a b x limit = Inl (LBP SaleIsNotRunning) \<and>
    lbp_buy cfg s (Signed who) b a x limit = Inl (LBP SaleIsNotRunning)"
proof -
  have "lbp_validate_sell cfg s who (mk_pair a b) x limit False = Inl (LBP SaleIsNotRunning)"
    "lbp_validate_buy cfg s who (mk_pair a b) x limit False = Inl (LBP SaleIsNotRunning)"
    using assms(2-7) by (simp_all add: lbp_validate_sell_def lbp_validate_buy_def)
  with lbp_envD(4,5) [OF assms(1)] show ?thesis
    by (simp add: lbp_sell_def lbp_buy_def default_sell_spec_def default_buy_spec_def)
qed

theorem lbp_no_trade_outside_sale_witness:
  "lbp_sell demo_lbp (demo_sale 101) (Signed 8) 1 2 600 400 = Inl (LBP SaleIsNotRunning)"
proof -
  have "\<not> lbp_is_pool_running demo_lbp (demo_sale 101) demo_pool"
    "(600::nat) \<le> lbp_free demo_lbp (demo_sale 101) 1 8" "(400::nat) \<le> lbp_free demo_lbp (demo_sale 101) 1 8"
    by (simp_all add: lbp_run_simps)
  with lbp_no_trade_outside_sale [OF demo_lbp_env demo_lbp_pair_id demo_lbp_pool] show ?thesis by simp
qed

section \<open>Protection of the sale and of the liquidity\<close>

text \<open>
  C8. While a sale runs its pool is frozen: no extrinsic of the pallet, from any origin, changes or
  removes the record of the pool or its entry in the fee-collector table.
\<close>

theorem lbp_running_sale_frozen:
  assumes "lbp_call cfg s s'" "lbp_env cfg" "lbp_inv cfg s"
    and "lbp_pool_data s p = Some pool" "lbp_is_pool_running cfg s pool"
  shows "lbp_pool_data s' p = Some pool \<and> fee_collector_with_asset s' (lbp_key pool) = Some True"
proof -
  have "lbp_pool_data s' p = Some pool"
    using assms(1)
  proof cases
    case create
    from lbp_create_pool_effect [OF create] assms(4) show ?thesis by (metis fun_upd_other option.distinct(1))
  next
    case (update orig q)
    have "lbp_has_pool_started cfg s pool"
      using assms(5) by (auto simp: lbp_is_pool_running_def lbp_has_pool_started_def Let_def split: option.splits)
    with lbp_update_pool_data_effect [OF update] assms(4) show ?thesis by (metis fun_upd_other option.inject)
  next
    case add
    with assms(4) lbp_add_liquidity_frame(1) show ?thesis by metis
  next
    case (remove orig q)
    from lbp_remove_liquidity_effect [OF assms(2) remove] assms(4,5) show ?thesis
      by (metis fun_upd_other option.inject)
  next
    case sell
    from lbp_sell_effect [OF assms(2) sell refl] assms(4) show ?thesis by metis
  next
    case buy
    from lbp_buy_effect [OF assms(2) buy refl] assms(4) show ?thesis by metis
  qed
  with lbp_invD(3) [OF lbp_call_inv [OF assms(1-3)]] show ?thesis by blast
qed

theorem lbp_running_sale_frozen_witness:
  "\<exists>s'. lbp_sell demo_lbp (demo_sale 50) (Signed 8) 1 2 600 400 = Inr s' \<and> lbp_pool_data s' 1012 = Some demo_pool"
proof -
  from demo_lbp_sell_ok obtain s' where
    s': "lbp_sell demo_lbp (demo_sale 50) (Signed 8) 1 2 600 400 = Inr s'" ..
  have "lbp_is_pool_running demo_lbp (demo_sale 50) demo_pool" by (simp add: lbp_run_simps)
  with lbp_running_sale_frozen [OF lbp_call.sell [OF s'] demo_lbp_env demo_lbp_inv demo_lbp_pool] s'
  show ?thesis by blast
qed

text \<open>
  C34. Removing liquidity outside the sale hands both reserves of the pool to its owner, releases
  the collected fees from their lock and deletes the pool and its fee-collector entry.
\<close>

theorem lbp_remove_liquidity_releases:
  assumes "lbp_env cfg" "lbp_remove_liquidity cfg s (Signed who) p = Inr s'"
    and "lbp_pool_data s p = Some pool" "lp_assets pool = (a, b)" "a \<noteq> b" "who \<noteq> p"
  shows "lp_owner pool = who \<and> \<not> lbp_is_pool_running cfg s pool \<and>
    lbp_free cfg s' a p = 0 \<and> lbp_free cfg s' b p = 0 \<and>
    lbp_free cfg s' a who = lbp_free cfg s a who + lbp_free cfg s a p \<and>
    lbp_free cfg s' b who = lbp_free cfg s b who + lbp_free cfg s b p \<and>
    lbp_collected_fees cfg s' pool = 0 \<and> lbp_pool_data s' p = None \<and>
    fee_collector_with_asset s' (lbp_key pool) = None"
  using lbp_remove_liquidity_effect [OF assms(1,2)]
  by cases (use assms(3-6) in auto)

theorem lbp_remove_liquidity_releases_witness:
  "\<exists>s'. lbp_remove_liquidity demo_lbp (demo_sale 101) (Signed 7) 1012 = Inr s' \<and>
     lbp_free demo_lbp s' 1 1012 = 0 \<and> lbp_free demo_lbp s' 1 7 = 6000 \<and> lbp_pool_data s' 1012 = None"
proof -
  from demo_lbp_remove_ok obtain s' where
    s': "lbp_remove_liquidity demo_lbp (demo_sale 101) (Signed 7) 1012 = Inr s'" ..
  from lbp_remove_liquidity_releases [OF demo_lbp_env s' demo_lbp_pool, of 1 2] s'
  show ?thesis by (simp add: demo_pool_def) (simp add: lbp_run_simps)
qed

text \<open>
  An update that names a new owner and nothing else is refused, although the owner is one of
  the optional parameters of which one has to be given.
\<close>

lemma lbp_owner_only_update_refused:
  assumes "lbp_pool_data s p \<noteq> None"
  shows "lbp_update_pool_data cfg s (Signed who) p (Some owner) None None None None None None None =
    Inl (LBP NothingToUpdate)"
  using assms by (auto simp: lbp_update_pool_data_def)

lemma lbp_owner_only_update_refused_witness:
  "lbp_update_pool_data demo_lbp (demo_sale 5) (Signed 7) 1012 (Some 8) None None None None None None None =
     Inl (LBP NothingToUpdate)"
  by (rule lbp_owner_only_update_refused) (simp add: demo_sale_def)

theorem lbp_reachable_invariant_witness:
  "\<exists>s'. lbp_create_pool demo_lbp demo_lbp_genesis Root 8 1 1000 2 2000 20000000 80000000 Linear (2, 1000) 9 500 = Inr s' \<and>
     lbp_inv demo_lbp s' \<and> lbp_exists demo_lbp s' (mk_pair 1 2)"
proof -
  have "\<exists>s'. lbp_create_pool demo_lbp demo_lbp_genesis Root 8 1 1000 2 2000 20000000 80000000 Linear (2, 1000) 9 500 = Inr s' \<and>
      lbp_exists demo_lbp s' (mk_pair 1 2)"
    by (simp add: demo_lbp_genesis_def lbp_run_simps)
  then obtain s' where
    s': "lbp_create_pool demo_lbp demo_lbp_genesis Root 8 1 1000 2 2000 20000000 80000000 Linear (2, 1000) 9 500 = Inr s'"
    and ex: "lbp_exists demo_lbp s' (mk_pair 1 2)" by blast
  have "lbp_reachable demo_lbp demo_lbp_genesis"
    unfolding demo_lbp_genesis_def by (rule lbp_reachable.genesis)
  with s' have "lbp_reachable demo_lbp s'" by (blast intro: lbp_reachable.call lbp_call.create)
  from lbp_reachable_invariant [OF this demo_lbp_env] s' ex show ?thesis by blast
qed

end
