(* ===== verification/Exchange.thy ===== *)
theory Exchange
  imports AMM
begin

text \<open>
  The exchange, \<open>pallets/exchange/src/lib.rs\<close> and \<open>direct.rs\<close>. During a block traders
  register intentions; at its end the intentions of each asset pair are matched against each
  other, traded directly as far as they match and through the pool for the rest.

  The pallet is generic over the pool: \<open>exchange_config\<close> holds the operations \<open>'p amm_ops\<close> and
  \<open>'p currency_ops\<close> over the storage \<open>'p\<close> outside the pallet. The order in which the storage
  map of counts is iterated and the hash that makes intention ids are parameters. The runtime
  sets \<open>Resolver\<close> to the pallet itself, so its resolver is called directly.

  The hooks run outside any transaction and contain panics; a panic is the value \<open>None\<close>.
  Arithmetic the source leaves unchecked wraps around at 128 bits.
\<close>

section \<open>State\<close>

datatype exchange_event =
    IntentionRegistered account_id asset_id asset_id balance intention_type nat
  | IntentionResolvedAMMTrade account_id intention_type nat balance balance account_id
  | IntentionResolvedDirectTrade account_id account_id nat nat balance balance
  | IntentionResolvedDirectTradeFees account_id nat account_id asset_id balance
  | InsufficientAssetBalanceEvent account_id asset_id intention_type nat dispatch_error
  | IntentionResolveErrorEvent account_id asset_pair intention_type nat dispatch_error

record 'p exchange_state =
  x_pool :: 'p
  intention_count :: "asset_id \<times> asset_id \<rightharpoonup> nat"
  x_intentions :: "asset_id \<times> asset_id \<rightharpoonup> intention list"
  x_events :: "exchange_event list"

record 'p exchange_config =
  x_amm :: "'p amm_ops"
  x_currency :: "'p currency_ops"
  x_trade_fee :: "balance \<Rightarrow> nat \<times> nat \<Rightarrow> balance option"
  x_hash :: "nat \<Rightarrow> account_id \<Rightarrow> block_number \<Rightarrow> asset_id \<Rightarrow> asset_id \<Rightarrow> nat"
  x_block_number :: "'p \<Rightarrow> block_number"
  x_iter :: "(asset_id \<times> asset_id \<rightharpoonup> nat) \<Rightarrow> ((asset_id \<times> asset_id) \<times> nat) list"

abbreviation x_free :: "'p exchange_config \<Rightarrow> 'p exchange_state \<Rightarrow> asset_id \<Rightarrow> account_id \<Rightarrow> balance" where
  "x_free cfg s \<equiv> c_free_balance (x_currency cfg) (x_pool s)"

abbreviation x_reserved :: "'p exchange_config \<Rightarrow> 'p exchange_state \<Rightarrow> asset_id \<Rightarrow> account_id \<Rightarrow> balance" where
  "x_reserved cfg s \<equiv> c_reserved_balance (x_currency cfg) (x_pool s)"

definition x_deposit_event :: "exchange_event \<Rightarrow> 'p exchange_state \<Rightarrow> 'p exchange_state" where
  "x_deposit_event ev s = s\<lparr>x_events := x_events s @ [ev]\<rparr>"

definition get_intentions_count :: "'p exchange_state \<Rightarrow> asset_id \<times> asset_id \<Rightarrow> nat" where
  "get_intentions_count s k = value_query 0 (intention_count s) k"

definition get_intentions :: "'p exchange_state \<Rightarrow> asset_id \<times> asset_id \<Rightarrow> intention list" where
  "get_intentions s k = value_query [] (x_intentions s) k"

section \<open>Registration\<close>

definition generate_intention_id ::
  "'p exchange_config \<Rightarrow> 'p exchange_state \<Rightarrow> account_id \<Rightarrow> nat \<Rightarrow> asset_pair \<Rightarrow> nat" where
  "generate_intention_id cfg s account c assets =
     (let b = x_block_number cfg (x_pool s)
      in x_hash cfg c account b (fst (ordered_pair assets)) (snd (ordered_pair assets)))"

definition register_intention ::
  "'p exchange_config \<Rightarrow> 'p exchange_state \<Rightarrow> account_id \<Rightarrow> intention_type \<Rightarrow> asset_pair \<Rightarrow> balance \<Rightarrow> balance
   \<Rightarrow> balance \<Rightarrow> bool \<Rightarrow> 'p exchange_state result" where
  "register_intention cfg s who ty assets amount_in amount_out limit discount =
    (let cnt = get_intentions_count s (ordered_pair assets);
         iid = generate_intention_id cfg s who cnt assets;
         new = \<lparr>int_who = who, int_assets = assets, int_amount_in = amount_in, int_amount_out = amount_out,
                int_trade_limit = limit, int_discount = discount, int_sell_or_buy = ty, int_id = iid\<rparr> in
     and_then (ok_or (checked_add u32_max cnt 1) (Exchange IntentionCountOverflow)) (\<lambda>total.
     let key = (asset_in assets, asset_out assets);
         s = s\<lparr>intention_count := (intention_count s)(ordered_pair assets \<mapsto> total),
               x_intentions := (x_intentions s)(key \<mapsto> get_intentions s key @ [new])\<rparr> in
     Inr (case ty of
            SELL \<Rightarrow> x_deposit_event (IntentionRegistered who (asset_in assets) (asset_out assets) amount_in ty iid) s
          | BUY \<Rightarrow> x_deposit_event (IntentionRegistered who (asset_out assets) (asset_in assets) amount_out ty iid) s)))"

definition exchange_sell ::
  "'p exchange_config \<Rightarrow> 'p exchange_state \<Rightarrow> origin \<Rightarrow> asset_id \<Rightarrow> asset_id \<Rightarrow> balance \<Rightarrow> balance \<Rightarrow> bool
   \<Rightarrow> 'p exchange_state result" where
  "exchange_sell cfg s orig asset_sell asset_buy amount_sell min_bought discount =
    and_then (ensure_signed orig) (\<lambda>who.
    and_then (ensure (amount_sell \<ge> MIN_TRADING_LIMIT) (Exchange MinimumTradeLimitNotReached)) (\<lambda>_.
    let assets = mk_pair asset_sell asset_buy in
    and_then (ensure (amm_exists (x_amm cfg) (x_pool s) assets) (Exchange exchange_error.TokenPoolNotFound)) (\<lambda>_.
    and_then (ensure (x_free cfg s asset_sell who \<ge> amount_sell)
                (Exchange exchange_error.InsufficientAssetBalance)) (\<lambda>_.
    let amount_buy = amm_get_spot_price_unchecked (x_amm cfg) (x_pool s) asset_sell asset_buy amount_sell in
    and_then (ensure (amount_buy \<noteq> 0) (Exchange ZeroSpotPrice)) (\<lambda>_.
    register_intention cfg s who SELL assets amount_sell amount_buy min_bought discount)))))"

definition exchange_buy ::
  "'p exchange_config \<Rightarrow> 'p exchange_state \<Rightarrow> origin \<Rightarrow> asset_id \<Rightarrow> asset_id \<Rightarrow> balance \<Rightarrow> balance \<Rightarrow> bool
   \<Rightarrow> 'p exchange_state result" where
  "exchange_buy cfg s orig asset_buy asset_sell amount_buy max_sold discount =
    and_then (ensure_signed orig) (\<lambda>who.
    and_then (ensure (amount_buy \<ge> MIN_TRADING_LIMIT) (Exchange MinimumTradeLimitNotReached)) (\<lambda>_.
    let assets = mk_pair asset_sell asset_buy in
    and_then (ensure (amm_exists (x_amm cfg) (x_pool s) assets) (Exchange exchange_error.TokenPoolNotFound)) (\<lambda>_.
    let amount_sell = amm_get_spot_price_unchecked (x_amm cfg) (x_pool s) asset_buy asset_sell amount_buy in
    and_then (ensure (amount_sell \<noteq> 0) (Exchange ZeroSpotPrice)) (\<lambda>_.
    and_then (ensure (x_free cfg s asset_sell who \<ge> amount_sell)
                (Exchange exchange_error.InsufficientAssetBalance)) (\<lambda>_.
    register_intention cfg s who BUY assets amount_sell amount_buy max_sold discount)))))"

section \<open>Direct trades\<close>

record transfer =
  tf_from :: account_id
  tf_to :: account_id
  tf_asset :: asset_id
  tf_amount :: balance
  tf_fee_transfer :: bool

record direct_trade =
  dt_intention_a :: intention
  dt_intention_b :: intention
  dt_amount_from_a :: balance
  dt_amount_from_b :: balance
  dt_transfers :: "transfer list"

definition send_insufficient_balance_event :: "'p exchange_state \<Rightarrow> intention \<Rightarrow> asset_id \<Rightarrow> 'p exchange_state" where
  "send_insufficient_balance_event s i asset =
     x_deposit_event (InsufficientAssetBalanceEvent (int_who i) asset (int_sell_or_buy i) (int_id i)
       (Exchange exchange_error.InsufficientAssetBalance)) s"

definition send_trade_fee_event ::
  "'p exchange_state \<Rightarrow> account_id \<Rightarrow> intention \<Rightarrow> account_id \<Rightarrow> asset_id \<Rightarrow> balance \<Rightarrow> 'p exchange_state" where
  "send_trade_fee_event s from_acc i to_acc asset amount =
     x_deposit_event (IntentionResolvedDirectTradeFees from_acc (int_id i) to_acc asset amount) s"

definition send_direct_trade_resolve_event :: "'p exchange_state \<Rightarrow> direct_trade \<Rightarrow> 'p exchange_state" where
  "send_direct_trade_resolve_event s dt =
     x_deposit_event (IntentionResolvedDirectTrade (int_who (dt_intention_a dt)) (int_who (dt_intention_b dt))
       (int_id (dt_intention_a dt)) (int_id (dt_intention_b dt)) (dt_amount_from_a dt) (dt_amount_from_b dt)) s"

definition reserve_if_can ::
  "'p exchange_config \<Rightarrow> 'p exchange_state \<Rightarrow> asset_id \<Rightarrow> account_id \<Rightarrow> balance \<Rightarrow> bool \<times> 'p exchange_state" where
  "reserve_if_can cfg s asset who amount =
     (case c_reserve (x_currency cfg) (x_pool s) asset who amount of
        Inr p \<Rightarrow> (True, s\<lparr>x_pool := p\<rparr>)
      | Inl _ \<Rightarrow> (False, s))"

text \<open>
  The match on the two intention types: what is reserved from each side, and the transfers
  pushed once both reservations are made.
\<close>

definition dt_reserve_amounts :: "direct_trade \<Rightarrow> balance \<Rightarrow> balance \<Rightarrow> balance \<times> balance" where
  "dt_reserve_amounts dt fee_a fee_b =
     (case (int_sell_or_buy (dt_intention_a dt), int_sell_or_buy (dt_intention_b dt)) of
        (SELL, SELL) \<Rightarrow> (dt_amount_from_a dt, dt_amount_from_b dt)
      | (BUY, BUY) \<Rightarrow> (wrapping_add u128_max (dt_amount_from_a dt) fee_a,
                      wrapping_add u128_max (dt_amount_from_b dt) fee_b)
      | (BUY, SELL) \<Rightarrow> (wrapping_add u128_max (dt_amount_from_a dt) fee_a, dt_amount_from_b dt)
      | (SELL, BUY) \<Rightarrow> (dt_amount_from_a dt, wrapping_add u128_max (dt_amount_from_b dt) fee_b))"

definition dt_new_transfers :: "direct_trade \<Rightarrow> account_id \<Rightarrow> balance \<Rightarrow> balance \<Rightarrow> transfer list" where
  "dt_new_transfers dt pool_account fee_a fee_b =
    (let who_a = int_who (dt_intention_a dt); who_b = int_who (dt_intention_b dt);
         a_in = asset_in (int_assets (dt_intention_a dt)); a_out = asset_out (int_assets (dt_intention_a dt));
         b_in = asset_in (int_assets (dt_intention_b dt));
         from_a = dt_amount_from_a dt; from_b = dt_amount_from_b dt in
     case (int_sell_or_buy (dt_intention_a dt), int_sell_or_buy (dt_intention_b dt)) of
       (SELL, SELL) \<Rightarrow>
         [\<lparr>tf_from = who_a, tf_to = who_b, tf_asset = a_in, tf_amount = from_a - fee_a, tf_fee_transfer = False\<rparr>,
          \<lparr>tf_from = who_b, tf_to = who_a, tf_asset = a_out, tf_amount = from_b - fee_b, tf_fee_transfer = False\<rparr>,
          \<lparr>tf_from = who_a, tf_to = pool_account, tf_asset = a_in, tf_amount = fee_a, tf_fee_transfer = True\<rparr>,
          \<lparr>tf_from = who_b, tf_to = pool_account, tf_asset = b_in, tf_amount = fee_b, tf_fee_transfer = True\<rparr>]
     | (BUY, BUY) \<Rightarrow>
         [\<lparr>tf_from = who_a, tf_to = who_b, tf_asset = a_in, tf_amount = from_a, tf_fee_transfer = False\<rparr>,
          \<lparr>tf_from = who_b, tf_to = who_a, tf_asset = a_out, tf_amount = from_b, tf_fee_transfer = False\<rparr>,
          \<lparr>tf_from = who_a, tf_to = pool_account, tf_asset = a_in, tf_amount = fee_a, tf_fee_transfer = True\<rparr>,
          \<lparr>tf_from = who_b, tf_to = pool_account, tf_asset = b_in, tf_amount = fee_b, tf_fee_transfer = True\<rparr>]
     | (BUY, SELL) \<Rightarrow>
         [\<lparr>tf_from = who_a, tf_to = who_b, tf_asset = a_in, tf_amount = from_a - fee_a, tf_fee_transfer = False\<rparr>,
          \<lparr>tf_from = who_b, tf_to = who_a, tf_asset = a_out, tf_amount = from_b, tf_fee_transfer = False\<rparr>,
          \<lparr>tf_from = who_a, tf_to = pool_account, tf_asset = a_in,
           tf_amount = wrapping_mul u128_max 2 fee_a, tf_fee_transfer = True\<rparr>]
     | (SELL, BUY) \<Rightarrow>
         [\<lparr>tf_from = who_a, tf_to = who_b, tf_asset = a_in, tf_amount = from_a, tf_fee_transfer = False\<rparr>,
          \<lparr>tf_from = who_b, tf_to = who_a, tf_asset = a_out, tf_amount = from_b - fee_b, tf_fee_transfer = False\<rparr>,
          \<lparr>tf_from = who_b, tf_to = pool_account, tf_asset = b_in,
           tf_amount = wrapping_mul u128_max 2 fee_b, tf_fee_transfer = True\<rparr>])"

definition dt_prepare ::
  "'p exchange_config \<Rightarrow> 'p exchange_state \<Rightarrow> direct_trade \<Rightarrow> account_id
   \<Rightarrow> bool \<times> direct_trade \<times> 'p exchange_state" where
  "dt_prepare cfg s dt pool_account =
    (let a = dt_intention_a dt; b = dt_intention_b dt in
     if x_free cfg s (asset_in (int_assets a)) (int_who a) < dt_amount_from_a dt
     then (False, dt, send_insufficient_balance_event s a (asset_in (int_assets a)))
     else if x_free cfg s (asset_out (int_assets a)) (int_who b) < dt_amount_from_b dt
     then (False, dt, send_insufficient_balance_event s b (asset_out (int_assets a)))
     else
       let fee = amm_get_fee (x_amm cfg) (x_pool s) pool_account in
       case (x_trade_fee cfg (dt_amount_from_a dt) fee, x_trade_fee cfg (dt_amount_from_b dt) fee) of
         (Some fee_a, Some fee_b) \<Rightarrow>
           if fee_a > dt_amount_from_a dt \<or> fee_b > dt_amount_from_b dt then (False, dt, s)
           else
             let (reserve_a, reserve_b) = dt_reserve_amounts dt fee_a fee_b;
                 (ok_a, s) = reserve_if_can cfg s (asset_in (int_assets a)) (int_who a) reserve_a in
             if \<not> ok_a then (False, dt, s)
             else
               let (ok_b, s) = reserve_if_can cfg s (asset_out (int_assets a)) (int_who b) reserve_b in
               if \<not> ok_b then (False, dt, s)
               else (True, dt\<lparr>dt_transfers := dt_transfers dt @ dt_new_transfers dt pool_account fee_a fee_b\<rparr>, s)
       | _ \<Rightarrow> (False, dt, s))"

fun dt_execute_transfers ::
  "'p exchange_config \<Rightarrow> direct_trade \<Rightarrow> 'p exchange_state \<Rightarrow> transfer list \<Rightarrow> bool \<times> 'p exchange_state" where
  "dt_execute_transfers cfg dt s [] = (True, s)"
| "dt_execute_transfers cfg dt s (t # ts) =
     (case c_repatriate_reserved (x_currency cfg) (x_pool s) (tf_asset t) (tf_from t) (tf_to t) (tf_amount t) StatusFree of
        Inl _ \<Rightarrow> (False, s)
      | Inr (_, p) \<Rightarrow>
          let s = s\<lparr>x_pool := p\<rparr>;
              i = (if tf_from t = int_who (dt_intention_a dt) then dt_intention_a dt else dt_intention_b dt);
              s = (if tf_fee_transfer t
                   then send_trade_fee_event s (tf_from t) i (tf_to t) (tf_asset t) (tf_amount t) else s)
          in dt_execute_transfers cfg dt s ts)"

definition dt_execute :: "'p exchange_config \<Rightarrow> 'p exchange_state \<Rightarrow> direct_trade \<Rightarrow> bool \<times> 'p exchange_state" where
  "dt_execute cfg s dt = dt_execute_transfers cfg dt (send_direct_trade_resolve_event s dt) (dt_transfers dt)"

fun dt_unreserve_transfers ::
  "'p exchange_config \<Rightarrow> 'p exchange_state \<Rightarrow> transfer list \<Rightarrow> 'p exchange_state" where
  "dt_unreserve_transfers cfg s [] = s"
| "dt_unreserve_transfers cfg s (t # ts) =
     dt_unreserve_transfers cfg
       (s\<lparr>x_pool := snd (c_unreserve (x_currency cfg) (x_pool s) (tf_asset t) (tf_from t) (tf_amount t))\<rparr>) ts"

definition dt_revert :: "'p exchange_config \<Rightarrow> 'p exchange_state \<Rightarrow> direct_trade \<Rightarrow> 'p exchange_state" where
  "dt_revert cfg s dt = dt_unreserve_transfers cfg s (dt_transfers dt)"

section \<open>Resolution through the pool\<close>

definition send_intention_error_event :: "'p exchange_state \<Rightarrow> intention \<Rightarrow> dispatch_error \<Rightarrow> 'p exchange_state" where
  "send_intention_error_event s i e =
     x_deposit_event (IntentionResolveErrorEvent (int_who i) (int_assets i) (int_sell_or_buy i) (int_id i) e) s"

definition validate_intention ::
  "'p exchange_config \<Rightarrow> 'p exchange_state \<Rightarrow> intention \<Rightarrow> amm_transfer result" where
  "validate_intention cfg s i =
     (case int_sell_or_buy i of
        SELL \<Rightarrow> amm_validate_sell (x_amm cfg) (x_pool s) (int_who i) (int_assets i) (int_amount_in i)
                  (int_trade_limit i) (int_discount i)
      | BUY \<Rightarrow> amm_validate_buy (x_amm cfg) (x_pool s) (int_who i) (int_assets i) (int_amount_out i)
                  (int_trade_limit i) (int_discount i))"

definition verify_intention ::
  "'p exchange_config \<Rightarrow> 'p exchange_state \<Rightarrow> intention \<Rightarrow> bool \<times> 'p exchange_state" where
  "verify_intention cfg s i =
     (case validate_intention cfg s i of
        Inl e \<Rightarrow> (False, x_deposit_event (IntentionResolveErrorEvent (int_who i) (int_assets i)
                             (int_sell_or_buy i) (int_id i) e) s)
      | Inr _ \<Rightarrow> (True, s))"

definition execute_amm_transfer ::
  "'p exchange_config \<Rightarrow> 'p exchange_state \<Rightarrow> intention_type \<Rightarrow> nat \<Rightarrow> amm_transfer \<Rightarrow> 'p exchange_state result" where
  "execute_amm_transfer cfg s ty iid t =
     and_then (case ty of SELL \<Rightarrow> amm_execute_sell (x_amm cfg) (x_pool s) t
                        | BUY \<Rightarrow> amm_execute_buy (x_amm cfg) (x_pool s) t) (\<lambda>p.
     Inr (x_deposit_event (IntentionResolvedAMMTrade (tr_origin t) ty iid (tr_amount t)
            (wrapping_add u128_max (tr_amount_out t) (snd (tr_fee t)))
            (amm_get_pair_id (x_amm cfg) (tr_assets t))) (s\<lparr>x_pool := p\<rparr>)))"

definition resolve_single_intention :: "'p exchange_config \<Rightarrow> 'p exchange_state \<Rightarrow> intention \<Rightarrow> 'p exchange_state" where
  "resolve_single_intention cfg s i =
     (case validate_intention cfg s i of
        Inr t \<Rightarrow> (case execute_amm_transfer cfg s (int_sell_or_buy i) (int_id i) t of
                    Inr s' \<Rightarrow> s'
                  | Inl e \<Rightarrow> send_intention_error_event s i e)
      | Inl e \<Rightarrow> send_intention_error_event s i e)"

section \<open>Resolution of matched intentions\<close>

text \<open>
  The check of a trade limit for an intention traded directly: \<open>got\<close> is what it receives,
  \<open>paid\<close> what it gives.
\<close>

definition direct_limit_error :: "intention \<Rightarrow> balance \<Rightarrow> balance \<Rightarrow> dispatch_error option" where
  "direct_limit_error i got paid =
     (case int_sell_or_buy i of
        SELL \<Rightarrow> if got < int_trade_limit i then Some (Exchange TradeAmountNotReachedLimit) else None
      | BUY \<Rightarrow> if paid > int_trade_limit i then Some (Exchange TradeAmountExceededLimit) else None)"

definition mk_direct_trade :: "intention \<Rightarrow> intention \<Rightarrow> balance \<Rightarrow> balance \<Rightarrow> direct_trade" where
  "mk_direct_trade a b from_a from_b =
     \<lparr>dt_intention_a = a, dt_intention_b = b, dt_amount_from_a = from_a, dt_amount_from_b = from_b,
      dt_transfers = []\<rparr>"

text \<open>Scenario 1: the matched intention is traded directly in full.\<close>

definition match_whole ::
  "'p exchange_config \<Rightarrow> account_id \<Rightarrow> 'p exchange_state \<Rightarrow> intention \<Rightarrow> intention
   \<Rightarrow> ('p exchange_state \<times> intention) option" where
  "match_whole cfg pair_account s copy m =
    (let dt = mk_direct_trade copy m (int_amount_out m) (int_amount_in m) in
     case direct_limit_error m (dt_amount_from_a dt) (dt_amount_from_b dt) of
       Some e \<Rightarrow> Some (send_intention_error_event s m e, copy)
     | None \<Rightarrow>
         let (ok, dt, s) = dt_prepare cfg s dt pair_account in
         if ok then
           let (_, s) = dt_execute cfg s dt in
           case checked_sub (int_amount_in copy) (int_amount_out m) of
             None \<Rightarrow> None
           | Some new_in \<Rightarrow>
               (case checked_sub (int_amount_out copy) (int_amount_in m) of
                  None \<Rightarrow> None
                | Some new_out \<Rightarrow>
                    Some (s, copy\<lparr>int_amount_in := new_in, int_amount_out := new_out,
                      int_trade_limit := (case int_sell_or_buy copy of
                         SELL \<Rightarrow> saturating_sub (int_trade_limit copy) (int_amount_in m)
                       | BUY \<Rightarrow> wrapping_sub u128_max (int_trade_limit copy) (int_amount_out m))\<rparr>))
         else Some (dt_revert cfg s dt, copy))"

text \<open>Scenario 2: the main intention is used up; the rest of the matched one goes to the pool.\<close>

definition match_partial ::
  "'p exchange_config \<Rightarrow> account_id \<Rightarrow> 'p exchange_state \<Rightarrow> intention \<Rightarrow> intention
   \<Rightarrow> ('p exchange_state \<times> intention) option" where
  "match_partial cfg pair_account s copy m =
    (let a_in = int_amount_in copy; a_out = int_amount_out copy in
     case checked_sub (int_amount_out m) a_in of
       None \<Rightarrow> None
     | Some rest_out \<Rightarrow>
     (case checked_sub (int_amount_in m) a_out of
       None \<Rightarrow> None
     | Some rest_in \<Rightarrow>
        let dt = mk_direct_trade copy m a_in a_out;
            amm_transfer_result =
              (case int_sell_or_buy m of
                 SELL \<Rightarrow> amm_validate_sell (x_amm cfg) (x_pool s) (int_who m) (int_assets m) rest_in
                           (saturating_sub (int_trade_limit m) a_in) (int_discount m)
               | BUY \<Rightarrow> amm_validate_buy (x_amm cfg) (x_pool s) (int_who m) (int_assets m) rest_out
                           (saturating_sub (int_trade_limit m) a_out) (int_discount m)) in
        case amm_transfer_result of
          Inl e \<Rightarrow> Some (send_intention_error_event s m e, copy)
        | Inr t \<Rightarrow>
            let (ok, dt, s) = dt_prepare cfg s dt pair_account in
            if ok then
              (case execute_amm_transfer cfg s (int_sell_or_buy m) (int_id m) t of
                 Inr s \<Rightarrow> let (_, s) = dt_execute cfg s dt in Some (s, copy\<lparr>int_amount_in := 0\<rparr>)
               | Inl e \<Rightarrow> Some (dt_revert cfg (send_intention_error_event s m e) dt, copy))
            else Some (dt_revert cfg s dt, copy)))"

text \<open>Scenario 3: exact match. The limit of the main intention is that of the intention as registered.\<close>

definition match_exact ::
  "'p exchange_config \<Rightarrow> account_id \<Rightarrow> intention \<Rightarrow> 'p exchange_state \<Rightarrow> intention \<Rightarrow> intention
   \<Rightarrow> ('p exchange_state \<times> intention) option" where
  "match_exact cfg pair_account main s copy m =
    (let dt = mk_direct_trade copy m (int_amount_in copy) (int_amount_in m) in
     case direct_limit_error main (dt_amount_from_b dt) (dt_amount_from_a dt) of
       Some e \<Rightarrow> Some (send_intention_error_event s main e, copy)
     | None \<Rightarrow>
     (case direct_limit_error m (dt_amount_from_a dt) (dt_amount_from_b dt) of
       Some e \<Rightarrow> Some (send_intention_error_event s m e, copy)
     | None \<Rightarrow>
         let (ok, dt, s) = dt_prepare cfg s dt pair_account in
         if ok then let (_, s) = dt_execute cfg s dt in Some (s, copy\<lparr>int_amount_in := 0\<rparr>)
         else Some (dt_revert cfg s dt, copy)))"

definition match_one ::
  "'p exchange_config \<Rightarrow> account_id \<Rightarrow> intention \<Rightarrow> 'p exchange_state \<Rightarrow> intention \<Rightarrow> intention
   \<Rightarrow> ('p exchange_state \<times> intention) option" where
  "match_one cfg pair_account main s copy m =
     (if int_amount_in copy > int_amount_out m then match_whole cfg pair_account s copy m
      else if int_amount_in copy < int_amount_out m then match_partial cfg pair_account s copy m
      else match_exact cfg pair_account main s copy m)"

fun match_all ::
  "'p exchange_config \<Rightarrow> account_id \<Rightarrow> intention \<Rightarrow> 'p exchange_state \<Rightarrow> intention \<Rightarrow> intention list
   \<Rightarrow> ('p exchange_state \<times> intention) option" where
  "match_all cfg pair_account main s copy [] = Some (s, copy)"
| "match_all cfg pair_account main s copy (m # ms) =
     (case match_one cfg pair_account main s copy m of
        None \<Rightarrow> None
      | Some (s, copy) \<Rightarrow> match_all cfg pair_account main s copy ms)"

definition resolve_matched_intentions ::
  "'p exchange_config \<Rightarrow> 'p exchange_state \<Rightarrow> account_id \<Rightarrow> intention \<Rightarrow> intention list \<Rightarrow> 'p exchange_state option" where
  "resolve_matched_intentions cfg s pair_account main matched =
     (case match_all cfg pair_account main s main matched of
        None \<Rightarrow> None
      | Some (s, copy) \<Rightarrow>
          Some (if int_amount_in copy > 0 then resolve_single_intention cfg s copy else s))"

section \<open>The end of a block\<close>

text \<open>\<open>sort_by(|a, b| b.amount_in.cmp(&a.amount_in))\<close>: stable, largest first.\<close>

definition sort_intentions :: "intention list \<Rightarrow> intention list" where
  "sort_intentions = sort_key (\<lambda>i. - int (int_amount_in i))"

fun take_matching :: "balance \<Rightarrow> intention list \<Rightarrow> intention list" where
  "take_matching total_left [] = []"
| "take_matching total_left (x # xs) =
     (if total_left > 0 then x # take_matching (saturating_sub total_left (int_amount_out x)) xs else [])"

fun process_a_intentions ::
  "'p exchange_config \<Rightarrow> account_id \<Rightarrow> intention list \<Rightarrow> 'p exchange_state \<Rightarrow> nat \<Rightarrow> intention list
   \<Rightarrow> ('p exchange_state \<times> nat) option" where
  "process_a_intentions cfg pair_account b_ins s to_skip [] = Some (s, to_skip)"
| "process_a_intentions cfg pair_account b_ins s to_skip (i # is) =
    (let (ok, s) = verify_intention cfg s i in
     if \<not> ok then process_a_intentions cfg pair_account b_ins s to_skip is
     else
       let matched = take_matching (int_amount_in i) (drop to_skip b_ins) in
       case resolve_matched_intentions cfg s pair_account i matched of
         None \<Rightarrow> None
       | Some s \<Rightarrow> process_a_intentions cfg pair_account b_ins s (to_skip + length matched) is)"

definition process_exchange_intentions ::
  "'p exchange_config \<Rightarrow> 'p exchange_state \<Rightarrow> account_id \<Rightarrow> intention list \<Rightarrow> intention list \<Rightarrow> 'p exchange_state option" where
  "process_exchange_intentions cfg s pair_account a_ins b_ins =
    (let b_ins = sort_intentions b_ins; a_ins = sort_intentions a_ins in
     case process_a_intentions cfg pair_account b_ins s 0 a_ins of
       None \<Rightarrow> None
     | Some (s, to_skip) \<Rightarrow> Some (foldl (resolve_single_intention cfg) s (drop to_skip b_ins)))"

fun finalize_pairs ::
  "'p exchange_config \<Rightarrow> 'p exchange_state \<Rightarrow> ((asset_id \<times> asset_id) \<times> nat) list \<Rightarrow> 'p exchange_state option" where
  "finalize_pairs cfg s [] = Some s"
| "finalize_pairs cfg s (((asset_1, asset_2), n) # rest) =
    (if n = 0 then finalize_pairs cfg s rest
     else
       let pair_account = amm_get_pair_id (x_amm cfg) (mk_pair asset_1 asset_2);
           a_ins = get_intentions s (asset_2, asset_1);
           b_ins = get_intentions s (asset_1, asset_2) in
       case process_exchange_intentions cfg s pair_account a_ins b_ins of
         None \<Rightarrow> None
       | Some s \<Rightarrow> finalize_pairs cfg s rest)"

definition exchange_on_finalize :: "'p exchange_config \<Rightarrow> 'p exchange_state \<Rightarrow> 'p exchange_state option" where
  "exchange_on_finalize cfg s =
     (case finalize_pairs cfg s (x_iter cfg (intention_count s)) of
        None \<Rightarrow> None
      | Some s \<Rightarrow> Some (s\<lparr>intention_count := Map.empty, x_intentions := Map.empty\<rparr>))"

end
