(* ===== verification/Uniques.thy ===== *)
theory Uniques
  imports Ledger
begin

text \<open>
  The non-fungible token store below the NFT pallet (\<open>pallet_uniques\<close>), which is not part of the
  repository. \<open>uniques_ops\<close> has one field per function the repository calls, over an opaque
  storage; the functions that take a closure get it as a check on the storage. The locale
  \<open>uniques\<close> states what the pallet documents about owners; the executable \<open>registry\<close> meets it.
\<close>

record destroy_witness =
  dw_instances :: nat
  dw_instance_metadatas :: nat
  dw_attributes :: nat

record 'u uniques_ops =
  u_class_owner :: "'u \<Rightarrow> class_id \<Rightarrow> account_id option"
  u_owner :: "'u \<Rightarrow> class_id \<Rightarrow> instance_id \<Rightarrow> account_id option"
  u_do_create_class :: "'u \<Rightarrow> class_id \<Rightarrow> account_id \<Rightarrow> account_id \<Rightarrow> balance \<Rightarrow> bool \<Rightarrow> 'u result"
  u_do_mint :: "'u \<Rightarrow> class_id \<Rightarrow> instance_id \<Rightarrow> account_id \<Rightarrow> 'u result"
  u_do_transfer :: "'u \<Rightarrow> class_id \<Rightarrow> instance_id \<Rightarrow> account_id \<Rightarrow> ('u \<Rightarrow> unit result) \<Rightarrow> 'u result"
  u_do_burn :: "'u \<Rightarrow> class_id \<Rightarrow> instance_id \<Rightarrow> ('u \<Rightarrow> unit result) \<Rightarrow> 'u result"
  u_get_destroy_witness :: "'u \<Rightarrow> class_id \<Rightarrow> destroy_witness option"
  u_do_destroy_class :: "'u \<Rightarrow> class_id \<Rightarrow> destroy_witness \<Rightarrow> account_id option \<Rightarrow> 'u result"

definition owner_set ::
  "class_id \<Rightarrow> instance_id \<Rightarrow> account_id option \<Rightarrow> (class_id \<Rightarrow> instance_id \<Rightarrow> account_id option)
   \<Rightarrow> class_id \<Rightarrow> instance_id \<Rightarrow> account_id option" where
  "owner_set c i w f = f(c := (f c)(i := w))"

lemma owner_set_apply [simp]: "owner_set c i w f d j = (if d = c \<and> j = i then w else f d j)"
  by (simp add: owner_set_def)

locale uniques =
  fixes U :: "'u uniques_ops"
  assumes create_class_owner:
      "u_do_create_class U u c w admin d free = Inr u' \<Longrightarrow>
         u_class_owner U u c = None \<and> u_class_owner U u' = (u_class_owner U u)(c := Some w)"
    and create_owner: "u_do_create_class U u c w admin d free = Inr u' \<Longrightarrow> u_owner U u' = u_owner U u"
    and mint_owner:
      "u_do_mint U u c i w = Inr u' \<Longrightarrow> u_owner U u c i = None \<and> u_owner U u' = owner_set c i (Some w) (u_owner U u)"
    and mint_class: "u_do_mint U u c i w = Inr u' \<Longrightarrow> u_class_owner U u' = u_class_owner U u"
    and transfer_owner:
      "u_do_transfer U u c i t k = Inr u' \<Longrightarrow> k u = Inr () \<and> u_owner U u' = owner_set c i (Some t) (u_owner U u)"
    and transfer_class: "u_do_transfer U u c i t k = Inr u' \<Longrightarrow> u_class_owner U u' = u_class_owner U u"
    and burn_owner:
      "u_do_burn U u c i k = Inr u' \<Longrightarrow> k u = Inr () \<and> u_owner U u' = owner_set c i None (u_owner U u)"
    and burn_class: "u_do_burn U u c i k = Inr u' \<Longrightarrow> u_class_owner U u' = u_class_owner U u"
    and witness_instances:
      "u_get_destroy_witness U u c = Some dw \<Longrightarrow> dw_instances dw = 0 \<Longrightarrow> u_owner U u c i = None"
    and destroy_owner:
      "u_do_destroy_class U u c dw (Some v) = Inr u' \<Longrightarrow> u_class_owner U u c = Some v \<and>
         u_class_owner U u' = (u_class_owner U u)(c := None) \<and> u_owner U u' = (u_owner U u)(c := Map.empty)"

section \<open>An executable store\<close>

record registry =
  rg_classes :: "class_id \<rightharpoonup> account_id"
  rg_tokens :: "((class_id \<times> instance_id) \<times> account_id) list"

definition rg_owner :: "registry \<Rightarrow> class_id \<Rightarrow> instance_id \<Rightarrow> account_id option" where
  "rg_owner r c i = map_of (rg_tokens r) (c, i)"

definition rg_set :: "registry \<Rightarrow> class_id \<Rightarrow> instance_id \<Rightarrow> account_id option \<Rightarrow> registry" where
  "rg_set r c i w = r\<lparr>rg_tokens := (case w of None \<Rightarrow> [] | Some v \<Rightarrow> [((c, i), v)]) @
     filter (\<lambda>e. fst e \<noteq> (c, i)) (rg_tokens r)\<rparr>"

definition registry_ops :: "registry uniques_ops" where
  "registry_ops = \<lparr>
     u_class_owner = rg_classes,
     u_owner = rg_owner,
     u_do_create_class = (\<lambda>r c w admin d free.
        if rg_classes r c = None then Inr (r\<lparr>rg_classes := (rg_classes r)(c \<mapsto> w)\<rparr>) else Inl (External 10)),
     u_do_mint = (\<lambda>r c i w.
        if rg_classes r c \<noteq> None \<and> rg_owner r c i = None then Inr (rg_set r c i (Some w)) else Inl (External 11)),
     u_do_transfer = (\<lambda>r c i t k.
        if rg_owner r c i = None then Inl (External 12) else and_then (k r) (\<lambda>_. Inr (rg_set r c i (Some t)))),
     u_do_burn = (\<lambda>r c i k.
        if rg_owner r c i = None then Inl (External 12) else and_then (k r) (\<lambda>_. Inr (rg_set r c i None))),
     u_get_destroy_witness = (\<lambda>r c. if rg_classes r c = None then None
        else Some \<lparr>dw_instances = length (filter (\<lambda>e. fst (fst e) = c) (rg_tokens r)),
                   dw_instance_metadatas = 0, dw_attributes = 0\<rparr>),
     u_do_destroy_class = (\<lambda>r c w v.
        if v \<noteq> None \<and> rg_classes r c = v
        then Inr (r\<lparr>rg_classes := (rg_classes r)(c := None),
                    rg_tokens := filter (\<lambda>e. fst (fst e) \<noteq> c) (rg_tokens r)\<rparr>)
        else Inl (External 13))\<rparr>"

lemma map_of_filter_key: "map_of (filter (\<lambda>e. P (fst e)) xs) k = (if P k then map_of xs k else None)"
  by (induction xs) auto

lemma rg_owner_set [simp]: "rg_owner (rg_set r c i w) = owner_set c i w (rg_owner r)"
  by (intro ext) (auto simp: rg_owner_def rg_set_def map_of_filter_key [of "\<lambda>k. k \<noteq> (c, i)"] map_add_def
      split: option.splits)

lemma rg_owner_destroy:
  "rg_owner (r\<lparr>rg_classes := m, rg_tokens := filter (\<lambda>e. fst (fst e) \<noteq> c) (rg_tokens r)\<rparr>) =
     (rg_owner r)(c := Map.empty)"
  by (intro ext) (auto simp: rg_owner_def map_of_filter_key [of "\<lambda>k. fst k \<noteq> c"])

lemma rg_classes_set [simp]: "rg_classes (rg_set r c i w) = rg_classes r"
  by (simp add: rg_set_def)

lemma rg_owner_classes [simp]: "rg_owner (r\<lparr>rg_classes := m\<rparr>) = rg_owner r"
  by (intro ext) (simp add: rg_owner_def)

lemma rg_owner_no_instances:
  "\<forall>e\<in>set (rg_tokens r). fst (fst e) \<noteq> c \<Longrightarrow> rg_owner r c i = None"
  by (auto simp: rg_owner_def map_of_eq_None_iff image_iff)

interpretation registry: uniques registry_ops
  by unfold_locales
    (auto simp: registry_ops_def rg_owner_destroy rg_owner_no_instances filter_empty_conv split: if_splits)

section \<open>A store inside a larger storage\<close>

definition lift_uniques :: "('s \<Rightarrow> 'u) \<Rightarrow> ('u \<Rightarrow> 's \<Rightarrow> 's) \<Rightarrow> 'u uniques_ops \<Rightarrow> 's uniques_ops" where
  "lift_uniques gt pt U = \<lparr>
     u_class_owner = (\<lambda>s. u_class_owner U (gt s)),
     u_owner = (\<lambda>s. u_owner U (gt s)),
     u_do_create_class = (\<lambda>s c w admin d free.
        and_then (u_do_create_class U (gt s) c w admin d free) (\<lambda>u. Inr (pt u s))),
     u_do_mint = (\<lambda>s c i w. and_then (u_do_mint U (gt s) c i w) (\<lambda>u. Inr (pt u s))),
     u_do_transfer = (\<lambda>s c i t k.
        and_then (u_do_transfer U (gt s) c i t (\<lambda>u. k (pt u s))) (\<lambda>u. Inr (pt u s))),
     u_do_burn = (\<lambda>s c i k. and_then (u_do_burn U (gt s) c i (\<lambda>u. k (pt u s))) (\<lambda>u. Inr (pt u s))),
     u_get_destroy_witness = (\<lambda>s. u_get_destroy_witness U (gt s)),
     u_do_destroy_class = (\<lambda>s c dw v. and_then (u_do_destroy_class U (gt s) c dw v) (\<lambda>u. Inr (pt u s)))\<rparr>"

lemma uniques_lift:
  assumes "uniques U" and gp: "\<And>u s. gt (pt u s) = u" and pg: "\<And>s. pt (gt s) s = s"
  shows "uniques (lift_uniques gt pt U)"
proof -
  note laws = uniques.create_class_owner [OF assms(1)] uniques.create_owner [OF assms(1)]
    uniques.mint_owner [OF assms(1)] uniques.mint_class [OF assms(1)] uniques.transfer_class [OF assms(1)]
    uniques.burn_class [OF assms(1)] uniques.witness_instances [OF assms(1)] uniques.destroy_owner [OF assms(1)]
  have tr: "k s = Inr () \<and> u_owner U u' = owner_set c i (Some t) (u_owner U (gt s))"
    if "u_do_transfer U (gt s) c i t (\<lambda>u. k (pt u s)) = Inr u'" for s c i t k u'
    using uniques.transfer_owner [OF assms(1) that] by (simp add: pg)
  have bu: "k s = Inr () \<and> u_owner U u' = owner_set c i None (u_owner U (gt s))"
    if "u_do_burn U (gt s) c i (\<lambda>u. k (pt u s)) = Inr u'" for s c i k u'
    using uniques.burn_owner [OF assms(1) that] by (simp add: pg)
  show ?thesis
    by unfold_locales (auto simp: lift_uniques_def gp dest: laws tr bu)
qed

end
