(* ===== verification/NFT.thy ===== *)
theory NFT
  imports Uniques
begin

text \<open>
  The NFT pallet, \<open>pallets/nft/src/lib.rs\<close>: classes with a type that decides what users may do
  with them, on top of the token store of \<open>Uniques\<close>. The extrinsics check permissions, the
  \<open>do_\<close> functions are also called by the marketplace and by liquidity mining. The class type
  and its permission table are those of the runtime (\<open>Primitives\<close>). Metadata are bounded by
  their type in the source, so any list of bytes stands for them.

  The locale \<open>nft_registry\<close> is what the other pallets rely on: who owns a token after it was
  minted, burned or transferred. The sublocale shows it for this pallet on any store that
  meets the contract of \<open>Uniques\<close>.
\<close>

record class_info =
  ci_class_type :: class_type
  ci_metadata :: "byte list"

record instance_info =
  ii_metadata :: "byte list"

datatype nft_event =
    ClassCreated account_id class_id class_type "byte list"
  | InstanceMinted account_id class_id instance_id "byte list"
  | InstanceTransferred account_id account_id class_id instance_id
  | InstanceBurned account_id class_id instance_id
  | ClassDestroyed account_id class_id

record 'u nft_state =
  nft_ext :: 'u
  nft_classes :: "class_id \<rightharpoonup> class_info"
  nft_instances :: "class_id \<times> instance_id \<rightharpoonup> instance_info"
  nft_events :: "nft_event list"

record 'u nft_config =
  nft_uniques :: "'u uniques_ops"
  nft_reserve_class_id_up_to :: class_id
  nft_class_deposit :: balance
  nft_lookup :: "nat \<Rightarrow> account_id option"
  nft_unlookup :: "account_id \<Rightarrow> nat"

definition nft_put :: "'u \<Rightarrow> 'u nft_state \<Rightarrow> 'u nft_state" where
  "nft_put u s = s\<lparr>nft_ext := u\<rparr>"

definition nft_deposit_event :: "nft_event \<Rightarrow> 'u nft_state \<Rightarrow> 'u nft_state" where
  "nft_deposit_event ev s = s\<lparr>nft_events := nft_events s @ [ev]\<rparr>"

definition nft_class_owner :: "'u nft_config \<Rightarrow> 'u nft_state \<Rightarrow> class_id \<Rightarrow> account_id option" where
  "nft_class_owner cfg s class_id = u_class_owner (nft_uniques cfg) (nft_ext s) class_id"

definition nft_owner :: "'u nft_config \<Rightarrow> 'u nft_state \<Rightarrow> class_id \<Rightarrow> instance_id \<Rightarrow> account_id option" where
  "nft_owner cfg s class_id instance_id = u_owner (nft_uniques cfg) (nft_ext s) class_id instance_id"

section \<open>Functions shared with other pallets\<close>

definition nft_do_create_class ::
  "'u nft_config \<Rightarrow> 'u nft_state \<Rightarrow> account_id \<Rightarrow> class_id \<Rightarrow> class_type \<Rightarrow> byte list
   \<Rightarrow> ((class_id \<times> class_type) \<times> 'u nft_state) result" where
  "nft_do_create_class cfg s owner class_id ty metadata =
    (let deposit_info = (if has_deposit ty then (nft_class_deposit cfg, False) else (0, True)) in
     and_then (u_do_create_class (nft_uniques cfg) (nft_ext s) class_id owner owner
                 (fst deposit_info) (snd deposit_info)) (\<lambda>u.
     let s = s\<lparr>nft_ext := u,
               nft_classes := (nft_classes s)(class_id \<mapsto> \<lparr>ci_class_type = ty, ci_metadata = metadata\<rparr>)\<rparr>
     in Inr ((class_id, ty), nft_deposit_event (ClassCreated owner class_id ty metadata) s)))"

definition nft_do_mint ::
  "'u nft_config \<Rightarrow> 'u nft_state \<Rightarrow> account_id \<Rightarrow> class_id \<Rightarrow> instance_id \<Rightarrow> byte list
   \<Rightarrow> (instance_id \<times> 'u nft_state) result" where
  "nft_do_mint cfg s owner class_id instance_id metadata =
     and_then (u_do_mint (nft_uniques cfg) (nft_ext s) class_id instance_id owner) (\<lambda>u.
     let s = s\<lparr>nft_ext := u,
               nft_instances := (nft_instances s)((class_id, instance_id) \<mapsto> \<lparr>ii_metadata = metadata\<rparr>)\<rparr>
     in Inr (instance_id, nft_deposit_event (InstanceMinted owner class_id instance_id metadata) s))"

definition nft_do_transfer ::
  "'u nft_config \<Rightarrow> 'u nft_state \<Rightarrow> class_id \<Rightarrow> instance_id \<Rightarrow> account_id \<Rightarrow> account_id \<Rightarrow> 'u nft_state result" where
  "nft_do_transfer cfg s class_id instance_id from_acc to_acc =
     (if from_acc = to_acc then Inr s
      else
        and_then (u_do_transfer (nft_uniques cfg) (nft_ext s) class_id instance_id to_acc (\<lambda>u.
          and_then (ok_or (nft_owner cfg (s\<lparr>nft_ext := u\<rparr>) class_id instance_id) (NFT InstanceUnknown)) (\<lambda>owner.
          ensure (owner = from_acc) (NFT NotPermitted)))) (\<lambda>u.
        Inr (nft_deposit_event (InstanceTransferred from_acc to_acc class_id instance_id) (s\<lparr>nft_ext := u\<rparr>))))"

definition nft_do_burn ::
  "'u nft_config \<Rightarrow> 'u nft_state \<Rightarrow> account_id \<Rightarrow> class_id \<Rightarrow> instance_id \<Rightarrow> 'u nft_state result" where
  "nft_do_burn cfg s owner class_id instance_id =
     and_then (u_do_burn (nft_uniques cfg) (nft_ext s) class_id instance_id (\<lambda>u.
       and_then (ok_or (nft_owner cfg (s\<lparr>nft_ext := u\<rparr>) class_id instance_id) (NFT InstanceUnknown)) (\<lambda>iowner.
       ensure (owner = iowner) (NFT NotPermitted)))) (\<lambda>u.
     let s = s\<lparr>nft_ext := u, nft_instances := (nft_instances s)((class_id, instance_id) := None)\<rparr>
     in Inr (nft_deposit_event (InstanceBurned owner class_id instance_id) s))"

definition nft_do_destroy_class ::
  "'u nft_config \<Rightarrow> 'u nft_state \<Rightarrow> account_id \<Rightarrow> class_id \<Rightarrow> 'u nft_state result" where
  "nft_do_destroy_class cfg s owner class_id =
     and_then (ok_or (u_get_destroy_witness (nft_uniques cfg) (nft_ext s) class_id) (NFT ClassUnknown)) (\<lambda>witness.
     and_then (ensure (dw_instances witness = 0) (NFT TokenClassNotEmpty)) (\<lambda>_.
     and_then (u_do_destroy_class (nft_uniques cfg) (nft_ext s) class_id witness (Some owner)) (\<lambda>u.
     let s = s\<lparr>nft_ext := u, nft_classes := (nft_classes s)(class_id := None)\<rparr>
     in Inr (nft_deposit_event (ClassDestroyed owner class_id) s))))"

section \<open>Extrinsics\<close>

definition nft_create_class ::
  "'u nft_config \<Rightarrow> 'u nft_state \<Rightarrow> origin \<Rightarrow> class_id \<Rightarrow> class_type \<Rightarrow> byte list \<Rightarrow> 'u nft_state result" where
  "nft_create_class cfg s orig class_id ty metadata =
     and_then (ensure_signed orig) (\<lambda>sender.
     and_then (ensure (nft_reserve_class_id_up_to cfg < class_id) (NFT IdReserved)) (\<lambda>_.
     and_then (ensure (can_create ty) (NFT NotPermitted)) (\<lambda>_.
     and_then (nft_do_create_class cfg s sender class_id default_class_type metadata) (\<lambda>(_, s). Inr s))))"

definition nft_mint ::
  "'u nft_config \<Rightarrow> 'u nft_state \<Rightarrow> origin \<Rightarrow> class_id \<Rightarrow> instance_id \<Rightarrow> byte list \<Rightarrow> 'u nft_state result" where
  "nft_mint cfg s orig class_id instance_id metadata =
     and_then (ensure_signed orig) (\<lambda>sender.
     and_then (ok_or (map_option ci_class_type (nft_classes s class_id)) (NFT ClassUnknown)) (\<lambda>ty.
     and_then (ensure (can_mint ty) (NFT NotPermitted)) (\<lambda>_.
     and_then (nft_do_mint cfg s sender class_id instance_id metadata) (\<lambda>(_, s). Inr s))))"

definition nft_transfer ::
  "'u nft_config \<Rightarrow> 'u nft_state \<Rightarrow> origin \<Rightarrow> class_id \<Rightarrow> instance_id \<Rightarrow> nat \<Rightarrow> 'u nft_state result" where
  "nft_transfer cfg s orig class_id instance_id dest =
     and_then (ensure_signed orig) (\<lambda>sender.
     and_then (ok_or (nft_lookup cfg dest) CannotLookup) (\<lambda>dest.
     and_then (ok_or (map_option ci_class_type (nft_classes s class_id)) (NFT ClassUnknown)) (\<lambda>ty.
     and_then (ensure (can_transfer ty) (NFT NotPermitted)) (\<lambda>_.
     nft_do_transfer cfg s class_id instance_id sender dest))))"

definition nft_burn ::
  "'u nft_config \<Rightarrow> 'u nft_state \<Rightarrow> origin \<Rightarrow> class_id \<Rightarrow> instance_id \<Rightarrow> 'u nft_state result" where
  "nft_burn cfg s orig class_id instance_id =
     and_then (ensure_signed orig) (\<lambda>sender.
     and_then (ok_or (map_option ci_class_type (nft_classes s class_id)) (NFT ClassUnknown)) (\<lambda>ty.
     and_then (ensure (can_burn ty) (NFT NotPermitted)) (\<lambda>_.
     nft_do_burn cfg s sender class_id instance_id)))"

definition nft_destroy_class :: "'u nft_config \<Rightarrow> 'u nft_state \<Rightarrow> origin \<Rightarrow> class_id \<Rightarrow> 'u nft_state result" where
  "nft_destroy_class cfg s orig class_id =
     and_then (ensure_signed orig) (\<lambda>sender.
     and_then (ok_or (map_option ci_class_type (nft_classes s class_id)) (NFT ClassUnknown)) (\<lambda>ty.
     and_then (ensure (can_destroy ty) (NFT NotPermitted)) (\<lambda>_.
     nft_do_destroy_class cfg s sender class_id)))"

section \<open>The interface for other pallets\<close>

locale nft_registry =
  fixes owner :: "'s \<Rightarrow> class_id \<Rightarrow> instance_id \<Rightarrow> account_id option"
    and mint :: "'s \<Rightarrow> account_id \<Rightarrow> class_id \<Rightarrow> instance_id \<Rightarrow> byte list \<Rightarrow> (instance_id \<times> 's) result"
    and burn :: "'s \<Rightarrow> account_id \<Rightarrow> class_id \<Rightarrow> instance_id \<Rightarrow> 's result"
    and move :: "'s \<Rightarrow> class_id \<Rightarrow> instance_id \<Rightarrow> account_id \<Rightarrow> account_id \<Rightarrow> 's result"
  assumes mint_new: "mint s w c i md = Inr (j, s') \<Longrightarrow> j = i \<and> owner s c i = None"
    and mint_sets: "mint s w c i md = Inr (j, s') \<Longrightarrow> owner s' = owner_set c i (Some w) (owner s)"
    and burn_only_owner: "burn s w c i = Inr s' \<Longrightarrow> owner s c i = Some w"
    and burn_clears: "burn s w c i = Inr s' \<Longrightarrow> owner s' = owner_set c i None (owner s)"
    and move_only_owner: "move s c i v w = Inr s' \<Longrightarrow> v \<noteq> w \<Longrightarrow> owner s c i = Some v"
    and move_sets: "move s c i v w = Inr s' \<Longrightarrow> v \<noteq> w \<Longrightarrow> owner s' = owner_set c i (Some w) (owner s)"
    and move_self: "move s c i v v = Inr s' \<Longrightarrow> owner s' = owner s"
begin

text \<open>A token minted and then burned by its owner leaves the owners as they were.\<close>

lemma mint_then_burn:
  assumes "mint s w c i md = Inr (j, s1)" "burn s1 w c i = Inr s2"
  shows "owner s2 = owner s"
  using mint_new [OF assms(1)] mint_sets [OF assms(1)] burn_clears [OF assms(2)] by (intro ext) simp

text \<open>A transfer moves one token and never touches another.\<close>

lemma move_frame:
  assumes "move s c i v w = Inr s'" "(d, j) \<noteq> (c, i)"
  shows "owner s' d j = owner s d j"
  using move_sets [OF assms(1)] move_self [of s c i v s'] assms by (cases "v = w") auto

end

lemma nft_deposit_event_sel [simp]:
  "nft_ext (nft_deposit_event ev s) = nft_ext s"
  "nft_classes (nft_deposit_event ev s) = nft_classes s"
  "nft_instances (nft_deposit_event ev s) = nft_instances s"
  by (simp_all add: nft_deposit_event_def)

lemma nft_owner_event [simp]: "nft_owner cfg (nft_deposit_event ev s) = nft_owner cfg s"
  by (intro ext) (simp add: nft_owner_def)

lemma nft_owner_eq: "nft_owner cfg s = u_owner (nft_uniques cfg) (nft_ext s)"
  by (intro ext) (simp add: nft_owner_def)

locale nft_store = uniques "nft_uniques cfg" for cfg :: "'u nft_config"

sublocale nft_store \<subseteq> nft: nft_registry "nft_owner cfg" "nft_do_mint cfg" "nft_do_burn cfg" "nft_do_transfer cfg"
  by unfold_locales
    (auto simp: nft_do_mint_def nft_do_burn_def nft_do_transfer_def nft_owner_eq Let_def
      dest: mint_owner burn_owner transfer_owner)

end
