(* ===== verification/Liquidity_Mining.thy ===== *)
theory Liquidity_Mining
  imports NFT AMM
begin

text \<open>
  Liquidity mining, \<open>pallets/liquidity-mining/src/lib.rs\<close> and \<open>migration.rs\<close>. A farm (\<open>GlobalPool\<close>)
  distributes a reward currency over periods of blocks to its liquidity pools
  (\<open>LiquidityPoolYieldFarm\<close>) by their stake; users deposit shares of a trading pool, hold an
  NFT for each deposit, claim rewards and withdraw.

  The pallet sits above the NFT pallet: the storage outside it is \<open>'u nft_state\<close>, and the token
  traits and the trading pool are operations on that storage. A closure of \<open>try_mutate\<close> that
  changes a farm and a liquidity pool in place is a function that takes and returns their
  records; they are written back when it succeeds. The reward formulas of the math crate are the
  fields of \<open>lm_math_ops\<close>. Fixed-point numbers are their inner integers.
\<close>

definition MAX_NFT_INSTANCE_SEQUENCER :: nat where
  "MAX_NFT_INSTANCE_SEQUENCER = 79228162514264337593543950335"

definition POOL_ID_BYTES :: nat where "POOL_ID_BYTES = 4"
definition NFT_SEQUENCE_BYTES :: nat where "NFT_SEQUENCE_BYTES = 12"

definition fixed_one :: nat where "fixed_one = 1000000000000000000"

definition permill_to_fixed :: "nat \<Rightarrow> nat" where
  "permill_to_fixed parts = parts * 1000000000000"

section \<open>Data\<close>

record global_pool =
  gp_id :: nat
  gp_owner :: account_id
  gp_updated_at :: nat
  gp_total_shares_z :: balance
  gp_accumulated_rpz :: balance
  gp_reward_currency :: asset_id
  gp_accumulated_rewards :: balance
  gp_paid_accumulated_rewards :: balance
  gp_yield_per_period :: nat
  gp_planned_yielding_periods :: nat
  gp_blocks_per_period :: block_number
  gp_incentivized_asset :: asset_id
  gp_max_reward_per_period :: balance
  gp_liq_pools_count :: nat

definition global_pool_new ::
  "nat \<Rightarrow> nat \<Rightarrow> asset_id \<Rightarrow> nat \<Rightarrow> nat \<Rightarrow> block_number \<Rightarrow> account_id \<Rightarrow> asset_id \<Rightarrow> balance \<Rightarrow> global_pool" where
  "global_pool_new pid updated_at reward_currency yield_per_period planned_yielding_periods blocks_per_period
     owner incentivized_asset max_reward_per_period =
   \<lparr>gp_id = pid, gp_owner = owner, gp_updated_at = updated_at, gp_total_shares_z = 0, gp_accumulated_rpz = 0,
    gp_reward_currency = reward_currency, gp_accumulated_rewards = 0, gp_paid_accumulated_rewards = 0,
    gp_yield_per_period = yield_per_period, gp_planned_yielding_periods = planned_yielding_periods,
    gp_blocks_per_period = blocks_per_period, gp_incentivized_asset = incentivized_asset,
    gp_max_reward_per_period = max_reward_per_period, gp_liq_pools_count = 0\<rparr>"

record loyalty_curve =
  lc_initial_reward_percentage :: nat
  lc_scale_coef :: nat

definition default_loyalty_curve :: loyalty_curve where
  "default_loyalty_curve = \<lparr>lc_initial_reward_percentage = 500000000000000000, lc_scale_coef = 100\<rparr>"

record liq_pool =
  lq_id :: nat
  lq_updated_at :: nat
  lq_total_shares :: balance
  lq_total_valued_shares :: balance
  lq_accumulated_rpvs :: balance
  lq_accumulated_rpz :: balance
  lq_loyalty_curve :: "loyalty_curve option"
  lq_stake_in_global_pool :: balance
  lq_multiplier :: nat
  lq_canceled :: bool

definition liq_pool_new :: "nat \<Rightarrow> nat \<Rightarrow> loyalty_curve option \<Rightarrow> nat \<Rightarrow> liq_pool" where
  "liq_pool_new pid updated_at curve multiplier =
   \<lparr>lq_id = pid, lq_updated_at = updated_at, lq_total_shares = 0, lq_total_valued_shares = 0,
    lq_accumulated_rpvs = 0, lq_accumulated_rpz = 0, lq_loyalty_curve = curve,
    lq_stake_in_global_pool = 0, lq_multiplier = multiplier, lq_canceled = False\<rparr>"

record deposit =
  dp_shares :: balance
  dp_valued_shares :: balance
  dp_accumulated_rpvs :: balance
  dp_accumulated_claimed_rewards :: balance
  dp_entered_at :: nat
  dp_updated_at :: nat

definition deposit_new :: "balance \<Rightarrow> balance \<Rightarrow> balance \<Rightarrow> nat \<Rightarrow> deposit" where
  "deposit_new shares valued_shares accumulated_rpvs entered_at =
   \<lparr>dp_shares = shares, dp_valued_shares = valued_shares, dp_accumulated_rpvs = accumulated_rpvs,
    dp_accumulated_claimed_rewards = 0, dp_entered_at = entered_at, dp_updated_at = entered_at\<rparr>"

datatype lm_event =
    FarmCreated nat account_id asset_id nat nat block_number asset_id balance
  | LiquidityPoolAdded nat nat nat class_id asset_pair "loyalty_curve option"
  | FarmDestroyed nat account_id
  | SharesDeposited nat nat account_id balance asset_id class_id instance_id
  | RewardClaimed nat nat account_id balance asset_id
  | SharesWithdrawn nat nat account_id asset_id balance
  | LiquidityMiningCanceled nat nat account_id asset_pair
  | LiquidityMiningResumed nat nat account_id asset_pair nat
  | LiquidityPoolRemoved nat nat account_id asset_pair
  | UndistributedRewardsWithdrawn nat account_id asset_id balance
  | LiquidityPoolUpdated nat nat account_id asset_pair nat
  | FarmAccRPZUpdated nat balance balance
  | LiquidityPoolAccRPVSUpdated nat nat balance balance

record 'u lm_state =
  lm_ext :: "'u nft_state"
  pool_id_sequencer :: nat
  nft_instance_sequencer :: nat
  global_pool_data :: "nat \<rightharpoonup> global_pool"
  liquidity_pool_data :: "nat \<times> account_id \<rightharpoonup> liq_pool"
  deposit_data :: "instance_id \<rightharpoonup> deposit"
  liq_pool_metadata :: "nat \<rightharpoonup> asset_pair \<times> nat \<times> nat"
  lm_storage_version :: nat
  lm_events :: "lm_event list"

record lm_math_ops =
  lmm_reward_per_period :: "nat \<Rightarrow> balance \<Rightarrow> balance \<Rightarrow> balance option"
  lmm_accumulated_rps :: "balance \<Rightarrow> balance \<Rightarrow> balance \<Rightarrow> balance option"
  lmm_global_pool_shares :: "balance \<Rightarrow> nat \<Rightarrow> balance option"
  lmm_loyalty_multiplier :: "nat \<Rightarrow> nat \<Rightarrow> nat \<Rightarrow> nat option"
  lmm_user_reward :: "balance \<Rightarrow> balance \<Rightarrow> balance \<Rightarrow> balance \<Rightarrow> nat \<Rightarrow> (balance \<times> balance) option"

record 'u lm_config =
  lm_currency :: "'u nft_state currency_ops"
  lm_amm :: "'u nft_state amm_ops"
  lm_create_origin :: "origin \<Rightarrow> unit result"
  lm_pallet_account :: account_id
  lm_sub_account :: "nat \<Rightarrow> account_id"
  lm_min_total_farm_rewards :: balance
  lm_min_planned_yielding_periods :: nat
  lm_current_block_number :: "'u nft_state \<Rightarrow> block_number"
  lm_nft_class :: class_id
  lm_nft :: "'u nft_config"
  lm_math :: lm_math_ops

definition lm_put :: "'u nft_state \<Rightarrow> 'u lm_state \<Rightarrow> 'u lm_state" where
  "lm_put w s = s\<lparr>lm_ext := w\<rparr>"

definition lm_cur :: "'u lm_config \<Rightarrow> 'u lm_state currency_ops" where
  "lm_cur cfg = lift_currency lm_ext lm_put (lm_currency cfg)"

abbreviation lm_free :: "'u lm_config \<Rightarrow> 'u lm_state \<Rightarrow> asset_id \<Rightarrow> account_id \<Rightarrow> balance" where
  "lm_free cfg s \<equiv> c_free_balance (lm_currency cfg) (lm_ext s)"

abbreviation lm_total :: "'u lm_config \<Rightarrow> 'u lm_state \<Rightarrow> asset_id \<Rightarrow> account_id \<Rightarrow> balance" where
  "lm_total cfg s \<equiv> c_total_balance (lm_currency cfg) (lm_ext s)"

abbreviation lm_overflow :: dispatch_error where
  "lm_overflow \<equiv> LM lm_error.Overflow"

definition lm_deposit_event :: "lm_event \<Rightarrow> 'u lm_state \<Rightarrow> 'u lm_state" where
  "lm_deposit_event ev s = s\<lparr>lm_events := lm_events s @ [ev]\<rparr>"

section \<open>Identifiers, accounts and periods\<close>

definition lm_validate_pool_id :: "nat \<Rightarrow> unit result" where
  "lm_validate_pool_id pool_id = (if pool_id = 0 then Inl (LM InvalidPoolId) else Inr ())"

definition lm_get_next_pool_id :: "'u lm_state \<Rightarrow> (nat \<times> 'u lm_state) result" where
  "lm_get_next_pool_id s =
     and_then (ok_or (checked_add u32_max (pool_id_sequencer s) 1) lm_overflow) (\<lambda>current_id.
     Inr (current_id, s\<lparr>pool_id_sequencer := current_id\<rparr>))"

definition lm_encode_nft_id :: "nat \<Rightarrow> nat \<Rightarrow> instance_id" where
  "lm_encode_nft_id liq_pool_id sequence =
     from_le_bytes (to_le_bytes POOL_ID_BYTES liq_pool_id @ take NFT_SEQUENCE_BYTES (to_le_bytes 16 sequence))"

definition lm_get_next_nft_id :: "'u lm_state \<Rightarrow> nat \<Rightarrow> (instance_id \<times> 'u lm_state) result" where
  "lm_get_next_nft_id s liq_pool_id =
     and_then (lm_validate_pool_id liq_pool_id) (\<lambda>_.
     and_then (ok_or (checked_add u128_max (nft_instance_sequencer s) 1) lm_overflow) (\<lambda>current_id.
     and_then (ensure (MAX_NFT_INSTANCE_SEQUENCER \<ge> current_id) (LM NftIdOverflow)) (\<lambda>_.
     Inr (lm_encode_nft_id liq_pool_id current_id, s\<lparr>nft_instance_sequencer := current_id\<rparr>))))"

definition lm_get_pool_id_from_nft_id :: "instance_id \<Rightarrow> nat result" where
  "lm_get_pool_id_from_nft_id nft_id =
     and_then (ensure (4294967296 < nft_id) (LM InvalidNftId)) (\<lambda>_.
     Inr (from_le_bytes (take POOL_ID_BYTES (to_le_bytes 16 nft_id))))"

definition lm_account_id :: "'u lm_config \<Rightarrow> account_id" where
  "lm_account_id cfg = lm_pallet_account cfg"

definition lm_pool_account_id :: "'u lm_config \<Rightarrow> nat \<Rightarrow> account_id result" where
  "lm_pool_account_id cfg pool_id =
     and_then (lm_validate_pool_id pool_id) (\<lambda>_. Inr (lm_sub_account cfg pool_id))"

definition lm_get_period_number :: "block_number \<Rightarrow> block_number \<Rightarrow> nat result" where
  "lm_get_period_number block blocks_per_period = ok_or (checked_div block blocks_per_period) lm_overflow"

definition lm_get_now_period :: "'u lm_config \<Rightarrow> 'u lm_state \<Rightarrow> block_number \<Rightarrow> nat result" where
  "lm_get_now_period cfg s blocks_per_period =
     lm_get_period_number (lm_current_block_number cfg (lm_ext s)) blocks_per_period"

definition lm_get_loyalty_multiplier :: "'u lm_config \<Rightarrow> nat \<Rightarrow> loyalty_curve option \<Rightarrow> nat result" where
  "lm_get_loyalty_multiplier cfg periods curve =
     (case curve of
        None \<Rightarrow> Inr fixed_one
      | Some curve \<Rightarrow>
          if lc_initial_reward_percentage curve = fixed_one then Inr fixed_one
          else ok_or (lmm_loyalty_multiplier (lm_math cfg) periods (lc_initial_reward_percentage curve)
                        (lc_scale_coef curve)) lm_overflow)"

definition lm_validate_create_farm_data ::
  "'u lm_config \<Rightarrow> balance \<Rightarrow> nat \<Rightarrow> block_number \<Rightarrow> nat \<Rightarrow> unit result" where
  "lm_validate_create_farm_data cfg total_rewards planned_yielding_periods blocks_per_period yield_per_period =
     and_then (ensure (total_rewards \<ge> lm_min_total_farm_rewards cfg) (LM InvalidTotalRewards)) (\<lambda>_.
     and_then (ensure (planned_yielding_periods \<ge> lm_min_planned_yielding_periods cfg)
                 (LM InvalidPlannedYieldingPeriods)) (\<lambda>_.
     and_then (ensure (blocks_per_period \<noteq> 0) (LM InvalidBlocksPerPeriod)) (\<lambda>_.
     ensure (yield_per_period \<noteq> 0) (LM InvalidYieldPerPeriod))))"

definition lm_get_valued_shares ::
  "'u lm_config \<Rightarrow> 'u lm_state \<Rightarrow> balance \<Rightarrow> account_id \<Rightarrow> asset_id \<Rightarrow> balance result" where
  "lm_get_valued_shares cfg s shares amm_account incentivized_asset =
    (let incentivized_asset_balance = lm_free cfg s incentivized_asset amm_account
     in ok_or (checked_mul u128_max shares incentivized_asset_balance) lm_overflow)"

section \<open>Rewards\<close>

definition lm_accrue_reward :: "'u lm_config \<Rightarrow> global_pool \<Rightarrow> balance \<Rightarrow> global_pool result" where
  "lm_accrue_reward cfg gp reward =
    (if reward \<noteq> 0 then
       and_then (ok_or (lmm_accumulated_rps (lm_math cfg) (gp_accumulated_rpz gp) (gp_total_shares_z gp) reward)
                   lm_overflow) (\<lambda>rpz.
       and_then (ok_or (checked_add u128_max (gp_accumulated_rewards gp) reward) lm_overflow) (\<lambda>acc.
       Inr (gp\<lparr>gp_accumulated_rpz := rpz, gp_accumulated_rewards := acc\<rparr>)))
     else Inr gp)"

definition lm_update_global_pool ::
  "'u lm_config \<Rightarrow> 'u lm_state \<Rightarrow> global_pool \<Rightarrow> nat \<Rightarrow> balance \<Rightarrow> (global_pool \<times> 'u lm_state) result" where
  "lm_update_global_pool cfg s gp now_period reward_per_period =
    (if gp_updated_at gp = now_period then Inr (gp, s)
     else if gp_total_shares_z gp = 0 then Inr (gp, s)
     else
       and_then (ok_or (checked_sub now_period (gp_updated_at gp)) lm_overflow) (\<lambda>periods_since_last_update.
       and_then (lm_pool_account_id cfg (gp_id gp)) (\<lambda>global_pool_account.
       let left_to_distribute = lm_free cfg s (gp_reward_currency gp) global_pool_account in
       and_then (ok_or (checked_mul u128_max periods_since_last_update reward_per_period) lm_overflow) (\<lambda>earned.
       let reward = min earned left_to_distribute in
       and_then (lm_accrue_reward cfg gp reward) (\<lambda>gp.
       let gp = gp\<lparr>gp_updated_at := now_period\<rparr> in
       Inr (gp, lm_deposit_event (FarmAccRPZUpdated (gp_id gp) (gp_accumulated_rpz gp) (gp_total_shares_z gp)) s))))))"

definition lm_claim_from_global_pool ::
  "global_pool \<Rightarrow> liq_pool \<Rightarrow> balance \<Rightarrow> (balance \<times> global_pool \<times> liq_pool) result" where
  "lm_claim_from_global_pool gp lq stake_in_global_pool =
     and_then (ok_or (checked_sub (gp_accumulated_rpz gp) (lq_accumulated_rpz lq)) lm_overflow) (\<lambda>diff.
     and_then (ok_or (checked_mul u128_max diff stake_in_global_pool) lm_overflow) (\<lambda>reward.
     let lq = lq\<lparr>lq_accumulated_rpz := gp_accumulated_rpz gp\<rparr> in
     and_then (ok_or (checked_add u128_max (gp_paid_accumulated_rewards gp) reward) lm_overflow) (\<lambda>paid.
     and_then (ok_or (checked_sub (gp_accumulated_rewards gp) reward) lm_overflow) (\<lambda>acc.
     Inr (reward, gp\<lparr>gp_paid_accumulated_rewards := paid, gp_accumulated_rewards := acc\<rparr>, lq)))))"

definition lm_update_liq_pool ::
  "'u lm_config \<Rightarrow> 'u lm_state \<Rightarrow> liq_pool \<Rightarrow> balance \<Rightarrow> nat \<Rightarrow> nat \<Rightarrow> asset_id \<Rightarrow> (liq_pool \<times> 'u lm_state) result" where
  "lm_update_liq_pool cfg s lq pool_rewards period_now global_pool_id reward_currency =
    (if lq_updated_at lq = period_now then Inr (lq, s)
     else if lq_total_valued_shares lq = 0 then Inr (lq, s)
     else
       and_then (ok_or (lmm_accumulated_rps (lm_math cfg) (lq_accumulated_rpvs lq) (lq_total_valued_shares lq)
                          pool_rewards) lm_overflow) (\<lambda>rpvs.
       let lq = lq\<lparr>lq_accumulated_rpvs := rpvs, lq_updated_at := period_now\<rparr> in
       and_then (lm_pool_account_id cfg global_pool_id) (\<lambda>global_pool_account.
       let global_pool_balance = lm_free cfg s reward_currency global_pool_account in
       and_then (ensure (global_pool_balance \<ge> pool_rewards) (LM InsufficientBalanceInGlobalPool)) (\<lambda>_.
       and_then (lm_pool_account_id cfg (lq_id lq)) (\<lambda>pool_account.
       let s = lm_deposit_event (LiquidityPoolAccRPVSUpdated global_pool_id (lq_id lq) (lq_accumulated_rpvs lq)
                 (lq_total_valued_shares lq)) s in
       and_then (c_transfer (lm_cur cfg) s reward_currency global_pool_account pool_account pool_rewards) (\<lambda>s.
       Inr (lq, s)))))))"

definition lm_maybe_update_global_pool ::
  "'u lm_config \<Rightarrow> 'u lm_state \<Rightarrow> global_pool \<Rightarrow> nat \<Rightarrow> (global_pool \<times> 'u lm_state) result" where
  "lm_maybe_update_global_pool cfg s gp now_period =
    (if gp_total_shares_z gp \<noteq> 0 \<and> gp_updated_at gp \<noteq> now_period then
       and_then (ok_or (lmm_reward_per_period (lm_math cfg) (permill_to_fixed (gp_yield_per_period gp))
                          (gp_total_shares_z gp) (gp_max_reward_per_period gp)) lm_overflow) (\<lambda>rewards.
       lm_update_global_pool cfg s gp now_period rewards)
     else Inr (gp, s))"

definition lm_maybe_update_pools ::
  "'u lm_config \<Rightarrow> 'u lm_state \<Rightarrow> global_pool \<Rightarrow> liq_pool \<Rightarrow> nat \<Rightarrow> (global_pool \<times> liq_pool \<times> 'u lm_state) result" where
  "lm_maybe_update_pools cfg s gp lq now_period =
    (if lq_canceled lq then Inr (gp, lq, s)
     else if lq_total_shares lq \<noteq> 0 \<and> lq_updated_at lq \<noteq> now_period then
       and_then (lm_maybe_update_global_pool cfg s gp now_period) (\<lambda>(gp, s).
       and_then (lm_claim_from_global_pool gp lq (lq_stake_in_global_pool lq)) (\<lambda>(rewards, gp, lq).
       and_then (lm_update_liq_pool cfg s lq rewards now_period (gp_id gp) (gp_reward_currency gp)) (\<lambda>(lq, s).
       Inr (gp, lq, s))))
     else Inr (gp, lq, s))"

definition lm_do_claim_rewards ::
  "'u lm_config \<Rightarrow> 'u lm_state \<Rightarrow> account_id \<Rightarrow> deposit \<Rightarrow> liq_pool \<Rightarrow> nat \<Rightarrow> asset_id
   \<Rightarrow> ((balance \<times> balance) \<times> deposit \<times> 'u lm_state) result" where
  "lm_do_claim_rewards cfg s who d lq now_period reward_currency =
     and_then (ok_or (checked_sub now_period (dp_entered_at d)) lm_overflow) (\<lambda>periods.
     if dp_updated_at d = now_period then Inr ((0, 0), d, s)
     else
       and_then (lm_get_loyalty_multiplier cfg periods (lq_loyalty_curve lq)) (\<lambda>loyalty_multiplier.
       and_then (ok_or (lmm_user_reward (lm_math cfg) (dp_accumulated_rpvs d) (dp_valued_shares d)
                          (dp_accumulated_claimed_rewards d) (lq_accumulated_rpvs lq) loyalty_multiplier) lm_overflow)
         (\<lambda>(rewards, unclaimable_rewards).
       and_then (ok_or (checked_add u128_max (dp_accumulated_claimed_rewards d) rewards) lm_overflow) (\<lambda>claimed.
       let d = d\<lparr>dp_accumulated_claimed_rewards := claimed, dp_updated_at := now_period\<rparr> in
       and_then (lm_pool_account_id cfg (lq_id lq)) (\<lambda>liq_pool_account.
       and_then (c_transfer (lm_cur cfg) s reward_currency liq_pool_account who rewards) (\<lambda>s.
       Inr ((rewards, unclaimable_rewards), d, s)))))))"

section \<open>Farms\<close>

definition lm_create_farm ::
  "'u lm_config \<Rightarrow> 'u lm_state \<Rightarrow> origin \<Rightarrow> balance \<Rightarrow> nat \<Rightarrow> block_number \<Rightarrow> asset_id \<Rightarrow> asset_id
   \<Rightarrow> account_id \<Rightarrow> nat \<Rightarrow> 'u lm_state result" where
  "lm_create_farm cfg s orig total_rewards planned_yielding_periods blocks_per_period incentivized_asset
     reward_currency owner yield_per_period =
     and_then (lm_create_origin cfg orig) (\<lambda>_.
     and_then (lm_validate_create_farm_data cfg total_rewards planned_yielding_periods blocks_per_period
                 yield_per_period) (\<lambda>_.
     and_then (ensure (lm_free cfg s reward_currency owner \<ge> total_rewards)
                 (LM InsufficientRewardCurrencyBalance)) (\<lambda>_.
     and_then (ok_or (checked_div total_rewards planned_yielding_periods) lm_overflow) (\<lambda>max_reward_per_period.
     and_then (lm_get_now_period cfg s blocks_per_period) (\<lambda>now_period.
     and_then (lm_get_next_pool_id s) (\<lambda>(pool_id, s).
     let gp = global_pool_new pool_id now_period reward_currency yield_per_period planned_yielding_periods
                blocks_per_period owner incentivized_asset max_reward_per_period;
         s = s\<lparr>global_pool_data := (global_pool_data s)(gp_id gp \<mapsto> gp)\<rparr>
     in
     and_then (lm_pool_account_id cfg (gp_id gp)) (\<lambda>global_pool_account.
     and_then (c_transfer (lm_cur cfg) s reward_currency (gp_owner gp) global_pool_account total_rewards) (\<lambda>s.
     Inr (lm_deposit_event (FarmCreated (gp_id gp) (gp_owner gp) (gp_reward_currency gp) (gp_yield_per_period gp)
            (gp_planned_yielding_periods gp) (gp_blocks_per_period gp) (gp_incentivized_asset gp)
            (gp_max_reward_per_period gp)) s)))))))))"

definition lm_destroy_farm :: "'u lm_config \<Rightarrow> 'u lm_state \<Rightarrow> origin \<Rightarrow> nat \<Rightarrow> 'u lm_state result" where
  "lm_destroy_farm cfg s orig farm_id =
     and_then (ensure_signed orig) (\<lambda>who.
     and_then (ok_or (global_pool_data s farm_id) (LM FarmNotFound)) (\<lambda>gp.
     and_then (ensure (who = gp_owner gp) (LM Forbidden)) (\<lambda>_.
     and_then (ensure (gp_liq_pools_count gp = 0) (LM FarmIsNotEmpty)) (\<lambda>_.
     and_then (lm_pool_account_id cfg (gp_id gp)) (\<lambda>global_pool_account.
     and_then (ensure (lm_free cfg s (gp_reward_currency gp) global_pool_account = 0)
                 (LM RewardBalanceIsNotZero)) (\<lambda>_.
     Inr (lm_deposit_event (FarmDestroyed farm_id who)
            (s\<lparr>global_pool_data := (global_pool_data s)(farm_id := None)\<rparr>))))))))"

definition lm_withdraw_undistributed_rewards ::
  "'u lm_config \<Rightarrow> 'u lm_state \<Rightarrow> origin \<Rightarrow> nat \<Rightarrow> 'u lm_state result" where
  "lm_withdraw_undistributed_rewards cfg s orig farm_id =
     and_then (ensure_signed orig) (\<lambda>who.
     and_then (ok_or (global_pool_data s farm_id) (LM FarmNotFound)) (\<lambda>gp.
     and_then (ensure (gp_owner gp = who) (LM Forbidden)) (\<lambda>_.
     and_then (ensure (gp_liq_pools_count gp = 0) (LM FarmIsNotEmpty)) (\<lambda>_.
     and_then (lm_pool_account_id cfg (gp_id gp)) (\<lambda>global_pool_account.
     let undistributed_reward = lm_total cfg s (gp_reward_currency gp) global_pool_account in
     and_then (c_transfer (lm_cur cfg) s (gp_reward_currency gp) global_pool_account who undistributed_reward) (\<lambda>s.
     Inr (lm_deposit_event (UndistributedRewardsWithdrawn (gp_id gp) who (gp_reward_currency gp)
            undistributed_reward) s)))))))"

section \<open>Liquidity pools\<close>

definition lm_add_liquidity_pool ::
  "'u lm_config \<Rightarrow> 'u lm_state \<Rightarrow> origin \<Rightarrow> nat \<Rightarrow> asset_pair \<Rightarrow> nat \<Rightarrow> loyalty_curve option \<Rightarrow> 'u lm_state result" where
  "lm_add_liquidity_pool cfg s orig farm_id asset_pair multiplier curve =
     and_then (ensure_signed orig) (\<lambda>who.
     and_then (ensure (multiplier \<noteq> 0) (LM InvalidMultiplier)) (\<lambda>_.
     and_then (case curve of
                 None \<Rightarrow> Inr ()
               | Some c \<Rightarrow> ensure (lc_initial_reward_percentage c < fixed_one) (LM InvalidInitialRewardPercentage)) (\<lambda>_.
     and_then (ensure (amm_exists (lm_amm cfg) (lm_ext s) asset_pair) (LM AmmPoolDoesNotExist)) (\<lambda>_.
     and_then (ok_or (global_pool_data s farm_id) (LM FarmNotFound)) (\<lambda>gp.
     and_then (ensure (who = gp_owner gp) (LM Forbidden)) (\<lambda>_.
     and_then (ensure (asset_in asset_pair = gp_incentivized_asset gp \<or> asset_out asset_pair = gp_incentivized_asset gp)
                 (LM MissingIncentivizedAsset)) (\<lambda>_.
     let amm_pool_id = amm_get_pair_id (lm_amm cfg) asset_pair in
     and_then (ensure (liquidity_pool_data s (farm_id, amm_pool_id) = None) (LM LiquidityPoolAlreadyExists)) (\<lambda>_.
     and_then (lm_get_now_period cfg s (gp_blocks_per_period gp)) (\<lambda>now_period.
     and_then (lm_maybe_update_global_pool cfg s gp now_period) (\<lambda>(gp, s).
     and_then (lm_get_next_pool_id s) (\<lambda>(liq_pool_id, s).
     let s = s\<lparr>liq_pool_metadata := (liq_pool_metadata s)(liq_pool_id \<mapsto> (asset_pair, 0, gp_id gp))\<rparr>;
         pool = liq_pool_new liq_pool_id now_period curve multiplier;
         s = s\<lparr>liquidity_pool_data := (liquidity_pool_data s)((gp_id gp, amm_pool_id) \<mapsto> pool)\<rparr>
     in
     and_then (ok_or (checked_add u32_max (gp_liq_pools_count gp) 1) lm_overflow) (\<lambda>n.
     let gp = gp\<lparr>gp_liq_pools_count := n\<rparr>;
         s = lm_deposit_event (LiquidityPoolAdded (gp_id gp) (lq_id pool) multiplier (lm_nft_class cfg) asset_pair curve) s
     in Inr (s\<lparr>global_pool_data := (global_pool_data s)(farm_id \<mapsto> gp)\<rparr>)))))))))))))"

text \<open>The nested storage closures of the handlers that change a pool and its farm in place.\<close>

definition lm_write_pools :: "nat \<Rightarrow> account_id \<Rightarrow> global_pool \<Rightarrow> liq_pool \<Rightarrow> 'u lm_state \<Rightarrow> 'u lm_state" where
  "lm_write_pools farm_id amm_account gp lq s =
     s\<lparr>global_pool_data := (global_pool_data s)(farm_id \<mapsto> gp),
       liquidity_pool_data := (liquidity_pool_data s)((farm_id, amm_account) \<mapsto> lq)\<rparr>"

definition lm_update_liquidity_pool ::
  "'u lm_config \<Rightarrow> 'u lm_state \<Rightarrow> origin \<Rightarrow> nat \<Rightarrow> asset_pair \<Rightarrow> nat \<Rightarrow> 'u lm_state result" where
  "lm_update_liquidity_pool cfg s orig farm_id asset_pair multiplier =
     and_then (ensure_signed orig) (\<lambda>who.
     and_then (ensure (multiplier \<noteq> 0) (LM InvalidMultiplier)) (\<lambda>_.
     let amm_pool_id = amm_get_pair_id (lm_amm cfg) asset_pair in
     and_then (ok_or (liquidity_pool_data s (farm_id, amm_pool_id)) (LM LiquidityPoolNotFound)) (\<lambda>lq.
     and_then (ensure (\<not> lq_canceled lq) (LM lm_error.LiquidityMiningCanceled)) (\<lambda>_.
     and_then (ok_or (global_pool_data s farm_id) (LM FarmNotFound)) (\<lambda>gp.
     and_then (ensure (who = gp_owner gp) (LM Forbidden)) (\<lambda>_.
     and_then (lm_get_now_period cfg s (gp_blocks_per_period gp)) (\<lambda>now_period.
     and_then (lm_maybe_update_pools cfg s gp lq now_period) (\<lambda>(gp, lq, s).
     and_then (ok_or (lmm_global_pool_shares (lm_math cfg) (lq_total_valued_shares lq) multiplier) lm_overflow)
       (\<lambda>new_stake_in_global_pool.
     and_then (ok_or (checked_sub (gp_total_shares_z gp) (lq_stake_in_global_pool lq)) lm_overflow) (\<lambda>z.
     and_then (ok_or (checked_add u128_max z new_stake_in_global_pool) lm_overflow) (\<lambda>z.
     let gp = gp\<lparr>gp_total_shares_z := z\<rparr>;
         lq = lq\<lparr>lq_stake_in_global_pool := new_stake_in_global_pool, lq_multiplier := multiplier\<rparr>;
         s = lm_deposit_event (LiquidityPoolUpdated (gp_id gp) (lq_id lq) who asset_pair (lq_multiplier lq)) s
     in Inr (lm_write_pools farm_id amm_pool_id gp lq s))))))))))))"

definition lm_cancel_liquidity_pool ::
  "'u lm_config \<Rightarrow> 'u lm_state \<Rightarrow> origin \<Rightarrow> nat \<Rightarrow> asset_pair \<Rightarrow> 'u lm_state result" where
  "lm_cancel_liquidity_pool cfg s orig farm_id asset_pair =
     and_then (ensure_signed orig) (\<lambda>who.
     let amm_account = amm_get_pair_id (lm_amm cfg) asset_pair in
     and_then (ok_or (liquidity_pool_data s (farm_id, amm_account)) (LM LiquidityPoolNotFound)) (\<lambda>lq.
     and_then (ensure (\<not> lq_canceled lq) (LM lm_error.LiquidityMiningCanceled)) (\<lambda>_.
     and_then (ok_or (global_pool_data s farm_id) (LM FarmNotFound)) (\<lambda>gp.
     and_then (ensure (gp_owner gp = who) (LM Forbidden)) (\<lambda>_.
     and_then (lm_get_now_period cfg s (gp_blocks_per_period gp)) (\<lambda>now_period.
     and_then (lm_maybe_update_pools cfg s gp lq now_period) (\<lambda>(gp, lq, s).
     and_then (ok_or (checked_sub (gp_total_shares_z gp) (lq_stake_in_global_pool lq)) lm_overflow) (\<lambda>z.
     let gp = gp\<lparr>gp_total_shares_z := z\<rparr>;
         lq = lq\<lparr>lq_canceled := True, lq_stake_in_global_pool := 0, lq_multiplier := 0\<rparr>;
         s = lm_deposit_event (lm_event.LiquidityMiningCanceled farm_id (lq_id lq) who asset_pair) s
     in Inr (lm_write_pools farm_id amm_account gp lq s)))))))))"

definition lm_resume_liquidity_pool ::
  "'u lm_config \<Rightarrow> 'u lm_state \<Rightarrow> origin \<Rightarrow> nat \<Rightarrow> asset_pair \<Rightarrow> nat \<Rightarrow> 'u lm_state result" where
  "lm_resume_liquidity_pool cfg s orig farm_id asset_pair multiplier =
     and_then (ensure_signed orig) (\<lambda>who.
     and_then (ensure (multiplier \<noteq> 0) (LM InvalidMultiplier)) (\<lambda>_.
     let amm_account = amm_get_pair_id (lm_amm cfg) asset_pair in
     and_then (ok_or (liquidity_pool_data s (farm_id, amm_account)) (LM LiquidityPoolNotFound)) (\<lambda>lq.
     and_then (ensure (lq_canceled lq) (LM LiquidityMiningIsNotCanceled)) (\<lambda>_.
     and_then (ok_or (global_pool_data s farm_id) (LM FarmNotFound)) (\<lambda>gp.
     and_then (ensure (gp_owner gp = who) (LM Forbidden)) (\<lambda>_.
     and_then (lm_get_now_period cfg s (gp_blocks_per_period gp)) (\<lambda>now_period.
     and_then (lm_maybe_update_global_pool cfg s gp now_period) (\<lambda>(gp, s).
     and_then (ok_or (lmm_global_pool_shares (lm_math cfg) (lq_total_valued_shares lq) multiplier) lm_overflow)
       (\<lambda>new_stake_in_global_pool.
     and_then (ok_or (checked_add u128_max (gp_total_shares_z gp) new_stake_in_global_pool) lm_overflow) (\<lambda>z.
     let gp = gp\<lparr>gp_total_shares_z := z\<rparr>;
         lq = lq\<lparr>lq_accumulated_rpz := gp_accumulated_rpz gp, lq_updated_at := now_period,
                 lq_stake_in_global_pool := new_stake_in_global_pool, lq_canceled := False,
                 lq_multiplier := multiplier\<rparr>;
         s = lm_deposit_event (LiquidityMiningResumed farm_id (lq_id lq) who asset_pair multiplier) s
     in Inr (lm_write_pools farm_id amm_account gp lq s)))))))))))"

definition lm_remove_liquidity_pool ::
  "'u lm_config \<Rightarrow> 'u lm_state \<Rightarrow> origin \<Rightarrow> nat \<Rightarrow> asset_pair \<Rightarrow> 'u lm_state result" where
  "lm_remove_liquidity_pool cfg s orig farm_id asset_pair =
     and_then (ensure_signed orig) (\<lambda>who.
     let amm_account = amm_get_pair_id (lm_amm cfg) asset_pair in
     and_then (ok_or (liquidity_pool_data s (farm_id, amm_account)) (LM LiquidityPoolNotFound)) (\<lambda>lq.
     and_then (ensure (lq_canceled lq) (LM LiquidityMiningIsNotCanceled)) (\<lambda>_.
     and_then (ok_or (global_pool_data s farm_id) (LM FarmNotFound)) (\<lambda>gp.
     and_then (ensure (gp_owner gp = who) (LM Forbidden)) (\<lambda>_.
     and_then (ok_or (checked_sub (gp_liq_pools_count gp) 1) lm_overflow) (\<lambda>n.
     let gp = gp\<lparr>gp_liq_pools_count := n\<rparr> in
     and_then (lm_pool_account_id cfg (gp_id gp)) (\<lambda>global_pool_account.
     and_then (lm_pool_account_id cfg (lq_id lq)) (\<lambda>liq_pool_account.
     let unpaid_reward = lm_total cfg s (gp_reward_currency gp) liq_pool_account in
     and_then (c_transfer (lm_cur cfg) s (gp_reward_currency gp) liq_pool_account global_pool_account unpaid_reward) (\<lambda>s.
     let s = (case liq_pool_metadata s (lq_id lq) of
                Some (_, nfts_in_class, _) \<Rightarrow>
                  if nfts_in_class = 0 then s\<lparr>liq_pool_metadata := (liq_pool_metadata s)(lq_id lq := None)\<rparr> else s
              | None \<Rightarrow> s);
         s = s\<lparr>global_pool_data := (global_pool_data s)(farm_id \<mapsto> gp)\<rparr>;
         s = lm_deposit_event (LiquidityPoolRemoved farm_id (lq_id lq) who asset_pair) s
     in Inr (s\<lparr>liquidity_pool_data := (liquidity_pool_data s)((farm_id, amm_account) := None)\<rparr>))))))))))"

section \<open>Deposits\<close>

definition lm_deposit_shares ::
  "'u lm_config \<Rightarrow> 'u lm_state \<Rightarrow> origin \<Rightarrow> nat \<Rightarrow> asset_pair \<Rightarrow> balance \<Rightarrow> 'u lm_state result" where
  "lm_deposit_shares cfg s orig farm_id asset_pair shares_amount =
     and_then (ensure_signed orig) (\<lambda>who.
     and_then (ensure (shares_amount \<noteq> 0) (LM InvalidDepositAmount)) (\<lambda>_.
     let amm_share_token = amm_get_share_token (lm_amm cfg) (lm_ext s) asset_pair in
     and_then (ensure (lm_free cfg s amm_share_token who \<ge> shares_amount) (LM InsufficientAmmSharesBalance)) (\<lambda>_.
     let amm_account = amm_get_pair_id (lm_amm cfg) asset_pair in
     and_then (ok_or (liquidity_pool_data s (farm_id, amm_account)) (LM LiquidityPoolNotFound)) (\<lambda>lq.
     and_then (ensure (\<not> lq_canceled lq) (LM lm_error.LiquidityMiningCanceled)) (\<lambda>_.
     and_then (ok_or (global_pool_data s farm_id) (LM FarmNotFound)) (\<lambda>gp.
     and_then (lm_get_now_period cfg s (gp_blocks_per_period gp)) (\<lambda>now_period.
     and_then (lm_maybe_update_pools cfg s gp lq now_period) (\<lambda>(gp, lq, s).
     and_then (lm_get_valued_shares cfg s shares_amount amm_account (gp_incentivized_asset gp)) (\<lambda>valued_shares.
     and_then (ok_or (lmm_global_pool_shares (lm_math cfg) valued_shares (lq_multiplier lq)) lm_overflow)
       (\<lambda>shares_in_global_pool_for_deposit.
     and_then (ok_or (checked_add u128_max (lq_total_shares lq) shares_amount) lm_overflow) (\<lambda>total_shares.
     and_then (ok_or (checked_add u128_max (lq_total_valued_shares lq) valued_shares) lm_overflow) (\<lambda>total_valued_shares.
     and_then (ok_or (checked_add u128_max (lq_stake_in_global_pool lq) shares_in_global_pool_for_deposit) lm_overflow)
       (\<lambda>stake.
     and_then (ok_or (checked_add u128_max (gp_total_shares_z gp) shares_in_global_pool_for_deposit) lm_overflow) (\<lambda>z.
     let lq = lq\<lparr>lq_total_shares := total_shares, lq_total_valued_shares := total_valued_shares,
                 lq_stake_in_global_pool := stake\<rparr>;
         gp = gp\<lparr>gp_total_shares_z := z\<rparr>;
         pallet_account = lm_account_id cfg
     in
     and_then (c_transfer (lm_cur cfg) s amm_share_token who pallet_account shares_amount) (\<lambda>s.
     and_then (lm_get_next_nft_id s (lq_id lq)) (\<lambda>(nft_id, s).
     and_then (nft_do_mint (lm_nft cfg) (lm_ext s) who (lm_nft_class cfg) nft_id []) (\<lambda>(_, w).
     let s = lm_put w s;
         d = deposit_new shares_amount valued_shares (lq_accumulated_rpvs lq) now_period;
         s = s\<lparr>deposit_data := (deposit_data s)(nft_id \<mapsto> d)\<rparr>
     in
     and_then (ok_or (liq_pool_metadata s (lq_id lq)) (LM LiquidityPoolMetadataNotFound)) (\<lambda>(pair, nfts, farm).
     and_then (ok_or (checked_add u64_max nfts 1) lm_overflow) (\<lambda>nfts.
     let s = s\<lparr>liq_pool_metadata := (liq_pool_metadata s)(lq_id lq \<mapsto> (pair, nfts, farm))\<rparr>;
         s = lm_deposit_event (SharesDeposited farm_id (lq_id lq) who shares_amount amm_share_token
               (lm_nft_class cfg) nft_id) s
     in Inr (lm_write_pools farm_id amm_account gp lq s))))))))))))))))))))"

definition lm_claim_rewards :: "'u lm_config \<Rightarrow> 'u lm_state \<Rightarrow> origin \<Rightarrow> instance_id \<Rightarrow> 'u lm_state result" where
  "lm_claim_rewards cfg s orig nft_id =
     and_then (ensure_signed orig) (\<lambda>who.
     and_then (lm_get_pool_id_from_nft_id nft_id) (\<lambda>liq_pool_id.
     and_then (ok_or (liq_pool_metadata s liq_pool_id) (LM LiquidityPoolNotFound)) (\<lambda>(asset_pair, _, farm_id).
     and_then (ok_or (deposit_data s nft_id) (LM NftDoesNotExist)) (\<lambda>d.
     and_then (ok_or (nft_owner (lm_nft cfg) (lm_ext s) (lm_nft_class cfg) nft_id) (LM CantFindDepositOwner)) (\<lambda>owner.
     and_then (ensure (owner = who) (LM NotDepositOwner)) (\<lambda>_.
     let amm_account = amm_get_pair_id (lm_amm cfg) asset_pair in
     and_then (ok_or (liquidity_pool_data s (farm_id, amm_account)) (LM LiquidityPoolNotFound)) (\<lambda>lq.
     and_then (ensure (\<not> lq_canceled lq) (LM lm_error.LiquidityMiningCanceled)) (\<lambda>_.
     and_then (ok_or (global_pool_data s farm_id) (LM FarmNotFound)) (\<lambda>gp.
     and_then (lm_get_now_period cfg s (gp_blocks_per_period gp)) (\<lambda>now_period.
     and_then (ensure (dp_updated_at d \<noteq> now_period) (LM DoubleClaimInThePeriod)) (\<lambda>_.
     and_then (lm_maybe_update_pools cfg s gp lq now_period) (\<lambda>(gp, lq, s).
     and_then (lm_do_claim_rewards cfg s who d lq now_period (gp_reward_currency gp)) (\<lambda>((reward, _), d, s).
     let s = lm_deposit_event (RewardClaimed farm_id (lq_id lq) who reward (gp_reward_currency gp)) s;
         s = lm_write_pools farm_id amm_account gp lq s
     in Inr (s\<lparr>deposit_data := (deposit_data s)(nft_id \<mapsto> d)\<rparr>))))))))))))))"

definition lm_release_stake ::
  "'u lm_config \<Rightarrow> global_pool \<Rightarrow> liq_pool \<Rightarrow> deposit \<Rightarrow> (global_pool \<times> liq_pool) result" where
  "lm_release_stake cfg gp lq d =
    (if \<not> lq_canceled lq then
       and_then (ok_or (lmm_global_pool_shares (lm_math cfg) (dp_valued_shares d) (lq_multiplier lq)) lm_overflow)
         (\<lambda>shares_in_global_pool_for_deposit.
       and_then (ok_or (checked_sub (lq_stake_in_global_pool lq) shares_in_global_pool_for_deposit) lm_overflow) (\<lambda>stake.
       and_then (ok_or (checked_sub (gp_total_shares_z gp) shares_in_global_pool_for_deposit) lm_overflow) (\<lambda>z.
       Inr (gp\<lparr>gp_total_shares_z := z\<rparr>, lq\<lparr>lq_stake_in_global_pool := stake\<rparr>))))
     else Inr (gp, lq))"

text \<open>
  The part of \<open>withdraw_shares\<close> that settles the deposit with a liquidity pool that still exists;
  it returns the pools and the deposit for their closures to write back.
\<close>

definition lm_settle_withdrawal ::
  "'u lm_config \<Rightarrow> 'u lm_state \<Rightarrow> account_id \<Rightarrow> nat \<Rightarrow> account_id \<Rightarrow> liq_pool \<Rightarrow> deposit
   \<Rightarrow> (deposit \<times> 'u lm_state) result" where
  "lm_settle_withdrawal cfg s who farm_id amm_account lq d =
     and_then (ok_or (global_pool_data s farm_id) (LM FarmNotFound)) (\<lambda>gp.
     and_then (lm_get_now_period cfg s (gp_blocks_per_period gp)) (\<lambda>now_period.
     and_then (if \<not> lq_canceled lq then lm_maybe_update_pools cfg s gp lq now_period else Inr (gp, lq, s)) (\<lambda>(gp, lq, s).
     and_then (lm_do_claim_rewards cfg s who d lq now_period (gp_reward_currency gp))
       (\<lambda>((reward, unclaimable_rewards), d, s).
     and_then (lm_pool_account_id cfg (gp_id gp)) (\<lambda>global_pool_account.
     and_then (lm_pool_account_id cfg (lq_id lq)) (\<lambda>liq_pool_account.
     and_then (ok_or (checked_sub (lq_total_shares lq) (dp_shares d)) lm_overflow) (\<lambda>total_shares.
     and_then (ok_or (checked_sub (lq_total_valued_shares lq) (dp_valued_shares d)) lm_overflow) (\<lambda>total_valued_shares.
     let lq = lq\<lparr>lq_total_shares := total_shares, lq_total_valued_shares := total_valued_shares\<rparr> in
     and_then (lm_release_stake cfg gp lq d) (\<lambda>(gp, lq).
     and_then (c_transfer (lm_cur cfg) s (gp_reward_currency gp) liq_pool_account global_pool_account
                 unclaimable_rewards) (\<lambda>s.
     let s = (if reward \<noteq> 0
              then lm_deposit_event (RewardClaimed (gp_id gp) (lq_id lq) who reward (gp_reward_currency gp)) s
              else s)
     in Inr (d, lm_write_pools farm_id amm_account gp lq s)))))))))))"

definition lm_withdraw_shares :: "'u lm_config \<Rightarrow> 'u lm_state \<Rightarrow> origin \<Rightarrow> instance_id \<Rightarrow> 'u lm_state result" where
  "lm_withdraw_shares cfg s orig nft_id =
     and_then (ensure_signed orig) (\<lambda>who.
     and_then (ok_or (nft_owner (lm_nft cfg) (lm_ext s) (lm_nft_class cfg) nft_id) (LM CantFindDepositOwner)) (\<lambda>owner.
     and_then (ensure (owner = who) (LM NotDepositOwner)) (\<lambda>_.
     and_then (lm_get_pool_id_from_nft_id nft_id) (\<lambda>liq_pool_id.
     and_then (ok_or (liq_pool_metadata s liq_pool_id) (LM LiquidityPoolNotFound))
       (\<lambda>(asset_pair, nfts_in_liq_pool, farm_id).
     and_then (ok_or (deposit_data s nft_id) (LM NftDoesNotExist)) (\<lambda>d.
     let amm_account = amm_get_pair_id (lm_amm cfg) asset_pair in
     and_then
       (case liquidity_pool_data s (farm_id, amm_account) of
          Some lq \<Rightarrow> and_then (lm_settle_withdrawal cfg s who farm_id amm_account lq d) (\<lambda>(d, s). Inr (False, d, s))
        | None \<Rightarrow> Inr (True, d, s)) (\<lambda>(can_remove_liq_pool_metadata, d, s).
     and_then
       (if amm_exists (lm_amm cfg) (lm_ext s) asset_pair then
          let amm_token = amm_get_share_token (lm_amm cfg) (lm_ext s) asset_pair in
          and_then (c_transfer (lm_cur cfg) s amm_token (lm_account_id cfg) who (dp_shares d)) (\<lambda>s.
          Inr (lm_deposit_event (SharesWithdrawn farm_id liq_pool_id who amm_token (dp_shares d)) s))
        else Inr s) (\<lambda>s.
     and_then (nft_do_burn (lm_nft cfg) (lm_ext s) who (lm_nft_class cfg) nft_id) (\<lambda>w.
     let s = lm_put w s in
     and_then
       (if nfts_in_liq_pool = 1 \<and> can_remove_liq_pool_metadata then Inr None
        else and_then (ok_or (checked_sub nfts_in_liq_pool 1) lm_overflow) (\<lambda>n. Inr (Some (asset_pair, n, farm_id))))
       (\<lambda>metadata.
     Inr (s\<lparr>deposit_data := (deposit_data s)(nft_id := None),
            liq_pool_metadata := (liq_pool_metadata s)(liq_pool_id := metadata)\<rparr>)))))))))))"

section \<open>The migration\<close>

text \<open>The runtime upgrade unwraps the result of creating the class: \<open>None\<close> is the panic.\<close>

definition init_nft_class :: "'u lm_config \<Rightarrow> 'u lm_state \<Rightarrow> 'u lm_state option" where
  "init_nft_class cfg s =
     (if lm_storage_version s = 0 then
        case nft_do_create_class (lm_nft cfg) (lm_ext s) (lm_account_id cfg) (lm_nft_class cfg) LiquidityMiningClass [] of
          Inl e \<Rightarrow> None
        | Inr (_, w) \<Rightarrow> Some ((lm_put w s)\<lparr>lm_storage_version := 1\<rparr>)
      else Some s)"

definition lm_integrity_test :: "'u lm_config \<Rightarrow> bool" where
  "lm_integrity_test cfg \<longleftrightarrow> lm_nft_class cfg \<le> nft_reserve_class_id_up_to (lm_nft cfg)"

end
