(* ===== verification/Native.thy ===== *)
theory Native
  imports Primitives
begin

text \<open>
  The native currency with named reserves (\<open>Currency\<close> and \<open>NamedReservableCurrency\<close>), which
  the marketplace uses. Its implementation is not part of the repository: \<open>native_ops\<close> has one
  field per function the marketplace calls, the locale \<open>named_reservable\<close> states what the traits
  document, and the executable \<open>purse\<close> meets it. As for the other tokens, balances are exact and
  the existential deposit is outside the model; the flag of a transfer is the existence
  requirement (\<open>KeepAlive\<close>).
\<close>

record 'w native_ops =
  n_free :: "'w \<Rightarrow> account_id \<Rightarrow> balance"
  n_reserved :: "'w \<Rightarrow> reserve_identifier \<Rightarrow> account_id \<Rightarrow> balance"
  n_transfer :: "'w \<Rightarrow> account_id \<Rightarrow> account_id \<Rightarrow> balance \<Rightarrow> bool \<Rightarrow> 'w result"
  n_reserve :: "'w \<Rightarrow> reserve_identifier \<Rightarrow> account_id \<Rightarrow> balance \<Rightarrow> 'w result"
  n_unreserve :: "'w \<Rightarrow> reserve_identifier \<Rightarrow> account_id \<Rightarrow> balance \<Rightarrow> balance \<times> 'w"

definition pay :: "account_id \<Rightarrow> account_id \<Rightarrow> balance \<Rightarrow> (account_id \<Rightarrow> balance) \<Rightarrow> account_id \<Rightarrow> balance" where
  "pay f t x B = (if f = t then B else B(f := B f - x, t := B t + x))"

definition reserved_set ::
  "reserve_identifier \<Rightarrow> account_id \<Rightarrow> balance \<Rightarrow> (reserve_identifier \<Rightarrow> account_id \<Rightarrow> balance)
   \<Rightarrow> reserve_identifier \<Rightarrow> account_id \<Rightarrow> balance" where
  "reserved_set i w x R = R(i := (R i)(w := x))"

lemma reserved_set_apply [simp]: "reserved_set i w x R j v = (if j = i \<and> v = w then x else R j v)"
  by (simp add: reserved_set_def)

lemma pay_self [simp]: "pay f f x B = B"
  by (simp add: pay_def)

locale named_reservable =
  fixes N :: "'w native_ops"
  assumes transfer_free: "n_transfer N s f t x k = Inr s' \<Longrightarrow> n_free N s' = pay f t x (n_free N s)"
    and transfer_funds: "n_transfer N s f t x k = Inr s' \<Longrightarrow> f \<noteq> t \<Longrightarrow> x \<le> n_free N s f"
    and transfer_reserved: "n_transfer N s f t x k = Inr s' \<Longrightarrow> n_reserved N s' = n_reserved N s"
    and reserve_free: "n_reserve N s i w x = Inr s' \<Longrightarrow> n_free N s' = (n_free N s)(w := n_free N s w - x)"
    and reserve_funds: "n_reserve N s i w x = Inr s' \<Longrightarrow> x \<le> n_free N s w"
    and reserve_reserved:
      "n_reserve N s i w x = Inr s' \<Longrightarrow> n_reserved N s' = reserved_set i w (n_reserved N s i w + x) (n_reserved N s)"
    and unreserve_free:
      "n_unreserve N s i w x = (r, s') \<Longrightarrow> n_free N s' = (n_free N s)(w := n_free N s w + min x (n_reserved N s i w))"
    and unreserve_reserved:
      "n_unreserve N s i w x = (r, s') \<Longrightarrow> n_reserved N s' = reserved_set i w (n_reserved N s i w - x) (n_reserved N s)"
begin

text \<open>Reserving an amount and releasing it restores every balance.\<close>

lemma reserve_unreserve:
  assumes "n_reserve N s i w x = Inr s1" "n_unreserve N s1 i w x = (r, s2)"
  shows "n_free N s2 = n_free N s" "n_reserved N s2 = n_reserved N s"
  using reserve_free [OF assms(1)] reserve_funds [OF assms(1)] reserve_reserved [OF assms(1)]
    unreserve_free [OF assms(2)] unreserve_reserved [OF assms(2)] by (auto simp: fun_eq_iff)

end

section \<open>An executable purse\<close>

record purse =
  p_free :: "account_id \<Rightarrow> balance"
  p_reserved :: "reserve_identifier \<Rightarrow> account_id \<Rightarrow> balance"

definition purse_ops :: "purse native_ops" where
  "purse_ops = \<lparr>
     n_free = p_free,
     n_reserved = p_reserved,
     n_transfer = (\<lambda>s f t x k.
        if f \<noteq> t \<and> p_free s f < x then Inl (External 0) else Inr (s\<lparr>p_free := pay f t x (p_free s)\<rparr>)),
     n_reserve = (\<lambda>s i w x.
        if p_free s w < x then Inl (External 0)
        else Inr (s\<lparr>p_free := (p_free s)(w := p_free s w - x),
                    p_reserved := reserved_set i w (p_reserved s i w + x) (p_reserved s)\<rparr>)),
     n_unreserve = (\<lambda>s i w x.
        (x - p_reserved s i w,
         s\<lparr>p_free := (p_free s)(w := p_free s w + min x (p_reserved s i w)),
           p_reserved := reserved_set i w (p_reserved s i w - x) (p_reserved s)\<rparr>))\<rparr>"

interpretation purse: named_reservable purse_ops
  by unfold_locales (auto simp: purse_ops_def split: if_splits)

section \<open>A purse inside a larger storage\<close>

definition lift_native :: "('s \<Rightarrow> 'w) \<Rightarrow> ('w \<Rightarrow> 's \<Rightarrow> 's) \<Rightarrow> 'w native_ops \<Rightarrow> 's native_ops" where
  "lift_native gt pt N = \<lparr>
     n_free = (\<lambda>s. n_free N (gt s)),
     n_reserved = (\<lambda>s. n_reserved N (gt s)),
     n_transfer = (\<lambda>s f t x k. and_then (n_transfer N (gt s) f t x k) (\<lambda>w. Inr (pt w s))),
     n_reserve = (\<lambda>s i w x. and_then (n_reserve N (gt s) i w x) (\<lambda>w. Inr (pt w s))),
     n_unreserve = (\<lambda>s i w x. let (r, v) = n_unreserve N (gt s) i w x in (r, pt v s))\<rparr>"

lemma named_reservable_lift:
  assumes "named_reservable N" and gp: "\<And>w s. gt (pt w s) = w"
  shows "named_reservable (lift_native gt pt N)"
proof -
  note laws = named_reservable.transfer_free [OF assms(1)] named_reservable.transfer_reserved [OF assms(1)]
    named_reservable.reserve_free [OF assms(1)] named_reservable.reserve_reserved [OF assms(1)]
    named_reservable.unreserve_free [OF assms(1)] named_reservable.unreserve_reserved [OF assms(1)]
  show ?thesis
    by unfold_locales
      (auto simp: lift_native_def gp laws split: prod.splits
        dest: named_reservable.transfer_funds [OF assms(1)] named_reservable.reserve_funds [OF assms(1)])
qed

end
