(* ===== verification/Marketplace.thy ===== *)
theory Marketplace
  imports NFT Native
begin

text \<open>
  The marketplace, \<open>pallets/marketplace/src/lib.rs\<close> and \<open>types.rs\<close>: listings at a fixed price,
  offers backed by reserved funds, and royalties. It sits above the NFT pallet, whose state is the
  storage below it, and pays in the native currency. Multiplying a balance by a percentage is
  \<open>sp_arithmetic\<close>'s \<open>Percent\<close>, a field of the configuration; the block number is read from the
  storage.

  A storage closure that takes a value out and fails leaves the storage as it was. While an offer
  is being accepted its record is still in the storage, and \<open>do_buy\<close> reads the price there.
\<close>

record offer =
  of_maker :: account_id
  of_amount :: balance
  of_expires :: block_number

record royalty =
  ry_author :: account_id
  ry_royalty :: nat

datatype mp_event =
    TokenPriceUpdated account_id class_id instance_id "balance option"
  | TokenSold account_id account_id class_id instance_id balance
  | OfferPlaced account_id class_id instance_id balance block_number
  | OfferWithdrawn account_id class_id instance_id
  | OfferAccepted account_id class_id instance_id balance
  | RoyaltyPaid class_id instance_id account_id nat balance
  | RoyaltyAdded class_id instance_id account_id nat

record 'u mp_state =
  mp_ext :: "'u nft_state"
  mp_prices :: "class_id \<times> instance_id \<rightharpoonup> balance"
  mp_offers :: "(class_id \<times> instance_id) \<times> account_id \<rightharpoonup> offer"
  mp_instances :: "class_id \<times> instance_id \<rightharpoonup> royalty"
  mp_events :: "mp_event list"

record 'u mp_config =
  mp_native :: "'u nft_state native_ops"
  mp_nft :: "'u nft_config"
  mp_minimum_offer_amount :: balance
  mp_royalty_bond_amount :: balance
  mp_block_number :: "'u nft_state \<Rightarrow> block_number"
  mp_percent_mul :: "nat \<Rightarrow> balance \<Rightarrow> balance"

definition RESERVE_ID :: reserve_identifier where "RESERVE_ID = MarketplaceReserve"

definition mp_put :: "'u nft_state \<Rightarrow> 'u mp_state \<Rightarrow> 'u mp_state" where
  "mp_put w s = s\<lparr>mp_ext := w\<rparr>"

definition mp_deposit_event :: "mp_event \<Rightarrow> 'u mp_state \<Rightarrow> 'u mp_state" where
  "mp_deposit_event ev s = s\<lparr>mp_events := mp_events s @ [ev]\<rparr>"

definition mp_nat :: "'u mp_config \<Rightarrow> 'u mp_state native_ops" where
  "mp_nat cfg = lift_native mp_ext mp_put (mp_native cfg)"

section \<open>Sales\<close>

definition mp_settle_royalty ::
  "'u mp_config \<Rightarrow> 'u mp_state \<Rightarrow> account_id \<Rightarrow> account_id \<Rightarrow> class_id \<Rightarrow> instance_id \<Rightarrow> balance
   \<Rightarrow> (balance \<times> 'u mp_state) result" where
  "mp_settle_royalty cfg s owner buyer class_id instance_id price =
    (case mp_instances s (class_id, instance_id) of
       None \<Rightarrow> Inr (price, s)
     | Some instance_info \<Rightarrow>
         let royalty = ry_royalty instance_info;
             author = ry_author instance_info;
             royalty_amount = mp_percent_mul cfg royalty price
         in
         if owner \<noteq> author \<and> royalty \<noteq> 0 then
           let price = saturating_sub price royalty_amount in
           and_then (n_transfer (mp_nat cfg) s buyer author royalty_amount True) (\<lambda>s.
           Inr (price, mp_deposit_event (RoyaltyPaid class_id instance_id author royalty royalty_amount) s))
         else Inr (price, s))"

definition mp_do_buy ::
  "'u mp_config \<Rightarrow> 'u mp_state \<Rightarrow> account_id \<Rightarrow> class_id \<Rightarrow> instance_id \<Rightarrow> bool \<Rightarrow> 'u mp_state result" where
  "mp_do_buy cfg s buyer class_id instance_id is_offer =
     and_then (ok_or (nft_owner (mp_nft cfg) (mp_ext s) class_id instance_id) (Marketplace ClassOrInstanceUnknown)) (\<lambda>owner.
     and_then (ensure (buyer \<noteq> owner) (Marketplace BuyFromSelf)) (\<lambda>_.
     and_then
       (if is_offer then
          and_then (ok_or (map_option of_amount (mp_offers s ((class_id, instance_id), buyer))) (Marketplace UnknownOffer)) (\<lambda>amount.
          Inr (amount, mp_prices s (class_id, instance_id)))
        else
          and_then (ok_or (mp_prices s (class_id, instance_id)) (Marketplace NotForSale)) (\<lambda>p. Inr (p, None)))
       (\<lambda>(price, listing).
     and_then (mp_settle_royalty cfg s owner buyer class_id instance_id price) (\<lambda>(price, s).
     and_then (n_transfer (mp_nat cfg) s buyer owner price True) (\<lambda>s.
     let to_acc = nft_unlookup (mp_nft cfg) buyer in
     and_then (nft_transfer (mp_nft cfg) (mp_ext s) (Signed owner) class_id instance_id to_acc) (\<lambda>w.
     let s = mp_deposit_event (TokenSold owner buyer class_id instance_id price) (mp_put w s)
     in Inr (s\<lparr>mp_prices := (mp_prices s)((class_id, instance_id) := listing)\<rparr>)))))))"

definition mp_buy :: "'u mp_config \<Rightarrow> 'u mp_state \<Rightarrow> origin \<Rightarrow> class_id \<Rightarrow> instance_id \<Rightarrow> 'u mp_state result" where
  "mp_buy cfg s orig class_id instance_id =
     and_then (ensure_signed orig) (\<lambda>sender. mp_do_buy cfg s sender class_id instance_id False)"

definition mp_set_price ::
  "'u mp_config \<Rightarrow> 'u mp_state \<Rightarrow> origin \<Rightarrow> class_id \<Rightarrow> instance_id \<Rightarrow> balance option \<Rightarrow> 'u mp_state result" where
  "mp_set_price cfg s orig class_id instance_id new_price =
     and_then (ensure_signed orig) (\<lambda>sender.
     and_then (ensure (nft_owner (mp_nft cfg) (mp_ext s) class_id instance_id = Some sender)
                 (Marketplace NotTheTokenOwner)) (\<lambda>_.
     let s = s\<lparr>mp_prices := (mp_prices s)((class_id, instance_id) := new_price)\<rparr>
     in Inr (mp_deposit_event (TokenPriceUpdated sender class_id instance_id new_price) s)))"

section \<open>Offers\<close>

definition mp_make_offer ::
  "'u mp_config \<Rightarrow> 'u mp_state \<Rightarrow> origin \<Rightarrow> class_id \<Rightarrow> instance_id \<Rightarrow> balance \<Rightarrow> block_number \<Rightarrow> 'u mp_state result" where
  "mp_make_offer cfg s orig class_id instance_id amount expires =
     and_then (ensure_signed orig) (\<lambda>sender.
     and_then (ensure (amount \<ge> mp_minimum_offer_amount cfg) (Marketplace OfferTooLow)) (\<lambda>_.
     and_then (ensure (\<not> contains_key (mp_offers s) ((class_id, instance_id), sender)) (Marketplace AlreadyOffered)) (\<lambda>_.
     let token_id = (class_id, instance_id);
         s = s\<lparr>mp_offers := (mp_offers s)((token_id, sender) \<mapsto>
               \<lparr>of_maker = sender, of_amount = amount, of_expires = expires\<rparr>)\<rparr>
     in
     and_then (n_reserve (mp_nat cfg) s RESERVE_ID sender amount) (\<lambda>s.
     Inr (mp_deposit_event (OfferPlaced sender class_id instance_id amount expires) s)))))"

definition mp_withdraw_offer ::
  "'u mp_config \<Rightarrow> 'u mp_state \<Rightarrow> origin \<Rightarrow> class_id \<Rightarrow> instance_id \<Rightarrow> account_id \<Rightarrow> 'u mp_state result" where
  "mp_withdraw_offer cfg s orig class_id instance_id maker =
     and_then (ensure_signed orig) (\<lambda>sender.
     let token_id = (class_id, instance_id) in
     and_then (ok_or (mp_offers s (token_id, maker)) (Marketplace UnknownOffer)) (\<lambda>offer.
     and_then (ok_or (nft_owner (mp_nft cfg) (mp_ext s) class_id instance_id) (Marketplace ClassOrInstanceUnknown)) (\<lambda>owner.
     and_then (ensure (sender = of_maker offer \<or> sender = owner) (Marketplace WithdrawNotAuthorized)) (\<lambda>_.
     let s = snd (n_unreserve (mp_nat cfg) s RESERVE_ID (of_maker offer) (of_amount offer));
         s = mp_deposit_event (OfferWithdrawn sender class_id instance_id) s
     in Inr (s\<lparr>mp_offers := (mp_offers s)((token_id, maker) := None)\<rparr>)))))"

definition mp_accept_offer ::
  "'u mp_config \<Rightarrow> 'u mp_state \<Rightarrow> origin \<Rightarrow> class_id \<Rightarrow> instance_id \<Rightarrow> account_id \<Rightarrow> 'u mp_state result" where
  "mp_accept_offer cfg s orig class_id instance_id maker =
     and_then (ensure_signed orig) (\<lambda>sender.
     let token_id = (class_id, instance_id) in
     and_then (ok_or (nft_owner (mp_nft cfg) (mp_ext s) class_id instance_id) (Marketplace ClassOrInstanceUnknown)) (\<lambda>owner.
     and_then (ensure (sender = owner) (Marketplace AcceptNotAuthorized)) (\<lambda>_.
     and_then (ok_or (mp_offers s (token_id, maker)) (Marketplace UnknownOffer)) (\<lambda>offer.
     if of_expires offer > mp_block_number cfg (mp_ext s) then
       let s = snd (n_unreserve (mp_nat cfg) s RESERVE_ID (of_maker offer) (of_amount offer)) in
       and_then (mp_do_buy cfg s (of_maker offer) class_id instance_id True) (\<lambda>s.
       let s = mp_deposit_event (OfferAccepted sender class_id instance_id (of_amount offer)) s
       in Inr (s\<lparr>mp_offers := (mp_offers s)((token_id, maker) := None)\<rparr>))
     else Inl (Marketplace OfferExpired)))))"

section \<open>Royalties\<close>

definition mp_add_royalty ::
  "'u mp_config \<Rightarrow> 'u mp_state \<Rightarrow> origin \<Rightarrow> class_id \<Rightarrow> instance_id \<Rightarrow> account_id \<Rightarrow> nat \<Rightarrow> 'u mp_state result" where
  "mp_add_royalty cfg s orig class_id instance_id author royalty =
     and_then (ensure_signed orig) (\<lambda>sender.
     and_then (ensure (\<not> contains_key (mp_instances s) (class_id, instance_id)) (Marketplace RoyaltyAlreadySet)) (\<lambda>_.
     and_then (ensure (royalty \<le> 100) (Marketplace NotInRange)) (\<lambda>_.
     and_then (ok_or (nft_owner (mp_nft cfg) (mp_ext s) class_id instance_id) (NFT ClassUnknown)) (\<lambda>owner.
     and_then (ensure (sender = owner) (NFT NotPermitted)) (\<lambda>_.
     let royalty_bond = mp_royalty_bond_amount cfg in
     and_then (n_reserve (mp_nat cfg) s RESERVE_ID sender royalty_bond) (\<lambda>s.
     let s = s\<lparr>mp_instances := (mp_instances s)((class_id, instance_id) \<mapsto> \<lparr>ry_author = author, ry_royalty = royalty\<rparr>)\<rparr>
     in Inr (mp_deposit_event (RoyaltyAdded class_id instance_id author royalty) s)))))))"

section \<open>The calls of the pallet\<close>

datatype mp_call =
    Buy class_id instance_id
  | SetPrice class_id instance_id "balance option"
  | MakeOffer class_id instance_id balance block_number
  | WithdrawOffer class_id instance_id account_id
  | AcceptOffer class_id instance_id account_id
  | AddRoyalty class_id instance_id account_id nat

fun mp_dispatch :: "'u mp_config \<Rightarrow> origin \<Rightarrow> mp_call \<Rightarrow> 'u mp_state \<Rightarrow> 'u mp_state result" where
  "mp_dispatch cfg orig (Buy c i) s = mp_buy cfg s orig c i"
| "mp_dispatch cfg orig (SetPrice c i p) s = mp_set_price cfg s orig c i p"
| "mp_dispatch cfg orig (MakeOffer c i x e) s = mp_make_offer cfg s orig c i x e"
| "mp_dispatch cfg orig (WithdrawOffer c i m) s = mp_withdraw_offer cfg s orig c i m"
| "mp_dispatch cfg orig (AcceptOffer c i m) s = mp_accept_offer cfg s orig c i m"
| "mp_dispatch cfg orig (AddRoyalty c i a r) s = mp_add_royalty cfg s orig c i a r"

end
