(* ===== verification/Duster.thy ===== *)
theory Duster
  imports Ledger
begin

text \<open>
  The duster, \<open>pallets/duster/src/lib.rs\<close>, and the offchain worker that drives it,
  \<open>pallets/offchain-duster/src/lib.rs\<close>. \<open>duster_config\<close> is the \<open>Config\<close> trait: tokens, minimum
  deposits (read from the asset registry, so a function of the storage), reward and native asset.
  \<open>duster_state\<close> is the storage below the pallet with the three storage items and the events.

  The calls are not transactional, but each of them writes only after its last check, so a call
  that fails leaves the storage as it was. The result of paying the reward is dropped: when that
  transfer fails the dusting stands.

  Shown here: what a successful dusting does to the balances (\<open>duster_clears_dust\<close>), that the
  accounts set at genesis are never lost, so the errors the source calls impossible are
  (\<open>duster_accounts_stay_set\<close>), and that the loop of the offchain worker submits exactly the
  calls for the accounts below their minimum, in the order of the storage
  (\<open>offchain_worker_submits\<close>).
\<close>

datatype duster_event = Dusted account_id balance | Added account_id | Removed account_id

record 'w duster_state =
  du_ext :: 'w
  account_blacklist :: "account_id \<rightharpoonup> unit"
  reward_account :: "account_id option"
  dust_dest_account :: "account_id option"
  du_events :: "duster_event list"

record 'w duster_config =
  du_currency :: "'w currency_ops"
  du_min_deposit :: "'w \<Rightarrow> asset_id \<Rightarrow> balance"
  du_reward :: balance
  du_native_asset_id :: asset_id

record duster_genesis =
  gen_account_blacklist :: "account_id list"
  gen_reward_account :: "account_id option"
  gen_dust_account :: "account_id option"

definition du_put :: "'w \<Rightarrow> 'w duster_state \<Rightarrow> 'w duster_state" where
  "du_put w s = s\<lparr>du_ext := w\<rparr>"

definition du_cur :: "'w duster_config \<Rightarrow> 'w duster_state currency_ops" where
  "du_cur cfg = lift_currency du_ext du_put (du_currency cfg)"

definition du_deposit_event :: "duster_event \<Rightarrow> 'w duster_state \<Rightarrow> 'w duster_state" where
  "du_deposit_event ev s = s\<lparr>du_events := du_events s @ [ev]\<rparr>"

section \<open>Genesis\<close>

definition default_duster_genesis :: duster_genesis where
  "default_duster_genesis =
     \<lparr>gen_account_blacklist = [], gen_reward_account = None, gen_dust_account = None\<rparr>"

text \<open>\<open>None\<close> is the panic that stops the node from building its genesis block.\<close>

definition duster_build :: "duster_genesis \<Rightarrow> 'w duster_state \<Rightarrow> 'w duster_state option" where
  "duster_build g s =
     (let s = fold (\<lambda>a s. s\<lparr>account_blacklist := (account_blacklist s)(a \<mapsto> ())\<rparr>)
                (gen_account_blacklist g) s in
      case gen_reward_account g of
        None \<Rightarrow> None
      | Some r \<Rightarrow>
        (case gen_dust_account g of
           None \<Rightarrow> None
         | Some d \<Rightarrow> Some (s\<lparr>reward_account := Some r, dust_dest_account := Some d\<rparr>)))"

section \<open>Dusting\<close>

definition is_dustable :: "'w duster_config \<Rightarrow> 'w duster_state \<Rightarrow> account_id \<Rightarrow> asset_id \<Rightarrow> bool \<times> balance" where
  "is_dustable cfg s account currency_id =
     (let ed = du_min_deposit cfg (du_ext s) currency_id;
          total = c_total_balance (du_cur cfg) s currency_id account
      in (total < ed, total))"

definition reward_duster ::
  "'w duster_config \<Rightarrow> 'w duster_state \<Rightarrow> account_id \<Rightarrow> asset_id \<Rightarrow> balance \<Rightarrow> 'w duster_state result" where
  "reward_duster cfg s duster currency_id dust =
     and_then (ok_or (reward_account s) (Duster ReserveAccountNotSet)) (\<lambda>reserve_account.
     let reward = du_reward cfg in
     c_transfer (du_cur cfg) s (du_native_asset_id cfg) reserve_account duster reward)"

definition transfer_dust ::
  "'w duster_config \<Rightarrow> 'w duster_state \<Rightarrow> account_id \<Rightarrow> account_id \<Rightarrow> asset_id \<Rightarrow> balance
   \<Rightarrow> 'w duster_state result" where
  "transfer_dust cfg s from_acc dest currency_id dust =
     c_transfer (du_cur cfg) s currency_id from_acc dest dust"

definition dust_account ::
  "'w duster_config \<Rightarrow> 'w duster_state \<Rightarrow> origin \<Rightarrow> account_id \<Rightarrow> asset_id \<Rightarrow> 'w duster_state result" where
  "dust_account cfg s orig account currency_id =
     and_then (ensure_signed orig) (\<lambda>who.
     and_then (ensure (account_blacklist s account = None) (Duster AccountBlacklisted)) (\<lambda>_.
     let (dustable, dust) = is_dustable cfg s account currency_id in
     and_then (ensure (dust \<noteq> 0) (Duster ZeroBalance)) (\<lambda>_.
     and_then (ensure dustable (Duster BalanceSufficient)) (\<lambda>_.
     and_then (ok_or (dust_dest_account s) (Duster DustAccountNotSet)) (\<lambda>dest.
     and_then (transfer_dust cfg s account dest currency_id dust) (\<lambda>s.
     let s = du_deposit_event (Dusted account dust) s in
     case reward_duster cfg s who currency_id dust of
       Inl _ \<Rightarrow> Inr s
     | Inr s \<Rightarrow> Inr s))))))"

section \<open>The list of accounts that are not dusted\<close>

definition add_nondustable_account :: "'w duster_state \<Rightarrow> origin \<Rightarrow> account_id \<Rightarrow> 'w duster_state result" where
  "add_nondustable_account s orig account =
     and_then (ensure_root orig) (\<lambda>_.
     let s = s\<lparr>account_blacklist := (account_blacklist s)(account \<mapsto> ())\<rparr>
     in Inr (du_deposit_event (Added account) s))"

definition remove_nondustable_account :: "'w duster_state \<Rightarrow> origin \<Rightarrow> account_id \<Rightarrow> 'w duster_state result" where
  "remove_nondustable_account s orig account =
     and_then (ensure_root orig) (\<lambda>_.
     and_then (ensure (account_blacklist s account \<noteq> None) (Duster AccountNotBlacklisted)) (\<lambda>_.
     let s = s\<lparr>account_blacklist := (account_blacklist s)(account := None)\<rparr>
     in Inr (du_deposit_event (Removed account) s)))"

definition duster_whitelist_contains :: "'w duster_state \<Rightarrow> account_id \<Rightarrow> bool" where
  "duster_whitelist_contains s t = contains_key (account_blacklist s) t"

section \<open>The callback of the tokens pallet\<close>

definition duster_on_dust ::
  "'w duster_config \<Rightarrow> 'w duster_state \<Rightarrow> account_id \<Rightarrow> asset_id \<Rightarrow> balance \<Rightarrow> 'w duster_state" where
  "duster_on_dust cfg s who currency_id amount =
     (case dust_dest_account s of
        Some dest \<Rightarrow> (case transfer_dust cfg s who dest currency_id amount of Inl _ \<Rightarrow> s | Inr s \<Rightarrow> s)
      | None \<Rightarrow> s)"

section \<open>Runs of the pallet\<close>

datatype duster_call =
    DustAccount account_id asset_id
  | AddNondustableAccount account_id
  | RemoveNondustableAccount account_id

fun duster_dispatch :: "'w duster_config \<Rightarrow> 'w duster_state \<Rightarrow> origin \<Rightarrow> duster_call \<Rightarrow> 'w duster_state result" where
  "duster_dispatch cfg s orig (DustAccount account currency_id) = dust_account cfg s orig account currency_id"
| "duster_dispatch cfg s orig (AddNondustableAccount account) = add_nondustable_account s orig account"
| "duster_dispatch cfg s orig (RemoveNondustableAccount account) = remove_nondustable_account s orig account"

text \<open>
  A step is a call, a dust callback, or any change of the storage below the pallet made by the
  rest of the chain.
\<close>

inductive duster_step :: "'w duster_config \<Rightarrow> 'w duster_state \<Rightarrow> 'w duster_state \<Rightarrow> bool" for cfg where
  call: "duster_dispatch cfg s orig c = Inr s' \<Longrightarrow> duster_step cfg s s'"
| on_dust: "duster_step cfg s (duster_on_dust cfg s who currency_id amount)"
| outside: "duster_step cfg s (du_put w s)"

inductive duster_run :: "'w duster_config \<Rightarrow> 'w duster_state \<Rightarrow> 'w duster_state \<Rightarrow> bool" for cfg where
  stop: "duster_run cfg s s"
| next_step: "duster_run cfg s t \<Longrightarrow> duster_step cfg t u \<Longrightarrow> duster_run cfg s u"

inductive_cases duster_stepE: "duster_step cfg s s'"

section \<open>The offchain worker\<close>

datatype offchain_err = NotValidator | OffchainLock

record token_account =
  ta_free :: balance
  ta_reserved :: balance

text \<open>
  What the worker asks of its host: whether the node is a validator, whether the lock can be
  taken and then extended after the \<open>n\<close>-th account, whether there is a key to sign with, and what
  sending a signed call does to the host's pool of transactions.
\<close>

record 'p offchain_host =
  oh_is_validator :: bool
  oh_try_lock :: bool
  oh_extend_lock :: "nat \<Rightarrow> bool"
  oh_can_sign :: bool
  oh_send :: "'p \<Rightarrow> duster_call \<Rightarrow> 'p"

definition dust_account_signed :: "'p offchain_host \<Rightarrow> 'p \<Rightarrow> account_id \<Rightarrow> asset_id \<Rightarrow> string + 'p" where
  "dust_account_signed h p from_acc currency_id =
     (if \<not> oh_can_sign h
      then Inl ''No local accounts available. Consider adding one via `author_insertKey` RPC.''
      else Inr (oh_send h p (DustAccount from_acc currency_id)))"

text \<open>The pool is part of both outcomes: what was sent before the lock is lost stays sent.\<close>

fun offchain_loop ::
  "'p offchain_host \<Rightarrow> (asset_id \<Rightarrow> balance) \<Rightarrow> nat \<Rightarrow> 'p \<Rightarrow> (account_id \<times> asset_id \<times> token_account) list
   \<Rightarrow> 'p \<times> (offchain_err + unit)" where
  "offchain_loop h min_deposit n p [] = (p, Inr ())"
| "offchain_loop h min_deposit n p ((who, asset, account) # rest) =
     (let ed = min_deposit asset;
          total = saturating_add u128_max (ta_free account) (ta_reserved account);
          p = (if total < ed then (case dust_account_signed h p who asset of Inl _ \<Rightarrow> p | Inr p \<Rightarrow> p) else p)
      in if oh_extend_lock h n then offchain_loop h min_deposit (Suc n) p rest else (p, Inl OffchainLock))"

definition offchain_worker_run ::
  "'p offchain_host \<Rightarrow> (asset_id \<Rightarrow> balance) \<Rightarrow> 'p \<Rightarrow> (account_id \<times> asset_id \<times> token_account) list
   \<Rightarrow> 'p \<times> (offchain_err + unit)" where
  "offchain_worker_run h min_deposit p accounts =
     (if \<not> oh_is_validator h then (p, Inl NotValidator)
      else if \<not> oh_try_lock h then (p, Inl OffchainLock)
      else offchain_loop h min_deposit 0 p accounts)"

definition offchain_worker ::
  "'p offchain_host \<Rightarrow> (asset_id \<Rightarrow> balance) \<Rightarrow> 'p \<Rightarrow> (account_id \<times> asset_id \<times> token_account) list \<Rightarrow> 'p" where
  "offchain_worker h min_deposit p accounts = fst (offchain_worker_run h min_deposit p accounts)"

section \<open>Effects of the operations\<close>

lemma du_cur_sel [simp]:
  "c_free_balance (du_cur cfg) s = c_free_balance (du_currency cfg) (du_ext s)"
  "c_reserved_balance (du_cur cfg) s = c_reserved_balance (du_currency cfg) (du_ext s)"
  "c_total_balance (du_cur cfg) s = c_total_balance (du_currency cfg) (du_ext s)"
  by (simp_all add: du_cur_def)

lemma du_cur_transfer_eq_Inr [simp, result_simps]:
  "c_transfer (du_cur cfg) s a f t x = Inr s' \<longleftrightarrow>
     (\<exists>w. c_transfer (du_currency cfg) (du_ext s) a f t x = Inr w \<and> s' = du_put w s)"
  by (auto simp: du_cur_def lift_currency_def)

lemma du_put_sel [simp]:
  "du_ext (du_put w s) = w"
  "account_blacklist (du_put w s) = account_blacklist s"
  "reward_account (du_put w s) = reward_account s"
  "dust_dest_account (du_put w s) = dust_dest_account s"
  "du_events (du_put w s) = du_events s"
  by (simp_all add: du_put_def)

lemma du_deposit_event_sel [simp]:
  "du_ext (du_deposit_event ev s) = du_ext s"
  "account_blacklist (du_deposit_event ev s) = account_blacklist s"
  "reward_account (du_deposit_event ev s) = reward_account s"
  "dust_dest_account (du_deposit_event ev s) = dust_dest_account s"
  "du_events (du_deposit_event ev s) = du_events s @ [ev]"
  by (simp_all add: du_deposit_event_def)

lemma reward_duster_eq_Inr [simp, result_simps]:
  "reward_duster cfg s who a x = Inr s' \<longleftrightarrow>
     (\<exists>r w. reward_account s = Some r \<and>
        c_transfer (du_currency cfg) (du_ext s) (du_native_asset_id cfg) r who (du_reward cfg) = Inr w \<and>
        s' = du_put w s)"
  by (auto simp: reward_duster_def)

text \<open>The result of a call whose error is dropped.\<close>

lemma ignored_result:
  "(case r of Inl e \<Rightarrow> Inr s | Inr t \<Rightarrow> Inr t) = Inr s' \<longleftrightarrow> (\<exists>e. r = Inl e) \<and> s' = s \<or> r = Inr s'"
  by (cases r) auto

text \<open>A call that succeeds is a transfer of the whole balance, then a reward that may have failed.\<close>

lemma dust_account_effect:
  assumes "dust_account cfg s orig account a = Inr s'"
  obtains who d w where
    "orig = Signed who" "dust_dest_account s = Some d" "account_blacklist s account = None"
    "0 < c_total_balance (du_currency cfg) (du_ext s) a account"
    "c_total_balance (du_currency cfg) (du_ext s) a account < du_min_deposit cfg (du_ext s) a"
    "c_transfer (du_currency cfg) (du_ext s) a account d
       (c_total_balance (du_currency cfg) (du_ext s) a account) = Inr w"
    "account_blacklist s' = account_blacklist s" "reward_account s' = reward_account s"
    "dust_dest_account s' = dust_dest_account s"
    "du_events s' = du_events s @ [Dusted account (c_total_balance (du_currency cfg) (du_ext s) a account)]"
    "du_ext s' = w \<or> (\<exists>r. reward_account s = Some r \<and>
        c_transfer (du_currency cfg) w (du_native_asset_id cfg) r who (du_reward cfg) = Inr (du_ext s'))"
proof -
  from assms show thesis
    by (clarsimp simp: dust_account_def is_dustable_def transfer_dust_def Let_def ignored_result)
      (erule disjE; clarsimp; (rule that, (rule refl | assumption | simp)+))
qed

lemma duster_on_dust_sel [simp]:
  "account_blacklist (duster_on_dust cfg s who a x) = account_blacklist s"
  "reward_account (duster_on_dust cfg s who a x) = reward_account s"
  "dust_dest_account (duster_on_dust cfg s who a x) = dust_dest_account s"
  "du_events (duster_on_dust cfg s who a x) = du_events s"
  by (auto simp: duster_on_dust_def transfer_dust_def split: option.splits sum.splits)

lemma duster_build_eq_Some:
  "duster_build g s0 = Some s \<longleftrightarrow>
     (\<exists>r d. gen_reward_account g = Some r \<and> gen_dust_account g = Some d \<and>
        s = s0\<lparr>account_blacklist := fold (\<lambda>a b. b(a \<mapsto> ())) (gen_account_blacklist g) (account_blacklist s0),
               reward_account := Some r, dust_dest_account := Some d\<rparr>)"
proof -
  have "fold (\<lambda>a s. s\<lparr>account_blacklist := (account_blacklist s)(a \<mapsto> ())\<rparr>) xs s0 =
      s0\<lparr>account_blacklist := fold (\<lambda>a b. b(a \<mapsto> ())) xs (account_blacklist s0)\<rparr>" for xs
    by (induction xs arbitrary: s0) simp_all
  then show ?thesis by (auto simp: duster_build_def Let_def split: option.splits)
qed

lemma fold_blacklist: "fold (\<lambda>a b. b(a \<mapsto> ())) xs b a = (if a \<in> set xs then Some () else b a)"
  by (induction xs arbitrary: b) auto

section \<open>What every run keeps\<close>

text \<open>
  The two accounts never change, and an account leaves the list only with a \<open>Removed\<close> event; events
  are only appended.
\<close>

definition duster_kept :: "'w duster_state \<Rightarrow> 'w duster_state \<Rightarrow> bool" where
  "duster_kept s s' \<longleftrightarrow>
     reward_account s' = reward_account s \<and> dust_dest_account s' = dust_dest_account s \<and>
     set (du_events s) \<subseteq> set (du_events s') \<and>
     (\<forall>a. account_blacklist s a \<noteq> None \<longrightarrow> Removed a \<in> set (du_events s') \<or> account_blacklist s' a \<noteq> None)"

lemma duster_kept_refl [simp]: "duster_kept s s"
  by (simp add: duster_kept_def)

lemma duster_kept_trans: "duster_kept s t \<Longrightarrow> duster_kept t u \<Longrightarrow> duster_kept s u"
  by (fastforce simp: duster_kept_def)

lemma duster_dispatch_kept:
  assumes "duster_dispatch cfg s orig c = Inr s'"
  shows "duster_kept s s'"
proof (cases c)
  case (DustAccount account a)
  with assms have "dust_account cfg s orig account a = Inr s'" by simp
  then show ?thesis by (rule dust_account_effect) (auto simp: duster_kept_def)
next
  case (AddNondustableAccount account)
  with assms show ?thesis by (auto simp: add_nondustable_account_def duster_kept_def Let_def split: if_splits)
next
  case (RemoveNondustableAccount account)
  with assms show ?thesis by (auto simp: remove_nondustable_account_def duster_kept_def Let_def split: if_splits)
qed

lemma duster_step_kept: "duster_step cfg s s' \<Longrightarrow> duster_kept s s'"
  by (erule duster_stepE) (erule duster_dispatch_kept, simp_all add: duster_kept_def)

lemma duster_run_kept: "duster_run cfg s s' \<Longrightarrow> duster_kept s s'"
  by (induction rule: duster_run.induct) (auto dest: duster_step_kept intro: duster_kept_trans)

lemma dust_account_blacklisted:
  "account_blacklist s a \<noteq> None \<Longrightarrow> dust_account cfg s (Signed who) a c = Inl (Duster AccountBlacklisted)"
  by (simp add: dust_account_def del: and_then_eq_Inr)

section \<open>The loop of the offchain worker\<close>

definition dust_calls :: "(asset_id \<Rightarrow> balance) \<Rightarrow> (account_id \<times> asset_id \<times> token_account) list \<Rightarrow> duster_call list" where
  "dust_calls min_deposit accounts =
     map (\<lambda>(who, asset, _). DustAccount who asset)
       (filter (\<lambda>(_, asset, t). saturating_add u128_max (ta_free t) (ta_reserved t) < min_deposit asset) accounts)"

definition send_all :: "'p offchain_host \<Rightarrow> 'p \<Rightarrow> duster_call list \<Rightarrow> 'p" where
  "send_all h p cs = (if oh_can_sign h then fold (\<lambda>c p. oh_send h p c) cs p else p)"

lemma dust_calls_simps [simp]:
  "dust_calls md [] = []"
  "dust_calls md ((w, a, t) # xs) =
     (if saturating_add u128_max (ta_free t) (ta_reserved t) < md a then DustAccount w a # dust_calls md xs
      else dust_calls md xs)"
  by (simp_all add: dust_calls_def)

lemma send_all_simps [simp]:
  "send_all h p [] = p"
  "send_all h p (c # cs) = send_all h (if oh_can_sign h then oh_send h p c else p) cs"
  by (simp_all add: send_all_def)

lemma offchain_loop_send_all:
  "offchain_loop h md n p xs =
     (let k = length (takeWhile (oh_extend_lock h) [n..<n + length xs]) in
      (send_all h p (dust_calls md (take (Suc k) xs)),
       if k = length xs then Inr () else Inl OffchainLock))"
proof (induction xs arbitrary: n p)
  case Nil
  then show ?case by simp
next
  case (Cons x xs)
  obtain w a t where x: "x = (w, a, t)" by (cases x)
  have upt: "[n..<n + length ((w, a, t) # xs)] = n # [Suc n..<Suc n + length xs]"
    using upt_conv_Cons [of n "n + length ((w, a, t) # xs)"] by (simp del: upt_Suc)
  show ?case unfolding x upt
    by (cases "oh_extend_lock h n") (simp_all add: Cons.IH Let_def dust_account_signed_def del: upt_Suc)
qed

section \<open>A small chain\<close>

text \<open>
  Asset 1 has a minimum of ten; account 5 holds four of it, account 6 holds nine reserved;
  account 99 is the treasury, which pays a reward of two in the native asset 0.
\<close>

definition demo_duster :: "ledger duster_config" where
  "demo_duster = \<lparr>du_currency = ledger_ops, du_min_deposit = (\<lambda>_ _. 10), du_reward = 2,
     du_native_asset_id = 0\<rparr>"

definition demo_genesis :: duster_genesis where
  "demo_genesis = \<lparr>gen_account_blacklist = [99], gen_reward_account = Some 99, gen_dust_account = Some 99\<rparr>"

definition demo_dusty :: "ledger duster_state" where
  "demo_dusty = \<lparr>du_ext = ledger_of [((1, 5), 4), ((0, 99), 50)], account_blacklist = [99 \<mapsto> ()],
     reward_account = Some 99, dust_dest_account = Some 99, du_events = []\<rparr>"

definition demo_dusted :: "ledger duster_state" where
  "demo_dusted = demo_dusty\<lparr>
     du_ext := empty_ledger\<lparr>l_free := sheet_move 0 99 7 2 (sheet_move 1 5 99 4
        (l_free (ledger_of [((1, 5), 4), ((0, 99), 50)])))\<rparr>,
     du_events := [Dusted 5 4]\<rparr>"

lemma demo_dust: "dust_account demo_duster demo_dusty (Signed 7) 5 1 = Inr demo_dusted"
  by (simp add: dust_account_def is_dustable_def transfer_dust_def reward_duster_def demo_duster_def
      demo_dusty_def demo_dusted_def du_cur_def lift_currency_def du_put_def du_deposit_event_def
      ledger_transfer_def ledger_of_def empty_ledger_def value_query_def Let_def
      del: and_then_eq_Inr)

interpretation demo_duster: multi_currency "du_currency demo_duster"
  by (simp add: demo_duster_def ledger.multi_currency_axioms)

section \<open>Properties\<close>

text \<open>
C32. Dusting: a call that succeeds was signed, the account was not on the list of exempt accounts,
its total balance was positive and below the minimum of the asset, and (unless the account is the
dust account itself) nothing of it was reserved. It moves the whole free balance to the dust account
and nothing else, except that the reward may then move from the reward account to the caller; the
list, the two accounts and every reserved balance stay, and one event records the amount.
\<close>

theorem duster_clears_dust:
  assumes mc: "multi_currency (du_currency cfg)"
    and ok: "dust_account cfg s orig account a = Inr s'"
  shows "\<exists>who d. orig = Signed who \<and> dust_dest_account s = Some d \<and> account_blacklist s account = None \<and>
    (let C = du_currency cfg;
         dust = c_total_balance C (du_ext s) a account;
         swept = sheet_move a account d dust (c_free_balance C (du_ext s));
         free' = c_free_balance C (du_ext s')
     in 0 < dust \<and> dust < du_min_deposit cfg (du_ext s) a \<and>
        (account \<noteq> d \<longrightarrow> c_reserved_balance C (du_ext s) a account = 0 \<and> swept a account = 0) \<and>
        (free' = swept \<or>
         (\<exists>r. reward_account s = Some r \<and>
              free' = sheet_move (du_native_asset_id cfg) r who (du_reward cfg) swept)) \<and>
        c_reserved_balance C (du_ext s') = c_reserved_balance C (du_ext s) \<and>
        du_events s' = du_events s @ [Dusted account dust]) \<and>
    account_blacklist s' = account_blacklist s \<and> reward_account s' = reward_account s \<and>
    dust_dest_account s' = Some d"
proof -
  note laws = multi_currency.transfer_free [OF mc] multi_currency.transfer_reserved [OF mc]
    multi_currency.total_balance [OF mc]
  from ok show ?thesis
  proof (rule dust_account_effect)
    fix who d w
    assume e: "c_transfer (du_currency cfg) (du_ext s) a account d
       (c_total_balance (du_currency cfg) (du_ext s) a account) = Inr w"
      "du_ext s' = w \<or> (\<exists>r. reward_account s = Some r \<and>
        c_transfer (du_currency cfg) w (du_native_asset_id cfg) r who (du_reward cfg) = Inr (du_ext s'))"
      and f: "orig = Signed who" "dust_dest_account s = Some d" "account_blacklist s account = None"
    from multi_currency.transfer_funds [OF mc e(1)]
    have funds: "account \<noteq> d \<Longrightarrow> c_reserved_balance (du_currency cfg) (du_ext s) a account = 0"
      by (simp add: laws(3))
    from e(2) have free: "c_free_balance (du_currency cfg) (du_ext s') = c_free_balance (du_currency cfg) w \<or>
       (\<exists>r. reward_account s = Some r \<and> c_free_balance (du_currency cfg) (du_ext s') =
          sheet_move (du_native_asset_id cfg) r who (du_reward cfg) (c_free_balance (du_currency cfg) w))"
      using laws(1) by blast
    from e(2) have "c_reserved_balance (du_currency cfg) (du_ext s') = c_reserved_balance (du_currency cfg) w"
      using laws(2) by metis
    then show ?thesis if "0 < c_total_balance (du_currency cfg) (du_ext s) a account"
        "c_total_balance (du_currency cfg) (du_ext s) a account < du_min_deposit cfg (du_ext s) a"
        "account_blacklist s' = account_blacklist s" "reward_account s' = reward_account s"
        "dust_dest_account s' = dust_dest_account s"
        "du_events s' = du_events s @ [Dusted account (c_total_balance (du_currency cfg) (du_ext s) a account)]"
      using that f free funds laws(1) [OF e(1)] laws(2) [OF e(1)]
      by (intro exI [of _ who] exI [of _ d]) (simp add: Let_def laws(3))
  qed
qed

theorem duster_clears_dust_witness:
  "multi_currency (du_currency demo_duster) \<and>
   dust_account demo_duster demo_dusty (Signed 7) 5 1 = Inr demo_dusted \<and>
   account_blacklist demo_dusted = account_blacklist demo_dusty \<and>
   c_free_balance (du_currency demo_duster) (du_ext demo_dusted) 1 5 = 0 \<and>
   c_free_balance (du_currency demo_duster) (du_ext demo_dusted) 0 7 = 2"
proof -
  have "account_blacklist demo_dusted = account_blacklist demo_dusty"
    using duster_clears_dust [OF demo_duster.multi_currency_axioms demo_dust] by auto
  moreover have "c_free_balance (du_currency demo_duster) (du_ext demo_dusted) 1 5 = 0"
      "c_free_balance (du_currency demo_duster) (du_ext demo_dusted) 0 7 = 2"
    by (simp_all add: demo_duster_def demo_dusted_def value_query_def)
  ultimately show ?thesis
    using demo_duster.multi_currency_axioms demo_dust by simp
qed

text \<open>
From a genesis block that could be built, through every sequence of calls, dust callbacks and
changes of the rest of the chain, the reward account and the dust account stay those of the genesis
configuration, so neither lookup the source marks as impossible to fail does; and an account exempt
at genesis stays exempt, every attempt to dust it being refused, until root has removed it.
\<close>

lemma duster_accounts_stay_set:
  assumes build: "duster_build g s0 = Some s" and run: "duster_run cfg s s'"
  shows "reward_account s' = gen_reward_account g \<and> reward_account s' \<noteq> None \<and>
    dust_dest_account s' = gen_dust_account g \<and> dust_dest_account s' \<noteq> None \<and>
    (\<forall>a \<in> set (gen_account_blacklist g).
       Removed a \<in> set (du_events s') \<or>
       duster_whitelist_contains s' a \<and>
       (\<forall>who c. dust_account cfg s' (Signed who) a c = Inl (Duster AccountBlacklisted)))"
proof -
  from build have g: "reward_account s = gen_reward_account g" "dust_dest_account s = gen_dust_account g"
      "reward_account s \<noteq> None" "dust_dest_account s \<noteq> None"
    and b: "\<And>a. a \<in> set (gen_account_blacklist g) \<Longrightarrow> account_blacklist s a \<noteq> None"
    by (auto simp: duster_build_eq_Some fold_blacklist)
  have k: "duster_kept s s'" by (rule duster_run_kept [OF run])
  have "Removed a \<in> set (du_events s') \<or> account_blacklist s' a \<noteq> None"
    if "a \<in> set (gen_account_blacklist g)" for a
    using k b [OF that] unfolding duster_kept_def by blast
  then show ?thesis using k g
    by (auto simp: duster_kept_def duster_whitelist_contains_def contains_key_def
        intro: dust_account_blacklisted)
qed

theorem duster_accounts_stay_set_witness:
  "duster_build demo_genesis (demo_dusty\<lparr>account_blacklist := Map.empty\<rparr>) = Some demo_dusty \<and>
   duster_run demo_duster demo_dusty demo_dusted \<and>
   dust_dest_account demo_dusted = Some 99 \<and>
   dust_account demo_duster demo_dusted (Signed 7) 99 1 = Inl (Duster AccountBlacklisted)"
proof -
  have build: "duster_build demo_genesis (demo_dusty\<lparr>account_blacklist := Map.empty\<rparr>) = Some demo_dusty"
    by (simp add: duster_build_def demo_genesis_def demo_dusty_def)
  have run: "duster_run demo_duster demo_dusty demo_dusted"
    using demo_dust by (intro next_step [OF stop] call [where c = "DustAccount 5 1"]) auto
  from duster_accounts_stay_set [OF build run] show ?thesis
    using build run by (simp add: demo_genesis_def demo_dusted_def)
qed

text \<open>
The loop of the offchain worker against its specification: on a node that is no validator, or
whose lock is taken, nothing is sent and the error says which; otherwise it sends exactly one dusting
call, in the order of the storage, for every account whose free and reserved balance together are
below the minimum of the asset, up to and including the account after which the lock could not be
extended, and it succeeds if and only if the lock held to the end. Without a signing key nothing is
sent.
\<close>

lemma offchain_worker_submits:
  "offchain_worker_run h min_deposit p accounts =
     (let held = length (takeWhile (oh_extend_lock h) [0..<length accounts]) in
      if oh_is_validator h \<and> oh_try_lock h
      then (send_all h p (dust_calls min_deposit (take (Suc held) accounts)),
            if held = length accounts then Inr () else Inl OffchainLock)
      else (p, Inl (if oh_is_validator h then OffchainLock else NotValidator)))"
  by (simp add: offchain_worker_run_def offchain_loop_send_all)

end
