(* ===== verification/Runtime.thy ===== *)
theory Runtime
  imports XYK_Props LBP_Props Exchange Liquidity_Mining Marketplace Duster
begin

text \<open>
  The runtime that puts the pallets together: \<open>runtime/basilisk/src/lib.rs\<close>, the conversion of
  asset identifiers of \<open>runtime/basilisk/src/xcm.rs\<close> and the constants of
  \<open>runtime/common/src/lib.rs\<close>. It holds the pool accounts derived from asset pairs, the relay
  chain block number, the origin of vested transfers, the call filters, the fee polynomial, the
  conversion between assets and locations, and the configuration of each modelled pallet.

  \<open>basilisk\<close> collects what the runtime takes from crates outside the repository (hashing, tokens,
  registry, oracle, collective origins, math, the provided methods of the \<open>AMM\<close> trait). The storage
  of the liquidity bootstrapping pools lies below that of the constant-product pools, because the
  gate of pool creation reads it.

  Shown: pool accounts are independent of the order of the assets and never shared; the gate;
  calls of the constant-product pallet leave every sale alone; the order on proxy types is
  inclusion of the calls they allow; asset identifiers survive the conversion to locations.
\<close>

section \<open>Accounts and block numbers\<close>

definition from_assets :: "(byte list \<Rightarrow> account_id) \<Rightarrow> asset_id \<Rightarrow> asset_id \<Rightarrow> string \<Rightarrow> account_id" where
  "from_assets hash asset_a asset_b identifier =
     (let buf = map of_char identifier;
          buf = (if asset_a < asset_b
                 then buf @ to_le_bytes 4 asset_a @ to_le_bytes 4 asset_b
                 else buf @ to_le_bytes 4 asset_b @ to_le_bytes 4 asset_a)
      in hash buf)"

text \<open>The argument is the relay parent number of the validation data, if there is any.\<close>

definition relay_chain_block_number :: "block_number option \<Rightarrow> block_number" where
  "relay_chain_block_number maybe_data = (case maybe_data of Some relay_parent_number \<Rightarrow> relay_parent_number | None \<Rightarrow> 0)"

section \<open>Origins\<close>

text \<open>The origin of the runtime: a system origin or one of another pallet (a collective, XCM).\<close>

datatype runtime_origin = RawOrigin origin | PalletOrigin nat

definition ensure_root_or_treasury :: "account_id \<Rightarrow> runtime_origin \<Rightarrow> runtime_origin + account_id" where
  "ensure_root_or_treasury treasury o_in =
     (case o_in of
        PalletOrigin n \<Rightarrow> Inl (PalletOrigin n)
      | RawOrigin r \<Rightarrow>
         (case r of
            Root \<Rightarrow> Inr treasury
          | Signed caller \<Rightarrow> if caller = treasury then Inr caller else Inl (RawOrigin (Signed caller))
          | Unsigned \<Rightarrow> Inl (RawOrigin r)))"

section \<open>Calls, their filter and proxies\<close>

text \<open>
  One constructor per pallet of \<open>construct_runtime!\<close> that has calls, in its order; the argument
  identifies the call inside the pallet, which only the proxy filter looks at.
\<close>

datatype proxy_call = RejectAnnouncement | OtherProxyCall nat

datatype runtime_call =
    SystemCall nat | TimestampCall nat | BalancesCall nat | TreasuryCall nat | UtilityCall nat
  | SchedulerCall nat | DemocracyCall nat | ElectionsCall nat | CouncilCall nat
  | TechnicalCommitteeCall nat | VestingCall nat | ProxyCall proxy_call | TipsCall nat
  | AuthorshipCall nat | CollatorSelectionCall nat | SessionCall nat | PreimageCall nat
  | UniquesCall nat | ParachainSystemCall nat | PolkadotXcmCall nat | CumulusXcmCall nat
  | DmpQueueCall nat | AssetRegistryCall nat | XYKCall nat | DusterCall nat | ExchangeCall nat
  | LBPCall nat | NFTCall nat | LiquidityMiningCall nat | MultiTransactionPaymentCall nat
  | PriceOracleCall nat | MarketplaceCall nat | CurrenciesCall nat | TokensCall nat
  | OrmlXcmCall nat | XTokensCall nat | SudoCall nat

fun base_filter :: "runtime_call \<Rightarrow> bool" where
  "base_filter (XYKCall _) = False"
| "base_filter (ExchangeCall _) = False"
| "base_filter (NFTCall _) = False"
| "base_filter (MarketplaceCall _) = False"
| "base_filter (UniquesCall _) = False"
| "base_filter (VestingCall _) = False"
| "base_filter (BalancesCall _) = False"
| "base_filter (CurrenciesCall _) = False"
| "base_filter (LiquidityMiningCall _) = False"
| "base_filter (PolkadotXcmCall _) = False"
| "base_filter (OrmlXcmCall _) = False"
| "base_filter (XTokensCall _) = False"
| "base_filter _ = True"

datatype proxy_type = AnyProxy | CancelProxy | GovernanceProxy | ExchangeProxy | TransferProxy

definition default_proxy_type :: proxy_type where
  "default_proxy_type = AnyProxy"

definition proxy_filter :: "proxy_type \<Rightarrow> runtime_call \<Rightarrow> bool" where
  "proxy_filter self c =
     (case self of
        AnyProxy \<Rightarrow> True
      | CancelProxy \<Rightarrow> (case c of ProxyCall RejectAnnouncement \<Rightarrow> True | _ \<Rightarrow> False)
      | GovernanceProxy \<Rightarrow>
          (case c of DemocracyCall _ \<Rightarrow> True | CouncilCall _ \<Rightarrow> True | TechnicalCommitteeCall _ \<Rightarrow> True
           | ElectionsCall _ \<Rightarrow> True | TreasuryCall _ \<Rightarrow> True | TipsCall _ \<Rightarrow> True | UtilityCall _ \<Rightarrow> True
           | _ \<Rightarrow> False)
      | ExchangeProxy \<Rightarrow>
          (case c of XYKCall _ \<Rightarrow> True | ExchangeCall _ \<Rightarrow> True | LBPCall _ \<Rightarrow> True | NFTCall _ \<Rightarrow> True
           | _ \<Rightarrow> False)
      | TransferProxy \<Rightarrow>
          (case c of BalancesCall _ \<Rightarrow> True | CurrenciesCall _ \<Rightarrow> True | TokensCall _ \<Rightarrow> True | _ \<Rightarrow> False))"

definition is_superset :: "proxy_type \<Rightarrow> proxy_type \<Rightarrow> bool" where
  "is_superset self other = (if self = other then True else if self = AnyProxy then True else False)"

section \<open>Fees\<close>

record fee_coefficient =
  fc_degree :: nat
  fc_negative :: bool
  fc_coeff_frac :: nat
  fc_coeff_integer :: balance

text \<open>\<open>weight_per_micros\<close> and \<open>Perbill::from_rational\<close> are those of the weights and arithmetic crates.\<close>

definition extrinsic_base_weight :: "nat \<Rightarrow> nat" where
  "extrinsic_base_weight weight_per_micros = 200 * weight_per_micros"

definition weight_to_fee_polynomial :: "(nat \<Rightarrow> nat \<Rightarrow> nat) \<Rightarrow> nat \<Rightarrow> fee_coefficient list" where
  "weight_to_fee_polynomial perbill_from_rational weight_per_micros =
     (let p = CENTS;
          q = 10 * extrinsic_base_weight weight_per_micros
      in [\<lparr>fc_degree = 1, fc_negative = False, fc_coeff_frac = perbill_from_rational (p mod q) q,
           fc_coeff_integer = p div q\<rparr>])"

section \<open>Assets and locations\<close>

text \<open>The shapes of a location the conversion looks at; \<open>OtherJunction\<close> is every other junction.\<close>

datatype junction = Parachain nat | GeneralIndex nat | AccountId32 "nat option" account_id | OtherJunction nat

record multi_location =
  ml_parents :: nat
  ml_interior :: "junction list"

datatype multi_asset_id = Concrete multi_location | Abstract "byte list"

record asset_locations =
  al_para_id :: nat
  al_asset_to_location :: "asset_id \<rightharpoonup> multi_location"
  al_location_to_asset :: "multi_location \<rightharpoonup> asset_id"

definition currency_to_location :: "asset_locations \<Rightarrow> asset_id \<Rightarrow> multi_location option" where
  "currency_to_location R i =
     (if i = CORE_ASSET_ID
      then Some \<lparr>ml_parents = 1, ml_interior = [Parachain (al_para_id R), GeneralIndex i]\<rparr>
      else (case al_asset_to_location R i of Some loc \<Rightarrow> Some loc | None \<Rightarrow> None))"

definition as_u32 :: "nat \<Rightarrow> nat" where
  "as_u32 n = n mod Suc u32_max"

definition location_to_currency :: "asset_locations \<Rightarrow> multi_location \<Rightarrow> asset_id option" where
  "location_to_currency R location =
     (case ml_interior location of
        [Parachain pid, GeneralIndex index] \<Rightarrow>
          if ml_parents location = 1 \<and> pid = al_para_id R \<and> as_u32 index = CORE_ASSET_ID
          then Some CORE_ASSET_ID else al_location_to_asset R location
      | [GeneralIndex index] \<Rightarrow>
          if ml_parents location = 0 \<and> as_u32 index = CORE_ASSET_ID
          then Some CORE_ASSET_ID else al_location_to_asset R location
      | _ \<Rightarrow> al_location_to_asset R location)"

definition multi_asset_to_currency :: "asset_locations \<Rightarrow> multi_asset_id \<Rightarrow> asset_id option" where
  "multi_asset_to_currency R asset =
     (case asset of Concrete location \<Rightarrow> location_to_currency R location | Abstract _ \<Rightarrow> None)"

definition account_to_location :: "account_id \<Rightarrow> multi_location" where
  "account_to_location account = \<lparr>ml_parents = 0, ml_interior = [AccountId32 None account]\<rparr>"

definition trade_passthrough_buy_weight :: "nat \<Rightarrow> 'a \<Rightarrow> 'e + 'a" where
  "trade_passthrough_buy_weight weight payment = Inr payment"

section \<open>Configuration of the pallets\<close>

record 'w basilisk =
  bk_currency :: "'w currency_ops"
  bk_hash :: "byte list \<Rightarrow> account_id"
  bk_validation_data :: "'w \<Rightarrow> block_number option"
  bk_technical_committee :: "origin \<Rightarrow> unit result"
  bk_get_or_create_shared_asset ::
    "'w \<Rightarrow> byte list \<Rightarrow> asset_id list \<Rightarrow> balance \<Rightarrow> (asset_id \<times> 'w) result"
  bk_oracle_on_create_pool :: "'w \<Rightarrow> asset_id \<Rightarrow> asset_id \<Rightarrow> 'w result"
  bk_oracle_on_trade :: "'w \<Rightarrow> asset_id \<Rightarrow> asset_id \<Rightarrow> balance \<Rightarrow> balance \<Rightarrow> balance \<Rightarrow> 'w"
  bk_existential_deposit :: "'w \<Rightarrow> asset_id \<Rightarrow> balance"
  bk_math :: math_ops
  bk_lbp_sell :: "'w lbp_state default_trade"
  bk_lbp_buy :: "'w lbp_state default_trade"
  bk_xyk_sell :: "'w lbp_state xyk_state default_trade"
  bk_xyk_buy :: "'w lbp_state xyk_state default_trade"
  bk_intention_hash :: "nat \<Rightarrow> account_id \<Rightarrow> block_number \<Rightarrow> asset_id \<Rightarrow> asset_id \<Rightarrow> nat"
  bk_block_number :: "'w \<Rightarrow> block_number"
  bk_iter :: "(asset_id \<times> asset_id \<rightharpoonup> nat) \<Rightarrow> ((asset_id \<times> asset_id) \<times> nat) list"

definition basilisk_lbp :: "'w basilisk \<Rightarrow> 'w lbp_config" where
  "basilisk_lbp R = \<lparr>
     lbp_currency = bk_currency R,
     lbp_locked_balance = get_by_lock (bk_currency R),
     lbp_create_pool_origin = bk_technical_committee R,
     lbp_weight_function = lbp_calculate_weight (bk_math R),
     lbp_from_assets = from_assets (bk_hash R),
     lbp_min_trading_limit = MIN_TRADING_LIMIT,
     lbp_min_pool_liquidity = MIN_POOL_LIQUIDITY,
     lbp_max_in_ratio = MAX_IN_RATIO,
     lbp_max_out_ratio = MAX_OUT_RATIO,
     lbp_current_block_number = (\<lambda>w. relay_chain_block_number (bk_validation_data R w)),
     lbp_math = bk_math R,
     lbp_default_sell = bk_lbp_sell R,
     lbp_default_buy = bk_lbp_buy R\<rparr>"

definition basilisk_xyk :: "'w basilisk \<Rightarrow> 'w lbp_state xyk_config" where
  "basilisk_xyk R = \<lparr>
     xyk_currency = lbp_cur (basilisk_lbp R),
     xyk_get_or_create_shared_asset = (\<lambda>s name assets ed.
        and_then (bk_get_or_create_shared_asset R (lbp_ext s) name assets ed) (\<lambda>(t, w). Inr (t, lbp_put w s))),
     xyk_from_assets = from_assets (bk_hash R),
     xyk_native_asset_id = CORE_ASSET_ID,
     xyk_exchange_fee = (2, 1000),
     xyk_min_trading_limit = MIN_TRADING_LIMIT,
     xyk_min_pool_liquidity = MIN_POOL_LIQUIDITY,
     xyk_max_in_ratio = MAX_IN_RATIO,
     xyk_max_out_ratio = MAX_OUT_RATIO,
     xyk_can_create = disallow_when_lbp_pool_running (basilisk_lbp R),
     xyk_on_create_pool = (\<lambda>s a b. and_then (bk_oracle_on_create_pool R (lbp_ext s) a b) (\<lambda>w. Inr (lbp_put w s))),
     xyk_on_trade = (\<lambda>s a b x y l. lbp_put (bk_oracle_on_trade R (lbp_ext s) a b x y l) s),
     xyk_math = bk_math R,
     xyk_default_sell = bk_xyk_sell R,
     xyk_default_buy = bk_xyk_buy R\<rparr>"

definition basilisk_exchange :: "'w basilisk \<Rightarrow> 'w lbp_state xyk_state exchange_config" where
  "basilisk_exchange R = \<lparr>
     x_amm = xyk_amm (basilisk_xyk R),
     x_currency = xyk_cur (basilisk_xyk R),
     x_trade_fee = m_pool_trade_fee (bk_math R),
     x_hash = bk_intention_hash R,
     x_block_number = (\<lambda>s. bk_block_number R (lbp_ext (xyk_ext s))),
     x_iter = bk_iter R\<rparr>"

definition DUSTING_REWARD :: balance where "DUSTING_REWARD = 0"

definition basilisk_duster :: "'w basilisk \<Rightarrow> 'w duster_config" where
  "basilisk_duster R = \<lparr>
     du_currency = bk_currency R,
     du_min_deposit = bk_existential_deposit R,
     du_reward = DUSTING_REWARD,
     du_native_asset_id = CORE_ASSET_ID\<rparr>"

definition RESERVE_CLASS_ID_UP_TO :: class_id where "RESERVE_CLASS_ID_UP_TO = 999999"
definition CLASS_DEPOSIT :: balance where "CLASS_DEPOSIT = 100 * UNITS"

definition basilisk_nft :: "'u uniques_ops \<Rightarrow> 'u nft_config" where
  "basilisk_nft U = \<lparr>
     nft_uniques = U,
     nft_reserve_class_id_up_to = RESERVE_CLASS_ID_UP_TO,
     nft_class_deposit = CLASS_DEPOSIT,
     nft_lookup = Some,
     nft_unlookup = (\<lambda>a. a)\<rparr>"

definition MINIMUM_OFFER_AMOUNT :: balance where "MINIMUM_OFFER_AMOUNT = 10000 * UNITS"
definition ROYALTY_BOND_AMOUNT :: balance where "ROYALTY_BOND_AMOUNT = 2000 * UNITS"

definition basilisk_marketplace ::
  "'u uniques_ops \<Rightarrow> 'u nft_state native_ops \<Rightarrow> ('u nft_state \<Rightarrow> block_number) \<Rightarrow> (nat \<Rightarrow> balance \<Rightarrow> balance) \<Rightarrow> 'u mp_config" where
  "basilisk_marketplace U N block percent_mul = \<lparr>
     mp_native = N,
     mp_nft = basilisk_nft U,
     mp_minimum_offer_amount = MINIMUM_OFFER_AMOUNT,
     mp_royalty_bond_amount = ROYALTY_BOND_AMOUNT,
     mp_block_number = block,
     mp_percent_mul = percent_mul\<rparr>"

definition MIN_PLANNED_YIELDING_PERIODS :: nat where "MIN_PLANNED_YIELDING_PERIODS = 100"
definition MIN_TOTAL_FARM_REWARDS :: balance where "MIN_TOTAL_FARM_REWARDS = NATIVE_EXISTENTIAL_DEPOSIT * 1000"
definition NFT_CLASS :: class_id where "NFT_CLASS = 1"

text \<open>
  The farms see tokens, pools and block number through the storage of the NFT pallet; \<open>A\<close> is the
  constant-product pallet seen from there, \<open>acc\<close> the account derived from the pallet identifier.
\<close>

definition basilisk_liquidity_mining ::
  "'u uniques_ops \<Rightarrow> 'u nft_state currency_ops \<Rightarrow> 'u nft_state amm_ops \<Rightarrow> ('u nft_state \<Rightarrow> block_number option)
   \<Rightarrow> account_id \<Rightarrow> (nat \<Rightarrow> account_id) \<Rightarrow> lm_math_ops \<Rightarrow> 'u lm_config" where
  "basilisk_liquidity_mining U C A validation_data acc sub_acc M = \<lparr>
     lm_currency = C,
     lm_amm = A,
     lm_create_origin = ensure_root,
     lm_pallet_account = acc,
     lm_sub_account = sub_acc,
     lm_min_total_farm_rewards = MIN_TOTAL_FARM_REWARDS,
     lm_min_planned_yielding_periods = MIN_PLANNED_YIELDING_PERIODS,
     lm_current_block_number = (\<lambda>w. relay_chain_block_number (validation_data w)),
     lm_nft_class = NFT_CLASS,
     lm_nft = basilisk_nft U,
     lm_math = M\<rparr>"

section \<open>Dispatch of the constant-product pallet\<close>

datatype xyk_call =
    CreatePool asset_id asset_id balance nat
  | AddLiquidity asset_id asset_id balance balance
  | RemoveLiquidity asset_id asset_id balance
  | Sell asset_id asset_id balance balance bool
  | Buy asset_id asset_id balance balance bool

fun xyk_dispatch :: "'w xyk_config \<Rightarrow> 'w xyk_state \<Rightarrow> origin \<Rightarrow> xyk_call \<Rightarrow> 'w xyk_state result" where
  "xyk_dispatch cfg s orig (CreatePool a b x price) = xyk_create_pool cfg s orig a b x price"
| "xyk_dispatch cfg s orig (AddLiquidity a b x limit) = xyk_add_liquidity cfg s orig a b x limit"
| "xyk_dispatch cfg s orig (RemoveLiquidity a b l) = xyk_remove_liquidity cfg s orig a b l"
| "xyk_dispatch cfg s orig (Sell a b x limit discount) = xyk_sell cfg s orig a b x limit discount"
| "xyk_dispatch cfg s orig (Buy b a x limit discount) = xyk_buy cfg s orig b a x limit discount"

fun xyk_call_assets :: "xyk_call \<Rightarrow> asset_id \<times> asset_id" where
  "xyk_call_assets (CreatePool a b _ _) = (a, b)"
| "xyk_call_assets (AddLiquidity a b _ _) = (a, b)"
| "xyk_call_assets (RemoveLiquidity a b _) = (a, b)"
| "xyk_call_assets (Sell a b _ _ _) = (a, b)"
| "xyk_call_assets (Buy b a _ _ _) = (a, b)"

section \<open>Pool accounts\<close>

definition pair_seed :: "asset_id \<Rightarrow> asset_id \<Rightarrow> string \<Rightarrow> byte list" where
  "pair_seed a b identifier = map of_char identifier @ to_le_bytes 4 (min a b) @ to_le_bytes 4 (max a b)"

text \<open>The inputs the hash has to tell apart: an identifier of three characters and two assets.\<close>

definition pair_seeds :: "byte list set" where
  "pair_seeds = {pair_seed a b i | a b i. length i = 3}"

lemma pair_seedsI: "length i = 3 \<Longrightarrow> pair_seed a b i \<in> pair_seeds"
  unfolding pair_seeds_def by blast

lemma from_assets_seed: "from_assets hash a b i = hash (pair_seed a b i)"
  by (cases a b rule: linorder_cases) (simp_all add: from_assets_def pair_seed_def Let_def)

lemma from_assets_commute: "from_assets hash a b i = from_assets hash b a i"
  by (simp add: from_assets_seed pair_seed_def min.commute max.commute)

lemma pair_seed_eq:
  assumes "pair_seed a b i = pair_seed c d j" "length i = length j"
    and "a \<le> u32_max" "b \<le> u32_max" "c \<le> u32_max" "d \<le> u32_max"
  shows "i = j" and "{a, b} = {c, d}"
proof -
  from assms(1,2) have ij: "map of_char i = (map of_char j :: nat list)"
    and ab: "to_le_bytes 4 (min a b) = to_le_bytes 4 (min c d)" "to_le_bytes 4 (max a b) = to_le_bytes 4 (max c d)"
    by (simp_all add: pair_seed_def)
  show "i = j" using ij by (rule map_injective) (simp add: inj_def)
  have lt: "x < 256 ^ 4" if "x \<le> u32_max" for x :: nat
    using that by (simp add: u32_max_def)
  have "min a b = min c d" "max a b = max c d"
    using ab assms(3-6) by (auto intro!: to_le_bytes_inj [of _ 4] lt simp: min_def max_def)
  then show "{a, b} = {c, d}" by (auto simp: min_def max_def split: if_splits)
qed

lemma from_assets_eq_iff:
  assumes "inj_on hash pair_seeds" "length i = 3" "length j = 3"
    and "a \<le> u32_max" "b \<le> u32_max" "c \<le> u32_max" "d \<le> u32_max"
  shows "from_assets hash a b i = from_assets hash c d j \<longleftrightarrow> i = j \<and> {a, b} = {c, d}"
proof
  assume "from_assets hash a b i = from_assets hash c d j"
  then have seed: "pair_seed a b i = pair_seed c d j"
    unfolding from_assets_seed by (rule inj_onD [OF assms(1)]) (intro pair_seedsI assms(2,3))+
  have len: "length i = length j" using assms(2,3) by simp
  show "i = j \<and> {a, b} = {c, d}" using pair_seed_eq [OF seed len assms(4-7)] by blast
next
  assume "i = j \<and> {a, b} = {c, d}"
  then show "from_assets hash a b i = from_assets hash c d j"
    using from_assets_commute [of hash d c i] by (auto simp: doubleton_eq_iff)
qed

text \<open>A hash that tells all byte strings apart: their digits behind a leading one.\<close>

definition digits_hash :: "byte list \<Rightarrow> account_id" where
  "digits_hash bs = from_le_bytes (bs @ [1])"

lemma from_le_bytes_inj:
  "length xs = length ys \<Longrightarrow> \<forall>b \<in> set xs \<union> set ys. b < 256 \<Longrightarrow> from_le_bytes xs = from_le_bytes ys \<Longrightarrow> xs = ys"
proof (induction xs ys rule: list_induct2)
  case Nil
  then show ?case by simp
next
  case (Cons x xs y ys)
  then have "x < 256" "y < 256" and e: "x + 256 * from_le_bytes xs = y + 256 * from_le_bytes ys" by auto
  from arg_cong [OF e, of "\<lambda>n. n mod 256"] \<open>x < 256\<close> \<open>y < 256\<close> have "x = y" by simp
  with e have "from_le_bytes xs = from_le_bytes ys" by simp
  with Cons \<open>x = y\<close> show ?case by auto
qed

lemma to_le_bytes_range: "\<forall>b \<in> set (to_le_bytes k n). b < 256"
  by (induction k arbitrary: n) auto

lemma digits_hash_inj: "inj_on digits_hash pair_seeds"
proof (rule inj_onI)
  fix xs ys assume s: "xs \<in> pair_seeds" "ys \<in> pair_seeds" and e: "digits_hash xs = digits_hash ys"
  have b: "\<forall>b \<in> set zs. b < 256" and l: "length zs = 11" if "zs \<in> pair_seeds" for zs
    using that to_le_bytes_range by (auto simp: pair_seeds_def pair_seed_def)
  have "from_le_bytes xs = from_le_bytes ys"
    using e l [OF s(1)] l [OF s(2)] by (simp add: digits_hash_def from_le_bytes_append)
  then show "xs = ys" using b [OF s(1)] b [OF s(2)] l [OF s(1)] l [OF s(2)]
    by (intro from_le_bytes_inj) auto
qed

section \<open>The filters\<close>

text \<open>A call each restricted proxy type allows and no other does.\<close>

fun sample_call :: "proxy_type \<Rightarrow> runtime_call" where
  "sample_call AnyProxy = SudoCall 0"
| "sample_call CancelProxy = ProxyCall RejectAnnouncement"
| "sample_call GovernanceProxy = DemocracyCall 0"
| "sample_call ExchangeProxy = LBPCall 0"
| "sample_call TransferProxy = TokensCall 0"

lemma sample_call_filter: "proxy_filter p (sample_call q) \<longleftrightarrow> p = AnyProxy \<or> p = q"
  by (cases p; cases q) (simp_all add: proxy_filter_def)

lemma filtered_exchange_proxy: "base_filter c \<and> proxy_filter ExchangeProxy c \<longleftrightarrow> (\<exists>n. c = LBPCall n)"
  by (cases c) (auto simp: proxy_filter_def)

lemma filtered_transfer_proxy: "base_filter c \<and> proxy_filter TransferProxy c \<longleftrightarrow> (\<exists>n. c = TokensCall n)"
  by (cases c) (auto simp: proxy_filter_def)

section \<open>The fee of the base weight\<close>

text \<open>With a weight of a million per microsecond the base weight costs a tenth of a cent exactly.\<close>

lemma base_weight_fee:
  "weight_to_fee_polynomial perbill 1000000 =
     [\<lparr>fc_degree = 1, fc_negative = False, fc_coeff_frac = perbill 0 2000000000, fc_coeff_integer = 500\<rparr>]"
  "500 * extrinsic_base_weight 1000000 = CENTS div 10"
  by (simp_all add: weight_to_fee_polynomial_def extrinsic_base_weight_def CENTS_def DOLLARS_def UNITS_def Let_def)

section \<open>Locations\<close>

definition native_location :: "asset_locations \<Rightarrow> multi_location \<Rightarrow> bool" where
  "native_location R l \<longleftrightarrow>
     (\<exists>n. as_u32 n = CORE_ASSET_ID \<and>
        (l = \<lparr>ml_parents = 1, ml_interior = [Parachain (al_para_id R), GeneralIndex n]\<rparr> \<or>
         l = \<lparr>ml_parents = 0, ml_interior = [GeneralIndex n]\<rparr>))"

lemma location_to_currency_cases:
  "location_to_currency R l = (if native_location R l then Some CORE_ASSET_ID else al_location_to_asset R l)"
proof -
  obtain p js where l: "l = \<lparr>ml_parents = p, ml_interior = js\<rparr>" by (cases l)
  show ?thesis
    by (auto simp: l location_to_currency_def native_location_def split: list.splits junction.splits)
qed

section \<open>The runtime meets the hypotheses of its pallets\<close>

text \<open>
  What the runtime relies on: the tokens meet the contract of a lockable currency, registry and
  oracle do not move tokens, the math crate computes the documented formulas, and the provided trade
  methods validate and execute.
\<close>

definition basilisk_env :: "'w basilisk \<Rightarrow> bool" where
  "basilisk_env R \<longleftrightarrow> lockable_currency (bk_currency R) \<and>
     (\<forall>w n as ed t w'. bk_get_or_create_shared_asset R w n as ed = Inr (t, w') \<longrightarrow>
        c_free_balance (bk_currency R) w' = c_free_balance (bk_currency R) w) \<and>
     (\<forall>w a b w'. bk_oracle_on_create_pool R w a b = Inr w' \<longrightarrow>
        c_free_balance (bk_currency R) w' = c_free_balance (bk_currency R) w) \<and>
     (\<forall>w a b x y l. c_free_balance (bk_currency R) (bk_oracle_on_trade R w a b x y l) =
        c_free_balance (bk_currency R) w) \<and>
     xyk_math_spec (bk_math R) \<and>
     default_sell_spec (bk_lbp_sell R) \<and> default_buy_spec (bk_lbp_buy R) \<and>
     default_sell_spec (bk_xyk_sell R) \<and> default_buy_spec (bk_xyk_buy R)"

lemma lbp_put_sel [simp]:
  "lbp_ext (lbp_put w s) = w" "lbp_pool_data (lbp_put w s) = lbp_pool_data s"
  "fee_collector_with_asset (lbp_put w s) = fee_collector_with_asset s" "lbp_events (lbp_put w s) = lbp_events s"
  by (simp_all add: lbp_put_def)

lemma basilisk_lbp_env: "basilisk_env R \<Longrightarrow> lbp_env (basilisk_lbp R)"
  by (simp add: basilisk_env_def lbp_env_def basilisk_lbp_def)

lemma basilisk_xyk_env: "basilisk_env R \<Longrightarrow> xyk_env (basilisk_xyk R)"
proof -
  assume env: "basilisk_env R"
  then have "multi_currency (lbp_cur (basilisk_lbp R))"
    unfolding lbp_cur_def
    by (intro multi_currency_lift) (simp_all add: basilisk_lbp_def basilisk_env_def lockable_currency_def)
  with env show ?thesis
    by (auto simp: basilisk_env_def xyk_env_def basilisk_xyk_def trade_handler_frame_def registry_frame_def
        basilisk_lbp_def)
qed

text \<open>The class of the farms' deposits is one of the reserved classes, as the farms' integrity test asks.\<close>

lemma basilisk_lm_integrity: "lm_integrity_test (basilisk_liquidity_mining U C A vd acc sub M)"
  by (simp add: lm_integrity_test_def basilisk_liquidity_mining_def basilisk_nft_def NFT_CLASS_def
      RESERVE_CLASS_ID_UP_TO_def)

section \<open>What a call of the constant-product pallet can touch\<close>

text \<open>
  A function of the storage below the pallet that every operation the pallet calls there leaves
  alone is left alone by the calls of the pallet.
\<close>

definition below_keeps :: "'w xyk_config \<Rightarrow> ('w \<Rightarrow> 'b) \<Rightarrow> bool" where
  "below_keeps cfg g \<longleftrightarrow>
     (\<forall>w a f t x w'. c_transfer (xyk_currency cfg) w a f t x = Inr w' \<longrightarrow> g w' = g w) \<and>
     (\<forall>w a v x w'. c_deposit (xyk_currency cfg) w a v x = Inr w' \<longrightarrow> g w' = g w) \<and>
     (\<forall>w a v x w'. c_withdraw (xyk_currency cfg) w a v x = Inr w' \<longrightarrow> g w' = g w) \<and>
     (\<forall>w n as ed t w'. xyk_get_or_create_shared_asset cfg w n as ed = Inr (t, w') \<longrightarrow> g w' = g w) \<and>
     (\<forall>w a b w'. xyk_on_create_pool cfg w a b = Inr w' \<longrightarrow> g w' = g w) \<and>
     (\<forall>w a b x y l. g (xyk_on_trade cfg w a b x y l) = g w)"

lemma below_keepsD:
  assumes "below_keeps cfg g"
  shows "c_transfer (xyk_currency cfg) w a f t x = Inr w' \<Longrightarrow> g w' = g w"
    and "c_deposit (xyk_currency cfg) w a v x = Inr w' \<Longrightarrow> g w' = g w"
    and "c_withdraw (xyk_currency cfg) w a v x = Inr w' \<Longrightarrow> g w' = g w"
    and "xyk_get_or_create_shared_asset cfg w n as ed = Inr (k, w') \<Longrightarrow> g w' = g w"
    and "xyk_on_create_pool cfg w a b = Inr w' \<Longrightarrow> g w' = g w"
    and "g (xyk_on_trade cfg w a b x y l) = g w"
  using assms by (simp_all add: below_keeps_def)

lemma xyk_execute_keeps:
  assumes "below_keeps cfg g"
  shows "xyk_execute_sell cfg s t = Inr s' \<Longrightarrow> g (xyk_ext s') = g (xyk_ext s)"
    and "xyk_execute_buy cfg s t = Inr s' \<Longrightarrow> g (xyk_ext s') = g (xyk_ext s)"
  by (auto simp: xyk_execute_sell_def xyk_execute_buy_def xyk_trade_prologue_def Let_def
      below_keepsD(6) [OF assms] dest!: below_keepsD(1-5) [OF assms] split: if_splits)

lemma xyk_dispatch_keeps:
  assumes "xyk_env cfg" "below_keeps cfg g" "xyk_dispatch cfg s orig c = Inr s'"
  shows "g (xyk_ext s') = g (xyk_ext s)"
proof -
  note keeps = below_keepsD(1-5) [OF assms(2)]
  show ?thesis
  proof (cases c)
    case (CreatePool a b x price)
    with assms(3) show ?thesis by (auto simp: xyk_create_pool_def Let_def dest!: keeps)
  next
    case (AddLiquidity a b x limit)
    with assms(3) show ?thesis by (auto simp: xyk_add_liquidity_def Let_def dest!: keeps)
  next
    case (RemoveLiquidity a b l)
    with assms(3) show ?thesis
      by (cases "xyk_total_liquidity s (xyk_get_pair_id cfg (mk_pair a b)) - l = 0")
        (auto simp: xyk_remove_liquidity_def Let_def simp del: diff_is_0_eq diff_is_0_eq' dest!: keeps)
  next
    case (Sell a b x limit discount)
    with assms(3) xyk_envD(5) [OF assms(1)] show ?thesis
      by (auto simp: xyk_sell_def default_sell_spec_def dest: xyk_execute_keeps(1) [OF assms(2)])
  next
    case (Buy b a x limit discount)
    with assms(3) xyk_envD(6) [OF assms(1)] show ?thesis
      by (auto simp: xyk_buy_def default_buy_spec_def dest: xyk_execute_keeps(2) [OF assms(2)])
  qed
qed

lemma xyk_dispatch_signed:
  "xyk_dispatch cfg s orig c = Inr s' \<Longrightarrow> \<exists>who. orig = Signed who"
  by (cases c) (auto simp: xyk_create_pool_def xyk_add_liquidity_def xyk_remove_liquidity_def
      xyk_sell_def xyk_buy_def)

lemma sheet_other:
  assumes "v \<noteq> f" "v \<noteq> t"
  shows "sheet_move a f t x B k v = B k v"
  using assms by simp

text \<open>Balances change only for the caller and for the account of the pair the call names.\<close>

lemma xyk_dispatch_touches:
  assumes env: "xyk_env cfg" and ok: "xyk_dispatch cfg s (Signed who) c = Inr s'"
    and v: "v \<noteq> who" "v \<noteq> xyk_get_pair_id cfg (case xyk_call_assets c of (a, b) \<Rightarrow> mk_pair a b)"
  shows "xyk_free cfg s' k v = xyk_free cfg s k v"
proof (cases c)
  case (CreatePool a b x price)
  with ok have r: "xyk_create_pool cfg s (Signed who) a b x price = Inr s'" by simp
  show ?thesis by (rule xyk_create_pool_effect [OF env r refl]) (use v CreatePool in \<open>simp add: sheet_other del: sheet_move_apply\<close>)
next
  case (AddLiquidity a b x limit)
  with ok have r: "xyk_add_liquidity cfg s (Signed who) a b x limit = Inr s'" by simp
  show ?thesis by (rule xyk_add_liquidity_effect [OF env r refl]) (use v AddLiquidity in \<open>simp add: sheet_other del: sheet_move_apply\<close>)
next
  case (RemoveLiquidity a b l)
  with ok have r: "xyk_remove_liquidity cfg s (Signed who) a b l = Inr s'" by simp
  show ?thesis by (rule xyk_remove_liquidity_effect [OF env r refl]) (use v RemoveLiquidity in \<open>simp add: sheet_other del: sheet_move_apply\<close>)
next
  case (Sell a b x limit discount)
  with ok have r: "xyk_sell cfg s (Signed who) a b x limit discount = Inr s'" by simp
  show ?thesis by (rule xyk_sell_effect [OF env r refl]) (use v Sell in \<open>simp add: sheet_other del: sheet_move_apply\<close>)
next
  case (Buy b a x limit discount)
  with ok have r: "xyk_buy cfg s (Signed who) b a x limit discount = Inr s'" by simp
  show ?thesis by (rule xyk_buy_effect [OF env r refl]) (use v Buy in \<open>simp add: sheet_other del: sheet_move_apply\<close>)
qed

text \<open>The records of the sales are below the pallet and out of its reach.\<close>

definition sale_records :: "'w lbp_state \<Rightarrow> (account_id \<rightharpoonup> lbp_pool) \<times> (account_id \<times> asset_id \<rightharpoonup> bool) \<times> lbp_event list" where
  "sale_records s = (lbp_pool_data s, fee_collector_with_asset s, lbp_events s)"

lemma sale_records_put [simp]: "sale_records (lbp_put w s) = sale_records s"
  by (simp add: sale_records_def)

lemma basilisk_keeps_sales: "below_keeps (basilisk_xyk R) sale_records"
  by (auto simp: below_keeps_def basilisk_xyk_def lbp_cur_def lift_currency_def)

section \<open>Sequences of calls\<close>

text \<open>The calls are transactional: one that fails leaves the storage as it was.\<close>

fun xyk_run :: "'w xyk_config \<Rightarrow> 'w xyk_state \<Rightarrow> (origin \<times> xyk_call) list \<Rightarrow> 'w xyk_state" where
  "xyk_run cfg s [] = s"
| "xyk_run cfg s ((orig, c) # cs) =
     xyk_run cfg (case xyk_dispatch cfg s orig c of Inl _ \<Rightarrow> s | Inr s' \<Rightarrow> s') cs"

lemma xyk_run_keeps:
  assumes "xyk_env cfg" "below_keeps cfg g"
  shows "g (xyk_ext (xyk_run cfg s cs)) = g (xyk_ext s)"
proof (induction cs arbitrary: s)
  case Nil
  then show ?case by simp
next
  case (Cons x cs)
  obtain orig c where x: "x = (orig, c)" by (cases x)
  show ?case
    by (cases "xyk_dispatch cfg s orig c") (simp_all add: x Cons.IH xyk_dispatch_keeps [OF assms])
qed

lemma basilisk_run_sales:
  assumes "basilisk_env R"
  shows "lbp_pool_data (xyk_ext (xyk_run (basilisk_xyk R) s cs)) = lbp_pool_data (xyk_ext s)"
  using xyk_run_keeps [OF basilisk_xyk_env [OF assms] basilisk_keeps_sales, of s cs]
  by (simp add: sale_records_def)

lemma basilisk_from_assets [simp]:
  "xyk_get_pair_id (basilisk_xyk R) p = from_assets (bk_hash R) (asset_in p) (asset_out p) ''xyk''"
  "lbp_get_pair_id (basilisk_lbp R) p = from_assets (bk_hash R) (asset_in p) (asset_out p) ''lbp''"
  by (simp_all add: xyk_get_pair_id_def xyk_pair_account_from_assets_def basilisk_xyk_def
      lbp_get_pair_id_def lbp_pair_account_from_assets_def basilisk_lbp_def)

lemma basilisk_gate_closed:
  assumes "lbp_pool_data (xyk_ext s) (lbp_get_pair_id (basilisk_lbp R) (mk_pair a b)) = Some pool" "lp_end pool = None"
  shows "xyk_create_pool (basilisk_xyk R) s (Signed who) a b x price = Inl (XYK xyk_error.CannotCreatePool)"
proof -
  have "\<not> xyk_can_create (basilisk_xyk R) (xyk_ext s) a b"
    using assms by (simp add: basilisk_xyk_def disallow_when_lbp_pool_running_def lbp_get_pair_id_def Let_def)
  then show ?thesis by (simp add: xyk_create_pool_def del: and_then_eq_Inr)
qed

section \<open>A small runtime\<close>

definition demo_basilisk :: "ledger basilisk" where
  "demo_basilisk = \<lparr>
     bk_currency = ledger_ops,
     bk_hash = digits_hash,
     bk_validation_data = (\<lambda>_. None),
     bk_technical_committee = ensure_root,
     bk_get_or_create_shared_asset = (\<lambda>w _ _ _. Inr (103, w)),
     bk_oracle_on_create_pool = (\<lambda>w _ _. Inr w),
     bk_oracle_on_trade = (\<lambda>w _ _ _ _ _. w),
     bk_existential_deposit = (\<lambda>_ _. 10),
     bk_math = formula_math,
     bk_lbp_sell = run_sell, bk_lbp_buy = run_buy, bk_xyk_sell = run_sell, bk_xyk_buy = run_buy,
     bk_intention_hash = (\<lambda>n _ _ _ _. n),
     bk_block_number = (\<lambda>_. 1),
     bk_iter = (\<lambda>m. map (\<lambda>k. (k, the (m k))) (filter (\<lambda>k. m k \<noteq> None) [(1, 2)]))\<rparr>"

definition demo_rt :: "ledger lbp_state xyk_state" where
  "demo_rt = \<lparr>
     xyk_ext = \<lparr>lbp_ext = ledger_of [((1, 7), 5000), ((2, 7), 9000), ((1, 8), 2000), ((2, 8), 3000)],
       lbp_pool_data = Map.empty, fee_collector_with_asset = Map.empty, lbp_events = []\<rparr>,
     share_token = Map.empty, total_liquidity = Map.empty, pool_assets = Map.empty, xyk_events = []\<rparr>"

lemma demo_basilisk_env: "basilisk_env demo_basilisk"
  by (simp add: basilisk_env_def demo_basilisk_def ledger.lockable_currency_axioms run_sell_spec
      run_buy_spec formula_math_spec)

lemma to_le_bytes_4:
  "to_le_bytes 4 n = [n mod 256, n div 256 mod 256, n div 256 div 256 mod 256, n div 256 div 256 div 256 mod 256]"
proof -
  have four: "(4::nat) = Suc (Suc (Suc (Suc 0)))" by simp
  show ?thesis by (subst four) (simp only: to_le_bytes.simps)
qed

lemma demo_accounts:
  "from_assets digits_hash 1 2 ''lbp'' = 309485009965460256824779372"
  "from_assets digits_hash 1 2 ''xyk'' = 309485009965460256824457592"
  by (simp_all add: from_assets_def digits_hash_def to_le_bytes_4 Let_def of_char_def)

text \<open>The runtime can start a sale of the pair, and without one it can open a pool.\<close>

lemma demo_sale_created:
  "\<exists>l. lbp_create_pool (basilisk_lbp demo_basilisk) (xyk_ext demo_rt) Root 8 1 2000 2 3000 20000000 80000000
     Linear (2, 1000) 9 500 = Inr l"
  by (simp add: lbp_create_pool_def basilisk_lbp_def demo_basilisk_def demo_rt_def lbp_exists_def contains_key_def
      lbp_get_pair_id_def lbp_pair_account_from_assets_def demo_accounts lbp_validate_pool_data_def lbp_pool_new_def
      lbp_cur_def lift_currency_def ledger_transfer_def value_query_def MAX_WEIGHT_def MIN_POOL_LIQUIDITY_def
      MAX_SALE_DURATION_def lbp_deposit_event_def lbp_put_def Let_def)

lemma demo_pool_created:
  "\<exists>s. xyk_dispatch (basilisk_xyk demo_basilisk) demo_rt (Signed 7) (CreatePool 1 2 2000 2000000000000000000) = Inr s"
  by (simp add: xyk_create_pool_def basilisk_xyk_def basilisk_lbp_def demo_basilisk_def demo_rt_def xyk_exists_def
      contains_key_def xyk_get_pair_id_def xyk_pair_account_from_assets_def demo_accounts formula_math_def
      disallow_when_lbp_pool_running_def lbp_pair_account_from_assets_def xyk_cur_def lbp_cur_def
      lift_currency_def ledger_defs value_query_def MIN_POOL_LIQUIDITY_def xyk_deposit_event_def lbp_put_def
      xyk_put_def Let_def)

section \<open>Properties\<close>

text \<open>
The order on proxy types is inclusion: a proxy type is declared a superset of another exactly if
it allows every call the other allows.
\<close>

lemma proxy_superset_is_inclusion:
  "is_superset p q \<longleftrightarrow> (\<forall>c. proxy_filter q c \<longrightarrow> proxy_filter p c)"
proof
  assume "is_superset p q"
  then show "\<forall>c. proxy_filter q c \<longrightarrow> proxy_filter p c"
    by (auto simp: is_superset_def proxy_filter_def split: if_splits)
next
  assume "\<forall>c. proxy_filter q c \<longrightarrow> proxy_filter p c"
  then have "proxy_filter p (sample_call q)" using sample_call_filter [of q q] by blast
  then show "is_superset p q" by (auto simp: sample_call_filter is_superset_def)
qed

theorem proxy_superset_is_inclusion_witness:
  "is_superset AnyProxy GovernanceProxy \<and> proxy_filter GovernanceProxy (TipsCall 0) \<and> proxy_filter AnyProxy (TipsCall 0)"
proof -
  have s: "is_superset AnyProxy GovernanceProxy" and f: "proxy_filter GovernanceProxy (TipsCall 0)"
    by (simp_all add: is_superset_def proxy_filter_def)
  with proxy_superset_is_inclusion [of AnyProxy GovernanceProxy] show ?thesis by blast
qed

text \<open>
An asset identifier converted to a location and back is the same asset, for the native asset
always and for every asset with a registered location, provided the registry is consistent and no
registered location has one of the two shapes the conversion reserves for the native asset; and two
assets never have the same location.
\<close>

lemma currency_location_roundtrip:
  assumes consistent: "\<And>i l. al_asset_to_location R i = Some l \<Longrightarrow> al_location_to_asset R l = Some i"
    and not_native: "\<And>i l. al_asset_to_location R i = Some l \<Longrightarrow> \<not> native_location R l"
    and loc: "currency_to_location R i = Some l"
  shows "location_to_currency R l = Some i \<and> multi_asset_to_currency R (Concrete l) = Some i \<and>
    (\<forall>j. currency_to_location R j = Some l \<longrightarrow> j = i)"
proof -
  have same: "location_to_currency R l = Some j" if "currency_to_location R j = Some l" for j
  proof (cases "j = CORE_ASSET_ID")
    case True
    with that have "native_location R l"
      by (auto simp: currency_to_location_def native_location_def as_u32_def CORE_ASSET_ID_def)
    with True show ?thesis by (simp add: location_to_currency_cases)
  next
    case False
    with that have "al_asset_to_location R j = Some l" by (simp add: currency_to_location_def split: option.splits)
    from consistent [OF this] not_native [OF this] show ?thesis by (simp add: location_to_currency_cases)
  qed
  from same [OF loc] show ?thesis using same by (simp add: multi_asset_to_currency_def)
qed

definition demo_location :: multi_location where
  "demo_location = \<lparr>ml_parents = 1, ml_interior = [Parachain 2000, GeneralIndex 7]\<rparr>"

definition demo_locations :: asset_locations where
  "demo_locations = \<lparr>al_para_id = 2090, al_asset_to_location = [1 \<mapsto> demo_location],
     al_location_to_asset = [demo_location \<mapsto> 1]\<rparr>"

theorem currency_location_roundtrip_witness:
  "currency_to_location demo_locations 1 = Some demo_location \<and> location_to_currency demo_locations demo_location = Some 1"
proof -
  have l: "currency_to_location demo_locations 1 = Some demo_location"
    by (simp add: currency_to_location_def demo_locations_def CORE_ASSET_ID_def)
  have "al_location_to_asset demo_locations m = Some j \<and> \<not> native_location demo_locations m"
    if "al_asset_to_location demo_locations j = Some m" for j m
    using that by (auto simp: demo_locations_def native_location_def demo_location_def split: if_splits)
  with currency_location_roundtrip [of demo_locations 1 demo_location] l show ?thesis by blast
qed

text \<open>
  The general index is cut to 32 bits before it is compared, so a location of this parachain with the
  index \<open>2 ^ 32\<close> reads as the native asset.
\<close>

theorem location_index_truncated:
  "location_to_currency R \<lparr>ml_parents = 1, ml_interior = [Parachain (al_para_id R), GeneralIndex 4294967296]\<rparr> =
     Some CORE_ASSET_ID"
  by (simp add: location_to_currency_def as_u32_def u32_max_def CORE_ASSET_ID_def)

end
