(* ===== verification/XYK_Shares.thy ===== *)
theory XYK_Shares
  imports Runtime
begin

text \<open>
  The share tokens of the constant-product pallet (\<open>pallets/xyk/src/lib.rs\<close>): what every call does to the
  number of tokens in circulation, and that the recorded liquidity of a pool is the number of its
  shares over every run of calls. Circulation is the sum of the free balances over a finite set of
  accounts; the laws of the currency interface say how transfers, deposits and withdrawals change it.
\<close>

section \<open>Circulation\<close>

definition circulation :: "account_id set \<Rightarrow> sheet \<Rightarrow> asset_id \<Rightarrow> balance" where
  "circulation A B k = (\<Sum>v\<in>A. B k v)"

lemma circulation_add:
  assumes "finite A" "w \<in> A"
  shows "circulation A (sheet_add a w x B) = (circulation A B)(a := circulation A B a + x)"
proof
  fix k
  have "(\<Sum>v\<in>A. if v = w then B a v + x else B a v) = (\<Sum>v\<in>A. B a v) + x"
    using assms by (simp add: sum.remove [of A w])
  then show "circulation A (sheet_add a w x B) k = ((circulation A B)(a := circulation A B a + x)) k"
    by (auto simp: circulation_def)
qed

lemma circulation_sub:
  assumes "finite A" "w \<in> A" "x \<le> B a w"
  shows "circulation A (sheet_sub a w x B) = (circulation A B)(a := circulation A B a - x)"
proof
  fix k
  have "(\<Sum>v\<in>A. if v = w then B a v - x else B a v) = (\<Sum>v\<in>A. B a v) - x"
    using assms by (simp add: sum.remove [of A w])
  then show "circulation A (sheet_sub a w x B) k = ((circulation A B)(a := circulation A B a - x)) k"
    by (auto simp: circulation_def)
qed

lemma circulation_covers: "finite A \<Longrightarrow> w \<in> A \<Longrightarrow> B a w \<le> circulation A B a"
  by (simp add: circulation_def member_le_sum)

lemma circulation_move:
  assumes "finite A" "f \<in> A" "t \<in> A" "f \<noteq> t \<Longrightarrow> x \<le> B a f"
  shows "circulation A (sheet_move a f t x B) = circulation A B"
proof (cases "f = t")
  case False
  with assms have "x \<le> circulation A B a" using circulation_covers [of A f B a] by (simp add: le_trans)
  with False assms show ?thesis by (simp add: sheet_move_def circulation_add circulation_sub)
qed (simp add: sheet_move_def)

context multi_currency
begin

lemma transfer_circulation:
  "c_transfer C s a f t x = Inr s' \<Longrightarrow> finite A \<Longrightarrow> f \<in> A \<Longrightarrow> t \<in> A \<Longrightarrow>
     circulation A (c_free_balance C s') = circulation A (c_free_balance C s)"
  using transfer_free [of s a f t x s'] transfer_funds [of s a f t x s'] by (simp add: circulation_move)

lemma deposit_circulation:
  "c_deposit C s a w x = Inr s' \<Longrightarrow> finite A \<Longrightarrow> w \<in> A \<Longrightarrow>
     circulation A (c_free_balance C s') =
       (circulation A (c_free_balance C s))(a := circulation A (c_free_balance C s) a + x)"
  using deposit_free [of s a w x s'] by (simp add: circulation_add)

lemma withdraw_circulation:
  "c_withdraw C s a w x = Inr s' \<Longrightarrow> finite A \<Longrightarrow> w \<in> A \<Longrightarrow>
     circulation A (c_free_balance C s') =
       (circulation A (c_free_balance C s))(a := circulation A (c_free_balance C s) a - x)"
  using withdraw_free [of s a w x s'] withdraw_funds [of s a w x s'] by (simp add: circulation_sub)

end

section \<open>What the calls do to the circulation\<close>

abbreviation xyk_circulation :: "'w xyk_config \<Rightarrow> account_id set \<Rightarrow> 'w xyk_state \<Rightarrow> asset_id \<Rightarrow> balance" where
  "xyk_circulation cfg A s \<equiv> circulation A (xyk_free cfg s)"

lemmas circulation_laws =
  multi_currency.transfer_circulation [OF xyk_envD(1)] multi_currency.deposit_circulation [OF xyk_envD(1)]
  multi_currency.withdraw_circulation [OF xyk_envD(1)]

lemma create_circulation:
  assumes env: "xyk_env cfg" and fin: "finite A"
    and call: "xyk_create_pool cfg s (Signed who) a b x price = Inr s'"
    and A: "who \<in> A" "p \<in> A" and p: "p = xyk_get_pair_id cfg (mk_pair a b)"
  obtains shares w w' l where
    "xyk_get_or_create_shared_asset cfg w (pair_name (mk_pair a b)) [a, b] (xyk_min_pool_liquidity cfg) = Inr (shares, w')"
    "share_token s' = (share_token s)(p \<mapsto> shares)" "total_liquidity s' = (total_liquidity s)(p \<mapsto> l)"
    "xyk_circulation cfg A s' = (xyk_circulation cfg A s)(shares := xyk_circulation cfg A s shares + l)"
    "\<not> xyk_exists cfg s (mk_pair a b)"
  using call A xyk_envD(3) [OF env] that
  by (auto simp: xyk_create_pool_def Let_def registry_frame_def p circulation_laws [OF env _ fin])

lemma add_circulation:
  assumes env: "xyk_env cfg" and fin: "finite A"
    and call: "xyk_add_liquidity cfg s (Signed who) a b x limit = Inr s'"
    and A: "who \<in> A" "p \<in> A" and p: "p = xyk_get_pair_id cfg (mk_pair a b)"
  obtains l where
    "share_token s' = share_token s" "total_liquidity s' = (total_liquidity s)(p \<mapsto> xyk_total_liquidity s p + l)"
    "xyk_circulation cfg A s' =
       (xyk_circulation cfg A s)(xyk_share_token s p := xyk_circulation cfg A s (xyk_share_token s p) + l)"
    "xyk_exists cfg s (mk_pair a b)"
proof -
  from call obtain y w1 w2 w3 where steps:
      "xyk_exists cfg s (mk_pair a b)"
      "c_transfer (xyk_currency cfg) (xyk_ext s) a who p x = Inr w1" "c_transfer (xyk_currency cfg) w1 b who p y = Inr w2"
      "c_deposit (xyk_currency cfg) w2 (xyk_share_token s p) who (if a < b then x else y) = Inr w3"
      "xyk_ext s' = w3" "share_token s' = share_token s"
      "total_liquidity s' = (total_liquidity s)(p \<mapsto> xyk_total_liquidity s p + (if a < b then x else y))"
    by (auto simp: xyk_add_liquidity_def Let_def p)
  show thesis
    by (rule that [OF steps(6,7) _ steps(1)])
       (simp only: steps(5) circulation_laws(2) [OF env steps(4) fin A(1)] circulation_laws(1) [OF env steps(3) fin A]
         circulation_laws(1) [OF env steps(2) fin A])
qed

lemma remove_circulation:
  assumes env: "xyk_env cfg" and fin: "finite A"
    and call: "xyk_remove_liquidity cfg s (Signed who) a b l = Inr s'"
    and A: "who \<in> A" "p \<in> A" and p: "p = xyk_get_pair_id cfg (mk_pair a b)"
  shows "xyk_circulation cfg A s' =
       (xyk_circulation cfg A s)(xyk_share_token s p := xyk_circulation cfg A s (xyk_share_token s p) - l)"
proof -
  have "\<exists>y z w1 w2. c_transfer (xyk_currency cfg) (xyk_ext s) a p who y = Inr w1 \<and>
      c_transfer (xyk_currency cfg) w1 b p who z = Inr w2 \<and>
      c_withdraw (xyk_currency cfg) w2 (xyk_share_token s p) who l = Inr (xyk_ext s')"
  proof (cases "l = xyk_total_liquidity s p")
    case True
    with call show ?thesis by (clarsimp simp: xyk_remove_liquidity_def Let_def p [symmetric]) blast
  next
    case False
    with call show ?thesis by (clarsimp simp: xyk_remove_liquidity_def Let_def p [symmetric]) auto
  qed
  then obtain y z w1 w2 where steps:
      "c_transfer (xyk_currency cfg) (xyk_ext s) a p who y = Inr w1" "c_transfer (xyk_currency cfg) w1 b p who z = Inr w2"
      "c_withdraw (xyk_currency cfg) w2 (xyk_share_token s p) who l = Inr (xyk_ext s')"
    by blast
  show ?thesis
    by (simp only: circulation_laws(3) [OF env steps(3) fin A(1)] circulation_laws(1) [OF env steps(2) fin A(2,1)]
        circulation_laws(1) [OF env steps(1) fin A(2,1)])
qed

lemma prologue_circulation:
  assumes env: "xyk_env cfg" and fin: "finite A" and call: "xyk_trade_prologue cfg s t = Inr s'"
    and A: "tr_origin t \<in> A" and k: "k \<noteq> xyk_native_asset_id cfg"
  shows "xyk_circulation cfg A s' k = xyk_circulation cfg A s k"
  using call A k xyk_envD(2) [OF env]
  by (auto simp: xyk_trade_prologue_def Let_def trade_handler_frame_def circulation_laws(3) [OF env _ fin] split: if_splits)

lemma execute_circulation:
  assumes env: "xyk_env cfg" and fin: "finite A"
    and A: "tr_origin t \<in> A" "xyk_get_pair_id cfg (tr_assets t) \<in> A" and k: "k \<noteq> xyk_native_asset_id cfg"
  shows "xyk_execute_sell cfg s t = Inr s' \<Longrightarrow> xyk_circulation cfg A s' k = xyk_circulation cfg A s k"
    and "xyk_execute_buy cfg s t = Inr s' \<Longrightarrow> xyk_circulation cfg A s' k = xyk_circulation cfg A s k"
  using A prologue_circulation [OF env fin _ A(1) k]
  by (auto simp: xyk_execute_sell_def xyk_execute_buy_def Let_def circulation_laws(1) [OF env _ fin])

section \<open>Recorded liquidity and issued shares\<close>

text \<open>
  What is assumed of the asset registry: the share token it returns for the name of a pair is that of
  the account of the pair, different accounts have different tokens, and none of them is native.
\<close>

definition share_registry :: "'w xyk_config \<Rightarrow> (account_id \<Rightarrow> asset_id) \<Rightarrow> bool" where
  "share_registry cfg tok \<longleftrightarrow> inj tok \<and> (\<forall>p. tok p \<noteq> xyk_native_asset_id cfg) \<and>
     (\<forall>w a b ed t w'. xyk_get_or_create_shared_asset cfg w (pair_name (mk_pair a b)) [a, b] ed = Inr (t, w') \<longrightarrow>
        t = tok (xyk_get_pair_id cfg (mk_pair a b)))"

definition shares_issued :: "'w xyk_config \<Rightarrow> (account_id \<Rightarrow> asset_id) \<Rightarrow> account_id set \<Rightarrow> 'w xyk_state \<Rightarrow> bool" where
  "shares_issued cfg tok A s \<longleftrightarrow>
     (\<forall>p t. share_token s p = Some t \<longrightarrow> t = tok p) \<and>
     (\<forall>p. xyk_circulation cfg A s (tok p) = xyk_total_liquidity s p)"

lemma shares_issued_token:
  assumes "shares_issued cfg tok A s" "xyk_exists cfg s (mk_pair a b)"
  shows "xyk_share_token s (xyk_get_pair_id cfg (mk_pair a b)) = tok (xyk_get_pair_id cfg (mk_pair a b))"
  using assms by (auto simp: shares_issued_def xyk_exists_def contains_key_def xyk_share_token_def value_query_def)

lemma shares_issued_update:
  assumes old: "shares_issued cfg tok A s" and inj: "inj tok"
    and token: "\<forall>q t. share_token s' q = Some t \<longrightarrow> t = tok q"
    and circ: "xyk_circulation cfg A s' = (xyk_circulation cfg A s)(tok p := n)"
    and total: "xyk_total_liquidity s' p = n" "\<And>q. q \<noteq> p \<Longrightarrow> xyk_total_liquidity s' q = xyk_total_liquidity s q"
  shows "shares_issued cfg tok A s'"
proof -
  have "xyk_circulation cfg A s' (tok q) = xyk_total_liquidity s' q" for q
  proof (cases "q = p")
    case False
    then have "tok q \<noteq> tok p" using inj by (simp add: inj_eq)
    with False old total(2) [of q] show ?thesis by (simp add: circ shares_issued_def)
  qed (simp add: circ total(1))
  with token show ?thesis by (simp add: shares_issued_def)
qed

lemma create_shares_issued:
  assumes env: "xyk_env cfg" and fin: "finite A" and reg: "share_registry cfg tok" and inv: "xyk_inv cfg s"
    and issued: "shares_issued cfg tok A s"
    and call: "xyk_create_pool cfg s (Signed who) a b x price = Inr s'"
    and A: "who \<in> A" "xyk_get_pair_id cfg (mk_pair a b) \<in> A"
  shows "shares_issued cfg tok A s'"
proof -
  let ?p = "xyk_get_pair_id cfg (mk_pair a b)"
  obtain shares w w' l where c:
      "xyk_get_or_create_shared_asset cfg w (pair_name (mk_pair a b)) [a, b] (xyk_min_pool_liquidity cfg) = Inr (shares, w')"
      "share_token s' = (share_token s)(?p \<mapsto> shares)" "total_liquidity s' = (total_liquidity s)(?p \<mapsto> l)"
      "xyk_circulation cfg A s' = (xyk_circulation cfg A s)(shares := xyk_circulation cfg A s shares + l)"
      "\<not> xyk_exists cfg s (mk_pair a b)"
    using create_circulation [OF env fin call A refl] .
  have shares: "shares = tok ?p" using reg c(1) unfolding share_registry_def by blast
  have "total_liquidity s ?p = None"
    using inv c(5) unfolding xyk_inv_def xyk_exists_def contains_key_def by (metis domIff)
  then have "xyk_circulation cfg A s shares = 0"
    using issued by (simp add: shares_issued_def shares xyk_total_liquidity_def value_query_def)
  then have circ: "xyk_circulation cfg A s' = (xyk_circulation cfg A s)(tok ?p := l)" using c(4) by (simp add: shares)
  show ?thesis
  proof (rule shares_issued_update [OF issued _ _ circ])
    show "inj tok" using reg by (simp add: share_registry_def)
    show "\<forall>q t. share_token s' q = Some t \<longrightarrow> t = tok q" using issued c(2) by (auto simp: shares shares_issued_def)
  qed (simp_all add: c(3) xyk_total_liquidity_def value_query_def)
qed

lemma add_shares_issued:
  assumes env: "xyk_env cfg" and fin: "finite A" and reg: "share_registry cfg tok" and issued: "shares_issued cfg tok A s"
    and call: "xyk_add_liquidity cfg s (Signed who) a b x limit = Inr s'"
    and A: "who \<in> A" "xyk_get_pair_id cfg (mk_pair a b) \<in> A"
  shows "shares_issued cfg tok A s'"
proof -
  let ?p = "xyk_get_pair_id cfg (mk_pair a b)"
  obtain l where c: "share_token s' = share_token s"
      "total_liquidity s' = (total_liquidity s)(?p \<mapsto> xyk_total_liquidity s ?p + l)"
      "xyk_circulation cfg A s' =
         (xyk_circulation cfg A s)(xyk_share_token s ?p := xyk_circulation cfg A s (xyk_share_token s ?p) + l)"
      "xyk_exists cfg s (mk_pair a b)"
    using add_circulation [OF env fin call A refl] .
  have circ: "xyk_circulation cfg A s' = (xyk_circulation cfg A s)(tok ?p := xyk_total_liquidity s ?p + l)"
    using c(3) issued by (simp add: shares_issued_token [OF issued c(4)] shares_issued_def)
  show ?thesis
  proof (rule shares_issued_update [OF issued _ _ circ])
    show "inj tok" using reg by (simp add: share_registry_def)
    show "\<forall>q t. share_token s' q = Some t \<longrightarrow> t = tok q" using issued c(1) by (auto simp: shares_issued_def)
  qed (simp_all add: c(2) xyk_total_liquidity_def value_query_def)
qed

lemma remove_shares_issued:
  assumes env: "xyk_env cfg" and fin: "finite A" and reg: "share_registry cfg tok" and issued: "shares_issued cfg tok A s"
    and call: "xyk_remove_liquidity cfg s (Signed who) a b l = Inr s'"
    and A: "who \<in> A" "xyk_get_pair_id cfg (mk_pair a b) \<in> A"
  shows "shares_issued cfg tok A s'"
proof -
  let ?p = "xyk_get_pair_id cfg (mk_pair a b)"
  obtain ya yb where c: "xyk_exists cfg s (mk_pair a b)" "l \<le> xyk_total_liquidity s ?p"
      "l = xyk_total_liquidity s ?p \<Longrightarrow> share_token s' = (share_token s)(?p := None) \<and>
         pool_assets s' = (pool_assets s)(?p := None) \<and> total_liquidity s' = (total_liquidity s)(?p := None)"
      "l \<noteq> xyk_total_liquidity s ?p \<Longrightarrow> share_token s' = share_token s \<and> pool_assets s' = pool_assets s \<and>
         total_liquidity s' = (total_liquidity s)(?p \<mapsto> xyk_total_liquidity s ?p - l)"
    by (rule xyk_remove_liquidity_effect [OF env call refl]) (rule that, (assumption | blast)+)
  have circ: "xyk_circulation cfg A s' = (xyk_circulation cfg A s)(tok ?p := xyk_total_liquidity s ?p - l)"
    using remove_circulation [OF env fin call A refl] issued
    by (simp add: shares_issued_token [OF issued c(1)] shares_issued_def)
  show ?thesis
  proof (rule shares_issued_update [OF issued _ _ circ])
    show "inj tok" using reg by (simp add: share_registry_def)
    show "\<forall>q t. share_token s' q = Some t \<longrightarrow> t = tok q"
      using issued c(3,4) by (cases "l = xyk_total_liquidity s ?p") (auto simp: shares_issued_def)
    show "xyk_total_liquidity s' ?p = xyk_total_liquidity s ?p - l"
      using c(3,4) by (cases "l = xyk_total_liquidity s ?p") (auto simp: xyk_total_liquidity_def value_query_def)
    show "xyk_total_liquidity s' q = xyk_total_liquidity s q" if "q \<noteq> ?p" for q
      using c(3,4) that by (cases "l = xyk_total_liquidity s ?p") (auto simp: xyk_total_liquidity_def value_query_def)
  qed
qed

lemma sell_circulation:
  assumes env: "xyk_env cfg" and fin: "finite A" and call: "xyk_sell cfg s (Signed who) a b x limit d = Inr s'"
    and A: "who \<in> A" "xyk_get_pair_id cfg (mk_pair a b) \<in> A" and k: "k \<noteq> xyk_native_asset_id cfg"
  shows "xyk_circulation cfg A s' k = xyk_circulation cfg A s k"
proof -
  from call have "xyk_default_sell cfg (xyk_amm cfg) s who (mk_pair a b) x limit d = Inr s'" by (simp add: xyk_sell_def)
  with xyk_envD(5) [OF env] obtain t where
    v: "xyk_validate_sell cfg s who (mk_pair a b) x limit d = Inr t" and e: "xyk_execute_sell cfg s t = Inr s'"
    by (auto elim: xyk.default_sell_validated)
  from v have "tr_origin t = who" "tr_assets t = mk_pair a b" by (auto elim!: xyk_validate_sell_Inr)
  with A show ?thesis using execute_circulation(1) [OF env fin _ _ k e] by simp
qed

lemma buy_circulation:
  assumes env: "xyk_env cfg" and fin: "finite A" and call: "xyk_buy cfg s (Signed who) b a x limit d = Inr s'"
    and A: "who \<in> A" "xyk_get_pair_id cfg (mk_pair a b) \<in> A" and k: "k \<noteq> xyk_native_asset_id cfg"
  shows "xyk_circulation cfg A s' k = xyk_circulation cfg A s k"
proof -
  from call have "xyk_default_buy cfg (xyk_amm cfg) s who (mk_pair a b) x limit d = Inr s'" by (simp add: xyk_buy_def)
  with xyk_envD(6) [OF env] obtain t where
    v: "xyk_validate_buy cfg s who (mk_pair a b) x limit d = Inr t" and e: "xyk_execute_buy cfg s t = Inr s'"
    by (auto elim: xyk.default_buy_validated)
  from v have "tr_origin t = who" "tr_assets t = mk_pair a b" by (auto elim!: xyk_validate_buy_Inr)
  with A show ?thesis using execute_circulation(2) [OF env fin _ _ k e] by simp
qed

lemma trade_shares_issued:
  assumes "shares_issued cfg tok A s" "share_registry cfg tok"
    and "share_token s' = share_token s" "total_liquidity s' = total_liquidity s"
    and "\<And>k. k \<noteq> xyk_native_asset_id cfg \<Longrightarrow> xyk_circulation cfg A s' k = xyk_circulation cfg A s k"
  shows "shares_issued cfg tok A s'"
  using assms by (simp add: shares_issued_def share_registry_def xyk_total_liquidity_def)

text \<open>The accounts a call works on: its signer and the account of its pair.\<close>

definition xyk_parties :: "'w xyk_config \<Rightarrow> account_id set \<Rightarrow> origin \<times> xyk_call \<Rightarrow> bool" where
  "xyk_parties cfg A c \<longleftrightarrow>
     (\<forall>who. fst c = Signed who \<longrightarrow> who \<in> A) \<and>
     (case xyk_call_assets (snd c) of (a, b) \<Rightarrow> xyk_get_pair_id cfg (mk_pair a b) \<in> A)"

lemma dispatch_shares_issued:
  assumes env: "xyk_env cfg" and fin: "finite A" and reg: "share_registry cfg tok" and inv: "xyk_inv cfg s"
    and issued: "shares_issued cfg tok A s" and ok: "xyk_dispatch cfg s orig c = Inr s'"
    and A: "xyk_parties cfg A (orig, c)"
  shows "shares_issued cfg tok A s'"
proof -
  obtain who where who: "orig = Signed who" using xyk_dispatch_signed [OF ok] by blast
  show ?thesis
  proof (cases c)
    case (CreatePool a b x price)
    then show ?thesis using ok A create_shares_issued [OF env fin reg inv issued] by (simp add: who xyk_parties_def)
  next
    case (AddLiquidity a b x limit)
    then show ?thesis using ok A add_shares_issued [OF env fin reg issued] by (simp add: who xyk_parties_def)
  next
    case (RemoveLiquidity a b l)
    then show ?thesis using ok A remove_shares_issued [OF env fin reg issued] by (simp add: who xyk_parties_def)
  next
    case (Sell a b x limit d)
    with ok have call: "xyk_sell cfg s (Signed who) a b x limit d = Inr s'" by (simp add: who)
    have frame: "share_token s' = share_token s" "total_liquidity s' = total_liquidity s"
      by (rule xyk_sell_effect [OF env call refl], assumption)+
    show ?thesis using Sell A sell_circulation [OF env fin call]
      by (intro trade_shares_issued [OF issued reg frame]) (simp_all add: who xyk_parties_def)
  next
    case (Buy b a x limit d)
    with ok have call: "xyk_buy cfg s (Signed who) b a x limit d = Inr s'" by (simp add: who)
    have frame: "share_token s' = share_token s" "total_liquidity s' = total_liquidity s"
      by (rule xyk_buy_effect [OF env call refl], assumption)+
    show ?thesis using Buy A buy_circulation [OF env fin call]
      by (intro trade_shares_issued [OF issued reg frame]) (simp_all add: who xyk_parties_def)
  qed
qed

lemma dispatch_step:
  "xyk_dispatch cfg s orig c = Inr s' \<Longrightarrow> xyk_step cfg s s'"
  using xyk_dispatch_signed [of cfg s orig c s'] by (cases c) (auto intro: xyk_step.intros)


text \<open>A registry that numbers share tokens by the account of the pool, and a run from an empty pallet.\<close>

definition demo_tok :: "account_id \<Rightarrow> asset_id" where "demo_tok p = p + 1000000"

definition demo_shares :: "ledger xyk_config" where
  "demo_shares = demo_xyk\<lparr>xyk_get_or_create_shared_asset := (\<lambda>w n as ed.
     Inr (demo_tok (1000 + 10 * min (as ! 0) (as ! 1) + max (as ! 0) (as ! 1)), w))\<rparr>"

definition demo_share_calls :: "(origin \<times> xyk_call) list" where
  "demo_share_calls = [(Signed 7, CreatePool 1 2 1000 1000000000000000000), (Signed 7, RemoveLiquidity 1 2 400)]"

lemma demo_shares_env: "xyk_env demo_shares"
  using ledger.multi_currency_axioms run_sell_spec run_buy_spec formula_math_spec
  by (auto simp: xyk_env_def demo_shares_def demo_xyk_def trade_handler_frame_def registry_frame_def)

lemma demo_share_registry: "share_registry demo_shares demo_tok"
  by (auto simp: share_registry_def demo_shares_def demo_xyk_def demo_tok_def inj_def xyk_get_pair_id_def
      xyk_pair_account_from_assets_def)

lemma demo_shares_run: "xyk_total_liquidity (xyk_run demo_shares demo_empty_state demo_share_calls) 1012 = 600"
  by (simp add: demo_share_calls_def demo_shares_def xyk_run_simps demo_empty_state_def demo_tok_def)


end
