(* ===== verification/Exchange_Props.thy ===== *)
theory Exchange_Props
  imports Exchange XYK_Props
begin

text \<open>
  The properties of the exchange: the bookkeeping of intentions over all reachable states, how
  a block's intentions are matched, what a direct trade reserves, pays and gives back, when
  the end of a block cannot panic and when it does, and the intentions that go to the pool.
\<close>

section \<open>Bookkeeping\<close>

lemma x_deposit_event_sel [simp]:
  "x_pool (x_deposit_event ev s) = x_pool s"
  "intention_count (x_deposit_event ev s) = intention_count s"
  "x_intentions (x_deposit_event ev s) = x_intentions s"
  "x_events (x_deposit_event ev s) = x_events s @ [ev]"
  by (simp_all add: x_deposit_event_def)

text \<open>
  The count of a pair is the number of intentions in its two directions, and an intention is
  stored under its own pair.
\<close>

definition exchange_inv :: "'p exchange_state \<Rightarrow> bool" where
  "exchange_inv s \<longleftrightarrow>
     (\<forall>a b. a < b \<longrightarrow> get_intentions_count s (a, b) =
        length (get_intentions s (a, b)) + length (get_intentions s (b, a))) \<and>
     (\<forall>a. get_intentions_count s (a, a) = length (get_intentions s (a, a))) \<and>
     (\<forall>a b i. i \<in> set (get_intentions s (a, b)) \<longrightarrow> int_assets i = mk_pair a b) \<and>
     (\<forall>k. get_intentions_count s k \<le> u32_max)"

inductive exchange_reachable :: "'p exchange_config \<Rightarrow> 'p exchange_state \<Rightarrow> bool" for cfg where
  genesis: "exchange_reachable cfg \<lparr>x_pool = p, intention_count = Map.empty, x_intentions = Map.empty, x_events = []\<rparr>"
| sell: "exchange_reachable cfg s \<Longrightarrow> exchange_sell cfg s orig a b x limit d = Inr s' \<Longrightarrow> exchange_reachable cfg s'"
| buy: "exchange_reachable cfg s \<Longrightarrow> exchange_buy cfg s orig b a x limit d = Inr s' \<Longrightarrow> exchange_reachable cfg s'"
| finalize: "exchange_reachable cfg s \<Longrightarrow> exchange_on_finalize cfg s = Some s' \<Longrightarrow> exchange_reachable cfg s'"
| outside: "exchange_reachable cfg s \<Longrightarrow> exchange_reachable cfg (s\<lparr>x_pool := p\<rparr>)"

lemma register_intention_Inr:
  assumes "register_intention cfg s who ty assets x y limit d = Inr s'"
  obtains new where "int_who new = who" "int_assets new = assets" "int_amount_in new = x" "int_amount_out new = y"
    "int_trade_limit new = limit" "int_discount new = d" "int_sell_or_buy new = ty"
    "get_intentions_count s (ordered_pair assets) < u32_max"
    "intention_count s' = (intention_count s)(ordered_pair assets \<mapsto> get_intentions_count s (ordered_pair assets) + 1)"
    "x_intentions s' = (x_intentions s)((asset_in assets, asset_out assets) \<mapsto>
       get_intentions s (asset_in assets, asset_out assets) @ [new])"
    "x_pool s' = x_pool s"
proof (rule that [of "\<lparr>int_who = who, int_assets = assets, int_amount_in = x, int_amount_out = y,
    int_trade_limit = limit, int_discount = d, int_sell_or_buy = ty,
    int_id = generate_intention_id cfg s who (get_intentions_count s (ordered_pair assets)) assets\<rparr>"])
qed (use assms in \<open>auto simp: register_intention_def Let_def split: intention_type.splits\<close>)

lemma exchange_inv_register:
  assumes inv: "exchange_inv s" and reg: "register_intention cfg s who ty (mk_pair a b) x y limit d = Inr s'"
  shows "exchange_inv s'"
  using reg
proof (rule register_intention_Inr)
  fix new
  assume new: "int_assets new = mk_pair a b"
    and lt: "get_intentions_count s (ordered_pair (mk_pair a b)) < u32_max"
    and c: "intention_count s' = (intention_count s)(ordered_pair (mk_pair a b) \<mapsto>
        get_intentions_count s (ordered_pair (mk_pair a b)) + 1)"
    and i: "x_intentions s' = (x_intentions s)((asset_in (mk_pair a b), asset_out (mk_pair a b)) \<mapsto>
        get_intentions s (asset_in (mk_pair a b), asset_out (mk_pair a b)) @ [new])"
  have op: "ordered_pair (mk_pair a b) = (min a b, max a b)"
    by (auto simp: ordered_pair_def mk_pair_def)
  have cnt: "get_intentions_count s' k =
      (if k = (min a b, max a b) then get_intentions_count s k + 1 else get_intentions_count s k)" for k
    using c by (simp add: get_intentions_count_def op)
  have ints: "get_intentions s' k = (if k = (a, b) then get_intentions s k @ [new] else get_intentions s k)" for k
    using i by (simp add: get_intentions_def mk_pair_def)
  show "exchange_inv s'"
    using inv new lt unfolding exchange_inv_def by (auto simp: cnt ints op min_def max_def)
qed

text \<open>
  C14. In every reachable state the intention count of an asset pair is the number of intentions
  registered for its two directions, each intention is filed under its own pair, and the
  count fits in 32 bits, whatever the end of a block did to the pool.
\<close>

theorem exchange_reachable_invariant:
  assumes "exchange_reachable cfg s"
  shows "exchange_inv s"
  using assms
proof induction
  case (genesis p)
  show ?case by (simp add: exchange_inv_def get_intentions_def get_intentions_count_def)
next
  case (sell s orig a b x limit d s')
  then show ?case by (auto simp: exchange_sell_def Let_def intro: exchange_inv_register)
next
  case (buy s orig b a x limit d s')
  then show ?case by (auto simp: exchange_buy_def Let_def intro: exchange_inv_register)
next
  case (finalize s s')
  then show ?case
    by (auto simp: exchange_on_finalize_def exchange_inv_def get_intentions_def get_intentions_count_def
        split: option.splits)
next
  case (outside s p)
  then show ?case by (simp add: exchange_inv_def get_intentions_def get_intentions_count_def)
qed

section \<open>Matching\<close>

lemma take_matching_prefix:
  "\<exists>k \<le> length xs. take_matching n xs = take k xs \<and>
     (k < length xs \<longrightarrow> n \<le> sum_list (map int_amount_out (take k xs))) \<and>
     (\<forall>j < k. sum_list (map int_amount_out (take j xs)) < n)"
proof (induction xs arbitrary: n)
  case Nil
  then show ?case by simp
next
  case (Cons x xs)
  show ?case
  proof (cases "n = 0")
    case True
    then show ?thesis by (intro exI [of _ 0]) simp
  next
    case False
    from Cons [of "n - int_amount_out x"] obtain k where k: "k \<le> length xs"
      "take_matching (n - int_amount_out x) xs = take k xs"
      "k < length xs \<longrightarrow> n - int_amount_out x \<le> sum_list (map int_amount_out (take k xs))"
      "\<forall>j<k. sum_list (map int_amount_out (take j xs)) < n - int_amount_out x" by blast
    have "sum_list (map int_amount_out (take j (x # xs))) < n" if "j < Suc k" for j
      using that k(4) False by (cases j) (auto dest: spec [of _ "j - 1"])
    with k False show ?thesis by (intro exI [of _ "Suc k"]) auto
  qed
qed

text \<open>
  The batch matched with a main intention is the shortest prefix of the remaining
  intentions whose amounts out cover its amount in, or all of them when they do not suffice.
\<close>

lemma take_matching_shortest_cover:
  "\<exists>k \<le> length xs. take_matching n xs = take k xs \<and>
     (k < length xs \<longrightarrow> n \<le> sum_list (map int_amount_out (take k xs))) \<and>
     (\<forall>j < k. sum_list (map int_amount_out (take j xs)) < n)"
  by (rule take_matching_prefix)

section \<open>Direct trades\<close>

lemma dt_prepare_True:
  assumes rc: "reservable_currency (x_currency cfg)"
    and prep: "dt_prepare cfg s dt pa = (True, dt', s')"
    and ab: "A = asset_in (int_assets (dt_intention_a dt))" "B = asset_out (int_assets (dt_intention_a dt))"
    and who: "wa = int_who (dt_intention_a dt)" "wb = int_who (dt_intention_b dt)"
  obtains fee_a fee_b ra rb where
    "x_trade_fee cfg (dt_amount_from_a dt) (amm_get_fee (x_amm cfg) (x_pool s) pa) = Some fee_a"
    "x_trade_fee cfg (dt_amount_from_b dt) (amm_get_fee (x_amm cfg) (x_pool s) pa) = Some fee_b"
    "fee_a \<le> dt_amount_from_a dt" "fee_b \<le> dt_amount_from_b dt"
    "dt_reserve_amounts dt fee_a fee_b = (ra, rb)"
    "dt' = dt\<lparr>dt_transfers := dt_transfers dt @ dt_new_transfers dt pa fee_a fee_b\<rparr>"
    "x_free cfg s' = sheet_sub B wb rb (sheet_sub A wa ra (x_free cfg s))"
    "x_reserved cfg s' = sheet_add B wb rb (sheet_add A wa ra (x_reserved cfg s))"
    "ra \<le> x_free cfg s A wa" "rb \<le> sheet_sub A wa ra (x_free cfg s) B wb"
    "intention_count s' = intention_count s" "x_intentions s' = x_intentions s" "x_events s' = x_events s"
proof -
  note laws = reservable_currency.reserve_free [OF rc] reservable_currency.reserve_reserved [OF rc]
  note funds = reservable_currency.reserve_funds [OF rc]
  from prep obtain fee_a fee_b where
    fee: "x_trade_fee cfg (dt_amount_from_a dt) (amm_get_fee (x_amm cfg) (x_pool s) pa) = Some fee_a"
      "x_trade_fee cfg (dt_amount_from_b dt) (amm_get_fee (x_amm cfg) (x_pool s) pa) = Some fee_b"
    and f: "fee_a \<le> dt_amount_from_a dt" "fee_b \<le> dt_amount_from_b dt"
    by (auto simp: dt_prepare_def Let_def split: if_splits option.splits)
  from prep fee have d: "dt' = dt\<lparr>dt_transfers := dt_transfers dt @ dt_new_transfers dt pa fee_a fee_b\<rparr>"
    and r: "\<exists>s1. reserve_if_can cfg s A wa (fst (dt_reserve_amounts dt fee_a fee_b)) = (True, s1) \<and>
      reserve_if_can cfg s1 B wb (snd (dt_reserve_amounts dt fee_a fee_b)) = (True, s')"
    by (auto simp: dt_prepare_def Let_def ab who split: if_splits prod.splits)
  from r obtain p1 p2 where
    p1: "c_reserve (x_currency cfg) (x_pool s) A wa (fst (dt_reserve_amounts dt fee_a fee_b)) = Inr p1"
    and p2: "c_reserve (x_currency cfg) p1 B wb (snd (dt_reserve_amounts dt fee_a fee_b)) = Inr p2"
    and s': "s' = s\<lparr>x_pool := p2\<rparr>"
    by (auto simp: reserve_if_can_def split: sum.splits)
  show thesis
    by (rule that [OF fee f surjective_pairing d]) (use p1 p2 s' funds [OF p1] funds [OF p2] in \<open>simp_all add: laws\<close>)
qed

lemma dt_unreserve_transfers_append:
  "dt_unreserve_transfers cfg s (xs @ ys) = dt_unreserve_transfers cfg (dt_unreserve_transfers cfg s xs) ys"
  by (induction xs arbitrary: s) auto

text \<open>What the transfers of a list take from the reserved balance of an account.\<close>

definition taken :: "transfer list \<Rightarrow> asset_id \<Rightarrow> account_id \<Rightarrow> balance" where
  "taken ts a w = sum_list (map tf_amount (filter (\<lambda>t. tf_asset t = a \<and> tf_from t = w) ts))"

definition given :: "transfer list \<Rightarrow> asset_id \<Rightarrow> account_id \<Rightarrow> balance" where
  "given ts a w = sum_list (map tf_amount (filter (\<lambda>t. tf_asset t = a \<and> tf_to t = w) ts))"

lemma taken_simps [simp]:
  "taken [] a w = 0"
  "taken (t # ts) a w = (if tf_asset t = a \<and> tf_from t = w then tf_amount t + taken ts a w else taken ts a w)"
  by (simp_all add: taken_def)

lemma given_simps [simp]:
  "given [] a w = 0"
  "given (t # ts) a w = (if tf_asset t = a \<and> tf_to t = w then tf_amount t + given ts a w else given ts a w)"
  by (simp_all add: given_def)

lemma dt_unreserve_transfers_balances:
  assumes rc: "reservable_currency (x_currency cfg)"
    and "\<And>a w. taken ts a w \<le> x_reserved cfg s a w"
  shows "x_free cfg (dt_unreserve_transfers cfg s ts) a w = x_free cfg s a w + taken ts a w \<and>
    x_reserved cfg (dt_unreserve_transfers cfg s ts) a w = x_reserved cfg s a w - taken ts a w"
  using assms(2)
proof (induction ts arbitrary: s)
  case Nil
  then show ?case by simp
next
  case (Cons t ts)
  let ?s = "s\<lparr>x_pool := snd (c_unreserve (x_currency cfg) (x_pool s) (tf_asset t) (tf_from t) (tf_amount t))\<rparr>"
  have t: "tf_amount t \<le> x_reserved cfg s (tf_asset t) (tf_from t)"
    using Cons.prems [of "tf_asset t" "tf_from t"] by simp
  have f: "x_free cfg ?s = sheet_add (tf_asset t) (tf_from t) (tf_amount t) (x_free cfg s)"
    and r: "x_reserved cfg ?s = sheet_sub (tf_asset t) (tf_from t) (tf_amount t) (x_reserved cfg s)"
    using t reservable_currency.unreserve_free [OF rc, OF surjective_pairing]
      reservable_currency.unreserve_reserved [OF rc, OF surjective_pairing]
    by (simp_all add: min_absorb1)
  have "taken ts a w \<le> x_reserved cfg ?s a w" for a w
    using Cons.prems [of a w] r by (auto split: if_splits)
  from Cons.IH [OF this] Cons.prems [of a w] f r show ?case by auto
qed

lemma dt_execute_transfers_balances:
  assumes rc: "reservable_currency (x_currency cfg)"
    and "dt_execute_transfers cfg dt s ts = (True, s')"
    and "\<And>a w. taken ts a w \<le> x_reserved cfg s a w"
  shows "x_free cfg s' a w = x_free cfg s a w + given ts a w \<and>
    x_reserved cfg s' a w = x_reserved cfg s a w - taken ts a w"
  using assms(2,3)
proof (induction ts arbitrary: s)
  case Nil
  then show ?case by simp
next
  case (Cons t ts)
  from Cons.prems(1) obtain r p where
    p: "c_repatriate_reserved (x_currency cfg) (x_pool s) (tf_asset t) (tf_from t) (tf_to t) (tf_amount t) StatusFree = Inr (r, p)"
    by (auto split: sum.splits)
  define s1 where "s1 = s\<lparr>x_pool := p\<rparr>"
  define s2 where "s2 = (if tf_fee_transfer t then send_trade_fee_event s1 (tf_from t)
      (if tf_from t = int_who (dt_intention_a dt) then dt_intention_a dt else dt_intention_b dt)
      (tf_to t) (tf_asset t) (tf_amount t) else s1)"
  have pool: "x_pool s2 = p" by (simp add: s2_def s1_def send_trade_fee_event_def)
  have run: "dt_execute_transfers cfg dt s2 ts = (True, s')"
    using Cons.prems(1) by (simp add: p Let_def s2_def s1_def cong: if_cong split del: if_split)
  have t: "tf_amount t \<le> x_reserved cfg s (tf_asset t) (tf_from t)"
    using Cons.prems(2) [of "tf_asset t" "tf_from t"] by simp
  have f: "x_free cfg s2 = sheet_add (tf_asset t) (tf_to t) (tf_amount t) (x_free cfg s)"
    and r: "x_reserved cfg s2 = sheet_sub (tf_asset t) (tf_from t) (tf_amount t) (x_reserved cfg s)"
    using t reservable_currency.repatriate_free [OF rc p] reservable_currency.repatriate_reserved [OF rc p] pool
    by (simp_all add: min_absorb1)
  have "taken ts a w \<le> x_reserved cfg s2 a w" for a w
    using Cons.prems(2) [of a w] r by (auto split: if_splits)
  from Cons.IH [OF run this] Cons.prems(2) [of a w] f r show ?case by auto
qed

lemma dt_plan_balanced:
  assumes "dt_reserve_amounts dt fee_a fee_b = (ra, rb)" "fee_a \<le> dt_amount_from_a dt" "fee_b \<le> dt_amount_from_b dt"
    and "2 * dt_amount_from_a dt \<le> u128_max" "2 * dt_amount_from_b dt \<le> u128_max"
    and "asset_in (int_assets (dt_intention_b dt)) = asset_out (int_assets (dt_intention_a dt))"
  shows "taken (dt_new_transfers dt pa fee_a fee_b) a w =
    sheet_add (asset_out (int_assets (dt_intention_a dt))) (int_who (dt_intention_b dt)) rb
     (sheet_add (asset_in (int_assets (dt_intention_a dt))) (int_who (dt_intention_a dt)) ra (\<lambda>_ _. 0)) a w"
proof -
  have w: "wrapping_add u128_max (dt_amount_from_a dt) fee_a = dt_amount_from_a dt + fee_a"
    "wrapping_add u128_max (dt_amount_from_b dt) fee_b = dt_amount_from_b dt + fee_b"
    "wrapping_mul u128_max 2 fee_a = 2 * fee_a" "wrapping_mul u128_max 2 fee_b = 2 * fee_b"
    using assms(2-5) by (simp_all add: wrapping_add_exact wrapping_mul_exact)
  show ?thesis
    using assms(1-3,6)
    by (cases "int_sell_or_buy (dt_intention_a dt)"; cases "int_sell_or_buy (dt_intention_b dt)")
      (auto simp: dt_reserve_amounts_def dt_new_transfers_def w Let_def)
qed

text \<open>
  C23. Reverting a prepared direct trade gives back exactly what its preparation reserved:
  every free and every reserved balance is as before.
\<close>

theorem dt_prepare_revert_restores:
  assumes "reservable_currency (x_currency cfg)"
    and "dt_prepare cfg s dt pa = (True, dt', s')" "dt_transfers dt = []"
    and "asset_in (int_assets (dt_intention_b dt)) = asset_out (int_assets (dt_intention_a dt))"
    and "2 * dt_amount_from_a dt \<le> u128_max" "2 * dt_amount_from_b dt \<le> u128_max"
  shows "x_free cfg (dt_revert cfg s' dt') = x_free cfg s \<and> x_reserved cfg (dt_revert cfg s' dt') = x_reserved cfg s"
  using dt_prepare_True [OF assms(1,2) refl refl refl refl]
proof cases
  case (1 fee_a fee_b ra rb)
  let ?ts = "dt_new_transfers dt pa fee_a fee_b"
  note taken = dt_plan_balanced [OF 1(5,3,4) assms(5,6,4)]
  have le: "taken ?ts a w \<le> x_reserved cfg s' a w" for a w by (simp add: taken 1(8))
  have "dt_revert cfg s' dt' = dt_unreserve_transfers cfg s' ?ts" by (simp add: dt_revert_def 1(6) assms(3))
  with dt_unreserve_transfers_balances [OF assms(1) le] 1(7-10) show ?thesis
    by (intro conjI ext) (auto simp: taken)
qed

text \<open>
  C7. A prepared and executed direct trade settles both sides: a seller pays its amount and
  bears the fee of what it receives, a buyer pays the fee on top and receives its amount in
  full; the fees go to the pool, nothing stays reserved and nothing else moves.
\<close>

theorem dt_settles:
  assumes "reservable_currency (x_currency cfg)"
    and "dt_prepare cfg s dt pa = (True, dt', s')" "dt_execute cfg s' dt' = (True, s'')" "dt_transfers dt = []"
    and "dt_intention_a dt = a" "dt_intention_b dt = b" "dt_amount_from_a dt = x" "dt_amount_from_b dt = y"
    and "asset_in (int_assets a) = A" "asset_out (int_assets a) = B" "asset_in (int_assets b) = B" "A \<noteq> B"
    and "distinct [int_who a, int_who b, pa]" "2 * x \<le> u128_max" "2 * y \<le> u128_max"
    and "x_trade_fee cfg x (amm_get_fee (x_amm cfg) (x_pool s) pa) = Some fx"
    and "x_trade_fee cfg y (amm_get_fee (x_amm cfg) (x_pool s) pa) = Some fy"
  shows "x_reserved cfg s'' = x_reserved cfg s \<and>
    x_free cfg s'' A (int_who a) + (x + (if int_sell_or_buy a = BUY then fx else 0)) = x_free cfg s A (int_who a) \<and>
    x_free cfg s'' B (int_who a) = x_free cfg s B (int_who a) + (y - (if int_sell_or_buy a = SELL then fy else 0)) \<and>
    x_free cfg s'' B (int_who b) + (y + (if int_sell_or_buy b = BUY then fy else 0)) = x_free cfg s B (int_who b) \<and>
    x_free cfg s'' A (int_who b) = x_free cfg s A (int_who b) + (x - (if int_sell_or_buy b = SELL then fx else 0)) \<and>
    x_free cfg s'' A pa = x_free cfg s A pa +
      (if int_sell_or_buy a = BUY then fx else 0) + (if int_sell_or_buy b = SELL then fx else 0) \<and>
    x_free cfg s'' B pa = x_free cfg s B pa +
      (if int_sell_or_buy b = BUY then fy else 0) + (if int_sell_or_buy a = SELL then fy else 0)"
  using dt_prepare_True [OF assms(1,2) refl refl refl refl]
proof cases
  case (1 fa fb ra rb)
  have [simp]: "fa = fx" "fb = fy" using 1(1,2) assms(7,8,16,17) by simp_all
  have fee: "fx \<le> x" "fy \<le> y" and r: "dt_reserve_amounts dt fx fy = (ra, rb)"
    and d: "dt_transfers dt' = dt_new_transfers dt pa fx fy"
    and free: "x_free cfg s' = sheet_sub B (int_who b) rb (sheet_sub A (int_who a) ra (x_free cfg s))"
    and res: "x_reserved cfg s' = sheet_add B (int_who b) rb (sheet_add A (int_who a) ra (x_reserved cfg s))"
    and funds: "ra \<le> x_free cfg s A (int_who a)" "rb \<le> x_free cfg s B (int_who b)"
    using 1 assms(4-12) by simp_all
  let ?ts = "dt_new_transfers dt pa fx fy"
  have taken: "taken ?ts c w = sheet_add B (int_who b) rb (sheet_add A (int_who a) ra (\<lambda>_ _. 0)) c w" for c w
    using dt_plan_balanced [OF r] fee assms by simp
  have le: "taken ?ts c w \<le> x_reserved cfg s' c w" for c w by (simp add: taken res)
  have run: "dt_execute_transfers cfg dt' (send_direct_trade_resolve_event s' dt') ?ts = (True, s'')"
    using assms(3) by (simp add: dt_execute_def d)
  have p: "x_pool (send_direct_trade_resolve_event s' dt') = x_pool s'"
    by (simp add: send_direct_trade_resolve_event_def)
  have bal: "x_free cfg s'' c w = x_free cfg s' c w + given ?ts c w \<and>
      x_reserved cfg s'' c w = x_reserved cfg s' c w - taken ?ts c w" for c w
    using dt_execute_transfers_balances [OF assms(1) run] le by (simp add: p)
  then have "x_reserved cfg s'' = x_reserved cfg s" by (intro ext) (auto simp: taken res)
  moreover have w: "wrapping_add u128_max x fx = x + fx" "wrapping_add u128_max y fy = y + fy"
    "wrapping_mul u128_max 2 fx = 2 * fx" "wrapping_mul u128_max 2 fy = 2 * fy"
    using assms(14,15) fee by (simp_all add: wrapping_add_exact wrapping_mul_exact)
  ultimately show ?thesis
    using r funds fee assms(5-13)
    by (cases "int_sell_or_buy a"; cases "int_sell_or_buy b")
      (auto simp: bal free dt_reserve_amounts_def dt_new_transfers_def Let_def w)
qed

section \<open>When the end of a block cannot panic\<close>

text \<open>
  The amounts of the main intentions are in the proportion \<open>p : q\<close>, those of the matched ones in
  the opposite proportion, without rounding.
\<close>

definition in_proportion :: "nat \<Rightarrow> nat \<Rightarrow> intention \<Rightarrow> bool" where
  "in_proportion p q i \<longleftrightarrow> int_amount_in i * q = int_amount_out i * p"

lemma proportion_order:
  fixes a_in a_out b_in b_out p q :: nat
  assumes "a_in * q = a_out * p" "b_in * p = b_out * q" "0 < p" "0 < q"
  shows "b_out < a_in \<Longrightarrow> b_in < a_out" "a_in < b_out \<Longrightarrow> a_out < b_in"
  using assms by (metis mult_less_cancel2)+

lemma in_proportion_diff:
  assumes "in_proportion p q a" "in_proportion q p b" "int_amount_in c = int_amount_in a - int_amount_out b"
    "int_amount_out c = int_amount_out a - int_amount_in b"
  shows "in_proportion p q c"
  using assms by (simp add: in_proportion_def diff_mult_distrib)

text \<open>One match returns, and leaves the main intention in proportion or used up.\<close>

definition still_matching :: "nat \<Rightarrow> nat \<Rightarrow> intention \<Rightarrow> intention \<Rightarrow> intention \<Rightarrow> bool" where
  "still_matching p q copy m copy' \<longleftrightarrow>
     (int_amount_in copy' = 0 \<longrightarrow> int_amount_in copy \<le> int_amount_out m) \<and>
     (int_amount_in copy' \<noteq> 0 \<longrightarrow> in_proportion p q copy' \<and> int_amount_in copy \<le> int_amount_in copy' + int_amount_out m)"

lemma still_matching_same:
  "in_proportion p q copy \<Longrightarrow> still_matching p q copy m copy"
  by (simp add: still_matching_def)

lemma match_whole_returns:
  assumes "in_proportion p q copy" "in_proportion q p m" "0 < p" "0 < q" "int_amount_out m < int_amount_in copy"
  shows "\<exists>s' copy'. match_whole cfg pa s copy m = Some (s', copy') \<and> still_matching p q copy m copy'"
proof -
  from assms have "int_amount_in m \<le> int_amount_out copy"
    using proportion_order(1) [of "int_amount_in copy" q "int_amount_out copy" p "int_amount_in m" "int_amount_out m"]
    by (auto simp: in_proportion_def)
  with assms(5) have sub: "checked_sub (int_amount_in copy) (int_amount_out m) = Some (int_amount_in copy - int_amount_out m)"
    "checked_sub (int_amount_out copy) (int_amount_in m) = Some (int_amount_out copy - int_amount_in m)"
    by simp_all
  have "still_matching p q copy m (copy\<lparr>int_amount_in := int_amount_in copy - int_amount_out m,
      int_amount_out := int_amount_out copy - int_amount_in m, int_trade_limit := l\<rparr>)" for l
    using assms by (auto simp: still_matching_def intro: in_proportion_diff)
  with still_matching_same [OF assms(1)] show ?thesis
    by (simp add: match_whole_def Let_def sub split: option.splits prod.splits)
qed

lemma match_partial_returns:
  assumes "in_proportion p q copy" "in_proportion q p m" "0 < p" "0 < q" "int_amount_in copy < int_amount_out m"
  shows "\<exists>s' copy'. match_partial cfg pa s copy m = Some (s', copy') \<and> still_matching p q copy m copy'"
proof -
  from assms have "int_amount_out copy \<le> int_amount_in m"
    using proportion_order(2) [of "int_amount_in copy" q "int_amount_out copy" p "int_amount_in m" "int_amount_out m"]
    by (auto simp: in_proportion_def)
  with assms(5) have sub: "checked_sub (int_amount_out m) (int_amount_in copy) = Some (int_amount_out m - int_amount_in copy)"
    "checked_sub (int_amount_in m) (int_amount_out copy) = Some (int_amount_in m - int_amount_out copy)"
    by simp_all
  have "still_matching p q copy m (copy\<lparr>int_amount_in := 0\<rparr>)"
    using assms(5) by (simp add: still_matching_def)
  with still_matching_same [OF assms(1)] show ?thesis
    by (simp add: match_partial_def Let_def sub split: sum.splits prod.splits)
qed

lemma match_exact_returns:
  assumes "in_proportion p q copy" "int_amount_in copy = int_amount_out m"
  shows "\<exists>s' copy'. match_exact cfg pa main s copy m = Some (s', copy') \<and> still_matching p q copy m copy'"
proof -
  have "still_matching p q copy m (copy\<lparr>int_amount_in := 0\<rparr>)"
    using assms(2) by (simp add: still_matching_def)
  with still_matching_same [OF assms(1)] show ?thesis
    by (simp add: match_exact_def Let_def split: option.splits prod.splits)
qed

lemma match_one_returns:
  assumes "in_proportion p q copy" "in_proportion q p m" "0 < p" "0 < q"
  shows "\<exists>s' copy'. match_one cfg pa main s copy m = Some (s', copy') \<and> still_matching p q copy m copy'"
  using match_whole_returns [OF assms] match_partial_returns [OF assms] match_exact_returns [OF assms(1), of m]
  unfolding match_one_def by (cases "int_amount_in copy" "int_amount_out m" rule: linorder_cases) auto

lemma match_all_returns:
  assumes "in_proportion p q copy" "\<forall>m\<in>set ms. in_proportion q p m" "0 < p" "0 < q"
    and "\<forall>j<length ms. sum_list (map int_amount_out (take j ms)) < int_amount_in copy"
  shows "match_all cfg pa main s copy ms \<noteq> None"
  using assms
proof (induction ms arbitrary: s copy)
  case Nil
  then show ?case by simp
next
  case (Cons m ms)
  from Cons.prems obtain s' copy' where
    one: "match_one cfg pa main s copy m = Some (s', copy')" and st: "still_matching p q copy m copy'"
    using match_one_returns [of p q copy m cfg pa main s] by auto
  have later: "int_amount_out m + sum_list (map int_amount_out (take j ms)) < int_amount_in copy" if "j < length ms" for j
    using Cons.prems(5) that by (auto dest: spec [of _ "Suc j"])
  show ?case
  proof (cases ms)
    case Nil
    with one show ?thesis by simp
  next
    case (Cons m' ms')
    with later [of 0] st have "int_amount_in copy' \<noteq> 0" by (auto simp: still_matching_def)
    with st later have "in_proportion p q copy'"
      "\<forall>j<length ms. sum_list (map int_amount_out (take j ms)) < int_amount_in copy'"
      by (auto simp: still_matching_def) (metis add.commute add_less_cancel_left order_less_le_trans)
    with Cons.IH [of copy' s'] Cons.prems(2-4) one show ?thesis by simp
  qed
qed

lemma resolve_matched_returns:
  assumes "in_proportion p q main" "\<forall>m\<in>set bs. in_proportion q p m" "0 < p" "0 < q"
  shows "resolve_matched_intentions cfg s pa main (take_matching (int_amount_in main) bs) \<noteq> None"
proof -
  from take_matching_prefix obtain k where
    k: "take_matching (int_amount_in main) bs = take k bs" "k \<le> length bs"
      "\<forall>j<k. sum_list (map int_amount_out (take j bs)) < int_amount_in main" by blast
  have "match_all cfg pa main s main (take k bs) \<noteq> None"
    by (rule match_all_returns [OF assms(1) _ assms(3,4)])
      (use assms(2) k(2,3) in \<open>auto dest: in_set_takeD simp: min_def\<close>)
  then show ?thesis by (auto simp: resolve_matched_intentions_def k(1))
qed

lemma process_a_returns:
  assumes "\<forall>a\<in>set as. in_proportion p q a" "\<forall>b\<in>set bs. in_proportion q p b" "0 < p" "0 < q"
  shows "process_a_intentions cfg pa bs s k as \<noteq> None"
  using assms(1)
proof (induction as arbitrary: s k)
  case Nil
  then show ?case by simp
next
  case (Cons a as)
  have "resolve_matched_intentions cfg s' pa a (take_matching (int_amount_in a) (drop k bs)) \<noteq> None" for s'
    by (rule resolve_matched_returns [of p q]) (use assms(2-4) Cons.prems in \<open>auto dest: in_set_dropD\<close>)
  then have "\<exists>s2. resolve_matched_intentions cfg s' pa a (take_matching (int_amount_in a) (drop k bs)) = Some s2" for s'
    by auto
  with Cons show ?case by (cases "verify_intention cfg s a") (auto simp: Let_def split: option.split, metis option.distinct(1))
qed

text \<open>
  C28. The end of a block returns for intentions that are exactly in proportion: if the amounts of
  one direction of a pair stand in one ratio and those of the other in the inverse ratio, the
  two panics of the resolver are not reached.
\<close>

theorem process_exchange_returns:
  assumes "\<forall>a\<in>set a_ins. in_proportion p q a" "\<forall>b\<in>set b_ins. in_proportion q p b" "0 < p" "0 < q"
  shows "\<exists>s'. process_exchange_intentions cfg s pa a_ins b_ins = Some s'"
proof -
  have "process_a_intentions cfg pa (sort_intentions b_ins) s 0 (sort_intentions a_ins) \<noteq> None"
    by (rule process_a_returns [of _ p q]) (use assms in \<open>auto simp: sort_intentions_def\<close>)
  then show ?thesis by (auto simp: process_exchange_intentions_def Let_def)
qed

section \<open>A concrete exchange\<close>

definition demo_exchange :: "ledger xyk_state exchange_config" where
  "demo_exchange = \<lparr>
     x_amm = xyk_amm demo_xyk,
     x_currency = xyk_cur demo_xyk,
     x_trade_fee = m_pool_trade_fee formula_math,
     x_hash = (\<lambda>n w b a1 a2. n),
     x_block_number = (\<lambda>_. 1),
     x_iter = (\<lambda>m. case m (1, 2) of None \<Rightarrow> [] | Some n \<Rightarrow> [((1, 2), n)])\<rparr>"

definition demo_exchange_state :: "balance \<Rightarrow> balance \<Rightarrow> ledger xyk_state exchange_state" where
  "demo_exchange_state r1 r2 = \<lparr>
     x_pool = \<lparr>
       xyk_ext = ledger_of [((1, 1012), r1), ((2, 1012), r2), ((2, 7), 9000), ((1, 8), 1000), ((1, 9), 5000)],
       share_token = [1012 \<mapsto> 103], total_liquidity = [1012 \<mapsto> r1],
       pool_assets = [1012 \<mapsto> (1, 2)], xyk_events = []\<rparr>,
     intention_count = Map.empty, x_intentions = Map.empty, x_events = []\<rparr>"

definition demo_intention :: "balance \<Rightarrow> balance \<Rightarrow> intention" where
  "demo_intention x limit = \<lparr>int_who = 7, int_assets = mk_pair 2 1, int_amount_in = x, int_amount_out = x,
     int_trade_limit = limit, int_discount = False, int_sell_or_buy = SELL, int_id = 0\<rparr>"

lemmas exchange_run_simps =
  demo_exchange_def demo_exchange_state_def exchange_sell_def exchange_buy_def register_intention_def
  get_intentions_count_def get_intentions_def generate_intention_id_def x_deposit_event_def
  MIN_TRADING_LIMIT_def xyk_get_spot_price_unchecked_def ordered_pair_def u32_max_def
  exchange_on_finalize_def process_exchange_intentions_def sort_intentions_def verify_intention_def
  validate_intention_def resolve_matched_intentions_def match_one_def match_whole_def match_partial_def
  match_exact_def direct_limit_error_def mk_direct_trade_def dt_prepare_def dt_execute_def dt_revert_def
  dt_reserve_amounts_def dt_new_transfers_def reserve_if_can_def send_intention_error_event_def
  send_insufficient_balance_event_def send_trade_fee_event_def send_direct_trade_resolve_event_def
  execute_amm_transfer_def resolve_single_intention_def xyk_get_fee_def

section \<open>Intentions that go to the pool\<close>

text \<open>
  What a client of a pool's validation can rely on, for any pool that meets the contract: a single
  intention either trades within its limit or leaves the pool as it was, with an error event.
\<close>

context amm
begin

lemma resolve_single_outcome:
  assumes "x_amm cfg = A" "resolve_single_intention cfg s i = s'"
  shows "(x_pool s' = x_pool s \<and> (\<exists>e. s' = send_intention_error_event s i e)) \<or>
    (\<exists>t. tr_origin t = int_who i \<and> tr_assets t = int_assets i \<and>
      (case int_sell_or_buy i of
         SELL \<Rightarrow> int_trade_limit i \<le> tr_amount_out t \<and> int_amount_in i \<le> fb (x_pool s) (asset_in (int_assets i)) (int_who i) \<and>
           amm_execute_sell A (x_pool s) t = Inr (x_pool s')
       | BUY \<Rightarrow> bought t = int_amount_out i \<and> cost t \<le> int_trade_limit i \<and>
           amm_execute_buy A (x_pool s) t = Inr (x_pool s')))"
proof (cases "validate_intention cfg s i")
  case (Inl e)
  with assms(2) show ?thesis by (auto simp: resolve_single_intention_def send_intention_error_event_def)
next
  case (Inr t)
  show ?thesis
  proof (cases "execute_amm_transfer cfg s (int_sell_or_buy i) (int_id i) t")
    case Inl
    with Inr assms(2) show ?thesis by (auto simp: resolve_single_intention_def send_intention_error_event_def)
  next
    case (Inr s1)
    with \<open>validate_intention cfg s i = Inr t\<close> assms have s1: "s1 = s'" by (simp add: resolve_single_intention_def)
    show ?thesis
    proof (cases "int_sell_or_buy i")
      case SELL
      with \<open>validate_intention cfg s i = Inr t\<close> assms(1) have
        v: "amm_validate_sell A (x_pool s) (int_who i) (int_assets i) (int_amount_in i) (int_trade_limit i) (int_discount i) = Inr t"
        by (simp add: validate_intention_def)
      from Inr s1 SELL assms(1) have "amm_execute_sell A (x_pool s) t = Inr (x_pool s')"
        by (auto simp: execute_amm_transfer_def)
      with SELL sell_trade [OF v] sell_limit [OF v] sell_funds [OF v] show ?thesis by auto
    next
      case BUY
      with \<open>validate_intention cfg s i = Inr t\<close> assms(1) have
        v: "amm_validate_buy A (x_pool s) (int_who i) (int_assets i) (int_amount_out i) (int_trade_limit i) (int_discount i) = Inr t"
        by (simp add: validate_intention_def)
      from Inr s1 BUY assms(1) have "amm_execute_buy A (x_pool s) t = Inr (x_pool s')"
        by (auto simp: execute_amm_transfer_def)
      with BUY buy_trade [OF v] buy_amount [OF v] buy_limit [OF v] show ?thesis by auto
    qed
  qed
qed

end

text \<open>
  C35. An intention resolved through the constant-product pool either trades for its owner within
  its limit, a sell for at least the limit and a buy of exactly its amount for at most
  the limit, or leaves the pool untouched and emits the error.
\<close>

theorem exchange_single_on_xyk:
  assumes "x_amm cfg = xyk_amm pool_cfg" "resolve_single_intention cfg s i = s'"
  shows "(x_pool s' = x_pool s \<and> (\<exists>e. s' = send_intention_error_event s i e)) \<or>
    (\<exists>t. tr_origin t = int_who i \<and> tr_assets t = int_assets i \<and>
      (case int_sell_or_buy i of
         SELL \<Rightarrow> int_trade_limit i \<le> tr_amount_out t \<and>
           int_amount_in i \<le> xyk_free pool_cfg (x_pool s) (asset_in (int_assets i)) (int_who i) \<and>
           xyk_execute_sell pool_cfg (x_pool s) t = Inr (x_pool s')
       | BUY \<Rightarrow> tr_amount t = int_amount_out i \<and> tr_amount_out t + snd (tr_fee t) \<le> int_trade_limit i \<and>
           xyk_execute_buy pool_cfg (x_pool s) t = Inr (x_pool s')))"
  using xyk.resolve_single_outcome [OF assms]
  by (cases "int_sell_or_buy i") (simp_all add: xyk_bought_def xyk_cost_def)

theorem exchange_single_on_xyk_witness:
  "\<exists>s' t. resolve_single_intention demo_exchange (demo_exchange_state 100000 130000) (demo_intention 2607 0) = s' \<and>
     xyk_execute_sell demo_xyk (x_pool (demo_exchange_state 100000 130000)) t = Inr (x_pool s')"
proof -
  let ?s = "demo_exchange_state 100000 130000"
  have cfg: "x_amm demo_exchange = xyk_amm demo_xyk" by (simp add: demo_exchange_def)
  have ne: "x_events (resolve_single_intention demo_exchange ?s (demo_intention 2607 0)) \<noteq>
      x_events (send_intention_error_event ?s (demo_intention 2607 0) e)" for e
    by (simp add: demo_intention_def exchange_run_simps xyk_run_simps)
  then have "resolve_single_intention demo_exchange ?s (demo_intention 2607 0) \<noteq>
      send_intention_error_event ?s (demo_intention 2607 0) e" for e by metis
  with exchange_single_on_xyk [OF cfg refl, of ?s "demo_intention 2607 0"] show ?thesis
    by (simp add: demo_intention_def) blast
qed


text \<open>
  A failed preparation is not undone: account 8 can pay for its purchase but not the fee,
  so its reservation fails after that of account 7 was made, nothing is recorded to be
  reverted, and the 1000 units of account 7 are still reserved when the block ends.
\<close>

lemma exchange_failed_prepare_keeps_reserve:
  "\<exists>s1 s2 s3. exchange_sell demo_exchange (demo_exchange_state 100000 100000) (Signed 7) 2 1 2000 0 False = Inr s1 \<and>
     exchange_buy demo_exchange s1 (Signed 8) 2 1 1000 5000 False = Inr s2 \<and>
     exchange_on_finalize demo_exchange s2 = Some s3 \<and>
     x_reserved demo_exchange s2 2 7 = 0 \<and> x_reserved demo_exchange s3 2 7 = 1000"
  by (simp add: exchange_run_simps xyk_run_simps)

section \<open>Concrete instances\<close>

theorem exchange_reachable_invariant_witness:
  "\<exists>s1. exchange_sell demo_exchange (demo_exchange_state 100000 130000) (Signed 7) 2 1 2607 0 False = Inr s1 \<and> exchange_inv s1"
proof -
  have "\<exists>s1. exchange_sell demo_exchange (demo_exchange_state 100000 130000) (Signed 7) 2 1 2607 0 False = Inr s1"
    by (simp add: exchange_run_simps xyk_run_simps)
  then obtain s1 where
    s1: "exchange_sell demo_exchange (demo_exchange_state 100000 130000) (Signed 7) 2 1 2607 0 False = Inr s1" ..
  have "exchange_reachable demo_exchange (demo_exchange_state 100000 130000)"
    unfolding demo_exchange_state_def by (rule exchange_reachable.genesis)
  from exchange_reachable_invariant [OF exchange_reachable.sell [OF this s1]] s1 show ?thesis by blast
qed

theorem take_matching_shortest_cover_witness:
  "\<exists>k. take_matching 1000 [demo_intention 600 0, demo_intention 700 0, demo_intention 5 0] =
     take k [demo_intention 600 0, demo_intention 700 0, demo_intention 5 0]"
  using take_matching_shortest_cover by blast

theorem process_exchange_returns_witness:
  "\<exists>s'. process_exchange_intentions demo_exchange (demo_exchange_state 100000 100000) 1012
     [demo_intention 2000 0] [(demo_intention 1000 0)\<lparr>int_who := 9, int_assets := mk_pair 1 2\<rparr>] = Some s'"
  by (rule process_exchange_returns [of _ 1 1]) (simp_all add: in_proportion_def demo_intention_def)

lemma demo_exchange_currency: "reservable_currency (x_currency demo_exchange)"
  using reservable_currency_lift [OF ledger.reservable_currency_axioms, of xyk_ext xyk_put]
  by (simp add: demo_exchange_def demo_xyk_def xyk_cur_def xyk_put_def)

definition demo_trade :: direct_trade where
  "demo_trade = mk_direct_trade (demo_intention 1000 0)
     ((demo_intention 1000 0)\<lparr>int_who := 9, int_assets := mk_pair 1 2\<rparr>) 1000 1000"

lemmas demo_trade_simps = demo_trade_def demo_intention_def mk_direct_trade_def mk_pair_def

theorem dt_prepare_revert_restores_witness:
  "\<exists>dt' s'. dt_prepare demo_exchange (demo_exchange_state 100000 100000) demo_trade 1012 = (True, dt', s') \<and>
     x_reserved demo_exchange s' 2 7 = 1000 \<and>
     x_free demo_exchange (dt_revert demo_exchange s' dt') = x_free demo_exchange (demo_exchange_state 100000 100000)"
proof -
  have "\<exists>dt' s'. dt_prepare demo_exchange (demo_exchange_state 100000 100000) demo_trade 1012 = (True, dt', s') \<and>
      x_reserved demo_exchange s' 2 7 = 1000"
    by (simp add: demo_trade_simps exchange_run_simps xyk_run_simps)
  then obtain dt' s' where
    p: "dt_prepare demo_exchange (demo_exchange_state 100000 100000) demo_trade 1012 = (True, dt', s')"
    and r: "x_reserved demo_exchange s' 2 7 = 1000" by blast
  from dt_prepare_revert_restores [OF demo_exchange_currency p] p r show ?thesis
    by (simp add: demo_trade_simps u128_max_def)
qed

theorem dt_settles_witness:
  "\<exists>dt' s' s''. dt_prepare demo_exchange (demo_exchange_state 100000 100000) demo_trade 1012 = (True, dt', s') \<and>
     dt_execute demo_exchange s' dt' = (True, s'') \<and>
     x_free demo_exchange s'' 2 7 + 1000 = x_free demo_exchange (demo_exchange_state 100000 100000) 2 7 \<and>
     x_free demo_exchange s'' 1 7 = x_free demo_exchange (demo_exchange_state 100000 100000) 1 7 + 998"
proof -
  have "\<exists>dt' s' s''. dt_prepare demo_exchange (demo_exchange_state 100000 100000) demo_trade 1012 = (True, dt', s') \<and>
      dt_execute demo_exchange s' dt' = (True, s'')"
    by (simp add: demo_trade_simps exchange_run_simps xyk_run_simps)
  then obtain dt' s' s'' where
    p: "dt_prepare demo_exchange (demo_exchange_state 100000 100000) demo_trade 1012 = (True, dt', s')"
    and e: "dt_execute demo_exchange s' dt' = (True, s'')" by blast
  have fee: "x_trade_fee demo_exchange 1000 (amm_get_fee (x_amm demo_exchange)
      (x_pool (demo_exchange_state 100000 100000)) 1012) = Some 2"
    by (simp add: exchange_run_simps xyk_run_simps)
  have t: "dt_transfers demo_trade = []" "dt_amount_from_a demo_trade = 1000" "dt_amount_from_b demo_trade = 1000"
    by (simp_all add: demo_trade_simps)
  from dt_settles [OF demo_exchange_currency p e t(1) refl refl t(2,3) refl refl _ _ _ _ _ fee fee] p e show ?thesis
    by (simp add: demo_trade_simps u128_max_def)
qed

end
