(* ===== verification/NFT_Props.thy ===== *)
theory NFT_Props
  imports NFT
begin

text \<open>
  The properties of the NFT pallet: its two maps describe exactly the classes and tokens of the
  store below it, only an owner moves or destroys a token, and the classes of the runtime are
  out of reach of the users' extrinsics.
\<close>

section \<open>The maps describe the store\<close>

definition nft_inv :: "'u nft_config \<Rightarrow> 'u nft_state \<Rightarrow> bool" where
  "nft_inv cfg s \<longleftrightarrow>
     (\<forall>c. nft_classes s c = None \<longleftrightarrow> nft_class_owner cfg s c = None) \<and>
     (\<forall>c i. nft_instances s (c, i) = None \<longleftrightarrow> nft_owner cfg s c i = None)"

text \<open>
  A step is a successful extrinsic, a call of one of the functions the other pallets use, or a
  change outside the pallet that leaves the token store alone: the runtime filters the
  extrinsics of the store itself.
\<close>

inductive nft_step :: "'u nft_config \<Rightarrow> 'u nft_state \<Rightarrow> 'u nft_state \<Rightarrow> bool" for cfg where
  create: "nft_create_class cfg s orig c ty md = Inr s' \<Longrightarrow> nft_step cfg s s'"
| mint: "nft_mint cfg s orig c i md = Inr s' \<Longrightarrow> nft_step cfg s s'"
| transfer: "nft_transfer cfg s orig c i dest = Inr s' \<Longrightarrow> nft_step cfg s s'"
| burn: "nft_burn cfg s orig c i = Inr s' \<Longrightarrow> nft_step cfg s s'"
| destroy: "nft_destroy_class cfg s orig c = Inr s' \<Longrightarrow> nft_step cfg s s'"
| do_create: "nft_do_create_class cfg s w c ty md = Inr (r, s') \<Longrightarrow> nft_step cfg s s'"
| do_mint: "nft_do_mint cfg s w c i md = Inr (j, s') \<Longrightarrow> nft_step cfg s s'"
| do_burn: "nft_do_burn cfg s w c i = Inr s' \<Longrightarrow> nft_step cfg s s'"
| outside: "u_owner (nft_uniques cfg) u = u_owner (nft_uniques cfg) (nft_ext s) \<Longrightarrow>
    u_class_owner (nft_uniques cfg) u = u_class_owner (nft_uniques cfg) (nft_ext s) \<Longrightarrow>
    nft_step cfg s (s\<lparr>nft_ext := u\<rparr>)"

inductive nft_reachable :: "'u nft_config \<Rightarrow> 'u nft_state \<Rightarrow> bool" for cfg where
  genesis: "u_owner (nft_uniques cfg) u = (\<lambda>_ _. None) \<Longrightarrow> u_class_owner (nft_uniques cfg) u = (\<lambda>_. None) \<Longrightarrow>
    nft_reachable cfg \<lparr>nft_ext = u, nft_classes = Map.empty, nft_instances = Map.empty, nft_events = []\<rparr>"
| step: "nft_reachable cfg s \<Longrightarrow> nft_step cfg s s' \<Longrightarrow> nft_reachable cfg s'"

context nft_store
begin

lemmas store_laws =
  create_class_owner [THEN conjunct2] create_owner mint_owner [THEN conjunct2] mint_class
  transfer_owner [THEN conjunct2] transfer_class burn_owner [THEN conjunct2] burn_class
  destroy_owner [THEN conjunct2, THEN conjunct1] destroy_owner [THEN conjunct2, THEN conjunct2]

lemma inv_do_create:
  assumes "nft_inv cfg s" "nft_do_create_class cfg s w c ty md = Inr (r, s')"
  shows "nft_inv cfg s'"
  using assms by (auto simp: nft_inv_def nft_do_create_class_def Let_def nft_class_owner_def nft_owner_def store_laws)

lemma inv_do_mint:
  assumes "nft_inv cfg s" "nft_do_mint cfg s w c i md = Inr (j, s')"
  shows "nft_inv cfg s'"
  using assms by (auto simp: nft_inv_def nft_do_mint_def Let_def nft_class_owner_def nft_owner_def store_laws)

lemma inv_do_transfer:
  assumes "nft_inv cfg s" "nft_do_transfer cfg s c i v w = Inr s'"
  shows "nft_inv cfg s'"
  using assms nft.move_only_owner [OF assms(2)]
  by (auto simp: nft_inv_def nft_do_transfer_def Let_def nft_class_owner_def nft_owner_def store_laws split: if_splits)

lemma inv_do_burn:
  assumes "nft_inv cfg s" "nft_do_burn cfg s w c i = Inr s'"
  shows "nft_inv cfg s'"
  using assms by (auto simp: nft_inv_def nft_do_burn_def Let_def nft_class_owner_def nft_owner_def store_laws)

lemma inv_do_destroy:
  assumes "nft_inv cfg s" "nft_do_destroy_class cfg s w c = Inr s'"
  shows "nft_inv cfg s'"
  using assms by (auto simp: nft_inv_def nft_do_destroy_class_def Let_def nft_class_owner_def nft_owner_def store_laws
      witness_instances split: if_splits)

lemma only_owner:
  "nft_transfer cfg s (Signed who) c i dest = Inr s' \<Longrightarrow> nft_lookup cfg dest = Some to \<Longrightarrow> to \<noteq> who \<Longrightarrow>
     nft_owner cfg s c i = Some who \<and> nft_owner cfg s' = owner_set c i (Some to) (nft_owner cfg s)"
  "nft_burn cfg s (Signed who) c i = Inr s' \<Longrightarrow>
     nft_owner cfg s c i = Some who \<and> nft_owner cfg s' = owner_set c i None (nft_owner cfg s)"
  by (auto simp: nft_transfer_def nft_burn_def nft.move_sets nft.burn_clears
      dest: nft.move_only_owner nft.burn_only_owner)

lemma inv_step:
  assumes "nft_step cfg s s'" "nft_inv cfg s"
  shows "nft_inv cfg s'"
  using assms(1)
proof cases
  case create
  with assms(2) show ?thesis by (auto simp: nft_create_class_def intro: inv_do_create)
next
  case mint
  with assms(2) show ?thesis by (auto simp: nft_mint_def intro: inv_do_mint)
next
  case transfer
  with assms(2) show ?thesis by (auto simp: nft_transfer_def intro: inv_do_transfer)
next
  case burn
  with assms(2) show ?thesis by (auto simp: nft_burn_def intro: inv_do_burn)
next
  case destroy
  with assms(2) show ?thesis by (auto simp: nft_destroy_class_def intro: inv_do_destroy)
next
  case do_create
  with assms(2) show ?thesis by (rule inv_do_create)
next
  case do_mint
  with assms(2) show ?thesis by (rule inv_do_mint)
next
  case do_burn
  with assms(2) show ?thesis by (rule inv_do_burn)
next
  case (outside u)
  with assms(2) show ?thesis by (simp add: nft_inv_def nft_class_owner_def nft_owner_def)
qed

end

section \<open>A concrete instance\<close>

definition demo_nft :: "registry nft_config" where
  "demo_nft = \<lparr>nft_uniques = registry_ops, nft_reserve_class_id_up_to = 99, nft_class_deposit = 10,
     nft_lookup = Some, nft_unlookup = id\<rparr>"

definition demo_nft_genesis :: "registry nft_state" where
  "demo_nft_genesis = \<lparr>nft_ext = \<lparr>rg_classes = Map.empty, rg_tokens = []\<rparr>, nft_classes = Map.empty,
     nft_instances = Map.empty, nft_events = []\<rparr>"

text \<open>Class 100 of users with token 5 of account 8, and class 1 of liquidity mining.\<close>

definition demo_nft_state :: "registry nft_state" where
  "demo_nft_state = \<lparr>nft_ext = \<lparr>rg_classes = [100 \<mapsto> 7, 1 \<mapsto> 50], rg_tokens = [((100, 5), 8), ((1, 5), 8)]\<rparr>,
     nft_classes = [100 \<mapsto> \<lparr>ci_class_type = MarketplaceClass, ci_metadata = []\<rparr>,
       1 \<mapsto> \<lparr>ci_class_type = LiquidityMiningClass, ci_metadata = []\<rparr>],
     nft_instances = [(100, 5) \<mapsto> \<lparr>ii_metadata = []\<rparr>, (1, 5) \<mapsto> \<lparr>ii_metadata = []\<rparr>], nft_events = []\<rparr>"

interpretation demo_nft: nft_store demo_nft
  using registry.uniques_axioms by (simp add: nft_store_def demo_nft_def)

lemmas nft_run_simps =
  demo_nft_def demo_nft_genesis_def registry_ops_def rg_set_def rg_owner_def Let_def nft_deposit_event_def
  nft_create_class_def nft_mint_def nft_transfer_def nft_burn_def nft_destroy_class_def
  nft_do_create_class_def nft_do_mint_def nft_do_transfer_def nft_do_burn_def nft_do_destroy_class_def
  nft_owner_def nft_class_owner_def default_class_type_def

section \<open>Properties\<close>

text \<open>
  C15. In every state the pallet reaches over a token store that keeps its contract, a class is
  recorded exactly when the store has an owner for it and a token exactly when the store has
  an owner for it.
\<close>

theorem nft_reachable_invariant:
  assumes "nft_store cfg" "nft_reachable cfg s"
  shows "nft_inv cfg s"
  using assms(2)
proof induction
  case (genesis u)
  then show ?case by (simp add: nft_inv_def nft_class_owner_def nft_owner_def)
next
  case (step s s')
  with nft_store.inv_step [OF assms(1)] show ?case by blast
qed

theorem nft_reachable_invariant_witness:
  "\<exists>s1 s2. nft_create_class demo_nft demo_nft_genesis (Signed 7) 100 MarketplaceClass [] = Inr s1 \<and>
     nft_mint demo_nft s1 (Signed 8) 100 5 [] = Inr s2 \<and> nft_inv demo_nft s2 \<and> nft_instances s2 (100, 5) \<noteq> None"
proof -
  have "\<exists>s1 s2. nft_create_class demo_nft demo_nft_genesis (Signed 7) 100 MarketplaceClass [] = Inr s1 \<and>
     nft_mint demo_nft s1 (Signed 8) 100 5 [] = Inr s2 \<and> nft_instances s2 (100, 5) \<noteq> None"
    by (simp add: nft_run_simps)
  then obtain s1 s2 where s: "nft_create_class demo_nft demo_nft_genesis (Signed 7) 100 MarketplaceClass [] = Inr s1"
    "nft_mint demo_nft s1 (Signed 8) 100 5 [] = Inr s2" "nft_instances s2 (100, 5) \<noteq> None" by blast
  have "nft_reachable demo_nft demo_nft_genesis"
    unfolding demo_nft_genesis_def by (rule nft_reachable.genesis) (simp_all add: nft_run_simps fun_eq_iff)
  then have "nft_reachable demo_nft s2"
    by (blast intro: s nft_reachable.step nft_step.create nft_step.mint)
  from nft_reachable_invariant [OF demo_nft.nft_store_axioms this] s show ?thesis by blast
qed

text \<open>
  C30. Only the owner of a token can transfer it to someone else or burn it, and both touch that
  token alone.
\<close>

theorem nft_only_owner:
  assumes "nft_store cfg"
  shows "(nft_transfer cfg s (Signed who) c i dest = Inr s' \<longrightarrow> nft_lookup cfg dest = Some to \<longrightarrow> to \<noteq> who \<longrightarrow>
      nft_owner cfg s c i = Some who \<and> nft_owner cfg s' = owner_set c i (Some to) (nft_owner cfg s)) \<and>
    (nft_burn cfg s (Signed who) c i = Inr s' \<longrightarrow>
      nft_owner cfg s c i = Some who \<and> nft_owner cfg s' = owner_set c i None (nft_owner cfg s))"
  using nft_store.only_owner [OF assms] by blast

theorem nft_only_owner_witness:
  "\<exists>s1. nft_burn demo_nft demo_nft_state (Signed 8) 100 5 = Inr s1 \<and> nft_owner demo_nft s1 100 5 = None"
proof -
  have "\<exists>s1. nft_burn demo_nft demo_nft_state (Signed 8) 100 5 = Inr s1"
    by (simp add: demo_nft_state_def nft_run_simps)
  then obtain s1 where s1: "nft_burn demo_nft demo_nft_state (Signed 8) 100 5 = Inr s1" ..
  from nft_only_owner [OF demo_nft.nft_store_axioms, of demo_nft_state 8 100 5 0 s1 0] s1 show ?thesis by auto
qed

text \<open>
  C31. The deposit tokens of liquidity mining are out of reach of the users: in a class of that
  type the mint, burn and destroy extrinsics fail with NotPermitted for every signed origin,
  and a class with a reserved id cannot be created.
\<close>

theorem nft_mining_class_protected:
  assumes "nft_classes s c = Some info" "ci_class_type info = LiquidityMiningClass"
  shows "nft_mint cfg s (Signed who) c i md = Inl (NFT NotPermitted) \<and>
    nft_burn cfg s (Signed who) c i = Inl (NFT NotPermitted) \<and>
    nft_destroy_class cfg s (Signed who) c = Inl (NFT NotPermitted) \<and>
    (d \<le> nft_reserve_class_id_up_to cfg \<longrightarrow> nft_create_class cfg s (Signed who) d ty md = Inl (NFT IdReserved))"
  using assms by (simp add: nft_mint_def nft_burn_def nft_destroy_class_def nft_create_class_def)

theorem nft_mining_class_protected_witness:
  "nft_burn demo_nft demo_nft_state (Signed 8) 1 5 = Inl (NFT NotPermitted)"
  using nft_mining_class_protected [of demo_nft_state 1 "\<lparr>ci_class_type = LiquidityMiningClass, ci_metadata = []\<rparr>"]
  by (simp add: demo_nft_state_def)

end
