(* ===== verification/LM_Invariant.thy ===== *)
theory LM_Invariant
  imports Liquidity_Mining
begin

text \<open>
  The lemmas behind the properties of liquidity mining: what each operation leaves alone, the
  arithmetic of deposit ids, the invariant of farms, pools, metadata and deposits, the effect of
  each extrinsic on the pallet's maps, and that every step keeps the invariant.
\<close>

section \<open>What the operations leave alone\<close>

definition lm_store ::
  "'u lm_state \<Rightarrow> nat \<times> nat \<times> (nat \<rightharpoonup> global_pool) \<times> (nat \<times> account_id \<rightharpoonup> liq_pool) \<times> (instance_id \<rightharpoonup> deposit)
     \<times> (nat \<rightharpoonup> asset_pair \<times> nat \<times> nat)" where
  "lm_store s = (pool_id_sequencer s, nft_instance_sequencer s, global_pool_data s, liquidity_pool_data s,
     deposit_data s, liq_pool_metadata s)"

lemma lm_store_eq:
  "lm_store s = lm_store t \<longleftrightarrow> pool_id_sequencer s = pool_id_sequencer t \<and>
     nft_instance_sequencer s = nft_instance_sequencer t \<and> global_pool_data s = global_pool_data t \<and>
     liquidity_pool_data s = liquidity_pool_data t \<and> deposit_data s = deposit_data t \<and>
     liq_pool_metadata s = liq_pool_metadata t"
  by (simp add: lm_store_def)

lemma lm_put_sel [simp]:
  "lm_ext (lm_put w s) = w" "lm_store (lm_put w s) = lm_store s"
  "pool_id_sequencer (lm_put w s) = pool_id_sequencer s"
  "nft_instance_sequencer (lm_put w s) = nft_instance_sequencer s"
  "global_pool_data (lm_put w s) = global_pool_data s"
  "liquidity_pool_data (lm_put w s) = liquidity_pool_data s"
  "deposit_data (lm_put w s) = deposit_data s"
  "liq_pool_metadata (lm_put w s) = liq_pool_metadata s"
  by (simp_all add: lm_put_def lm_store_def)

lemma lm_deposit_event_sel [simp]:
  "lm_ext (lm_deposit_event ev s) = lm_ext s" "lm_store (lm_deposit_event ev s) = lm_store s"
  "pool_id_sequencer (lm_deposit_event ev s) = pool_id_sequencer s"
  "nft_instance_sequencer (lm_deposit_event ev s) = nft_instance_sequencer s"
  "global_pool_data (lm_deposit_event ev s) = global_pool_data s"
  "liquidity_pool_data (lm_deposit_event ev s) = liquidity_pool_data s"
  "deposit_data (lm_deposit_event ev s) = deposit_data s"
  "liq_pool_metadata (lm_deposit_event ev s) = liq_pool_metadata s"
  by (simp_all add: lm_deposit_event_def lm_store_def)

lemma lm_write_pools_sel [simp]:
  "lm_ext (lm_write_pools f a gp lq s) = lm_ext s"
  "pool_id_sequencer (lm_write_pools f a gp lq s) = pool_id_sequencer s"
  "nft_instance_sequencer (lm_write_pools f a gp lq s) = nft_instance_sequencer s"
  "global_pool_data (lm_write_pools f a gp lq s) = (global_pool_data s)(f \<mapsto> gp)"
  "liquidity_pool_data (lm_write_pools f a gp lq s) = (liquidity_pool_data s)((f, a) \<mapsto> lq)"
  "deposit_data (lm_write_pools f a gp lq s) = deposit_data s"
  "liq_pool_metadata (lm_write_pools f a gp lq s) = liq_pool_metadata s"
  by (simp_all add: lm_write_pools_def)

lemma lm_transfer_eq_Inr [simp, result_simps]:
  "c_transfer (lm_cur cfg) s a f t x = Inr s' \<longleftrightarrow>
     (\<exists>w. c_transfer (lm_currency cfg) (lm_ext s) a f t x = Inr w \<and> s' = lm_put w s)"
  by (auto simp: lm_cur_def lift_currency_def)

lemma lm_pool_account_id_eq_Inr [simp, result_simps]:
  "lm_pool_account_id cfg pid = Inr acc \<longleftrightarrow> pid \<noteq> 0 \<and> acc = lm_sub_account cfg pid"
  by (auto simp: lm_pool_account_id_def lm_validate_pool_id_def)

lemma lm_get_now_period_eq_Inr [simp, result_simps]:
  "lm_get_now_period cfg s n = Inr p \<longleftrightarrow> n \<noteq> 0 \<and> p = lm_current_block_number cfg (lm_ext s) div n"
  by (auto simp: lm_get_now_period_def lm_get_period_number_def)

section \<open>The update of a farm and its pool\<close>

text \<open>The fields of a farm and of a pool that accruing rewards never changes.\<close>

definition gp_fixed :: "global_pool \<Rightarrow> global_pool" where
  "gp_fixed gp = gp\<lparr>gp_updated_at := 0, gp_accumulated_rpz := 0, gp_accumulated_rewards := 0,
     gp_paid_accumulated_rewards := 0\<rparr>"

definition lq_fixed :: "liq_pool \<Rightarrow> liq_pool" where
  "lq_fixed lq = lq\<lparr>lq_updated_at := 0, lq_accumulated_rpvs := 0, lq_accumulated_rpz := 0\<rparr>"

lemma gp_fixedD:
  assumes "gp_fixed gp = gp_fixed gq"
  shows "gp_id gp = gp_id gq" "gp_owner gp = gp_owner gq" "gp_total_shares_z gp = gp_total_shares_z gq"
    "gp_reward_currency gp = gp_reward_currency gq" "gp_liq_pools_count gp = gp_liq_pools_count gq"
    "gp_incentivized_asset gp = gp_incentivized_asset gq" "gp_blocks_per_period gp = gp_blocks_per_period gq"
  using assms by (cases gp; cases gq; simp add: gp_fixed_def)+

lemma lq_fixedD:
  assumes "lq_fixed lq = lq_fixed lr"
  shows "lq_id lq = lq_id lr" "lq_total_shares lq = lq_total_shares lr"
    "lq_total_valued_shares lq = lq_total_valued_shares lr" "lq_stake_in_global_pool lq = lq_stake_in_global_pool lr"
    "lq_multiplier lq = lq_multiplier lr" "lq_canceled lq = lq_canceled lr"
    "lq_loyalty_curve lq = lq_loyalty_curve lr"
  using assms by (cases lq; cases lr; simp add: lq_fixed_def)+

lemma lm_accrue_reward_effect:
  assumes "lm_accrue_reward cfg gp r = Inr gp'"
  shows "gp_fixed gp' = gp_fixed gp" "gp_accumulated_rewards gp' = gp_accumulated_rewards gp + r"
    "gp_paid_accumulated_rewards gp' = gp_paid_accumulated_rewards gp"
  using assms by (auto simp: lm_accrue_reward_def gp_fixed_def split: if_splits)

lemma lm_update_global_pool_frame:
  assumes "lm_update_global_pool cfg s gp now r = Inr (gp', s')"
  shows "gp_fixed gp' = gp_fixed gp" "lm_store s' = lm_store s" "lm_ext s' = lm_ext s"
  using assms by (auto simp: lm_update_global_pool_def Let_def split: if_splits dest!: lm_accrue_reward_effect(1))
    (simp_all add: gp_fixed_def)

lemma lm_maybe_update_global_pool_frame:
  assumes "lm_maybe_update_global_pool cfg s gp now = Inr (gp', s')"
  shows "gp_fixed gp' = gp_fixed gp" "lm_store s' = lm_store s" "lm_ext s' = lm_ext s"
  using assms by (auto simp: lm_maybe_update_global_pool_def dest: lm_update_global_pool_frame split: if_splits)

lemma lm_claim_from_global_pool_frame:
  assumes "lm_claim_from_global_pool gp lq z = Inr (r, gp', lq')"
  shows "gp_fixed gp' = gp_fixed gp" "lq_fixed lq' = lq_fixed lq"
  using assms by (auto simp: lm_claim_from_global_pool_def Let_def gp_fixed_def lq_fixed_def)

lemma lm_update_liq_pool_frame:
  assumes "lm_update_liq_pool cfg s lq r now f c = Inr (lq', s')"
  shows "lq_fixed lq' = lq_fixed lq" "lm_store s' = lm_store s"
  using assms by (auto simp: lm_update_liq_pool_def Let_def lq_fixed_def split: if_splits)

lemma lm_maybe_update_pools_frame:
  assumes "lm_maybe_update_pools cfg s gp lq now = Inr (gp', lq', s')"
  shows "gp_fixed gp' = gp_fixed gp" "lq_fixed lq' = lq_fixed lq" "lm_store s' = lm_store s"
  using assms
  by (auto simp: lm_maybe_update_pools_def split: if_splits)
    (metis lm_maybe_update_global_pool_frame lm_claim_from_global_pool_frame lm_update_liq_pool_frame)+

lemma lm_do_claim_rewards_frame:
  assumes "lm_do_claim_rewards cfg s who d lq now c = Inr (rs, d', s')"
  shows "lm_store s' = lm_store s" "dp_shares d' = dp_shares d" "dp_valued_shares d' = dp_valued_shares d"
    "dp_updated_at d' = now"
  using assms by (auto simp: lm_do_claim_rewards_def Let_def split: if_splits)

section \<open>Deposit ids\<close>

lemma from_le_bytes_to: "from_le_bytes (to_le_bytes k n) = n mod 256 ^ k"
proof -
  have "from_le_bytes (to_le_bytes k (n mod 256 ^ k)) = n mod 256 ^ k"
    by (rule from_to_le_bytes) simp
  then show ?thesis by (simp add: to_le_bytes_mod)
qed

lemma lm_encode_nft_id_eq:
  "lm_encode_nft_id pid sq = pid mod 2 ^ 32 + 2 ^ 32 * (sq mod 2 ^ 96)"
  by (simp add: lm_encode_nft_id_def from_le_bytes_append take_to_le_bytes from_le_bytes_to POOL_ID_BYTES_def
      NFT_SEQUENCE_BYTES_def)

lemma lm_get_pool_id_from_nft_id_eq_Inr [simp, result_simps]:
  "lm_get_pool_id_from_nft_id n = Inr pid \<longleftrightarrow> 2 ^ 32 < n \<and> pid = n mod 2 ^ 32"
  by (auto simp: lm_get_pool_id_from_nft_id_def take_to_le_bytes from_le_bytes_to POOL_ID_BYTES_def)

lemma lm_get_next_nft_id_eq_Inr [simp, result_simps]:
  "lm_get_next_nft_id s pid = Inr (n, s') \<longleftrightarrow> pid \<noteq> 0 \<and> nft_instance_sequencer s + 1 < 2 ^ 96 \<and>
     n = pid mod 2 ^ 32 + 2 ^ 32 * (nft_instance_sequencer s + 1) \<and>
     s' = s\<lparr>nft_instance_sequencer := nft_instance_sequencer s + 1\<rparr>"
  by (auto simp: lm_get_next_nft_id_def lm_validate_pool_id_def lm_encode_nft_id_eq
      MAX_NFT_INSTANCE_SEQUENCER_def u128_max_def)

section \<open>The invariant\<close>

type_synonym pool_map = "nat \<times> account_id \<rightharpoonup> liq_pool"

definition farm_pools :: "pool_map \<Rightarrow> nat \<Rightarrow> account_id set" where
  "farm_pools P f = {a. P (f, a) \<noteq> None}"

definition farm_stake :: "pool_map \<Rightarrow> nat \<Rightarrow> balance" where
  "farm_stake P f = (\<Sum>a\<in>farm_pools P f. lq_stake_in_global_pool (the (P (f, a))))"

text \<open>A farm counts its pools and the sum of their stakes; a pool belongs to an existing farm and
  has metadata that lead back to it; a canceled pool has no stake.\<close>

definition farms_inv ::
  "'u lm_config \<Rightarrow> nat \<Rightarrow> (nat \<rightharpoonup> global_pool) \<Rightarrow> pool_map \<Rightarrow> (nat \<rightharpoonup> asset_pair \<times> nat \<times> nat) \<Rightarrow> bool" where
  "farms_inv cfg sq G P M \<longleftrightarrow>
     sq \<le> u32_max \<and> finite (dom P) \<and>
     (\<forall>f gp. G f = Some gp \<longrightarrow> f \<le> sq \<and> gp_id gp = f \<and> gp_liq_pools_count gp = card (farm_pools P f) \<and>
        gp_total_shares_z gp = farm_stake P f) \<and>
     (\<forall>f a lq. P (f, a) = Some lq \<longrightarrow> G f \<noteq> None \<and> (lq_canceled lq \<longrightarrow> lq_stake_in_global_pool lq = 0) \<and>
        (\<exists>pair n. M (lq_id lq) = Some (pair, n, f) \<and> amm_get_pair_id (lm_amm cfg) pair = a)) \<and>
     (\<forall>i. M i \<noteq> None \<longrightarrow> i \<noteq> 0 \<and> i \<le> sq)"

definition pool_deposits :: "(instance_id \<rightharpoonup> deposit) \<Rightarrow> nat \<Rightarrow> instance_id set" where
  "pool_deposits D i = {n \<in> dom D. n mod 2 ^ 32 = i}"

text \<open>The metadata of a pool count the deposits whose id carries the pool, and are kept as long as
  there is one; ids of deposits were issued by the sequencer.\<close>

definition deposits_inv ::
  "nat \<Rightarrow> (instance_id \<rightharpoonup> deposit) \<Rightarrow> (nat \<rightharpoonup> asset_pair \<times> nat \<times> nat) \<Rightarrow> bool" where
  "deposits_inv sq D M \<longleftrightarrow>
     finite (dom D) \<and> (\<forall>n\<in>dom D. n div 2 ^ 32 \<le> sq) \<and>
     (\<forall>i. card (pool_deposits D i) = (case M i of None \<Rightarrow> 0 | Some (pair, n, f) \<Rightarrow> n))"

definition lm_inv :: "'u lm_config \<Rightarrow> 'u lm_state \<Rightarrow> bool" where
  "lm_inv cfg s \<longleftrightarrow>
     farms_inv cfg (pool_id_sequencer s) (global_pool_data s) (liquidity_pool_data s) (liq_pool_metadata s) \<and>
     deposits_inv (nft_instance_sequencer s) (deposit_data s) (liq_pool_metadata s)"

lemma farm_pools_finite: "finite (dom P) \<Longrightarrow> finite (farm_pools P f)"
  unfolding farm_pools_def dom_def by (rule finite_imageI [of _ snd, THEN rev_finite_subset]) force+

lemma farm_pools_upd [simp]:
  "farm_pools (P((f, a) \<mapsto> lq)) g = (if g = f then insert a (farm_pools P f) else farm_pools P g)"
  "farm_pools (P((f, a) := None)) g = (if g = f then farm_pools P f - {a} else farm_pools P g)"
  by (auto simp: farm_pools_def)

lemma farm_stake_other: "g \<noteq> f \<Longrightarrow> farm_stake (P((f, a) := v)) g = farm_stake P g"
  by (cases v) (simp_all add: farm_stake_def)

text \<open>The stake of a farm is the stake of one account's pool and the rest, which an update there keeps.\<close>

definition farm_stake_rest :: "pool_map \<Rightarrow> nat \<Rightarrow> account_id \<Rightarrow> balance" where
  "farm_stake_rest P f a = (\<Sum>b\<in>farm_pools P f - {a}. lq_stake_in_global_pool (the (P (f, b))))"

lemma farm_stake_rest_upd [simp]: "farm_stake_rest (P((f, a) := v)) f a = farm_stake_rest P f a"
  unfolding farm_stake_rest_def by (rule sum.cong) (auto simp: farm_pools_def)

lemma farm_stake_split:
  assumes "finite (dom P)"
  shows "farm_stake P f = (case P (f, a) of None \<Rightarrow> 0 | Some lq \<Rightarrow> lq_stake_in_global_pool lq) + farm_stake_rest P f a"
proof (cases "P (f, a)")
  case None
  then have "farm_pools P f - {a} = farm_pools P f" by (auto simp: farm_pools_def)
  with None show ?thesis by (simp add: farm_stake_def farm_stake_rest_def)
next
  case (Some lq)
  then have "a \<in> farm_pools P f" by (simp add: farm_pools_def)
  from sum.remove [OF farm_pools_finite [OF assms] this, of "\<lambda>b. lq_stake_in_global_pool (the (P (f, b)))"] Some
  show ?thesis by (simp add: farm_stake_def farm_stake_rest_def)
qed

lemma farm_stake_upd:
  assumes "finite (dom P)"
  shows "farm_stake (P((f, a) := v)) f = (case v of None \<Rightarrow> 0 | Some lq \<Rightarrow> lq_stake_in_global_pool lq) + farm_stake_rest P f a"
proof -
  have "finite (dom (P((f, a) := v)))" using assms by simp
  from farm_stake_split [OF this, of f a] show ?thesis by (simp only: fun_upd_same farm_stake_rest_upd)
qed



lemma farms_invI:
  assumes "sq \<le> u32_max" "finite (dom P)"
    and "\<And>f gp. G f = Some gp \<Longrightarrow> f \<le> sq \<and> gp_id gp = f \<and> gp_liq_pools_count gp = card (farm_pools P f) \<and>
      gp_total_shares_z gp = farm_stake P f"
    and "\<And>f a lq. P (f, a) = Some lq \<Longrightarrow> G f \<noteq> None \<and> (lq_canceled lq \<longrightarrow> lq_stake_in_global_pool lq = 0) \<and>
      (\<exists>pair n. M (lq_id lq) = Some (pair, n, f) \<and> amm_get_pair_id (lm_amm cfg) pair = a)"
    and "\<And>i. M i \<noteq> None \<Longrightarrow> i \<noteq> 0 \<and> i \<le> sq"
  shows "farms_inv cfg sq G P M"
  unfolding farms_inv_def using assms by blast

lemma farms_inv_bound: "farms_inv cfg sq G P M \<Longrightarrow> sq \<le> u32_max" "farms_inv cfg sq G P M \<Longrightarrow> finite (dom P)"
  by (simp_all add: farms_inv_def)

lemma farms_inv_farm:
  assumes "farms_inv cfg sq G P M" "G f = Some gp"
  shows "f \<le> sq" "gp_id gp = f" "gp_liq_pools_count gp = card (farm_pools P f)" "gp_total_shares_z gp = farm_stake P f"
  using assms unfolding farms_inv_def by blast+

lemma farms_inv_pool:
  assumes "farms_inv cfg sq G P M" "P (f, a) = Some lq"
  shows "G f \<noteq> None" "lq_canceled lq \<Longrightarrow> lq_stake_in_global_pool lq = 0"
    "\<exists>pair n. M (lq_id lq) = Some (pair, n, f) \<and> amm_get_pair_id (lm_amm cfg) pair = a"
  using assms unfolding farms_inv_def by blast+

lemma farms_inv_ids:
  assumes "farms_inv cfg sq G P M" "M i \<noteq> None"
  shows "i \<noteq> 0" "i \<le> sq"
  using assms unfolding farms_inv_def by blast+

lemma farms_inv_meta:
  assumes "farms_inv cfg sq G P M" "P (f, a) = Some lq" "M (lq_id lq) = Some (pair, n, g)"
  shows "g = f" "amm_get_pair_id (lm_amm cfg) pair = a"
  using farms_inv_pool(3) [OF assms(1,2)] assms(3) by auto

lemma farms_inv_fresh:
  assumes "farms_inv cfg sq G P M"
  shows "M (sq + 1) = None" "G (sq + 1) = None"
proof -
  show "M (sq + 1) = None" using farms_inv_ids(2) [OF assms, of "sq + 1"] by linarith
  show "G (sq + 1) = None"
    using farms_inv_farm(1) [OF assms, of "sq + 1"] by (cases "G (sq + 1)") auto
qed

text \<open>A change at one farm leaves the clause about the others.\<close>

lemma farms_inv_farm_upd:
  assumes inv: "farms_inv cfg sq G P M" and sq: "sq \<le> sq'" and h: "(G(f \<mapsto> gp')) h = Some hp"
    and gp': "f \<le> sq'" "gp_id gp' = f" "gp_liq_pools_count gp' = card (farm_pools (P((f, a) := v)) f)"
      "gp_total_shares_z gp' = farm_stake (P((f, a) := v)) f"
  shows "h \<le> sq' \<and> gp_id hp = h \<and> gp_liq_pools_count hp = card (farm_pools (P((f, a) := v)) h) \<and>
    gp_total_shares_z hp = farm_stake (P((f, a) := v)) h"
proof (cases "h = f")
  case True
  with h have "hp = gp'" by simp
  with True gp' show ?thesis by (simp only: simp_thms)
next
  case False
  with h have G: "G h = Some hp" by simp
  from False have ps: "farm_pools (P((f, a) := v)) h = farm_pools P h" by (auto simp: farm_pools_def)
  from farms_inv_farm [OF inv G] sq show ?thesis
    by (simp only: ps farm_stake_other [OF False]) simp
qed

text \<open>Replacing a pool and its farm keeps the invariant when the farm's total follows the stake.\<close>

lemma farms_inv_replace:
  assumes inv: "farms_inv cfg sq G P M" and P: "P (f, a) = Some lq" and G: "G f = Some gp"
    and lq: "lq_id lq' = lq_id lq" "lq_canceled lq' \<Longrightarrow> lq_stake_in_global_pool lq' = 0"
    and gp: "gp_id gp' = gp_id gp" "gp_liq_pools_count gp' = gp_liq_pools_count gp"
      "gp_total_shares_z gp' + lq_stake_in_global_pool lq = gp_total_shares_z gp + lq_stake_in_global_pool lq'"
  shows "farms_inv cfg sq (G(f \<mapsto> gp')) (P((f, a) \<mapsto> lq')) M"
proof (rule farms_invI)
  note fin = farms_inv_bound(2) [OF inv] and farm = farms_inv_farm [OF inv] and pool = farms_inv_pool [OF inv]
  have z: "gp_total_shares_z gp' = farm_stake (P((f, a) \<mapsto> lq')) f"
    using gp(3) farm(4) [OF G] farm_stake_split [OF fin, of f a] P by (simp add: farm_stake_upd [OF fin])
  have ps: "farm_pools (P((f, a) \<mapsto> lq')) h = farm_pools P h" for h using P by (auto simp: farm_pools_def)
  show "h \<le> sq \<and> gp_id hp = h \<and> gp_liq_pools_count hp = card (farm_pools (P((f, a) \<mapsto> lq')) h) \<and>
      gp_total_shares_z hp = farm_stake (P((f, a) \<mapsto> lq')) h" if "(G(f \<mapsto> gp')) h = Some hp" for h hp
    using farm [OF G] gp z ps [of f] by (intro farms_inv_farm_upd [OF inv order_refl that]) (simp_all only: simp_thms)
  show "(G(f \<mapsto> gp')) g \<noteq> None \<and> (lq_canceled lr \<longrightarrow> lq_stake_in_global_pool lr = 0) \<and>
      (\<exists>pair n. M (lq_id lr) = Some (pair, n, g) \<and> amm_get_pair_id (lm_amm cfg) pair = b)"
    if "(P((f, a) \<mapsto> lq')) (g, b) = Some lr" for g b lr
    using that pool [of g b lr] pool(3) [OF P] lq by (cases "(g, b) = (f, a)") auto
qed (use farms_inv_bound [OF inv] farms_inv_ids [OF inv] in auto)

lemma farms_inv_add:
  assumes inv: "farms_inv cfg sq G P M" and P: "P (f, a) = None" and G: "G f = Some gp" and sq: "sq + 1 \<le> u32_max"
    and lq: "lq_id lq = sq + 1" "lq_stake_in_global_pool lq = 0"
    and gp: "gp_id gp' = gp_id gp" "gp_liq_pools_count gp' = gp_liq_pools_count gp + 1"
      "gp_total_shares_z gp' = gp_total_shares_z gp"
    and pair: "amm_get_pair_id (lm_amm cfg) pair = a"
  shows "farms_inv cfg (sq + 1) (G(f \<mapsto> gp')) (P((f, a) \<mapsto> lq)) (M(sq + 1 \<mapsto> (pair, 0, f)))"
proof (rule farms_invI)
  note fin = farms_inv_bound(2) [OF inv] and farm = farms_inv_farm [OF inv] and pool = farms_inv_pool [OF inv]
  have z: "gp_total_shares_z gp' = farm_stake (P((f, a) \<mapsto> lq)) f"
    using gp(3) farm(4) [OF G] farm_stake_split [OF fin, of f a] P lq by (simp add: farm_stake_upd [OF fin])
  have c: "card (insert a (farm_pools P f)) = card (farm_pools P f) + 1"
    using P farm_pools_finite [OF fin] by (subst card_insert_disjoint) (auto simp: farm_pools_def)
  show "h \<le> sq + 1 \<and> gp_id hp = h \<and> gp_liq_pools_count hp = card (farm_pools (P((f, a) \<mapsto> lq)) h) \<and>
      gp_total_shares_z hp = farm_stake (P((f, a) \<mapsto> lq)) h" if "(G(f \<mapsto> gp')) h = Some hp" for h hp
    using farm [OF G] gp z c by (intro farms_inv_farm_upd [OF inv _ that]) (simp_all del: fun_upd_apply)
  show "(G(f \<mapsto> gp')) g \<noteq> None \<and> (lq_canceled lr \<longrightarrow> lq_stake_in_global_pool lr = 0) \<and>
      (\<exists>p n. (M(sq + 1 \<mapsto> (pair, 0, f))) (lq_id lr) = Some (p, n, g) \<and> amm_get_pair_id (lm_amm cfg) p = b)"
    if "(P((f, a) \<mapsto> lq)) (g, b) = Some lr" for g b lr
    using that pool [of g b lr] lq pair farms_inv_fresh(1) [OF inv] by (cases "(g, b) = (f, a)") auto
  show "i \<noteq> 0 \<and> i \<le> sq + 1" if "(M(sq + 1 \<mapsto> (pair, 0, f))) i \<noteq> None" for i
    using that farms_inv_ids [OF inv, of i] by (cases "i = sq + 1") auto
qed (use sq farms_inv_bound [OF inv] in auto)

lemma farms_inv_remove:
  assumes inv: "farms_inv cfg sq G P M" and P: "P (f, a) = Some lq" and G: "G f = Some gp"
    and lq: "lq_canceled lq"
    and gp: "gp_id gp' = gp_id gp" "gp_liq_pools_count gp' = gp_liq_pools_count gp - 1"
      "gp_total_shares_z gp' = gp_total_shares_z gp"
  shows "farms_inv cfg sq (G(f \<mapsto> gp')) (P((f, a) := None)) M"
proof (rule farms_invI)
  note fin = farms_inv_bound(2) [OF inv] and farm = farms_inv_farm [OF inv] and pool = farms_inv_pool [OF inv]
  have z: "gp_total_shares_z gp' = farm_stake (P((f, a) := None)) f"
    using gp(3) farm(4) [OF G] farm_stake_split [OF fin, of f a] P pool(2) [OF P lq] by (simp add: farm_stake_upd [OF fin])
  have c: "card (farm_pools P f - {a}) = card (farm_pools P f) - 1"
    using P farm_pools_finite [OF fin] by (subst card_Diff_singleton) (auto simp: farm_pools_def)
  show "h \<le> sq \<and> gp_id hp = h \<and> gp_liq_pools_count hp = card (farm_pools (P((f, a) := None)) h) \<and>
      gp_total_shares_z hp = farm_stake (P((f, a) := None)) h" if "(G(f \<mapsto> gp')) h = Some hp" for h hp
    using farm [OF G] gp z c by (intro farms_inv_farm_upd [OF inv order_refl that]) (simp_all del: fun_upd_apply)
  show "(G(f \<mapsto> gp')) g \<noteq> None \<and> (lq_canceled lr \<longrightarrow> lq_stake_in_global_pool lr = 0) \<and>
      (\<exists>p n. M (lq_id lr) = Some (p, n, g) \<and> amm_get_pair_id (lm_amm cfg) p = b)"
    if "(P((f, a) := None)) (g, b) = Some lr" for g b lr
    using that pool [of g b lr] by (auto split: if_splits)
qed (use farms_inv_bound [OF inv] farms_inv_ids [OF inv] in auto)

lemma farms_inv_create:
  assumes inv: "farms_inv cfg sq G P M" and sq: "sq + 1 \<le> u32_max"
    and gp: "gp_id gp = sq + 1" "gp_liq_pools_count gp = 0" "gp_total_shares_z gp = 0"
  shows "farms_inv cfg (sq + 1) (G(sq + 1 \<mapsto> gp)) P M"
proof -
  have "G (sq + 1) = None" using inv unfolding farms_inv_def by fastforce
  then have "farm_pools P (sq + 1) = {}"
    using inv by (fastforce simp: farm_pools_def farms_inv_def)
  then show ?thesis
    using inv gp sq unfolding farms_inv_def by (auto simp: farm_stake_def intro: le_SucI)
qed

lemma farms_inv_destroy:
  assumes inv: "farms_inv cfg sq G P M" and G: "G f = Some gp" "gp_liq_pools_count gp = 0"
  shows "farms_inv cfg sq (G(f := None)) P M"
proof -
  have "finite (farm_pools P f)" "card (farm_pools P f) = 0"
    using inv G farm_pools_finite unfolding farms_inv_def by fastforce+
  then have "farm_pools P f = {}" by simp
  then show ?thesis
    using inv unfolding farms_inv_def by (auto simp: farm_pools_def)
qed

lemma farms_inv_count:
  assumes "farms_inv cfg sq G P M" "M i = Some (pair, n, f)"
  shows "farms_inv cfg sq G P (M(i \<mapsto> (pair, n', f)))"
  using assms(1) farms_inv_meta [OF assms(1)] assms(2) unfolding farms_inv_def by auto

lemma farms_inv_forget:
  assumes "farms_inv cfg sq G P M" "M i = Some (pair, n, f)" "P (f, amm_get_pair_id (lm_amm cfg) pair) = None"
  shows "farms_inv cfg sq G P (M(i := None))"
proof -
  have "lq_id lq \<noteq> i" if "P (g, a) = Some lq" for g a lq
    using farms_inv_meta [OF assms(1) that] assms(2,3) that by auto
  with assms(1) show ?thesis unfolding farms_inv_def by auto
qed

lemma pool_deposits_upd [simp]:
  "pool_deposits (D(n \<mapsto> d)) i = (if n mod 2 ^ 32 = i then insert n (pool_deposits D i) else pool_deposits D i)"
  "pool_deposits (D(n := None)) i = pool_deposits D i - {n}"
  by (auto simp: pool_deposits_def)

lemma pool_deposits_finite: "finite (dom D) \<Longrightarrow> finite (pool_deposits D i)"
  by (simp add: pool_deposits_def)

lemma deposits_inv_add:
  assumes inv: "deposits_inv sq D M" and M: "M i = Some (pair, c, f)" and i: "i < 2 ^ 32"
  shows "deposits_inv (sq + 1) (D(i + 2 ^ 32 * (sq + 1) \<mapsto> d)) (M(i \<mapsto> (pair, c + 1, f)))"
proof -
  let ?n = "i + 2 ^ 32 * (sq + 1)"
  have n: "?n mod 2 ^ 32 = i" "?n div 2 ^ 32 = sq + 1" using i by (simp_all only: mod_mult_self2 mod_less div_mult_self2) simp_all
  have fresh: "?n \<notin> dom D"
  proof
    assume "?n \<in> dom D"
    with inv have "?n div 2 ^ 32 \<le> sq" unfolding deposits_inv_def by blast
    with n(2) show False by simp
  qed
  then have "card (insert ?n (pool_deposits D i)) = card (pool_deposits D i) + 1"
    using inv by (subst card_insert_disjoint) (auto simp: pool_deposits_def deposits_inv_def)
  with inv M n show ?thesis
    unfolding deposits_inv_def by (auto simp del: fun_upd_apply) (auto intro: le_SucI)
qed

lemma deposits_inv_remove:
  assumes inv: "deposits_inv sq D M" and D: "D n \<noteq> None" and M: "M (n mod 2 ^ 32) = Some (pair, c, f)"
    and v: "v = (if c = 1 \<and> gone then None else Some (pair, c - 1, f))"
  shows "deposits_inv sq (D(n := None)) (M(n mod 2 ^ 32 := v))"
proof -
  have c: "card (pool_deposits D (n mod 2 ^ 32)) = c" using inv M by (auto simp: deposits_inv_def)
  have n: "n \<in> pool_deposits D (n mod 2 ^ 32)" using D by (auto simp: pool_deposits_def)
  have "card (pool_deposits D (n mod 2 ^ 32) - {n}) = c - 1" using c n by simp
  moreover have "pool_deposits D i - {n} = pool_deposits D i" if "i \<noteq> n mod 2 ^ 32" for i
    using that by (auto simp: pool_deposits_def)
  ultimately show ?thesis
    using inv v unfolding deposits_inv_def by auto
qed

lemma deposits_inv_drop_zero:
  assumes "deposits_inv sq D M" "M i = Some (pair, 0, f)"
  shows "deposits_inv sq D (M(i := None))"
  using assms unfolding deposits_inv_def by force

lemma deposits_inv_new_pool:
  assumes "deposits_inv sq D M" "M i = None"
  shows "deposits_inv sq D (M(i \<mapsto> (pair, 0, f)))"
  using assms unfolding deposits_inv_def by (auto split: option.splits)

section \<open>Steps and reachable states\<close>

text \<open>A step is a successful extrinsic, the migration, or any change outside the pallet.\<close>

inductive lm_step :: "'u lm_config \<Rightarrow> 'u lm_state \<Rightarrow> 'u lm_state \<Rightarrow> bool" for cfg where
  create_farm: "lm_create_farm cfg s orig r n b ia rc w y = Inr s' \<Longrightarrow> lm_step cfg s s'"
| destroy_farm: "lm_destroy_farm cfg s orig f = Inr s' \<Longrightarrow> lm_step cfg s s'"
| withdraw_undistributed: "lm_withdraw_undistributed_rewards cfg s orig f = Inr s' \<Longrightarrow> lm_step cfg s s'"
| add_pool: "lm_add_liquidity_pool cfg s orig f pair m c = Inr s' \<Longrightarrow> lm_step cfg s s'"
| update_pool: "lm_update_liquidity_pool cfg s orig f pair m = Inr s' \<Longrightarrow> lm_step cfg s s'"
| cancel_pool: "lm_cancel_liquidity_pool cfg s orig f pair = Inr s' \<Longrightarrow> lm_step cfg s s'"
| resume_pool: "lm_resume_liquidity_pool cfg s orig f pair m = Inr s' \<Longrightarrow> lm_step cfg s s'"
| remove_pool: "lm_remove_liquidity_pool cfg s orig f pair = Inr s' \<Longrightarrow> lm_step cfg s s'"
| deposit: "lm_deposit_shares cfg s orig f pair x = Inr s' \<Longrightarrow> lm_step cfg s s'"
| claim: "lm_claim_rewards cfg s orig n = Inr s' \<Longrightarrow> lm_step cfg s s'"
| withdraw: "lm_withdraw_shares cfg s orig n = Inr s' \<Longrightarrow> lm_step cfg s s'"
| migrate: "init_nft_class cfg s = Some s' \<Longrightarrow> lm_step cfg s s'"
| outside: "lm_step cfg s (lm_put w s)"

inductive lm_reachable :: "'u lm_config \<Rightarrow> 'u lm_state \<Rightarrow> bool" for cfg where
  genesis: "lm_reachable cfg \<lparr>lm_ext = w, pool_id_sequencer = 0, nft_instance_sequencer = 0,
     global_pool_data = Map.empty, liquidity_pool_data = Map.empty, deposit_data = Map.empty,
     liq_pool_metadata = Map.empty, lm_storage_version = 0, lm_events = []\<rparr>"
| step: "lm_reachable cfg s \<Longrightarrow> lm_step cfg s s' \<Longrightarrow> lm_reachable cfg s'"

section \<open>Every operation keeps the invariant\<close>

lemma lm_inv_create_farm:
  assumes "lm_create_farm cfg s orig r n b ia rc w y = Inr s'" "lm_inv cfg s"
  shows "lm_inv cfg s'"
  using assms by (auto simp: lm_create_farm_def Let_def lm_get_next_pool_id_def global_pool_new_def lm_inv_def
      intro!: farms_inv_create [of cfg "pool_id_sequencer s", simplified])

lemma lm_inv_destroy_farm:
  assumes "lm_destroy_farm cfg s orig f = Inr s'" "lm_inv cfg s"
  shows "lm_inv cfg s'"
proof -
  from assms(1) obtain gp where "global_pool_data s f = Some gp" "gp_liq_pools_count gp = 0"
    "lm_store s' = lm_store (s\<lparr>global_pool_data := (global_pool_data s)(f := None)\<rparr>)"
    by (auto simp: lm_destroy_farm_def)
  with assms(2) farms_inv_destroy show ?thesis by (auto simp: lm_inv_def lm_store_eq)
qed

lemma lm_inv_withdraw_undistributed:
  assumes "lm_withdraw_undistributed_rewards cfg s orig f = Inr s'" "lm_inv cfg s"
  shows "lm_inv cfg s'"
proof -
  from assms(1) have "lm_store s' = lm_store s"
    by (auto simp: lm_withdraw_undistributed_rewards_def Let_def)
  with assms(2) show ?thesis by (simp add: lm_inv_def lm_store_eq)
qed

lemma lm_add_pool_effect:
  assumes "lm_add_liquidity_pool cfg s orig f pair m c = Inr s'"
  obtains gp gp1 s1 now where "global_pool_data s f = Some gp"
    "liquidity_pool_data s (f, amm_get_pair_id (lm_amm cfg) pair) = None"
    "lm_maybe_update_global_pool cfg s gp now = Inr (gp1, s1)" "pool_id_sequencer s1 + 1 \<le> u32_max"
    "lm_store s' = (pool_id_sequencer s1 + 1, nft_instance_sequencer s1,
      (global_pool_data s1)(f \<mapsto> gp1\<lparr>gp_liq_pools_count := gp_liq_pools_count gp1 + 1\<rparr>),
      (liquidity_pool_data s1)((gp_id gp1, amm_get_pair_id (lm_amm cfg) pair) \<mapsto>
         liq_pool_new (pool_id_sequencer s1 + 1) now c m), deposit_data s1,
      (liq_pool_metadata s1)(pool_id_sequencer s1 + 1 \<mapsto> (pair, 0, gp_id gp1)))"
proof -
  from assms show thesis
    by (clarsimp simp: lm_add_liquidity_pool_def Let_def lm_get_next_pool_id_def)
      (rule that, (assumption | simp add: lm_store_def)+)
qed

lemma lm_invD:
  assumes "lm_inv cfg s"
  shows "farms_inv cfg (pool_id_sequencer s) (global_pool_data s) (liquidity_pool_data s) (liq_pool_metadata s)"
    "deposits_inv (nft_instance_sequencer s) (deposit_data s) (liq_pool_metadata s)"
  using assms by (simp_all add: lm_inv_def)

lemma lm_inv_add_pool:
  assumes "lm_add_liquidity_pool cfg s orig f pair m c = Inr s'" "lm_inv cfg s"
  shows "lm_inv cfg s'"
  using assms(1)
proof (rule lm_add_pool_effect)
  fix gp gp1 s1 now
  assume gp: "global_pool_data s f = Some gp"
    and none: "liquidity_pool_data s (f, amm_get_pair_id (lm_amm cfg) pair) = None"
    and u: "lm_maybe_update_global_pool cfg s gp now = Inr (gp1, s1)" and sq: "pool_id_sequencer s1 + 1 \<le> u32_max"
    and s': "lm_store s' = (pool_id_sequencer s1 + 1, nft_instance_sequencer s1,
      (global_pool_data s1)(f \<mapsto> gp1\<lparr>gp_liq_pools_count := gp_liq_pools_count gp1 + 1\<rparr>),
      (liquidity_pool_data s1)((gp_id gp1, amm_get_pair_id (lm_amm cfg) pair) \<mapsto>
         liq_pool_new (pool_id_sequencer s1 + 1) now c m), deposit_data s1,
      (liq_pool_metadata s1)(pool_id_sequencer s1 + 1 \<mapsto> (pair, 0, gp_id gp1)))"
  note fr = lm_maybe_update_global_pool_frame [OF u] and inv = lm_invD [OF assms(2)]
  have f: "gp_id gp1 = f" using farms_inv_farm(2) [OF inv(1) gp] gp_fixedD(1) [OF fr(1)] by simp
  note deposits_inv_new_pool [OF inv(2) farms_inv_fresh(1) [OF inv(1)], of pair f]
  moreover note farms_inv_add [OF inv(1) none gp, of "liq_pool_new (pool_id_sequencer s1 + 1) now c m"
      "gp1\<lparr>gp_liq_pools_count := gp_liq_pools_count gp1 + 1\<rparr>" pair]
  ultimately show ?thesis
    using sq gp_fixedD [OF fr(1)] s' fr(2) by (simp add: lm_inv_def lm_store_def f liq_pool_new_def)
qed

text \<open>Writing back an updated pool and farm, when the farm's total follows the pool's stake.\<close>

lemma lm_inv_write:
  assumes inv: "lm_inv cfg s" and P: "liquidity_pool_data s (f, a) = Some lq" and G: "global_pool_data s f = Some gp"
    and lq: "lq_id lq' = lq_id lq" "lq_canceled lq' \<Longrightarrow> lq_stake_in_global_pool lq' = 0"
    and gp: "gp_id gp' = gp_id gp" "gp_liq_pools_count gp' = gp_liq_pools_count gp"
      "gp_total_shares_z gp' + lq_stake_in_global_pool lq = gp_total_shares_z gp + lq_stake_in_global_pool lq'"
    and s': "lm_store s' = lm_store (lm_write_pools f a gp' lq' s)"
  shows "lm_inv cfg s'"
  using s' farms_inv_replace [OF lm_invD(1) [OF inv] P G lq gp] lm_invD(2) [OF inv]
  by (simp add: lm_inv_def lm_store_def)

lemma lm_inv_update_pool:
  assumes "lm_update_liquidity_pool cfg s orig f pair m = Inr s'" "lm_inv cfg s"
  shows "lm_inv cfg s'"
proof -
  from assms(1) obtain gp lq now gp1 lq1 s1 z where
    *: "liquidity_pool_data s (f, amm_get_pair_id (lm_amm cfg) pair) = Some lq" "global_pool_data s f = Some gp"
    "\<not> lq_canceled lq"
    "lm_maybe_update_pools cfg s gp lq now = Inr (gp1, lq1, s1)" "lq_stake_in_global_pool lq1 \<le> gp_total_shares_z gp1"
    "lm_store s' = lm_store (lm_write_pools f (amm_get_pair_id (lm_amm cfg) pair)
      (gp1\<lparr>gp_total_shares_z := gp_total_shares_z gp1 - lq_stake_in_global_pool lq1 + z\<rparr>)
      (lq1\<lparr>lq_stake_in_global_pool := z, lq_multiplier := m\<rparr>) s1)"
    by (auto simp: lm_update_liquidity_pool_def Let_def lm_store_def)
  note fr = lm_maybe_update_pools_frame [OF *(4)]
  from assms(2) *(1,2) show ?thesis
    by (rule lm_inv_write) (use * fr(3) gp_fixedD [OF fr(1)] lq_fixedD [OF fr(2)] in \<open>simp_all add: lm_store_def\<close>)
qed

lemma lm_inv_cancel_pool:
  assumes "lm_cancel_liquidity_pool cfg s orig f pair = Inr s'" "lm_inv cfg s"
  shows "lm_inv cfg s'"
proof -
  from assms(1) obtain gp lq now gp1 lq1 s1 where
    *: "liquidity_pool_data s (f, amm_get_pair_id (lm_amm cfg) pair) = Some lq" "global_pool_data s f = Some gp"
    "lm_maybe_update_pools cfg s gp lq now = Inr (gp1, lq1, s1)" "lq_stake_in_global_pool lq1 \<le> gp_total_shares_z gp1"
    "lm_store s' = lm_store (lm_write_pools f (amm_get_pair_id (lm_amm cfg) pair)
      (gp1\<lparr>gp_total_shares_z := gp_total_shares_z gp1 - lq_stake_in_global_pool lq1\<rparr>)
      (lq1\<lparr>lq_canceled := True, lq_stake_in_global_pool := 0, lq_multiplier := 0\<rparr>) s1)"
    by (auto simp: lm_cancel_liquidity_pool_def Let_def lm_store_def)
  note fr = lm_maybe_update_pools_frame [OF *(3)]
  from assms(2) *(1,2) show ?thesis
    by (rule lm_inv_write) (use * fr(3) gp_fixedD [OF fr(1)] lq_fixedD [OF fr(2)] in \<open>simp_all add: lm_store_def\<close>)
qed

lemma lm_inv_resume_pool:
  assumes "lm_resume_liquidity_pool cfg s orig f pair m = Inr s'" "lm_inv cfg s"
  shows "lm_inv cfg s'"
proof -
  from assms(1) obtain gp lq now gp1 s1 z where
    *: "liquidity_pool_data s (f, amm_get_pair_id (lm_amm cfg) pair) = Some lq" "global_pool_data s f = Some gp"
    "lm_maybe_update_global_pool cfg s gp now = Inr (gp1, s1)" "lq_canceled lq"
    "lm_store s' = lm_store (lm_write_pools f (amm_get_pair_id (lm_amm cfg) pair)
      (gp1\<lparr>gp_total_shares_z := gp_total_shares_z gp1 + z\<rparr>)
      (lq\<lparr>lq_accumulated_rpz := gp_accumulated_rpz gp1, lq_updated_at := now,
          lq_stake_in_global_pool := z, lq_canceled := False, lq_multiplier := m\<rparr>) s1)"
    by (auto simp: lm_resume_liquidity_pool_def Let_def lm_store_def)
  note fr = lm_maybe_update_global_pool_frame [OF *(3)]
  have st: "lq_stake_in_global_pool lq = 0" using farms_inv_pool(2) [OF lm_invD(1) [OF assms(2)]] * by blast
  from assms(2) *(1,2) show ?thesis
    by (rule lm_inv_write) (use st * fr(2) gp_fixedD [OF fr(1)] in \<open>simp_all add: lm_store_def\<close>)
qed

lemma lm_remove_pool_effect:
  assumes "lm_remove_liquidity_pool cfg s orig f pair = Inr s'" and a: "a = amm_get_pair_id (lm_amm cfg) pair"
  obtains gp lq where "liquidity_pool_data s (f, a) = Some lq" "global_pool_data s f = Some gp" "lq_canceled lq"
    "lm_store s' = (pool_id_sequencer s, nft_instance_sequencer s,
       (global_pool_data s)(f \<mapsto> gp\<lparr>gp_liq_pools_count := gp_liq_pools_count gp - 1\<rparr>),
       (liquidity_pool_data s)((f, a) := None), deposit_data s,
       (case liq_pool_metadata s (lq_id lq) of
          Some (_, n, _) \<Rightarrow> if n = 0 then (liq_pool_metadata s)(lq_id lq := None) else liq_pool_metadata s
        | None \<Rightarrow> liq_pool_metadata s))"
proof -
  from assms show thesis
    by (clarsimp simp: lm_remove_liquidity_pool_def Let_def)
      (rule that, (assumption | simp add: lm_store_def split: option.splits)+)
qed

lemma lm_inv_remove_pool:
  assumes "lm_remove_liquidity_pool cfg s orig f pair = Inr s'" "lm_inv cfg s"
  shows "lm_inv cfg s'"
proof -
  define a where "a = amm_get_pair_id (lm_amm cfg) pair"
  obtain gp lq where *: "liquidity_pool_data s (f, a) = Some lq" "global_pool_data s f = Some gp" "lq_canceled lq"
    "lm_store s' = (pool_id_sequencer s, nft_instance_sequencer s,
       (global_pool_data s)(f \<mapsto> gp\<lparr>gp_liq_pools_count := gp_liq_pools_count gp - 1\<rparr>),
       (liquidity_pool_data s)((f, a) := None), deposit_data s,
       (case liq_pool_metadata s (lq_id lq) of
          Some (_, n, _) \<Rightarrow> if n = 0 then (liq_pool_metadata s)(lq_id lq := None) else liq_pool_metadata s
        | None \<Rightarrow> liq_pool_metadata s))"
    by (rule lm_remove_pool_effect [OF assms(1) a_def])
  note inv = lm_invD [OF assms(2)]
  note rm = farms_inv_remove [OF inv(1) *(1,2,3), of "gp\<lparr>gp_liq_pools_count := gp_liq_pools_count gp - 1\<rparr>"]
  from farms_inv_pool(3) [OF inv(1) *(1)] obtain p n where
    m: "liq_pool_metadata s (lq_id lq) = Some (p, n, f)" "amm_get_pair_id (lm_amm cfg) p = a" by blast
  show ?thesis
  proof (cases "n = 0")
    case True
    from farms_inv_forget [OF rm m(1)] deposits_inv_drop_zero [OF inv(2), of "lq_id lq" p f] m *(4) True
    show ?thesis by (simp add: lm_inv_def lm_store_def)
  next
    case False
    with rm inv(2) m *(4) show ?thesis by (simp add: lm_inv_def lm_store_def)
  qed
qed

lemma lm_deposit_shares_effect:
  assumes "lm_deposit_shares cfg s orig f pair x = Inr s'"
    and tok: "tok = amm_get_share_token (lm_amm cfg) (lm_ext s) pair" and acc: "acc = amm_get_pair_id (lm_amm cfg) pair"
  obtains who gp lq now gp1 lq1 s1 v z w w' j n p c g where "orig = Signed who" "x \<noteq> 0" "x \<le> lm_free cfg s tok who"
    "liquidity_pool_data s (f, acc) = Some lq" "\<not> lq_canceled lq" "global_pool_data s f = Some gp"
    "now = lm_current_block_number cfg (lm_ext s) div gp_blocks_per_period gp"
    "lm_maybe_update_pools cfg s gp lq now = Inr (gp1, lq1, s1)"
    "v = x * lm_free cfg s1 (gp_incentivized_asset gp1) acc"
    "lmm_global_pool_shares (lm_math cfg) v (lq_multiplier lq1) = Some z"
    "c_transfer (lm_currency cfg) (lm_ext s1) tok who (lm_account_id cfg) x = Inr w"
    "lq_id lq1 \<noteq> 0" "n = lq_id lq1 mod 2 ^ 32 + 2 ^ 32 * (nft_instance_sequencer s1 + 1)"
    "nft_do_mint (lm_nft cfg) w who (lm_nft_class cfg) n [] = Inr (j, w')" "lm_ext s' = w'"
    "liq_pool_metadata s1 (lq_id lq1) = Some (p, c, g)"
    "lm_store s' = (pool_id_sequencer s1, nft_instance_sequencer s1 + 1,
       (global_pool_data s1)(f \<mapsto> gp1\<lparr>gp_total_shares_z := gp_total_shares_z gp1 + z\<rparr>),
       (liquidity_pool_data s1)((f, acc) \<mapsto> lq1\<lparr>lq_total_shares := lq_total_shares lq1 + x,
          lq_total_valued_shares := lq_total_valued_shares lq1 + v,
          lq_stake_in_global_pool := lq_stake_in_global_pool lq1 + z\<rparr>),
       (deposit_data s1)(n \<mapsto> deposit_new x v (lq_accumulated_rpvs lq1) now),
       (liq_pool_metadata s1)(lq_id lq1 \<mapsto> (p, c + 1, g)))"
proof -
  from assms show thesis
    by (clarsimp simp: lm_deposit_shares_def Let_def lm_get_valued_shares_def simp del: power_numeral power_Suc)
      (rule that, (rule refl | assumption | simp add: lm_store_def)+)
qed

lemma lm_inv_deposit:
  assumes "lm_deposit_shares cfg s orig f pair x = Inr s'" "lm_inv cfg s"
  shows "lm_inv cfg s'"
  using assms(1) refl refl
proof (rule lm_deposit_shares_effect)
  let ?a = "amm_get_pair_id (lm_amm cfg) pair"
  fix who gp lq now gp1 lq1 s1 v z w w' j n p c g
  assume P: "liquidity_pool_data s (f, ?a) = Some lq" and G: "global_pool_data s f = Some gp"
    and nc: "\<not> lq_canceled lq"
    and u: "lm_maybe_update_pools cfg s gp lq now = Inr (gp1, lq1, s1)"
    and n: "n = lq_id lq1 mod 2 ^ 32 + 2 ^ 32 * (nft_instance_sequencer s1 + 1)"
    and m: "liq_pool_metadata s1 (lq_id lq1) = Some (p, c, g)"
    and s': "lm_store s' = (pool_id_sequencer s1, nft_instance_sequencer s1 + 1,
       (global_pool_data s1)(f \<mapsto> gp1\<lparr>gp_total_shares_z := gp_total_shares_z gp1 + z\<rparr>),
       (liquidity_pool_data s1)((f, ?a) \<mapsto> lq1\<lparr>lq_total_shares := lq_total_shares lq1 + x,
          lq_total_valued_shares := lq_total_valued_shares lq1 + v,
          lq_stake_in_global_pool := lq_stake_in_global_pool lq1 + z\<rparr>),
       (deposit_data s1)(n \<mapsto> deposit_new x v (lq_accumulated_rpvs lq1) now),
       (liq_pool_metadata s1)(lq_id lq1 \<mapsto> (p, c + 1, g)))"
  note fr = lm_maybe_update_pools_frame [OF u] and inv = lm_invD [OF assms(2)]
  have st: "lm_store s1 = lm_store s" by (rule fr(3))
  let ?gp = "gp1\<lparr>gp_total_shares_z := gp_total_shares_z gp1 + z\<rparr>"
  let ?lq = "lq1\<lparr>lq_total_shares := lq_total_shares lq1 + x,
          lq_total_valued_shares := lq_total_valued_shares lq1 + v,
          lq_stake_in_global_pool := lq_stake_in_global_pool lq1 + z\<rparr>"
  have farms: "farms_inv cfg (pool_id_sequencer s) ((global_pool_data s)(f \<mapsto> ?gp))
      ((liquidity_pool_data s)((f, ?a) \<mapsto> ?lq)) (liq_pool_metadata s)"
    by (rule farms_inv_replace [OF inv(1) P G]) (use nc gp_fixedD [OF fr(1)] lq_fixedD [OF fr(2)] in simp_all)
  have m': "liq_pool_metadata s (lq_id lq1) = Some (p, c, g)" using m st by (simp add: lm_store_def)
  have id: "lq_id lq1 < 2 ^ 32"
    using farms_inv_ids(2) [OF inv(1), of "lq_id lq1"] m' farms_inv_bound(1) [OF inv(1)] by (simp add: u32_max_def)
  from farms_inv_count [OF farms m', of "c + 1"] deposits_inv_add [OF inv(2) m' id] s' n st id
  show ?thesis by (simp add: lm_inv_def lm_store_def)
qed

lemma lm_claim_rewards_effect:
  assumes "lm_claim_rewards cfg s orig n = Inr s'"
  obtains who pair c f d lq gp now gp1 lq1 s1 r r' d' s2 where "orig = Signed who"
    "liq_pool_metadata s (n mod 2 ^ 32) = Some (pair, c, f)" "deposit_data s n = Some d" "2 ^ 32 < n"
    "nft_owner (lm_nft cfg) (lm_ext s) (lm_nft_class cfg) n = Some who"
    "liquidity_pool_data s (f, amm_get_pair_id (lm_amm cfg) pair) = Some lq" "\<not> lq_canceled lq"
    "global_pool_data s f = Some gp" "gp_blocks_per_period gp \<noteq> 0"
    "now = lm_current_block_number cfg (lm_ext s) div gp_blocks_per_period gp"
    "dp_updated_at d \<noteq> now" "lm_maybe_update_pools cfg s gp lq now = Inr (gp1, lq1, s1)"
    "lm_do_claim_rewards cfg s1 who d lq1 now (gp_reward_currency gp1) = Inr ((r, r'), d', s2)"
    "lm_ext s' = lm_ext s2"
    "lm_store s' = lm_store ((lm_write_pools f (amm_get_pair_id (lm_amm cfg) pair) gp1 lq1 s2)
       \<lparr>deposit_data := (deposit_data s2)(n \<mapsto> d')\<rparr>)"
proof -
  from assms show thesis
    by (clarsimp simp: lm_claim_rewards_def Let_def simp del: power_numeral power_Suc)
      (rule that, (rule refl | assumption | simp add: lm_store_def)+)
qed

lemma deposits_inv_upd:
  assumes "deposits_inv sq D M" "D n = Some d"
  shows "deposits_inv sq (D(n \<mapsto> d')) M"
proof -
  have "pool_deposits (D(n \<mapsto> d')) i = pool_deposits D i" for i using assms(2) by (auto simp: pool_deposits_def)
  moreover have "dom (D(n \<mapsto> d')) = dom D" using assms(2) by auto
  ultimately show ?thesis using assms(1) by (simp only: deposits_inv_def) blast
qed

lemma lm_inv_claim:
  assumes "lm_claim_rewards cfg s orig n = Inr s'" "lm_inv cfg s"
  shows "lm_inv cfg s'"
  using assms(1)
proof (rule lm_claim_rewards_effect)
  fix who pair c f d lq gp now gp1 lq1 s1 r r' d' s2
  let ?a = "amm_get_pair_id (lm_amm cfg) pair"
  assume d: "deposit_data s n = Some d" and P: "liquidity_pool_data s (f, ?a) = Some lq"
    and nc: "\<not> lq_canceled lq" and G: "global_pool_data s f = Some gp"
    and u: "lm_maybe_update_pools cfg s gp lq now = Inr (gp1, lq1, s1)"
    and cl: "lm_do_claim_rewards cfg s1 who d lq1 now (gp_reward_currency gp1) = Inr ((r, r'), d', s2)"
    and s': "lm_store s' = lm_store ((lm_write_pools f ?a gp1 lq1 s2)\<lparr>deposit_data := (deposit_data s2)(n \<mapsto> d')\<rparr>)"
  note fr = lm_maybe_update_pools_frame [OF u] and inv = lm_invD [OF assms(2)]
  have st: "lm_store s2 = lm_store s" using fr(3) lm_do_claim_rewards_frame(1) [OF cl] by simp
  have "farms_inv cfg (pool_id_sequencer s) ((global_pool_data s)(f \<mapsto> gp1))
      ((liquidity_pool_data s)((f, ?a) \<mapsto> lq1)) (liq_pool_metadata s)"
    by (rule farms_inv_replace [OF inv(1) P G]) (use nc gp_fixedD [OF fr(1)] lq_fixedD [OF fr(2)] in simp_all)
  with deposits_inv_upd [OF inv(2) d] s' st show ?thesis
    by (simp add: lm_inv_def lm_store_def)
qed

lemma lm_release_stake_effect:
  assumes "lm_release_stake cfg gp lq d = Inr (gp', lq')"
  obtains z where "z \<le> lq_stake_in_global_pool lq" "z \<le> gp_total_shares_z gp"
    "if lq_canceled lq then z = 0 else lmm_global_pool_shares (lm_math cfg) (dp_valued_shares d) (lq_multiplier lq) = Some z"
    "gp' = gp\<lparr>gp_total_shares_z := gp_total_shares_z gp - z\<rparr>"
    "lq' = lq\<lparr>lq_stake_in_global_pool := lq_stake_in_global_pool lq - z\<rparr>"
proof (cases "lq_canceled lq")
  case True
  with assms show thesis by (intro that [of 0]) (simp_all add: lm_release_stake_def)
next
  case False
  with assms that show thesis by (auto simp: lm_release_stake_def)
qed

lemma lm_settle_withdrawal_effect:
  assumes "lm_settle_withdrawal cfg s who f a lq d = Inr (d', s')"
  obtains gp now gp1 lq1 s1 r r' s2 gp2 lq2 w where "global_pool_data s f = Some gp" "gp_blocks_per_period gp \<noteq> 0"
    "now = lm_current_block_number cfg (lm_ext s) div gp_blocks_per_period gp"
    "(if \<not> lq_canceled lq then lm_maybe_update_pools cfg s gp lq now else Inr (gp, lq, s)) = Inr (gp1, lq1, s1)"
    "lm_do_claim_rewards cfg s1 who d lq1 now (gp_reward_currency gp1) = Inr ((r, r'), d', s2)"
    "dp_shares d' \<le> lq_total_shares lq1" "dp_valued_shares d' \<le> lq_total_valued_shares lq1"
    "lm_release_stake cfg gp1 (lq1\<lparr>lq_total_shares := lq_total_shares lq1 - dp_shares d',
       lq_total_valued_shares := lq_total_valued_shares lq1 - dp_valued_shares d'\<rparr>) d' = Inr (gp2, lq2)"
    "c_transfer (lm_currency cfg) (lm_ext s2) (gp_reward_currency gp2) (lm_sub_account cfg (lq_id lq1))
       (lm_sub_account cfg (gp_id gp1)) r' = Inr w" "lm_ext s' = w"
    "lm_store s' = lm_store (lm_write_pools f a gp2 lq2 s2)" "lq_id lq1 \<noteq> 0"
proof -
  from assms show thesis
    by (clarsimp simp: lm_settle_withdrawal_def Let_def simp del: if_split)
      (rule that, (rule refl | assumption | simp add: lm_store_def)+)
qed

text \<open>The shares go back to the owner when the trading pool still exists.\<close>

definition lm_return_shares ::
  "'u lm_config \<Rightarrow> 'u nft_state \<Rightarrow> asset_pair \<Rightarrow> account_id \<Rightarrow> balance \<Rightarrow> 'u nft_state \<Rightarrow> bool" where
  "lm_return_shares cfg w pair who x w' \<longleftrightarrow>
    (if amm_exists (lm_amm cfg) w pair
     then c_transfer (lm_currency cfg) w (amm_get_share_token (lm_amm cfg) w pair) (lm_account_id cfg) who x = Inr w'
     else w' = w)"

lemma lm_withdraw_shares_effect:
  assumes "lm_withdraw_shares cfg s orig n = Inr s'"
  obtains who pair c f d gone d' s1 w w' M where "orig = Signed who"
    "nft_owner (lm_nft cfg) (lm_ext s) (lm_nft_class cfg) n = Some who" "2 ^ 32 < n"
    "liq_pool_metadata s (n mod 2 ^ 32) = Some (pair, c, f)" "deposit_data s n = Some d"
    "(case liquidity_pool_data s (f, amm_get_pair_id (lm_amm cfg) pair) of
        Some lq \<Rightarrow> and_then (lm_settle_withdrawal cfg s who f (amm_get_pair_id (lm_amm cfg) pair) lq d) (\<lambda>(d, s). Inr (False, d, s))
      | None \<Rightarrow> Inr (True, d, s)) = Inr (gone, d', s1)"
    "lm_return_shares cfg (lm_ext s1) pair who (dp_shares d') w"
    "nft_do_burn (lm_nft cfg) w who (lm_nft_class cfg) n = Inr w'" "lm_ext s' = w'"
    "M = (if c = 1 \<and> gone then None else Some (pair, c - 1, f))"
    "lm_store s' = (pool_id_sequencer s1, nft_instance_sequencer s1, global_pool_data s1, liquidity_pool_data s1,
       (deposit_data s1)(n := None), (liq_pool_metadata s1)(n mod 2 ^ 32 := M))"
proof -
  from assms obtain who pair c f d gone d' s1 s2 w' M where *: "orig = Signed who"
    "nft_owner (lm_nft cfg) (lm_ext s) (lm_nft_class cfg) n = Some who" "2 ^ 32 < n"
    "liq_pool_metadata s (n mod 2 ^ 32) = Some (pair, c, f)" "deposit_data s n = Some d"
    "(case liquidity_pool_data s (f, amm_get_pair_id (lm_amm cfg) pair) of
        Some lq \<Rightarrow> and_then (lm_settle_withdrawal cfg s who f (amm_get_pair_id (lm_amm cfg) pair) lq d) (\<lambda>(d, s). Inr (False, d, s))
      | None \<Rightarrow> Inr (True, d, s)) = Inr (gone, d', s1)"
    and s2: "(if amm_exists (lm_amm cfg) (lm_ext s1) pair then
          let amm_token = amm_get_share_token (lm_amm cfg) (lm_ext s1) pair in
          and_then (c_transfer (lm_cur cfg) s1 amm_token (lm_account_id cfg) who (dp_shares d')) (\<lambda>s.
          Inr (lm_deposit_event (SharesWithdrawn f (n mod 2 ^ 32) who amm_token (dp_shares d')) s))
        else Inr s1) = Inr s2"
    and b: "nft_do_burn (lm_nft cfg) (lm_ext s2) who (lm_nft_class cfg) n = Inr w'" 
    and M: "(if c = 1 \<and> gone then Inr None
        else and_then (ok_or (checked_sub c 1) lm_overflow) (\<lambda>n. Inr (Some (pair, n, f)))) = Inr M"
    and s': "s' = (lm_put w' s2)\<lparr>deposit_data := (deposit_data (lm_put w' s2))(n := None),
            liq_pool_metadata := (liq_pool_metadata (lm_put w' s2))(n mod 2 ^ 32 := M)\<rparr>"
    unfolding lm_withdraw_shares_def Let_def and_then_eq_Inr split_paired_Ex
    by (clarsimp simp: Let_def simp del: if_split power_numeral power_Suc)
  have "lm_return_shares cfg (lm_ext s1) pair who (dp_shares d') (lm_ext s2)" "lm_store s2 = lm_store s1"
    using s2 by (auto simp: lm_return_shares_def Let_def split: if_splits)
  moreover have "M = (if c = 1 \<and> gone then None else Some (pair, c - 1, f))"
    using M by (auto split: if_splits)
  ultimately show thesis using * b s' by (intro that) (assumption | simp add: lm_store_def)+
qed

lemma lm_inv_settle:
  assumes "lm_settle_withdrawal cfg s who f a lq d = Inr (d', s')" "lm_inv cfg s" "liquidity_pool_data s (f, a) = Some lq"
  shows "lm_inv cfg s'" "dp_shares d' = dp_shares d" "deposit_data s' = deposit_data s"
    "liq_pool_metadata s' = liq_pool_metadata s" "liquidity_pool_data s' (f, a) \<noteq> None"
proof -
  from assms(1) have "lm_inv cfg s' \<and> dp_shares d' = dp_shares d \<and> deposit_data s' = deposit_data s \<and>
    liq_pool_metadata s' = liq_pool_metadata s \<and> liquidity_pool_data s' (f, a) \<noteq> None"
  proof (rule lm_settle_withdrawal_effect)
    fix gp now gp1 lq1 s1 r r' s2 gp2 lq2
    assume G: "global_pool_data s f = Some gp"
      and u: "(if \<not> lq_canceled lq then lm_maybe_update_pools cfg s gp lq now else Inr (gp, lq, s)) = Inr (gp1, lq1, s1)"
      and cl: "lm_do_claim_rewards cfg s1 who d lq1 now (gp_reward_currency gp1) = Inr ((r, r'), d', s2)"
      and rel: "lm_release_stake cfg gp1 (lq1\<lparr>lq_total_shares := lq_total_shares lq1 - dp_shares d',
         lq_total_valued_shares := lq_total_valued_shares lq1 - dp_valued_shares d'\<rparr>) d' = Inr (gp2, lq2)"
      and s': "lm_store s' = lm_store (lm_write_pools f a gp2 lq2 s2)"
    have fr: "gp_fixed gp1 = gp_fixed gp" "lq_fixed lq1 = lq_fixed lq" "lm_store s1 = lm_store s"
      using u lm_maybe_update_pools_frame [of cfg s gp lq now gp1 lq1 s1] by (simp_all split: if_splits)
    note claim = lm_do_claim_rewards_frame [OF cl]
    from rel have "lm_inv cfg s'"
    proof (rule lm_release_stake_effect)
      fix z
      assume z: "z \<le> lq_stake_in_global_pool (lq1\<lparr>lq_total_shares := lq_total_shares lq1 - dp_shares d',
           lq_total_valued_shares := lq_total_valued_shares lq1 - dp_valued_shares d'\<rparr>)" "z \<le> gp_total_shares_z gp1"
        "gp2 = gp1\<lparr>gp_total_shares_z := gp_total_shares_z gp1 - z\<rparr>"
        "lq2 = lq1\<lparr>lq_total_shares := lq_total_shares lq1 - dp_shares d',
           lq_total_valued_shares := lq_total_valued_shares lq1 - dp_valued_shares d'\<rparr>
           \<lparr>lq_stake_in_global_pool := lq_stake_in_global_pool (lq1\<lparr>lq_total_shares := lq_total_shares lq1 - dp_shares d',
           lq_total_valued_shares := lq_total_valued_shares lq1 - dp_valued_shares d'\<rparr>) - z\<rparr>"
      from farms_inv_pool(2) [OF lm_invD(1) [OF assms(2)] assms(3)] assms(2,3) G show ?thesis
        by (elim lm_inv_write)
          (use z s' fr(3) claim(1) gp_fixedD [OF fr(1)] lq_fixedD [OF fr(2)] in \<open>simp_all add: lm_store_def\<close>)
    qed
    with s' fr(3) claim show ?thesis by (simp add: lm_store_def)
  qed
  then show "lm_inv cfg s'" "dp_shares d' = dp_shares d" "deposit_data s' = deposit_data s"
    "liq_pool_metadata s' = liq_pool_metadata s" "liquidity_pool_data s' (f, a) \<noteq> None" by simp_all
qed

lemma lm_inv_withdraw:
  assumes "lm_withdraw_shares cfg s orig n = Inr s'" "lm_inv cfg s"
  shows "lm_inv cfg s'"
  using assms(1)
proof (rule lm_withdraw_shares_effect)
  fix who pair c f d gone d' s1 w w' M
  let ?a = "amm_get_pair_id (lm_amm cfg) pair"
  assume m: "liq_pool_metadata s (n mod 2 ^ 32) = Some (pair, c, f)" and d: "deposit_data s n = Some d"
    and settle: "(case liquidity_pool_data s (f, ?a) of
        Some lq \<Rightarrow> and_then (lm_settle_withdrawal cfg s who f ?a lq d) (\<lambda>(d, s). Inr (False, d, s))
      | None \<Rightarrow> Inr (True, d, s)) = Inr (gone, d', s1)"
    and M: "M = (if c = 1 \<and> gone then None else Some (pair, c - 1, f))"
    and s': "lm_store s' = (pool_id_sequencer s1, nft_instance_sequencer s1, global_pool_data s1, liquidity_pool_data s1,
       (deposit_data s1)(n := None), (liq_pool_metadata s1)(n mod 2 ^ 32 := M))"
  have 1: "lm_inv cfg s1" "liq_pool_metadata s1 (n mod 2 ^ 32) = Some (pair, c, f)" "deposit_data s1 n \<noteq> None"
      "gone \<Longrightarrow> liquidity_pool_data s1 (f, ?a) = None"
    using settle m d assms(2) lm_inv_settle [of cfg s who f ?a _ d d' s1] by (auto split: option.splits)
  note inv = lm_invD [OF 1(1)]
  have "farms_inv cfg (pool_id_sequencer s1) (global_pool_data s1) (liquidity_pool_data s1)
      ((liq_pool_metadata s1)(n mod 2 ^ 32 := M))"
    using M farms_inv_count [OF inv(1) 1(2)] farms_inv_forget [OF inv(1) 1(2)] 1(4) by simp
  with deposits_inv_remove [OF inv(2) 1(3,2) M] s' show ?thesis by (simp add: lm_inv_def lm_store_def)
qed

lemma lm_inv_migrate:
  assumes "init_nft_class cfg s = Some s'" "lm_inv cfg s"
  shows "lm_inv cfg s'"
proof -
  from assms(1) have "lm_store s' = lm_store s"
    by (auto simp: init_nft_class_def lm_store_def split: if_splits sum.splits)
  with assms(2) show ?thesis by (simp add: lm_inv_def lm_store_eq)
qed

lemmas lm_inv_ops = lm_inv_create_farm lm_inv_destroy_farm lm_inv_withdraw_undistributed
  lm_inv_add_pool lm_inv_update_pool lm_inv_cancel_pool lm_inv_resume_pool lm_inv_remove_pool lm_inv_deposit
  lm_inv_claim lm_inv_withdraw lm_inv_migrate

lemma lm_step_inv:
  assumes "lm_step cfg s s'" "lm_inv cfg s"
  shows "lm_inv cfg s'"
  using assms(1) by cases ((erule lm_inv_ops, rule assms(2)) | use assms(2) in \<open>simp add: lm_inv_def\<close>)+

lemma lm_inv_reachable: "lm_reachable cfg s \<Longrightarrow> lm_inv cfg s"
proof (induction rule: lm_reachable.induct)
  case (genesis w)
  show ?case
    by (simp add: lm_inv_def farms_inv_def deposits_inv_def pool_deposits_def u32_max_def)
next
  case (step s s')
  with lm_step_inv show ?case by blast
qed

end
