(* ===== verification/LM_Props.thy ===== *)
theory LM_Props
  imports LM_Invariant NFT_Props Instances
begin

text \<open>
  The properties of liquidity mining: the encoding of deposit ids, the invariant of farms, pools,
  metadata and deposits over all reachable states, the round trip of a deposit, the flow of
  rewards, and runs on an executable instance that show where the bookkeeping fails.
\<close>

section \<open>Around the pallet\<close>

text \<open>What accruing rewards leaves of the world: only balances of the reward currency change.\<close>

definition lm_quiet :: "'u lm_config \<Rightarrow> asset_id \<Rightarrow> 'u nft_state \<Rightarrow> 'u nft_state \<Rightarrow> bool" where
  "lm_quiet cfg c w w' \<longleftrightarrow> nft_owner (lm_nft cfg) w' = nft_owner (lm_nft cfg) w \<and>
     lm_current_block_number cfg w' = lm_current_block_number cfg w \<and>
     amm_exists (lm_amm cfg) w' = amm_exists (lm_amm cfg) w \<and>
     amm_get_share_token (lm_amm cfg) w' = amm_get_share_token (lm_amm cfg) w \<and>
     (\<forall>a. a \<noteq> c \<longrightarrow> c_free_balance (lm_currency cfg) w' a = c_free_balance (lm_currency cfg) w a)"

lemma lm_quiet_refl [simp]: "lm_quiet cfg c w w"
  by (simp add: lm_quiet_def)

lemma lm_quiet_trans: "lm_quiet cfg c w w' \<Longrightarrow> lm_quiet cfg c w' w'' \<Longrightarrow> lm_quiet cfg c w w''"
  by (simp add: lm_quiet_def)

text \<open>The effect of a deposit on the maps, with the pool it went to identified by the invariant.\<close>

lemma lm_deposit_shares_new:
  assumes dep: "lm_deposit_shares cfg s (Signed who) f pair x = Inr s1"
    and new: "deposit_data s n = None" "deposit_data s1 n \<noteq> None" and inv: "lm_inv cfg s"
    and tk: "tk = amm_get_share_token (lm_amm cfg) (lm_ext s) pair" and a: "a = amm_get_pair_id (lm_amm cfg) pair"
    and G: "global_pool_data s f = Some gp" and P: "liquidity_pool_data s (f, a) = Some lq"
  obtains now gp1 lq1 t v z w j p c where
    "lm_maybe_update_pools cfg s gp lq now = Inr (gp1, lq1, t)" "\<not> lq_canceled lq"
    "now = lm_current_block_number cfg (lm_ext s) div gp_blocks_per_period gp"
    "lmm_global_pool_shares (lm_math cfg) v (lq_multiplier lq1) = Some z"
    "c_transfer (lm_currency cfg) (lm_ext t) tk who (lm_account_id cfg) x = Inr w"
    "nft_do_mint (lm_nft cfg) w who (lm_nft_class cfg) n [] = Inr (j, lm_ext s1)"
    "liq_pool_metadata s (n mod 2 ^ 32) = Some (p, c, f)" "amm_get_pair_id (lm_amm cfg) p = a"
    "global_pool_data s1 f = Some (gp1\<lparr>gp_total_shares_z := gp_total_shares_z gp1 + z\<rparr>)"
    "liquidity_pool_data s1 (f, a) = Some (lq1\<lparr>lq_total_shares := lq_total_shares lq1 + x,
       lq_total_valued_shares := lq_total_valued_shares lq1 + v,
       lq_stake_in_global_pool := lq_stake_in_global_pool lq1 + z\<rparr>)"
    "deposit_data s1 = (deposit_data s)(n \<mapsto> deposit_new x v (lq_accumulated_rpvs lq1) now)"
    "liq_pool_metadata s1 = (liq_pool_metadata s)(n mod 2 ^ 32 \<mapsto> (p, c + 1, f))"
  using dep tk a
proof (rule lm_deposit_shares_effect)
  fix who' gp0 lq0 now gp1 lq1 t v z w w' j n' p c g
  assume who: "Signed who = Signed who'" and P0: "liquidity_pool_data s (f, a) = Some lq0" and nc: "\<not> lq_canceled lq0"
    and G0: "global_pool_data s f = Some gp0"
    and now: "now = lm_current_block_number cfg (lm_ext s) div gp_blocks_per_period gp0"
    and u: "lm_maybe_update_pools cfg s gp0 lq0 now = Inr (gp1, lq1, t)"
    and z: "lmm_global_pool_shares (lm_math cfg) v (lq_multiplier lq1) = Some z"
    and w: "c_transfer (lm_currency cfg) (lm_ext t) tk who' (lm_account_id cfg) x = Inr w"
    and n': "n' = lq_id lq1 mod 2 ^ 32 + 2 ^ 32 * (nft_instance_sequencer t + 1)"
    and mint: "nft_do_mint (lm_nft cfg) w who' (lm_nft_class cfg) n' [] = Inr (j, w')" "lm_ext s1 = w'"
    and m: "liq_pool_metadata t (lq_id lq1) = Some (p, c, g)"
    and s1: "lm_store s1 = (pool_id_sequencer t, nft_instance_sequencer t + 1,
       (global_pool_data t)(f \<mapsto> gp1\<lparr>gp_total_shares_z := gp_total_shares_z gp1 + z\<rparr>),
       (liquidity_pool_data t)((f, a) \<mapsto> lq1\<lparr>lq_total_shares := lq_total_shares lq1 + x,
          lq_total_valued_shares := lq_total_valued_shares lq1 + v,
          lq_stake_in_global_pool := lq_stake_in_global_pool lq1 + z\<rparr>),
       (deposit_data t)(n' \<mapsto> deposit_new x v (lq_accumulated_rpvs lq1) now),
       (liq_pool_metadata t)(lq_id lq1 \<mapsto> (p, c + 1, g)))"
  have eqs: "gp0 = gp" "lq0 = lq" "who' = who" using G0 G P0 P who by simp_all
  note fr = lm_maybe_update_pools_frame [OF u]
  have st: "deposit_data t = deposit_data s" "liq_pool_metadata t = liq_pool_metadata s"
    using fr(3) by (simp_all add: lm_store_def)
  have n: "n' = n" using s1 new st(1) by (auto simp: lm_store_def split: if_splits)
  have id: "lq_id lq1 = lq_id lq" using lq_fixedD(1) [OF fr(2)] eqs by simp
  have m': "liq_pool_metadata s (lq_id lq) = Some (p, c, g)" using m st id by simp
  note meta = farms_inv_meta [OF lm_invD(1) [OF inv] P m']
  have "lq_id lq < 2 ^ 32"
    using farms_inv_ids(2) [OF lm_invD(1) [OF inv], of "lq_id lq"] m' farms_inv_bound(1) [OF lm_invD(1) [OF inv]]
    by (simp add: u32_max_def)
  then have "lq_id lq = n mod 2 ^ 32" using n' n id by (simp only: mod_mult_self2 mod_mod_trivial mod_less)
  then show thesis
    using u nc now z w mint m' meta s1 st n id eqs
    by (intro that [of now gp1 lq1 t v z w j p c]) (simp_all only: lm_store_def prod.inject, simp_all)
qed

text \<open>
  What liquidity mining relies on around it: tokens, NFTs and the trading pool keep their records
  apart, and a pair and its reverse name the same pool.
\<close>

locale lm_world = cur: multi_currency "lm_currency cfg" + tok: nft_store "lm_nft cfg" for cfg :: "'u lm_config" +
  assumes transfer_quiet: "c_transfer (lm_currency cfg) w a f t x = Inr w' \<Longrightarrow>
      nft_owner (lm_nft cfg) w' = nft_owner (lm_nft cfg) w \<and> lm_current_block_number cfg w' = lm_current_block_number cfg w \<and>
      amm_exists (lm_amm cfg) w' = amm_exists (lm_amm cfg) w \<and>
      amm_get_share_token (lm_amm cfg) w' = amm_get_share_token (lm_amm cfg) w"
    and mint_quiet: "nft_do_mint (lm_nft cfg) w v c n md = Inr (j, w') \<Longrightarrow>
      c_free_balance (lm_currency cfg) w' = c_free_balance (lm_currency cfg) w \<and>
      lm_current_block_number cfg w' = lm_current_block_number cfg w \<and>
      amm_exists (lm_amm cfg) w' = amm_exists (lm_amm cfg) w \<and>
      amm_get_share_token (lm_amm cfg) w' = amm_get_share_token (lm_amm cfg) w"
    and burn_quiet: "nft_do_burn (lm_nft cfg) w v c n = Inr w' \<Longrightarrow>
      c_free_balance (lm_currency cfg) w' = c_free_balance (lm_currency cfg) w"
    and same_pool: "amm_get_pair_id (lm_amm cfg) p = amm_get_pair_id (lm_amm cfg) q \<Longrightarrow>
      amm_get_share_token (lm_amm cfg) w p = amm_get_share_token (lm_amm cfg) w q \<and>
      amm_exists (lm_amm cfg) w p = amm_exists (lm_amm cfg) w q"
begin

lemma transfer_effect:
  assumes "c_transfer (lm_currency cfg) w a f t x = Inr w'"
  shows "lm_quiet cfg a w w'"
    "c_free_balance (lm_currency cfg) w' = sheet_move a f t x (c_free_balance (lm_currency cfg) w)"
  using transfer_quiet [OF assms] cur.transfer_free [OF assms] by (simp_all add: lm_quiet_def fun_eq_iff)

lemma update_liq_pool_quiet:
  assumes "lm_update_liq_pool cfg s lq r now f c = Inr (lq', s')"
  shows "lm_quiet cfg c (lm_ext s) (lm_ext s')"
  using assms transfer_effect(1) by (auto simp: lm_update_liq_pool_def Let_def split: if_splits)

lemma maybe_update_pools_quiet:
  assumes "lm_maybe_update_pools cfg s gp lq now = Inr (gp', lq', s')"
  shows "lm_quiet cfg (gp_reward_currency gp) (lm_ext s) (lm_ext s')"
proof (cases "lq_canceled lq \<or> lq_total_shares lq = 0 \<or> lq_updated_at lq = now")
  case True
  with assms show ?thesis by (auto simp: lm_maybe_update_pools_def split: if_splits)
next
  case False
  with assms obtain gp1 s1 r gp2 lq2 where
    u: "lm_maybe_update_global_pool cfg s gp now = Inr (gp1, s1)"
    "lm_claim_from_global_pool gp1 lq (lq_stake_in_global_pool lq) = Inr (r, gp2, lq2)"
    "lm_update_liq_pool cfg s1 lq2 r now (gp_id gp2) (gp_reward_currency gp2) = Inr (lq', s')"
    by (auto simp: lm_maybe_update_pools_def)
  have "gp_reward_currency gp2 = gp_reward_currency gp"
    using gp_fixedD(4) [OF lm_maybe_update_global_pool_frame(1) [OF u(1)]]
      gp_fixedD(4) [OF lm_claim_from_global_pool_frame(1) [OF u(2)]] by simp
  with update_liq_pool_quiet [OF u(3)] lm_maybe_update_global_pool_frame(3) [OF u(1)]
  show ?thesis by simp
qed

text \<open>The withdrawal of a deposit made in the current period settles without a reward.\<close>

lemma settle_same_period:
  assumes s: "lm_settle_withdrawal cfg s who f a lq d = Inr (d', s')"
    and G: "global_pool_data s f = Some gp" and P: "liquidity_pool_data s (f, a) = Some lq" and nc: "\<not> lq_canceled lq"
    and now: "dp_updated_at d = lm_current_block_number cfg (lm_ext s) div gp_blocks_per_period gp"
    and z: "lmm_global_pool_shares (lm_math cfg) (dp_valued_shares d) (lq_multiplier lq) = Some z"
  obtains gp' lq' where "d' = d" "lm_quiet cfg (gp_reward_currency gp) (lm_ext s) (lm_ext s')"
    "global_pool_data s' f = Some gp'" "gp_total_shares_z gp' = gp_total_shares_z gp - z"
    "liquidity_pool_data s' (f, a) = Some lq'" "lq_total_shares lq' = lq_total_shares lq - dp_shares d"
    "lq_total_valued_shares lq' = lq_total_valued_shares lq - dp_valued_shares d"
    "lq_stake_in_global_pool lq' = lq_stake_in_global_pool lq - z"
    "deposit_data s' = deposit_data s" "liq_pool_metadata s' = liq_pool_metadata s"
  using s
proof (rule lm_settle_withdrawal_effect)
  fix gp0 now' gp1 lq1 s1 r r' s2 gp2 lq2 w
  assume 1: "global_pool_data s f = Some gp0" "now' = lm_current_block_number cfg (lm_ext s) div gp_blocks_per_period gp0"
    "(if \<not> lq_canceled lq then lm_maybe_update_pools cfg s gp0 lq now' else Inr (gp0, lq, s)) = Inr (gp1, lq1, s1)"
    "lm_do_claim_rewards cfg s1 who d lq1 now' (gp_reward_currency gp1) = Inr ((r, r'), d', s2)"
    "lm_release_stake cfg gp1 (lq1\<lparr>lq_total_shares := lq_total_shares lq1 - dp_shares d',
       lq_total_valued_shares := lq_total_valued_shares lq1 - dp_valued_shares d'\<rparr>) d' = Inr (gp2, lq2)"
    "c_transfer (lm_currency cfg) (lm_ext s2) (gp_reward_currency gp2) (lm_sub_account cfg (lq_id lq1))
       (lm_sub_account cfg (gp_id gp1)) r' = Inr w" "lm_ext s' = w"
    "lm_store s' = lm_store (lm_write_pools f a gp2 lq2 s2)"
  have gp0: "gp0 = gp" using 1(1) G by simp
  have u: "lm_maybe_update_pools cfg s gp lq now' = Inr (gp1, lq1, s1)" using 1(3) nc gp0 by simp
  note fr = lm_maybe_update_pools_frame [OF u] and q1 = maybe_update_pools_quiet [OF u]
  have d: "d' = d" "s2 = s1" "r' = 0" using 1(4) now 1(2) gp0 by (auto simp: lm_do_claim_rewards_def)
  obtain z' where z': "gp2 = gp1\<lparr>gp_total_shares_z := gp_total_shares_z gp1 - z'\<rparr>"
      "lq2 = lq1\<lparr>lq_total_shares := lq_total_shares lq1 - dp_shares d,
         lq_total_valued_shares := lq_total_valued_shares lq1 - dp_valued_shares d,
         lq_stake_in_global_pool := lq_stake_in_global_pool lq1 - z'\<rparr>" "z' = z"
    using 1(5) lq_fixedD(5,6) [OF fr(2)] nc z by (rule_tac lm_release_stake_effect) (auto simp: d)
  have "lm_quiet cfg (gp_reward_currency gp) (lm_ext s) (lm_ext s')"
    using q1 transfer_effect(1) [OF 1(6)] z'(1) gp_fixedD(4) [OF fr(1)] 1(7) d(2) by (auto intro: lm_quiet_trans)
  then show thesis
    using d 1(8) fr(3) z' gp_fixedD(3) [OF fr(1)] lq_fixedD [OF fr(2)] by (intro that) (auto simp: lm_store_def)
qed

lemma return_shares:
  assumes "lm_return_shares cfg w pair who x w'" "amm_exists (lm_amm cfg) w pair"
  shows "lm_quiet cfg (amm_get_share_token (lm_amm cfg) w pair) w w'"
    "c_free_balance (lm_currency cfg) w' =
       sheet_move (amm_get_share_token (lm_amm cfg) w pair) (lm_account_id cfg) who x (c_free_balance (lm_currency cfg) w)"
proof -
  have "c_transfer (lm_currency cfg) w (amm_get_share_token (lm_amm cfg) w pair) (lm_account_id cfg) who x = Inr w'"
    using assms by (simp add: lm_return_shares_def)
  note tr = transfer_effect [OF this]
  show "lm_quiet cfg (amm_get_share_token (lm_amm cfg) w pair) w w'" by (rule tr(1))
  show "c_free_balance (lm_currency cfg) w' =
       sheet_move (amm_get_share_token (lm_amm cfg) w pair) (lm_account_id cfg) who x (c_free_balance (lm_currency cfg) w)"
    by (rule tr(2))
qed

lemma withdraw_same_period:
  assumes wd: "lm_withdraw_shares cfg s (Signed who) n = Inr s'" and d: "deposit_data s n = Some d"
    and m: "liq_pool_metadata s (n mod 2 ^ 32) = Some (p, c, f)" and a: "a = amm_get_pair_id (lm_amm cfg) p"
    and G: "global_pool_data s f = Some gp" and P: "liquidity_pool_data s (f, a) = Some lq" and nc: "\<not> lq_canceled lq"
    and now: "dp_updated_at d = lm_current_block_number cfg (lm_ext s) div gp_blocks_per_period gp"
    and z: "lmm_global_pool_shares (lm_math cfg) (dp_valued_shares d) (lq_multiplier lq) = Some z"
    and tk: "tk = amm_get_share_token (lm_amm cfg) (lm_ext s) p" "tk \<noteq> gp_reward_currency gp"
    and ex: "amm_exists (lm_amm cfg) (lm_ext s) p"
  obtains gp' lq' where
    "global_pool_data s' f = Some gp'" "gp_total_shares_z gp' = gp_total_shares_z gp - z"
    "liquidity_pool_data s' (f, a) = Some lq'" "lq_total_shares lq' = lq_total_shares lq - dp_shares d"
    "lq_total_valued_shares lq' = lq_total_valued_shares lq - dp_valued_shares d"
    "lq_stake_in_global_pool lq' = lq_stake_in_global_pool lq - z"
    "deposit_data s' = (deposit_data s)(n := None)"
    "liq_pool_metadata s' = (liq_pool_metadata s)(n mod 2 ^ 32 \<mapsto> (p, c - 1, f))"
    "nft_owner (lm_nft cfg) (lm_ext s') = owner_set (lm_nft_class cfg) n None (nft_owner (lm_nft cfg) (lm_ext s))"
    "lm_free cfg s' tk = sheet_move tk (lm_account_id cfg) who (dp_shares d) (lm_free cfg s) tk"
  using wd
proof (rule lm_withdraw_shares_effect)
  fix who' pair' c' f' d0 gone d' s3 w3 w' M
  assume who: "Signed who = Signed who'"
    and m': "liq_pool_metadata s (n mod 2 ^ 32) = Some (pair', c', f')" and d0: "deposit_data s n = Some d0"
    and settle: "(case liquidity_pool_data s (f', amm_get_pair_id (lm_amm cfg) pair') of
        Some lq \<Rightarrow> and_then (lm_settle_withdrawal cfg s who' f' (amm_get_pair_id (lm_amm cfg) pair') lq d0) (\<lambda>(d, s). Inr (False, d, s))
      | None \<Rightarrow> Inr (True, d0, s)) = Inr (gone, d', s3)"
    and ret: "lm_return_shares cfg (lm_ext s3) pair' who' (dp_shares d') w3"
    and burn: "nft_do_burn (lm_nft cfg) w3 who' (lm_nft_class cfg) n = Inr w'" "lm_ext s' = w'"
    and M: "M = (if c' = 1 \<and> gone then None else Some (pair', c' - 1, f'))"
    and s': "lm_store s' = (pool_id_sequencer s3, nft_instance_sequencer s3, global_pool_data s3, liquidity_pool_data s3,
       (deposit_data s3)(n := None), (liq_pool_metadata s3)(n mod 2 ^ 32 := M))"
  have eqs: "pair' = p" "c' = c" "f' = f" "d0 = d" "who' = who" using m' m d d0 who by simp_all
  have st: "lm_settle_withdrawal cfg s who f a lq d = Inr (d', s3)" and gone: "\<not> gone"
    using settle eqs a P by (auto simp: and_then_eq_Inr)
  from st G P nc now z show thesis
  proof (rule settle_same_period)
    fix gp' lq'
    assume 3: "d' = d" "lm_quiet cfg (gp_reward_currency gp) (lm_ext s) (lm_ext s3)" "global_pool_data s3 f = Some gp'"
        "gp_total_shares_z gp' = gp_total_shares_z gp - z"
      and lq: "liquidity_pool_data s3 (f, a) = Some lq'" "lq_total_shares lq' = lq_total_shares lq - dp_shares d"
        "lq_total_valued_shares lq' = lq_total_valued_shares lq - dp_valued_shares d"
        "lq_stake_in_global_pool lq' = lq_stake_in_global_pool lq - z"
        "deposit_data s3 = deposit_data s" "liq_pool_metadata s3 = liq_pool_metadata s"
    have same: "amm_get_share_token (lm_amm cfg) (lm_ext s3) p = tk" "amm_exists (lm_amm cfg) (lm_ext s3) p"
      using tk(1) ex 3(2) by (simp_all add: lm_quiet_def)
    note ret' = return_shares [OF ret [unfolded eqs] same(2), unfolded same(1)]
    have "nft_owner (lm_nft cfg) (lm_ext s') = owner_set (lm_nft_class cfg) n None (nft_owner (lm_nft cfg) (lm_ext s))"
      using tok.nft.burn_clears [OF burn(1)] burn(2) ret'(1) 3(2) by (simp add: lm_quiet_def)
    moreover have "lm_free cfg s' tk = sheet_move tk (lm_account_id cfg) who (dp_shares d) (lm_free cfg s) tk"
      using burn_quiet [OF burn(1)] burn(2) ret'(2) 3(1,2) tk(2) by (simp add: lm_quiet_def fun_eq_iff)
    ultimately show thesis
      using s' 3(3,4) lq M gone eqs by (intro that [of gp' lq']) (simp_all add: lm_store_def)
  qed
qed

lemma deposit_withdraw:
  assumes dep: "lm_deposit_shares cfg s (Signed who) f pair x = Inr s1"
    and wd: "lm_withdraw_shares cfg s1 (Signed who) n = Inr s2"
    and new: "deposit_data s n = None" "deposit_data s1 n \<noteq> None"
    and inv: "lm_inv cfg s" and ex: "amm_exists (lm_amm cfg) (lm_ext s) pair"
    and tk: "tk = amm_get_share_token (lm_amm cfg) (lm_ext s) pair" "tk \<noteq> gp_reward_currency gp"
    and a: "a = amm_get_pair_id (lm_amm cfg) pair"
    and G: "global_pool_data s f = Some gp" and P: "liquidity_pool_data s (f, a) = Some lq"
  shows "deposit_data s2 = deposit_data s \<and> liq_pool_metadata s2 = liq_pool_metadata s \<and>
    nft_owner (lm_nft cfg) (lm_ext s2) = nft_owner (lm_nft cfg) (lm_ext s) \<and> lm_free cfg s2 tk = lm_free cfg s tk \<and>
    (\<exists>gp' lq'. global_pool_data s2 f = Some gp' \<and> gp_total_shares_z gp' = gp_total_shares_z gp \<and>
      liquidity_pool_data s2 (f, a) = Some lq' \<and> lq_total_shares lq' = lq_total_shares lq \<and>
      lq_total_valued_shares lq' = lq_total_valued_shares lq \<and> lq_stake_in_global_pool lq' = lq_stake_in_global_pool lq)"
  using dep new inv tk(1) a G P
proof (rule lm_deposit_shares_new)
  fix now v z w j p c and gp1 :: global_pool and lq1 :: liq_pool and t :: "'u lm_state"
  let ?d = "deposit_new x v (lq_accumulated_rpvs lq1) now"
  let ?gp = "gp1\<lparr>gp_total_shares_z := gp_total_shares_z gp1 + z\<rparr>"
  let ?lq = "lq1\<lparr>lq_total_shares := lq_total_shares lq1 + x, lq_total_valued_shares := lq_total_valued_shares lq1 + v,
       lq_stake_in_global_pool := lq_stake_in_global_pool lq1 + z\<rparr>"
  assume u: "lm_maybe_update_pools cfg s gp lq now = Inr (gp1, lq1, t)" and nc: "\<not> lq_canceled lq"
    and now: "now = lm_current_block_number cfg (lm_ext s) div gp_blocks_per_period gp"
    and z: "lmm_global_pool_shares (lm_math cfg) v (lq_multiplier lq1) = Some z"
    and w: "c_transfer (lm_currency cfg) (lm_ext t) tk who (lm_account_id cfg) x = Inr w"
    and mint: "nft_do_mint (lm_nft cfg) w who (lm_nft_class cfg) n [] = Inr (j, lm_ext s1)"
    and m: "liq_pool_metadata s (n mod 2 ^ 32) = Some (p, c, f)" "amm_get_pair_id (lm_amm cfg) p = a"
    and s1: "global_pool_data s1 f = Some ?gp" "liquidity_pool_data s1 (f, a) = Some ?lq"
      "deposit_data s1 = (deposit_data s)(n \<mapsto> ?d)"
      "liq_pool_metadata s1 = (liq_pool_metadata s)(n mod 2 ^ 32 \<mapsto> (p, c + 1, f))"
  note fr = lm_maybe_update_pools_frame [OF u] and tr = transfer_effect [OF w] and q = maybe_update_pools_quiet [OF u]
  have q1: "lm_current_block_number cfg (lm_ext s1) = lm_current_block_number cfg (lm_ext s)"
    "amm_exists (lm_amm cfg) (lm_ext s1) = amm_exists (lm_amm cfg) (lm_ext s)"
    "amm_get_share_token (lm_amm cfg) (lm_ext s1) = amm_get_share_token (lm_amm cfg) (lm_ext s)"
    "nft_owner (lm_nft cfg) (lm_ext s1) = owner_set (lm_nft_class cfg) n (Some who) (nft_owner (lm_nft cfg) (lm_ext s))"
    "lm_free cfg s1 tk = sheet_move tk who (lm_account_id cfg) x (lm_free cfg s) tk"
    using q tr mint_quiet [OF mint] tok.nft.mint_sets [OF mint] tk(2) by (simp_all add: lm_quiet_def fun_eq_iff)
  have funds: "who = lm_account_id cfg \<or> x \<le> lm_free cfg s tk who"
    using cur.transfer_funds [OF w] q tk(2) by (auto simp: lm_quiet_def)
  have free: "nft_owner (lm_nft cfg) (lm_ext s) (lm_nft_class cfg) n = None"
    using tok.nft.mint_new [OF mint] q tr(1) by (simp add: lm_quiet_def)
  have pool: "tk = amm_get_share_token (lm_amm cfg) (lm_ext s1) p" "amm_exists (lm_amm cfg) (lm_ext s1) p"
    using same_pool [of p pair] m(2) a ex tk(1) q1(2,3) by simp_all
  have d: "deposit_data s1 n = Some ?d" and m1: "liq_pool_metadata s1 (n mod 2 ^ 32) = Some (p, c + 1, f)"
    and nc': "\<not> lq_canceled ?lq" and rc: "tk \<noteq> gp_reward_currency ?gp"
    and upd: "dp_updated_at ?d = lm_current_block_number cfg (lm_ext s1) div gp_blocks_per_period ?gp"
    and z': "lmm_global_pool_shares (lm_math cfg) (dp_valued_shares ?d) (lq_multiplier ?lq) = Some z"
    using s1(3,4) nc now z q1(1) tk(2) lq_fixedD(6) [OF fr(2)] gp_fixedD(4,7) [OF fr(1)]
    by (simp_all add: deposit_new_def)
  show ?thesis
    by (rule withdraw_same_period [OF wd d m1 m(2) [symmetric] s1(1,2) nc' upd z' pool(1) rc pool(2)])
      (use s1(3,4) new(1) m(1) q1(4,5) free funds gp_fixedD(3) [OF fr(1)] lq_fixedD(2,3,4) [OF fr(2)] in
        \<open>auto simp: deposit_new_def fun_eq_iff fun_upd_idem\<close>)
qed

lemma update_global_pool_earns:
  assumes "lm_maybe_update_global_pool cfg s gp now = Inr (gp', s')"
  obtains earned where "earned \<le> lm_free cfg s (gp_reward_currency gp) (lm_sub_account cfg (gp_id gp))"
    "gp_accumulated_rewards gp' = gp_accumulated_rewards gp + earned"
    "gp_paid_accumulated_rewards gp' = gp_paid_accumulated_rewards gp"
proof (cases "gp_total_shares_z gp \<noteq> 0 \<and> gp_updated_at gp \<noteq> now")
  case True
  with assms obtain r gp1 where
    "lm_accrue_reward cfg gp (min r (lm_free cfg s (gp_reward_currency gp) (lm_sub_account cfg (gp_id gp)))) = Inr gp1"
    "gp' = gp1\<lparr>gp_updated_at := now\<rparr>"
    by (auto simp: lm_maybe_update_global_pool_def lm_update_global_pool_def Let_def)
  with lm_accrue_reward_effect(2,3) [OF this(1)] show thesis by (intro that) simp_all
next
  case False
  with assms that [of 0] show thesis by (auto simp: lm_maybe_update_global_pool_def)
qed

lemma update_moves_rewards:
  assumes u: "lm_maybe_update_pools cfg s gp lq now = Inr (gp', lq', s')" and v: "lq_total_valued_shares lq \<noteq> 0"
  shows "\<exists>earned paid. earned \<le> lm_free cfg s (gp_reward_currency gp) (lm_sub_account cfg (gp_id gp)) \<and>
      paid \<le> gp_accumulated_rewards gp + earned \<and>
      gp_accumulated_rewards gp' + paid = gp_accumulated_rewards gp + earned \<and>
      gp_paid_accumulated_rewards gp' = gp_paid_accumulated_rewards gp + paid \<and>
      lm_free cfg s' = sheet_move (gp_reward_currency gp) (lm_sub_account cfg (gp_id gp)) (lm_sub_account cfg (lq_id lq))
        paid (lm_free cfg s) \<and>
      (lm_sub_account cfg (gp_id gp) \<noteq> lm_sub_account cfg (lq_id lq) \<longrightarrow>
         paid \<le> lm_free cfg s (gp_reward_currency gp) (lm_sub_account cfg (gp_id gp)))"
proof (cases "lq_canceled lq \<or> lq_total_shares lq = 0 \<or> lq_updated_at lq = now")
  case True
  with u show ?thesis by (intro exI [of _ 0]) (auto simp: lm_maybe_update_pools_def split: if_splits)
next
  case False
  with u obtain gp1 s1 r gp2 lq2 where 1:
    "lm_maybe_update_global_pool cfg s gp now = Inr (gp1, s1)"
    "lm_claim_from_global_pool gp1 lq (lq_stake_in_global_pool lq) = Inr (r, gp', lq2)"
    "lm_update_liq_pool cfg s1 lq2 r now (gp_id gp') (gp_reward_currency gp') = Inr (lq', s')"
    by (auto simp: lm_maybe_update_pools_def)
  note fr = lm_maybe_update_global_pool_frame [OF 1(1)] and fc = lm_claim_from_global_pool_frame [OF 1(2)]
  have gp': "gp_id gp' = gp_id gp" "gp_reward_currency gp' = gp_reward_currency gp" "lq_id lq2 = lq_id lq"
      "lq_total_valued_shares lq2 \<noteq> 0"
    using gp_fixedD(1,4) [OF fr(1)] gp_fixedD(1,4) [OF fc(1)] lq_fixedD(1,3) [OF fc(2)] v by simp_all
  have "lq_updated_at lq2 \<noteq> now" using 1(2) False by (auto simp: lm_claim_from_global_pool_def Let_def)
  with 1(3) gp' obtain w where
    "c_transfer (lm_currency cfg) (lm_ext s1) (gp_reward_currency gp) (lm_sub_account cfg (gp_id gp))
       (lm_sub_account cfg (lq_id lq)) r = Inr w" "lm_ext s' = w"
    by (auto simp: lm_update_liq_pool_def Let_def)
  note tr = transfer_effect(2) [OF this(1)] cur.transfer_funds [OF this(1)] this(2)
  from 1(1) show ?thesis
  proof (rule update_global_pool_earns)
    fix earned
    assume "earned \<le> lm_free cfg s (gp_reward_currency gp) (lm_sub_account cfg (gp_id gp))"
      "gp_accumulated_rewards gp1 = gp_accumulated_rewards gp + earned"
      "gp_paid_accumulated_rewards gp1 = gp_paid_accumulated_rewards gp"
    with 1(2) tr fr(3) show ?thesis
      by (intro exI [of _ earned] exI [of _ r]) (auto simp: lm_claim_from_global_pool_def Let_def)
  qed
qed

end

section \<open>An executable world\<close>

text \<open>
  The ledger, the token registry and the block number under one storage. The reward formulas are
  those the math crate documents; every pair of assets has a trading pool whose account and share
  token are computed from the pair.
\<close>

record world =
  wd_ledger :: ledger
  wd_tokens :: registry
  wd_block :: block_number

definition fixed_mul :: "nat \<Rightarrow> nat \<Rightarrow> nat" where
  "fixed_mul x p = x * p div fixed_one"

definition formula_lm_math :: lm_math_ops where
  "formula_lm_math = \<lparr>
     lmm_reward_per_period = (\<lambda>yield z cap. Some (min (fixed_mul z yield) cap)),
     lmm_accumulated_rps = (\<lambda>acc total reward. if total = 0 then None else Some (acc + reward div total)),
     lmm_global_pool_shares = (\<lambda>v m. Some (fixed_mul v m)),
     lmm_loyalty_multiplier = (\<lambda>periods b sc. if sc + periods = 0 then None
        else Some (b + (fixed_one - b) * periods div (sc + periods))),
     lmm_user_reward = (\<lambda>rpvs v claimed now m.
        if now < rpvs then None
        else let total = (now - rpvs) * v; claimable = fixed_mul total m
             in if claimable < claimed then None else Some (claimable - claimed, total - claimable))\<rparr>"

definition world_currency :: "world nft_state currency_ops" where
  "world_currency = lift_currency (\<lambda>s. wd_ledger (nft_ext s)) (\<lambda>l s. s\<lparr>nft_ext := (nft_ext s)\<lparr>wd_ledger := l\<rparr>\<rparr>) ledger_ops"

definition world_nft :: "world nft_config" where
  "world_nft = \<lparr>nft_uniques = lift_uniques wd_tokens (\<lambda>r u. u\<lparr>wd_tokens := r\<rparr>) registry_ops,
     nft_reserve_class_id_up_to = 99, nft_class_deposit = 10, nft_lookup = Some, nft_unlookup = id\<rparr>"

definition world_amm :: "world nft_state amm_ops" where
  "world_amm = \<lparr>amm_exists = (\<lambda>_ _. True), amm_get_pair_id = (\<lambda>p. 1000 + asset_in p + asset_out p),
     amm_get_share_token = (\<lambda>_ p. 100 + asset_in p + asset_out p), amm_get_pool_assets = (\<lambda>_ _. None),
     amm_get_spot_price_unchecked = (\<lambda>_ _ _ x. x),
     amm_validate_sell = (\<lambda>_ _ _ _ _ _. Inl (External 20)), amm_execute_sell = (\<lambda>_ _. Inl (External 20)),
     amm_validate_buy = (\<lambda>_ _ _ _ _ _. Inl (External 20)), amm_execute_buy = (\<lambda>_ _. Inl (External 20)),
     amm_get_min_trading_limit = 1, amm_get_min_pool_liquidity = 1, amm_get_max_in_ratio = 3,
     amm_get_max_out_ratio = 3, amm_get_fee = (\<lambda>_ _. (0, 1))\<rparr>"

definition demo_lm :: "world lm_config" where
  "demo_lm = \<lparr>lm_currency = world_currency, lm_amm = world_amm,
     lm_create_origin = (\<lambda>orig. if orig = Root then Inr () else Inl BadOrigin),
     lm_pallet_account = 500, lm_sub_account = (\<lambda>i. 500 + i), lm_min_total_farm_rewards = 100,
     lm_min_planned_yielding_periods = 10, lm_current_block_number = (\<lambda>s. wd_block (nft_ext s)),
     lm_nft_class = 1, lm_nft = world_nft, lm_math = formula_lm_math\<rparr>"

definition demo_lm_genesis :: "world lm_state" where
  "demo_lm_genesis = \<lparr>lm_ext = \<lparr>nft_ext = \<lparr>wd_ledger = ledger_of [((3, 7), 1000), ((1, 1003), 10), ((103, 8), 20),
        ((1, 1004), 10), ((104, 9), 20)], wd_tokens = \<lparr>rg_classes = Map.empty, rg_tokens = []\<rparr>, wd_block = 1\<rparr>,
        nft_classes = Map.empty, nft_instances = Map.empty, nft_events = []\<rparr>,
     pool_id_sequencer = 0, nft_instance_sequencer = 0,
     global_pool_data = Map.empty, liquidity_pool_data = Map.empty, deposit_data = Map.empty,
     liq_pool_metadata = Map.empty, lm_storage_version = 0, lm_events = []\<rparr>"

definition at_block :: "block_number \<Rightarrow> world lm_state \<Rightarrow> world lm_state" where
  "at_block n s = lm_put ((lm_ext s)\<lparr>nft_ext := (nft_ext (lm_ext s))\<lparr>wd_block := n\<rparr>\<rparr>) s"

interpretation world_currency: multi_currency world_currency
  unfolding world_currency_def by (rule multi_currency_lift [OF ledger.multi_currency_axioms]) simp

interpretation world_nft: nft_store world_nft
  unfolding nft_store_def world_nft_def by (simp, rule uniques_lift [OF registry.uniques_axioms]) simp_all

datatype lm_call =
    CreateFarm origin balance nat block_number asset_id asset_id account_id nat
  | AddPool origin nat asset_pair nat "loyalty_curve option"
  | CancelPool origin nat asset_pair
  | RemovePool origin nat asset_pair
  | DepositShares origin nat asset_pair balance
  | ClaimRewards origin instance_id
  | WithdrawShares origin instance_id
  | Migrate
  | NewBlock block_number

fun lm_exec :: "lm_call \<Rightarrow> world lm_state \<Rightarrow> world lm_state result" where
  "lm_exec (CreateFarm orig r n b ia rc w y) s = lm_create_farm demo_lm s orig r n b ia rc w y"
| "lm_exec (AddPool orig f p m c) s = lm_add_liquidity_pool demo_lm s orig f p m c"
| "lm_exec (CancelPool orig f p) s = lm_cancel_liquidity_pool demo_lm s orig f p"
| "lm_exec (RemovePool orig f p) s = lm_remove_liquidity_pool demo_lm s orig f p"
| "lm_exec (DepositShares orig f p x) s = lm_deposit_shares demo_lm s orig f p x"
| "lm_exec (ClaimRewards orig n) s = lm_claim_rewards demo_lm s orig n"
| "lm_exec (WithdrawShares orig n) s = lm_withdraw_shares demo_lm s orig n"
| "lm_exec Migrate s = ok_or (init_nft_class demo_lm s) (External 99)"
| "lm_exec (NewBlock n) s = Inr (at_block n s)"

fun lm_run :: "lm_call list \<Rightarrow> world lm_state \<Rightarrow> world lm_state result" where
  "lm_run [] s = Inr s"
| "lm_run (c # cs) s = and_then (lm_exec c s) (lm_run cs)"

lemma lm_run_append: "lm_run (cs @ ds) s = and_then (lm_run cs s) (lm_run ds)"
  by (induction cs arbitrary: s) (auto simp: and_then_def split: sum.split)

lemma lm_exec_step: "lm_exec c s = Inr s' \<Longrightarrow> lm_step demo_lm s s'"
  by (cases c) (auto simp: at_block_def intro: lm_step.intros)

lemma lm_run_reachable: "lm_run cs s = Inr s' \<Longrightarrow> lm_reachable demo_lm s \<Longrightarrow> lm_reachable demo_lm s'"
  by (induction cs arbitrary: s) (auto dest: lm_exec_step intro: lm_reachable.step)

lemma demo_lm_genesis_reachable: "lm_reachable demo_lm demo_lm_genesis"
  unfolding demo_lm_genesis_def by (rule lm_reachable.genesis)



lemmas world_ops_simps = demo_lm_def world_currency_def world_nft_def world_amm_def formula_lm_math_def lift_currency_def
  lift_uniques_def registry_ops_def rg_set_def rg_owner_def ledger_ops_def ledger_defs fixed_mul_def fixed_one_def
  demo_lm_genesis_def at_block_def lm_put_def lm_cur_def lm_deposit_event_def nft_deposit_event_def

lemmas lm_op_defs = lm_create_farm_def lm_validate_create_farm_data_def lm_get_now_period_def lm_get_period_number_def
  lm_get_next_pool_id_def global_pool_new_def lm_pool_account_id_def lm_validate_pool_id_def lm_add_liquidity_pool_def
  lm_maybe_update_global_pool_def lm_update_global_pool_def lm_accrue_reward_def permill_to_fixed_def liq_pool_new_def lm_write_pools_def lm_cancel_liquidity_pool_def
  lm_maybe_update_pools_def lm_claim_from_global_pool_def lm_update_liq_pool_def lm_remove_liquidity_pool_def
  lm_deposit_shares_def lm_get_valued_shares_def lm_account_id_def lm_get_next_nft_id_def lm_encode_nft_id_eq deposit_new_def
  lm_claim_rewards_def lm_get_pool_id_from_nft_id_def lm_do_claim_rewards_def lm_get_loyalty_multiplier_def
  lm_withdraw_shares_def lm_settle_withdrawal_def lm_release_stake_def init_nft_class_def
  nft_do_create_class_def nft_do_mint_def nft_do_burn_def nft_owner_def MAX_NFT_INSTANCE_SEQUENCER_def
  POOL_ID_BYTES_def take_to_le_bytes from_le_bytes_to
  checked_add_def checked_sub_def checked_mul_def checked_div_def u32_max_def u64_max_def u128_max_def ensure_signed_def
  Let_def mk_pair_def


definition demo_start :: "lm_call list" where
  "demo_start = [Migrate, CreateFarm Root 1000 10 10 1 3 7 1000000,
     AddPool (Signed 7) 1 (mk_pair 1 2) 1000000000000000000 None, DepositShares (Signed 8) 1 (mk_pair 1 2) 5]"

interpretation demo_lm: lm_world demo_lm
  by (intro lm_world.intro lm_world_axioms.intro)
    (use world_currency.multi_currency_axioms world_nft.nft_store_axioms in
      \<open>auto simp: demo_lm_def world_currency_def world_amm_def world_nft_def lift_currency_def lift_uniques_def
        nft_owner_def nft_do_mint_def nft_do_burn_def nft_deposit_event_def Let_def fun_eq_iff\<close>)

section \<open>Properties\<close>

lemma lm_get_next_nft_id_parts:
  assumes "lm_get_next_nft_id s pid = Inr (n, s')" "pid \<le> u32_max"
  shows "2 ^ 32 < n" "n < 2 ^ 32 * 2 ^ 96" "n mod 2 ^ 32 = pid" "n div 2 ^ 32 = nft_instance_sequencer s'"
proof -
  have pid: "pid < 2 ^ 32" using assms(2) by (simp add: u32_max_def)
  define k where "k = nft_instance_sequencer s + 1"
  have *: "pid \<noteq> 0" "k < 2 ^ 96" "n = pid mod 2 ^ 32 + 2 ^ 32 * k" "s' = s\<lparr>nft_instance_sequencer := k\<rparr>"
    using assms(1) unfolding lm_get_next_nft_id_eq_Inr k_def by blast+
  have n: "n = pid + 2 ^ 32 * k" using *(3) pid by (simp only: mod_less)
  show "n mod 2 ^ 32 = pid" using pid by (simp only: n mod_mult_self2 mod_less)
  have "n div 2 ^ 32 = k" using pid by (simp only: n div_mult_self2 div_less add_0_right)
  then show "n div 2 ^ 32 = nft_instance_sequencer s'" using *(4) by simp
  show "2 ^ 32 < n" using *(1) n by (simp add: k_def)
  have "n < 2 ^ 32 * (k + 1)" using pid n by simp
  also have "\<dots> \<le> 2 ^ 32 * 2 ^ 96" using *(2) by (intro mult_left_mono) simp_all
  finally show "n < 2 ^ 32 * 2 ^ 96" .
qed

text \<open>
  C33. The id of a new deposit fits its type, decodes to the liquidity pool it was issued for and to
  the sequence number that was issued with it, and no other pool or number encodes to the same id.
\<close>

theorem lm_nft_id_roundtrip:
  assumes "lm_get_next_nft_id s pid = Inr (n, s')" "pid \<le> u32_max"
  shows "n \<le> u128_max \<and> lm_get_pool_id_from_nft_id n = Inr pid \<and> n div 2 ^ 32 = nft_instance_sequencer s' \<and>
    (lm_get_next_nft_id t pid' = Inr (n, t') \<and> pid' \<le> u32_max \<longrightarrow>
       pid' = pid \<and> nft_instance_sequencer t' = nft_instance_sequencer s')"
proof -
  note parts = lm_get_next_nft_id_parts
  have "n \<le> u128_max" using parts(2) [OF assms] by (simp add: u128_max_def)
  moreover have "lm_get_pool_id_from_nft_id n = Inr pid"
    using parts(1,3) [OF assms] unfolding lm_get_pool_id_from_nft_id_eq_Inr by simp
  moreover have "pid' = pid \<and> nft_instance_sequencer t' = nft_instance_sequencer s'"
    if "lm_get_next_nft_id t pid' = Inr (n, t')" "pid' \<le> u32_max"
    using parts(3,4) [OF that] parts(3,4) [OF assms] by simp
  ultimately show ?thesis using parts(4) [OF assms] by blast
qed

theorem lm_nft_id_roundtrip_witness:
  "\<exists>s'. lm_get_next_nft_id demo_lm_genesis 2 = Inr (4294967298, s') \<and> lm_get_pool_id_from_nft_id 4294967298 = Inr 2"
proof -
  have "nft_instance_sequencer demo_lm_genesis = 0" by (simp add: demo_lm_genesis_def)
  then have *: "lm_get_next_nft_id demo_lm_genesis 2 = Inr (4294967298, demo_lm_genesis\<lparr>nft_instance_sequencer := 1\<rparr>)"
    by (simp add: lm_get_next_nft_id_def lm_validate_pool_id_def lm_encode_nft_id_eq MAX_NFT_INSTANCE_SEQUENCER_def
        checked_add_def u128_max_def)
  have "(2::nat) \<le> u32_max" by (simp add: u32_max_def)
  from lm_nft_id_roundtrip [OF * this] * show ?thesis by blast
qed

text \<open>
  C6. In every reachable state, whatever happens outside the pallet, each farm counts its liquidity
  pools and the sum of their stakes, a canceled pool has no stake, each pool belongs to a farm and
  has metadata that lead back to it, and the metadata of a pool count exactly the deposits made
  in it, also after the pool was removed.
\<close>

theorem lm_reachable_invariant:
  assumes "lm_reachable cfg s"
  shows "lm_inv cfg s"
  using assms by (rule lm_inv_reachable)

theorem lm_reachable_invariant_witness:
  "\<exists>s. lm_run demo_start demo_lm_genesis = Inr s \<and> lm_inv demo_lm s \<and>
     map_option gp_total_shares_z (global_pool_data s 1) = Some 50"
proof -
  have "\<exists>s. lm_run demo_start demo_lm_genesis = Inr s \<and>
     map_option gp_total_shares_z (global_pool_data s 1) = Some 50"
    by (simp add: demo_start_def world_ops_simps lm_op_defs del: and_then_eq_Inr)
  with lm_reachable_invariant lm_run_reachable [OF _ demo_lm_genesis_reachable] show ?thesis by blast
qed







text \<open>
  Removing a canceled pool and adding the pair again locks the deposits of the removed pool: an
  owner who could withdraw before the pair was added again cannot afterwards, because the
  withdrawal is settled with the new pool, which holds no shares.
\<close>

lemma lm_readded_pool_locks_deposit:
  "\<exists>s s'. lm_run (demo_start @ [CancelPool (Signed 7) 1 (mk_pair 1 2), RemovePool (Signed 7) 1 (mk_pair 1 2)])
         demo_lm_genesis = Inr s \<and>
     is_ok (lm_withdraw_shares demo_lm s (Signed 8) 4294967298) \<and>
     lm_add_liquidity_pool demo_lm s (Signed 7) 1 (mk_pair 1 2) 1000000000000000000 None = Inr s' \<and>
     map_option dp_shares (deposit_data s' 4294967298) = Some 5 \<and>
     lm_withdraw_shares demo_lm s' (Signed 8) 4294967298 = Inl lm_overflow"
  by (simp add: demo_start_def world_ops_simps lm_op_defs del: and_then_eq_Inr)

text \<open>
  A liquidity pool added to a running farm is paid for the periods before it existed: its first
  claim takes four periods of rewards after one period, and the earlier depositor can then
  neither claim nor withdraw, because what the farm still owes is gone from its books.
\<close>

lemma lm_late_pool_takes_rewards:
  "\<exists>s. lm_run (demo_start @ [NewBlock 31, AddPool (Signed 7) 1 (mk_pair 1 3) 1000000000000000000 None,
         DepositShares (Signed 9) 1 (mk_pair 1 3) 5, NewBlock 41, ClaimRewards (Signed 9) 8589934595])
         demo_lm_genesis = Inr s \<and>
     lm_free demo_lm s 3 9 = 200 \<and>
     lm_claim_rewards demo_lm s (Signed 8) 4294967298 = Inl lm_overflow \<and>
     lm_withdraw_shares demo_lm s (Signed 8) 4294967298 = Inl lm_overflow"
  by (simp add: demo_start_def world_ops_simps lm_op_defs del: and_then_eq_Inr)

end
