(* ===== verification/Vault.thy ===== *)
theory Vault
  imports LM_Props
begin

text \<open>
  What liquidity mining promises to the owners of deposits, as an abstract vault: claims on shares,
  each with an owner, and the shares held against them. The calls of \<open>pallets/liquidity-mining/src/lib.rs\<close>
  are put together in \<open>lm_dispatch\<close>, with what each of them does to the storage outside the pallet: all
  but two only move tokens out of accounts other than the pallet's own (\<open>lm_flow\<close>); a deposit opens a
  claim and a withdrawal closes one. \<open>Bazaar\<close> uses this for the pallets together.
\<close>

section \<open>The vault\<close>

record vault =
  vt_claims :: "instance_id \<rightharpoonup> asset_id \<times> balance"
  vt_owner :: "instance_id \<Rightarrow> account_id option"
  vt_held :: "asset_id \<Rightarrow> balance"

definition owed :: "(instance_id \<rightharpoonup> asset_id \<times> balance) \<Rightarrow> asset_id \<Rightarrow> balance" where
  "owed cl k = map_sum (\<lambda>(a, x). if a = k then x else 0) cl UNIV"

text \<open>Only a closing claim takes from what is held, and only its own shares.\<close>

inductive vault_step :: "vault \<Rightarrow> vault \<Rightarrow> bool" where
  gain: "(\<And>k. vt_held v k \<le> h k) \<Longrightarrow> vault_step v (v\<lparr>vt_held := h\<rparr>)"
| move: "vt_owner v n = Some a \<Longrightarrow> vault_step v (v\<lparr>vt_owner := (vt_owner v)(n \<mapsto> b)\<rparr>)"
| open_claim: "vt_owner v n = None \<Longrightarrow> (\<And>a. vt_held v a + (if a = k then x else 0) \<le> h a) \<Longrightarrow>
    vault_step v \<lparr>vt_claims = (vt_claims v)(n \<mapsto> (k, x)), vt_owner = (vt_owner v)(n \<mapsto> b), vt_held = h\<rparr>"
| close_claim: "vt_claims v n = Some (k, x) \<Longrightarrow> vt_owner v n = Some b \<Longrightarrow>
    (\<And>a. vt_held v a - (if a = k then x else 0) \<le> h a) \<Longrightarrow>
    vault_step v \<lparr>vt_claims = (vt_claims v)(n := None), vt_owner = (vt_owner v)(n := None), vt_held = h\<rparr>"

definition vault_ok :: "vault \<Rightarrow> bool" where
  "vault_ok v \<longleftrightarrow> finite (dom (vt_claims v)) \<and> (\<forall>n. vt_owner v n = None \<longleftrightarrow> vt_claims v n = None) \<and>
     (\<forall>k. owed (vt_claims v) k \<le> vt_held v k)"

lemma owed_upd:
  assumes "finite (dom cl)"
  shows "owed (cl(n := c)) k + (case cl n of None \<Rightarrow> 0 | Some (a, x) \<Rightarrow> if a = k then x else 0) =
    owed cl k + (case c of None \<Rightarrow> 0 | Some (a, x) \<Rightarrow> if a = k then x else 0)"
  using map_sum_upd [OF assms UNIV_I, of "\<lambda>(a, x). if a = k then x else 0" n c]
  by (simp add: owed_def split: option.splits)

lemma claim_le_owed:
  assumes "finite (dom cl)" "cl n = Some (k, x)"
  shows "x \<le> owed cl k"
  using map_sum_split [OF assms(1) UNIV_I, of "\<lambda>(a, x). if a = k then x else 0" n] assms(2) by (simp add: owed_def)

lemma vault_step_ok:
  assumes "vault_step v v'" "vault_ok v"
  shows "vault_ok v'"
  using assms
proof (cases rule: vault_step.cases)
  case (gain h)
  with assms(2) show ?thesis by (auto simp: vault_ok_def intro: order_trans)
next
  case (move n a b)
  then have "vt_claims v n \<noteq> None" using assms(2) by (metis vault_ok_def option.distinct(1))
  with move assms(2) show ?thesis by (simp add: vault_ok_def)
next
  case (open_claim n k x h b)
  from assms(2) have fin: "finite (dom (vt_claims v))" and le: "\<And>k. owed (vt_claims v) k \<le> vt_held v k"
    and own: "\<And>n. vt_owner v n = None \<longleftrightarrow> vt_claims v n = None" by (simp_all add: vault_ok_def)
  have "owed ((vt_claims v)(n \<mapsto> (k, x))) a = owed (vt_claims v) a + (if a = k then x else 0)" for a
    using owed_upd [OF fin, of n "Some (k, x)" a] own open_claim(2) by auto
  then have "owed (vt_claims v') a \<le> vt_held v' a" for a
    using open_claim(1,3) le [of a] by (simp add: order_trans [OF add_right_mono])
  with open_claim fin own show ?thesis by (auto simp: vault_ok_def)
next
  case (close_claim n k x b h)
  from assms(2) have fin: "finite (dom (vt_claims v))" and le: "\<And>k. owed (vt_claims v) k \<le> vt_held v k"
    and own: "\<And>n. vt_owner v n = None \<longleftrightarrow> vt_claims v n = None" by (simp_all add: vault_ok_def)
  have "owed ((vt_claims v)(n := None)) a + (if a = k then x else 0) = owed (vt_claims v) a" for a
    using owed_upd [OF fin, of n None a] close_claim(2) by auto
  then have "owed ((vt_claims v)(n := None)) a = owed (vt_claims v) a - (if a = k then x else 0)" for a
    by (metis add_diff_cancel_right')
  then have "owed (vt_claims v') a \<le> vt_held v' a" for a
    using order_trans [OF diff_le_mono [OF le] close_claim(4)] by (simp add: close_claim(1))
  with close_claim fin own show ?thesis by (auto simp: vault_ok_def)
qed

lemma vault_steps_ok: "vault_step\<^sup>*\<^sup>* v v' \<Longrightarrow> vault_ok v \<Longrightarrow> vault_ok v'"
  by (induction rule: rtranclp_induct) (auto intro: vault_step_ok)

section \<open>Transfers\<close>

text \<open>A sequence of transfers, each out of an account that satisfies \<open>P\<close>.\<close>

inductive lm_flow :: "'u lm_config \<Rightarrow> (account_id \<Rightarrow> bool) \<Rightarrow> 'u nft_state \<Rightarrow> 'u nft_state \<Rightarrow> bool" for cfg P where
  still: "lm_flow cfg P w w"
| pay: "lm_flow cfg P w v \<Longrightarrow> c_transfer (lm_currency cfg) v a f t x = Inr u \<Longrightarrow> P f \<Longrightarrow> lm_flow cfg P w u"

lemma lm_flow_one: "c_transfer (lm_currency cfg) w a f t x = Inr u \<Longrightarrow> P f \<Longrightarrow> lm_flow cfg P w u"
  by (rule lm_flow.pay [OF lm_flow.still])

lemma lm_flow_trans: "lm_flow cfg P w v \<Longrightarrow> lm_flow cfg P v u \<Longrightarrow> lm_flow cfg P w u"
  by (rotate_tac, induction rule: lm_flow.induct) (auto intro: lm_flow.pay)

text \<open>The accounts of farms and pools may pay.\<close>

definition subs_pay :: "'u lm_config \<Rightarrow> (account_id \<Rightarrow> bool) \<Rightarrow> bool" where
  "subs_pay cfg P \<longleftrightarrow> (\<forall>i. i \<noteq> 0 \<longrightarrow> P (lm_sub_account cfg i))"

lemma flow_update_liq_pool:
  assumes "lm_update_liq_pool cfg s lq r now f c = Inr (lq', s')" "subs_pay cfg P"
  shows "lm_flow cfg P (lm_ext s) (lm_ext s')"
  using assms by (auto simp: lm_update_liq_pool_def Let_def subs_pay_def split: if_splits intro: lm_flow.still lm_flow_one)

lemma flow_maybe_update_pools:
  assumes "lm_maybe_update_pools cfg s gp lq now = Inr (gp', lq', s')" "subs_pay cfg P"
  shows "lm_flow cfg P (lm_ext s) (lm_ext s')"
  using assms
  by (auto simp: lm_maybe_update_pools_def split: if_splits intro: lm_flow.still
      dest: lm_maybe_update_global_pool_frame(3) dest!: flow_update_liq_pool)

lemma flow_do_claim_rewards:
  assumes "lm_do_claim_rewards cfg s who d lq now c = Inr (rs, d', s')" "subs_pay cfg P"
  shows "lm_flow cfg P (lm_ext s) (lm_ext s')"
  using assms by (auto simp: lm_do_claim_rewards_def Let_def subs_pay_def split: if_splits intro: lm_flow.still lm_flow_one)

lemma flow_settle_withdrawal:
  assumes "lm_settle_withdrawal cfg s who f a lq d = Inr (d', s')" "subs_pay cfg P"
  shows "lm_flow cfg P (lm_ext s) (lm_ext s')"
  using assms(1)
proof (rule lm_settle_withdrawal_effect)
  fix gp now gp1 lq1 s1 r r' s2 gp2 lq2 w
  assume u: "(if \<not> lq_canceled lq then lm_maybe_update_pools cfg s gp lq now else Inr (gp, lq, s)) = Inr (gp1, lq1, s1)"
    and cl: "lm_do_claim_rewards cfg s1 who d lq1 now (gp_reward_currency gp1) = Inr ((r, r'), d', s2)"
    and t: "c_transfer (lm_currency cfg) (lm_ext s2) (gp_reward_currency gp2) (lm_sub_account cfg (lq_id lq1))
       (lm_sub_account cfg (gp_id gp1)) r' = Inr w" "lm_ext s' = w"
  assume id: "lq_id lq1 \<noteq> 0"
  have "lm_flow cfg P (lm_ext s) (lm_ext s1)"
    using u flow_maybe_update_pools [OF _ assms(2)] by (auto split: if_splits intro: lm_flow.still)
  moreover have "lm_flow cfg P (lm_ext s1) (lm_ext s2)" by (rule flow_do_claim_rewards [OF cl assms(2)])
  moreover have "lm_flow cfg P (lm_ext s2) (lm_ext s')"
    using t assms(2) id by (auto simp: subs_pay_def intro: lm_flow_one)
  ultimately show ?thesis by (blast intro: lm_flow_trans)
qed

section \<open>The calls of the pallet\<close>

datatype lm_op =
    OpCreateFarm balance nat block_number asset_id asset_id account_id nat
  | OpDestroyFarm nat
  | OpWithdrawUndistributedRewards nat
  | OpAddLiquidityPool nat asset_pair nat "loyalty_curve option"
  | OpUpdateLiquidityPool nat asset_pair nat
  | OpCancelLiquidityPool nat asset_pair
  | OpResumeLiquidityPool nat asset_pair nat
  | OpRemoveLiquidityPool nat asset_pair
  | OpDepositShares nat asset_pair balance
  | OpClaimRewards instance_id
  | OpWithdrawShares instance_id

fun lm_dispatch :: "'u lm_config \<Rightarrow> 'u lm_state \<Rightarrow> origin \<Rightarrow> lm_op \<Rightarrow> 'u lm_state result" where
  "lm_dispatch cfg s orig (OpCreateFarm r n b ia rc w y) = lm_create_farm cfg s orig r n b ia rc w y"
| "lm_dispatch cfg s orig (OpDestroyFarm f) = lm_destroy_farm cfg s orig f"
| "lm_dispatch cfg s orig (OpWithdrawUndistributedRewards f) = lm_withdraw_undistributed_rewards cfg s orig f"
| "lm_dispatch cfg s orig (OpAddLiquidityPool f p m c) = lm_add_liquidity_pool cfg s orig f p m c"
| "lm_dispatch cfg s orig (OpUpdateLiquidityPool f p m) = lm_update_liquidity_pool cfg s orig f p m"
| "lm_dispatch cfg s orig (OpCancelLiquidityPool f p) = lm_cancel_liquidity_pool cfg s orig f p"
| "lm_dispatch cfg s orig (OpResumeLiquidityPool f p m) = lm_resume_liquidity_pool cfg s orig f p m"
| "lm_dispatch cfg s orig (OpRemoveLiquidityPool f p) = lm_remove_liquidity_pool cfg s orig f p"
| "lm_dispatch cfg s orig (OpDepositShares f p x) = lm_deposit_shares cfg s orig f p x"
| "lm_dispatch cfg s orig (OpClaimRewards n) = lm_claim_rewards cfg s orig n"
| "lm_dispatch cfg s orig (OpWithdrawShares n) = lm_withdraw_shares cfg s orig n"

lemma lm_dispatch_step: "lm_dispatch cfg s orig c = Inr s' \<Longrightarrow> lm_step cfg s s'"
  by (cases c) (auto intro: lm_step.intros)

text \<open>The calls that neither open nor close a deposit, and the account a new farm is paid from.\<close>

fun lm_plain :: "lm_op \<Rightarrow> bool" where
  "lm_plain (OpDepositShares f p x) \<longleftrightarrow> False"
| "lm_plain (OpWithdrawShares n) \<longleftrightarrow> False"
| "lm_plain _ \<longleftrightarrow> True"

fun lm_payer :: "lm_op \<Rightarrow> account_id option" where
  "lm_payer (OpCreateFarm r n b ia rc w y) = Some w"
| "lm_payer _ = None"

lemma lm_plain_flow:
  assumes "lm_dispatch cfg s orig c = Inr s'" "lm_plain c" "subs_pay cfg P" "\<And>w. lm_payer c = Some w \<Longrightarrow> P w"
  shows "lm_flow cfg P (lm_ext s) (lm_ext s')"
proof (cases c)
  case (OpCreateFarm r n b ia rc w y)
  with assms show ?thesis
    by (auto simp: lm_create_farm_def Let_def lm_get_next_pool_id_def global_pool_new_def intro: lm_flow_one)
next
  case (OpDestroyFarm f)
  with assms(1) show ?thesis by (auto simp: lm_destroy_farm_def intro: lm_flow.still)
next
  case (OpWithdrawUndistributedRewards f)
  with assms(1,3) show ?thesis
    by (auto simp: lm_withdraw_undistributed_rewards_def Let_def subs_pay_def intro: lm_flow_one)
next
  case (OpAddLiquidityPool f p m cu)
  with assms(1) show ?thesis
    by (auto simp: lm_add_liquidity_pool_def Let_def lm_get_next_pool_id_def lm_flow.still
        dest!: lm_maybe_update_global_pool_frame(3))
next
  case (OpUpdateLiquidityPool f p m)
  with assms(1,3) show ?thesis by (auto simp: lm_update_liquidity_pool_def Let_def dest: flow_maybe_update_pools)
next
  case (OpCancelLiquidityPool f p)
  with assms(1,3) show ?thesis by (auto simp: lm_cancel_liquidity_pool_def Let_def dest: flow_maybe_update_pools)
next
  case (OpResumeLiquidityPool f p m)
  with assms(1) show ?thesis
    by (auto simp: lm_resume_liquidity_pool_def Let_def lm_flow.still dest!: lm_maybe_update_global_pool_frame(3))
next
  case (OpRemoveLiquidityPool f p)
  with assms(1,3) show ?thesis
    by (clarsimp simp: lm_remove_liquidity_pool_def Let_def subs_pay_def)
      (auto split: option.splits intro!: lm_flow_one)
next
  case (OpClaimRewards n)
  with assms(1) have "lm_claim_rewards cfg s orig n = Inr s'" by simp
  then show ?thesis
    by (rule lm_claim_rewards_effect)
      (use assms(3) in \<open>auto intro: lm_flow_trans flow_maybe_update_pools flow_do_claim_rewards\<close>)
qed (use assms(2) in simp_all)

section \<open>The vault of the pallet\<close>

text \<open>\<open>st\<close> names the share token of a trading pool by the account of the pool.\<close>

definition lm_claims :: "'u lm_config \<Rightarrow> (account_id \<Rightarrow> asset_id) \<Rightarrow> 'u lm_state \<Rightarrow> instance_id \<rightharpoonup> asset_id \<times> balance" where
  "lm_claims cfg st s n =
    (case deposit_data s n of None \<Rightarrow> None
     | Some d \<Rightarrow> (case liq_pool_metadata s (n mod 2 ^ 32) of None \<Rightarrow> None
        | Some (pair, c, f) \<Rightarrow> Some (st (amm_get_pair_id (lm_amm cfg) pair), dp_shares d)))"

definition lm_vault :: "'u lm_config \<Rightarrow> (account_id \<Rightarrow> asset_id) \<Rightarrow> 'u lm_state \<Rightarrow> vault" where
  "lm_vault cfg st s = \<lparr>vt_claims = lm_claims cfg st s, vt_owner = nft_owner (lm_nft cfg) (lm_ext s) (lm_nft_class cfg),
     vt_held = (\<lambda>k. lm_free cfg s k (lm_account_id cfg))\<rparr>"

lemma deposit_counted:
  assumes "lm_inv cfg s" "deposit_data s n \<noteq> None"
  shows "\<exists>pair c f. liq_pool_metadata s (n mod 2 ^ 32) = Some (pair, c, f) \<and> c \<noteq> 0"
proof -
  note inv = lm_invD(2) [OF assms(1)]
  have "n \<in> pool_deposits (deposit_data s) (n mod 2 ^ 32)" using assms(2) by (auto simp: pool_deposits_def)
  moreover have "finite (pool_deposits (deposit_data s) (n mod 2 ^ 32))"
    using inv by (intro pool_deposits_finite) (simp add: deposits_inv_def)
  ultimately have "card (pool_deposits (deposit_data s) (n mod 2 ^ 32)) \<noteq> 0" by auto
  then show ?thesis
    using inv by (cases "liq_pool_metadata s (n mod 2 ^ 32)") (auto simp: deposits_inv_def)
qed

lemma deposit_has_metadata: "lm_inv cfg s \<Longrightarrow> deposit_data s n \<noteq> None \<Longrightarrow> liq_pool_metadata s (n mod 2 ^ 32) \<noteq> None"
  using deposit_counted by fastforce

lemma deposit_alone:
  assumes "lm_inv cfg s" "liq_pool_metadata s (n mod 2 ^ 32) = Some (pair, 1, f)" "deposit_data s n = Some d"
    and "deposit_data s k \<noteq> None" "k mod 2 ^ 32 = n mod 2 ^ 32"
  shows "k = n"
proof -
  have "card (pool_deposits (deposit_data s) (n mod 2 ^ 32)) = 1"
    using lm_invD(2) [OF assms(1)] assms(2) by (simp add: deposits_inv_def)
  then obtain m where "pool_deposits (deposit_data s) (n mod 2 ^ 32) = {m}" by (auto simp: card_1_singleton_iff)
  moreover have "n \<in> pool_deposits (deposit_data s) (n mod 2 ^ 32)" "k \<in> pool_deposits (deposit_data s) (n mod 2 ^ 32)"
    using assms(3-5) by (auto simp: pool_deposits_def)
  ultimately show ?thesis by simp
qed

lemma lm_claims_dom:
  assumes "lm_inv cfg s"
  shows "lm_claims cfg st s n = None \<longleftrightarrow> deposit_data s n = None" "finite (dom (lm_claims cfg st s))"
proof -
  show iff: "lm_claims cfg st s n = None \<longleftrightarrow> deposit_data s n = None" for n
    using deposit_has_metadata [OF assms, of n] by (cases "deposit_data s n") (auto simp: lm_claims_def)
  have "dom (lm_claims cfg st s) = dom (deposit_data s)" unfolding dom_def by (simp only: iff)
  then show "finite (dom (lm_claims cfg st s))" using lm_invD(2) [OF assms] by (simp add: deposits_inv_def)
qed

lemma lm_claims_cong:
  assumes "\<And>n. map_option dp_shares (deposit_data s' n) = map_option dp_shares (deposit_data s n)"
    and "\<And>n. deposit_data s n \<noteq> None \<Longrightarrow>
      map_option fst (liq_pool_metadata s' (n mod 2 ^ 32)) = map_option fst (liq_pool_metadata s (n mod 2 ^ 32))"
  shows "lm_claims cfg st s' = lm_claims cfg st s"
proof
  fix n
  show "lm_claims cfg st s' n = lm_claims cfg st s n"
  proof (cases "deposit_data s n")
    case None
    with assms(1) [of n] show ?thesis by (simp add: lm_claims_def)
  next
    case (Some d)
    with assms(1) [of n] obtain d' where "deposit_data s' n = Some d'" "dp_shares d' = dp_shares d" by auto
    with Some assms(2) [of n] show ?thesis
      by (cases "liq_pool_metadata s (n mod 2 ^ 32)"; cases "liq_pool_metadata s' (n mod 2 ^ 32)") (auto simp: lm_claims_def)
  qed
qed

text \<open>Every call but a deposit and a withdrawal keeps the claims.\<close>

lemma lm_claims_add_pool:
  assumes "lm_add_liquidity_pool cfg s orig f pair m c = Inr s'" "lm_inv cfg s"
  shows "lm_claims cfg st s' = lm_claims cfg st s"
  using assms(1)
proof (rule lm_add_pool_effect)
  fix gp gp1 s1 now
  assume u: "lm_maybe_update_global_pool cfg s gp now = Inr (gp1, s1)"
    and s': "lm_store s' = (pool_id_sequencer s1 + 1, nft_instance_sequencer s1,
      (global_pool_data s1)(f \<mapsto> gp1\<lparr>gp_liq_pools_count := gp_liq_pools_count gp1 + 1\<rparr>),
      (liquidity_pool_data s1)((gp_id gp1, amm_get_pair_id (lm_amm cfg) pair) \<mapsto>
         liq_pool_new (pool_id_sequencer s1 + 1) now c m), deposit_data s1,
      (liq_pool_metadata s1)(pool_id_sequencer s1 + 1 \<mapsto> (pair, 0, gp_id gp1)))"
  have st: "lm_store s1 = lm_store s" by (rule lm_maybe_update_global_pool_frame(2) [OF u])
  have "n mod 2 ^ 32 \<noteq> pool_id_sequencer s + 1" if "deposit_data s n \<noteq> None" for n
    using deposit_has_metadata [OF assms(2) that] farms_inv_fresh(1) [OF lm_invD(1) [OF assms(2)]] by metis
  with s' st show ?thesis by (intro lm_claims_cong) (auto simp: lm_store_def)
qed

lemma lm_claims_remove_pool:
  assumes "lm_remove_liquidity_pool cfg s orig f pair = Inr s'" "lm_inv cfg s"
  shows "lm_claims cfg st s' = lm_claims cfg st s"
  using assms(1) refl
proof (rule lm_remove_pool_effect)
  fix gp lq
  assume s': "lm_store s' = (pool_id_sequencer s, nft_instance_sequencer s,
       (global_pool_data s)(f \<mapsto> gp\<lparr>gp_liq_pools_count := gp_liq_pools_count gp - 1\<rparr>),
       (liquidity_pool_data s)((f, amm_get_pair_id (lm_amm cfg) pair) := None), deposit_data s,
       (case liq_pool_metadata s (lq_id lq) of
          Some (_, n, _) \<Rightarrow> if n = 0 then (liq_pool_metadata s)(lq_id lq := None) else liq_pool_metadata s
        | None \<Rightarrow> liq_pool_metadata s))"
  have "n mod 2 ^ 32 \<noteq> lq_id lq" if "deposit_data s n \<noteq> None" "liq_pool_metadata s (lq_id lq) = Some (p, 0, g)" for n p g
    using deposit_counted [OF assms(2) that(1)] that(2) by fastforce
  with s' show ?thesis by (intro lm_claims_cong) (auto simp: lm_store_def split: option.splits)
qed

lemma lm_plain_claims:
  assumes "lm_dispatch cfg s orig c = Inr s'" "lm_plain c" "lm_inv cfg s"
  shows "lm_claims cfg st s' = lm_claims cfg st s"
proof (cases c)
  case (OpAddLiquidityPool f p m cu)
  with assms lm_claims_add_pool show ?thesis by simp
next
  case (OpRemoveLiquidityPool f p)
  with assms lm_claims_remove_pool show ?thesis by simp
next
  case (OpClaimRewards n)
  with assms(1) have "lm_claim_rewards cfg s orig n = Inr s'" by simp
  then show ?thesis
  proof (rule lm_claim_rewards_effect)
    fix who pair cn f d lq gp now gp1 lq1 s1 r r' d' s2
    assume d: "deposit_data s n = Some d"
      and u: "lm_maybe_update_pools cfg s gp lq now = Inr (gp1, lq1, s1)"
      and cl: "lm_do_claim_rewards cfg s1 who d lq1 now (gp_reward_currency gp1) = Inr ((r, r'), d', s2)"
      and s': "lm_store s' = lm_store ((lm_write_pools f (amm_get_pair_id (lm_amm cfg) pair) gp1 lq1 s2)
        \<lparr>deposit_data := (deposit_data s2)(n \<mapsto> d')\<rparr>)"
    note fr = lm_do_claim_rewards_frame(1,2) [OF cl] lm_maybe_update_pools_frame(3) [OF u]
    show ?thesis by (rule lm_claims_cong) (use s' d fr in \<open>auto simp: lm_store_def\<close>)
  qed
qed (use assms(1,2) in \<open>auto simp: lm_create_farm_def lm_destroy_farm_def lm_withdraw_undistributed_rewards_def
  lm_update_liquidity_pool_def lm_cancel_liquidity_pool_def lm_resume_liquidity_pool_def lm_get_next_pool_id_def Let_def lm_store_eq
  intro!: lm_claims_cong dest!: lm_maybe_update_pools_frame(3) lm_maybe_update_global_pool_frame(2)\<close>)

text \<open>A deposit opens a claim on the share token, under the id of the minted token.\<close>

lemma lm_deposit_opens:
  assumes "lm_deposit_shares cfg s orig f pair x = Inr s'" "lm_inv cfg s" "subs_pay cfg P"
    and tk: "tk = amm_get_share_token (lm_amm cfg) (lm_ext s) pair" "st (amm_get_pair_id (lm_amm cfg) pair) = tk"
  obtains who n j v u where "orig = Signed who" "lm_flow cfg P (lm_ext s) v"
    "c_transfer (lm_currency cfg) v tk who (lm_account_id cfg) x = Inr u"
    "nft_do_mint (lm_nft cfg) u who (lm_nft_class cfg) n [] = Inr (j, lm_ext s')"
    "lm_claims cfg st s' = (lm_claims cfg st s)(n \<mapsto> (tk, x))" "2 ^ 32 < n"
  using assms(1) tk(1) refl
proof (rule lm_deposit_shares_effect)
  let ?a = "amm_get_pair_id (lm_amm cfg) pair"
  fix who gp lq now gp1 lq1 s1 v z w w' j n p c g
  assume who: "orig = Signed who" and P: "liquidity_pool_data s (f, ?a) = Some lq"
    and u: "lm_maybe_update_pools cfg s gp lq now = Inr (gp1, lq1, s1)"
    and w: "c_transfer (lm_currency cfg) (lm_ext s1) tk who (lm_account_id cfg) x = Inr w"
    and n: "n = lq_id lq1 mod 2 ^ 32 + 2 ^ 32 * (nft_instance_sequencer s1 + 1)" "lq_id lq1 \<noteq> 0"
    and mint: "nft_do_mint (lm_nft cfg) w who (lm_nft_class cfg) n [] = Inr (j, w')" "lm_ext s' = w'"
    and m: "liq_pool_metadata s1 (lq_id lq1) = Some (p, c, g)"
    and s': "lm_store s' = (pool_id_sequencer s1, nft_instance_sequencer s1 + 1,
       (global_pool_data s1)(f \<mapsto> gp1\<lparr>gp_total_shares_z := gp_total_shares_z gp1 + z\<rparr>),
       (liquidity_pool_data s1)((f, ?a) \<mapsto> lq1\<lparr>lq_total_shares := lq_total_shares lq1 + x,
          lq_total_valued_shares := lq_total_valued_shares lq1 + v,
          lq_stake_in_global_pool := lq_stake_in_global_pool lq1 + z\<rparr>),
       (deposit_data s1)(n \<mapsto> deposit_new x v (lq_accumulated_rpvs lq1) now),
       (liq_pool_metadata s1)(lq_id lq1 \<mapsto> (p, c + 1, g)))"
  note fr = lm_maybe_update_pools_frame [OF u] and inv = lm_invD [OF assms(2)]
  have id: "lq_id lq1 = lq_id lq" by (rule lq_fixedD(1) [OF fr(2)])
  have m': "liq_pool_metadata s (lq_id lq) = Some (p, c, g)" using m id fr(3) by (simp add: lm_store_def)
  have pr: "amm_get_pair_id (lm_amm cfg) p = ?a" by (rule farms_inv_meta(2) [OF inv(1) P m'])
  have "lq_id lq < 2 ^ 32"
    using farms_inv_ids(2) [OF inv(1), of "lq_id lq"] m' farms_inv_bound(1) [OF inv(1)] by (simp add: u32_max_def)
  then have nm: "n mod 2 ^ 32 = lq_id lq" using n(1) id by (simp only: mod_mult_self2 mod_mod_trivial mod_less)
  have "lq_id lq1 mod 2 ^ 32 = lq_id lq1" using \<open>lq_id lq < 2 ^ 32\<close> id by simp
  then have big: "2 ^ 32 < n" using n by simp
  have D: "deposit_data s' = (deposit_data s)(n \<mapsto> deposit_new x v (lq_accumulated_rpvs lq1) now)"
    "liq_pool_metadata s' = (liq_pool_metadata s)(lq_id lq \<mapsto> (p, c + 1, g))"
    using s' fr(3) id by (simp_all add: lm_store_def)
  have "lm_claims cfg st s' k = ((lm_claims cfg st s)(n \<mapsto> (tk, x))) k" for k
    using D m' pr nm tk(2) by (auto simp: lm_claims_def deposit_new_def split: option.splits)
  then have "lm_claims cfg st s' = (lm_claims cfg st s)(n \<mapsto> (tk, x))" by blast
  with who flow_maybe_update_pools [OF u assms(3)] w mint big show thesis by (intro that) simp_all
qed

text \<open>A withdrawal closes the claim of the token's owner and burns the token.\<close>

lemma lm_withdraw_closes:
  assumes "lm_withdraw_shares cfg s orig n = Inr s'" "lm_inv cfg s" "subs_pay cfg P"
  obtains who pair x v u where "orig = Signed who" "nft_owner (lm_nft cfg) (lm_ext s) (lm_nft_class cfg) n = Some who"
    "lm_flow cfg P (lm_ext s) v" "lm_return_shares cfg v pair who x u"
    "nft_do_burn (lm_nft cfg) u who (lm_nft_class cfg) n = Inr (lm_ext s')"
    "lm_claims cfg st s n = Some (st (amm_get_pair_id (lm_amm cfg) pair), x)"
    "lm_claims cfg st s' = (lm_claims cfg st s)(n := None)"
  using assms(1)
proof (rule lm_withdraw_shares_effect)
  fix who pair c f d gone d' s1 w w' M
  let ?a = "amm_get_pair_id (lm_amm cfg) pair"
  assume who: "orig = Signed who" "nft_owner (lm_nft cfg) (lm_ext s) (lm_nft_class cfg) n = Some who"
    and m: "liq_pool_metadata s (n mod 2 ^ 32) = Some (pair, c, f)" and d: "deposit_data s n = Some d"
    and settle: "(case liquidity_pool_data s (f, ?a) of
        Some lq \<Rightarrow> and_then (lm_settle_withdrawal cfg s who f ?a lq d) (\<lambda>(d, s). Inr (False, d, s))
      | None \<Rightarrow> Inr (True, d, s)) = Inr (gone, d', s1)"
    and ret: "lm_return_shares cfg (lm_ext s1) pair who (dp_shares d') w"
    and burn: "nft_do_burn (lm_nft cfg) w who (lm_nft_class cfg) n = Inr w'" "lm_ext s' = w'"
    and M: "M = (if c = 1 \<and> gone then None else Some (pair, c - 1, f))"
    and s': "lm_store s' = (pool_id_sequencer s1, nft_instance_sequencer s1, global_pool_data s1, liquidity_pool_data s1,
       (deposit_data s1)(n := None), (liq_pool_metadata s1)(n mod 2 ^ 32 := M))"
  have st1: "dp_shares d' = dp_shares d" "deposit_data s1 = deposit_data s" "liq_pool_metadata s1 = liq_pool_metadata s"
    and flow: "lm_flow cfg P (lm_ext s) (lm_ext s1)"
    using settle lm_inv_settle(2-4) [of cfg s who f ?a _ d d' s1] assms(2) flow_settle_withdrawal [OF _ assms(3)]
    by (auto split: option.splits intro: lm_flow.still)
  have other: "k mod 2 ^ 32 \<noteq> n mod 2 ^ 32" if "M = None" "k \<noteq> n" "deposit_data s k \<noteq> None" for k
    using deposit_alone [OF assms(2) _ d, of pair f k] that m M by (auto split: if_splits)
  have "lm_claims cfg st s' k = ((lm_claims cfg st s)(n := None)) k" for k
    using s' st1 m M other [of k] by (cases "deposit_data s k") (auto simp: lm_claims_def lm_store_def split: if_splits)
  then have "lm_claims cfg st s' = (lm_claims cfg st s)(n := None)" by blast
  moreover have "lm_claims cfg st s n = Some (st ?a, dp_shares d')" using d m st1 by (simp add: lm_claims_def)
  ultimately show thesis using who flow ret burn by (intro that) simp_all
qed

end
