(* ===== verification/Marketplace_Props.thy ===== *)
theory Marketplace_Props
  imports Marketplace NFT_Props
begin

text \<open>
  The properties of the marketplace: an abstract market of owners, free and escrowed money which
  the pallet implements, the invariant that every offer is covered by reserved funds, and two
  behaviours of the code that its users would not expect.

  The locale \<open>mp_world\<close> is what the pallet relies on: the native currency, the NFT pallet and the
  address lookup keep their contracts and their records apart.
\<close>


section \<open>The abstract market\<close>

text \<open>Who owns what, who has how much money free, and how much is in escrow for offers.\<close>

record market =
  mk_owner :: "class_id \<Rightarrow> instance_id \<Rightarrow> account_id option"
  mk_free :: "account_id \<Rightarrow> balance"
  mk_escrow :: "account_id \<Rightarrow> balance"

datatype market_act =
    Escrow account_id balance
  | Release account_id balance
  | Sale class_id instance_id account_id account_id account_id balance balance

fun market_do :: "market_act \<Rightarrow> market \<Rightarrow> market option" where
  "market_do (Escrow w x) m =
     (if x \<le> mk_free m w
      then Some (m\<lparr>mk_free := (mk_free m)(w := mk_free m w - x), mk_escrow := (mk_escrow m)(w := mk_escrow m w + x)\<rparr>)
      else None)"
| "market_do (Release w x) m =
     (if x \<le> mk_escrow m w
      then Some (m\<lparr>mk_free := (mk_free m)(w := mk_free m w + x), mk_escrow := (mk_escrow m)(w := mk_escrow m w - x)\<rparr>)
      else None)"
| "market_do (Sale c i seller buyer author fee price) m =
     (if mk_owner m c i = Some seller \<and> buyer \<noteq> seller \<and> fee \<le> price \<and> (buyer = author \<or> fee \<le> mk_free m buyer) \<and>
         price - fee \<le> pay buyer author fee (mk_free m) buyer
      then Some (m\<lparr>mk_owner := owner_set c i (Some buyer) (mk_owner m),
                   mk_free := pay buyer seller (price - fee) (pay buyer author fee (mk_free m))\<rparr>)
      else None)"

fun market_run :: "market_act list \<Rightarrow> market \<Rightarrow> market option" where
  "market_run [] m = Some m"
| "market_run (a # as) m = Option.bind (market_do a m) (market_run as)"

definition mp_abs :: "'u mp_config \<Rightarrow> 'u mp_state \<Rightarrow> market" where
  "mp_abs cfg s = \<lparr>mk_owner = nft_owner (mp_nft cfg) (mp_ext s), mk_free = n_free (mp_native cfg) (mp_ext s),
     mk_escrow = n_reserved (mp_native cfg) (mp_ext s) RESERVE_ID\<rparr>"

text \<open>The author's part of a price: nothing without a royalty, at zero, or when the author sells.\<close>

definition mp_cut :: "'u mp_config \<Rightarrow> 'u mp_state \<Rightarrow> account_id \<Rightarrow> class_id \<Rightarrow> instance_id \<Rightarrow> balance \<Rightarrow> account_id \<times> balance" where
  "mp_cut cfg s seller c i price =
    (case mp_instances s (c, i) of
       None \<Rightarrow> (seller, 0)
     | Some r \<Rightarrow> if seller \<noteq> ry_author r \<and> ry_royalty r \<noteq> 0
                 then (ry_author r, mp_percent_mul cfg (ry_royalty r) price) else (seller, 0))"

definition mp_sale :: "'u mp_config \<Rightarrow> 'u mp_state \<Rightarrow> account_id \<Rightarrow> class_id \<Rightarrow> instance_id \<Rightarrow> balance \<Rightarrow> market_act list" where
  "mp_sale cfg s buyer c i price =
    (case nft_owner (mp_nft cfg) (mp_ext s) c i of
       None \<Rightarrow> []
     | Some seller \<Rightarrow> let (author, fee) = mp_cut cfg s seller c i price in [Sale c i seller buyer author fee price])"

text \<open>What a call of the pallet means to the market.\<close>

fun mp_actions :: "'u mp_config \<Rightarrow> 'u mp_state \<Rightarrow> account_id \<Rightarrow> mp_call \<Rightarrow> market_act list" where
  "mp_actions cfg s w (Buy c i) = (case mp_prices s (c, i) of None \<Rightarrow> [] | Some p \<Rightarrow> mp_sale cfg s w c i p)"
| "mp_actions cfg s w (SetPrice c i p) = []"
| "mp_actions cfg s w (MakeOffer c i x e) = [Escrow w x]"
| "mp_actions cfg s w (WithdrawOffer c i m) =
     (case mp_offers s ((c, i), m) of None \<Rightarrow> [] | Some off \<Rightarrow> [Release m (of_amount off)])"
| "mp_actions cfg s w (AcceptOffer c i m) =
     (case mp_offers s ((c, i), m) of None \<Rightarrow> []
      | Some off \<Rightarrow> Release m (of_amount off) # mp_sale cfg s m c i (of_amount off))"
| "mp_actions cfg s w (AddRoyalty c i a r) = [Escrow w (mp_royalty_bond_amount cfg)]"

section \<open>What the operations do\<close>

lemma mp_sel [simp]:
  "mp_ext (mp_put w s) = w" "mp_prices (mp_put w s) = mp_prices s" "mp_offers (mp_put w s) = mp_offers s"
  "mp_instances (mp_put w s) = mp_instances s"
  "mp_ext (mp_deposit_event ev s) = mp_ext s" "mp_prices (mp_deposit_event ev s) = mp_prices s"
  "mp_offers (mp_deposit_event ev s) = mp_offers s" "mp_instances (mp_deposit_event ev s) = mp_instances s"
  by (simp_all add: mp_put_def mp_deposit_event_def)

lemma mp_nat_eq_Inr [simp, result_simps]:
  "n_transfer (mp_nat cfg) s f t x k = Inr s' \<longleftrightarrow>
     (\<exists>w. n_transfer (mp_native cfg) (mp_ext s) f t x k = Inr w \<and> s' = mp_put w s)"
  "n_reserve (mp_nat cfg) s i v x = Inr s' \<longleftrightarrow>
     (\<exists>w. n_reserve (mp_native cfg) (mp_ext s) i v x = Inr w \<and> s' = mp_put w s)"
  by (auto simp: mp_nat_def lift_native_def)

lemma mp_nat_unreserve [simp]:
  "snd (n_unreserve (mp_nat cfg) s i v x) = mp_put (snd (n_unreserve (mp_native cfg) (mp_ext s) i v x)) s"
  by (simp add: mp_nat_def lift_native_def split: prod.splits)

lemma mp_settle_royalty_effect:
  assumes "mp_settle_royalty cfg s owner buyer c i price = Inr (net, s')" "mp_cut cfg s owner c i price = (author, fee)"
  shows "net = price - fee" "mp_prices s' = mp_prices s" "mp_offers s' = mp_offers s" "mp_instances s' = mp_instances s"
    "mp_ext s' = mp_ext s \<and> fee = 0 \<and> author = owner \<or>
     n_transfer (mp_native cfg) (mp_ext s) buyer author fee True = Inr (mp_ext s')"
  using assms by (auto simp: mp_settle_royalty_def mp_cut_def Let_def split: option.splits if_splits)

lemma mp_do_buy_effect:
  assumes "mp_do_buy cfg s buyer c i is_offer = Inr s'"
  obtains seller price listing author fee v w where
    "nft_owner (mp_nft cfg) (mp_ext s) c i = Some seller" "buyer \<noteq> seller"
    "if is_offer then map_option of_amount (mp_offers s ((c, i), buyer)) = Some price \<and> listing = mp_prices s (c, i)
     else mp_prices s (c, i) = Some price \<and> listing = None"
    "mp_cut cfg s seller c i price = (author, fee)"
    "v = mp_ext s \<and> fee = 0 \<and> author = seller \<or>
     n_transfer (mp_native cfg) (mp_ext s) buyer author fee True = Inr v"
    "n_transfer (mp_native cfg) v buyer seller (price - fee) True = Inr w"
    "nft_transfer (mp_nft cfg) w (Signed seller) c i (nft_unlookup (mp_nft cfg) buyer) = Inr (mp_ext s')"
    "mp_prices s' = (mp_prices s)((c, i) := listing)" "mp_offers s' = mp_offers s" "mp_instances s' = mp_instances s"
proof -
  from assms obtain seller price listing net t w where
    *: "nft_owner (mp_nft cfg) (mp_ext s) c i = Some seller" "buyer \<noteq> seller"
    "if is_offer then map_option of_amount (mp_offers s ((c, i), buyer)) = Some price \<and> listing = mp_prices s (c, i)
     else mp_prices s (c, i) = Some price \<and> listing = None"
    and r: "mp_settle_royalty cfg s seller buyer c i price = Inr (net, t)"
    and w: "n_transfer (mp_native cfg) (mp_ext t) buyer seller net True = Inr w"
      "nft_transfer (mp_nft cfg) w (Signed seller) c i (nft_unlookup (mp_nft cfg) buyer) = Inr (mp_ext s')"
    and s': "mp_prices s' = (mp_prices t)((c, i) := listing)" "mp_offers s' = mp_offers t" "mp_instances s' = mp_instances t"
    by (auto simp: mp_do_buy_def Let_def split: if_splits)
  obtain author fee where fee: "mp_cut cfg s seller c i price = (author, fee)" by force
  note eff = mp_settle_royalty_effect [OF r fee]
  from * fee eff(5) w [unfolded eff(1)] s' [unfolded eff(2-4)] show thesis by (rule that)
qed

section \<open>The invariant\<close>

definition mp_offered :: "'u mp_state \<Rightarrow> account_id \<Rightarrow> balance" where
  "mp_offered s w = map_sum of_amount (mp_offers s) {k. snd k = w}"

text \<open>Offers are filed under their maker, are not below the minimum and are covered by what the maker
  has reserved; royalties are percentages.\<close>

definition mp_inv :: "'u mp_config \<Rightarrow> 'u mp_state \<Rightarrow> bool" where
  "mp_inv cfg s \<longleftrightarrow>
     finite (dom (mp_offers s)) \<and>
     (\<forall>t w off. mp_offers s (t, w) = Some off \<longrightarrow> of_maker off = w \<and> mp_minimum_offer_amount cfg \<le> of_amount off) \<and>
     (\<forall>w. mp_offered s w \<le> n_reserved (mp_native cfg) (mp_ext s) RESERVE_ID w) \<and>
     (\<forall>t r. mp_instances s t = Some r \<longrightarrow> ry_royalty r \<le> 100)"

lemma mp_invD:
  assumes "mp_inv cfg s"
  shows "finite (dom (mp_offers s))" "mp_offers s (t, w) = Some off \<Longrightarrow> of_maker off = w"
    "mp_offered s w \<le> n_reserved (mp_native cfg) (mp_ext s) RESERVE_ID w"
    "mp_instances s k = Some r \<Longrightarrow> ry_royalty r \<le> 100"
  using assms unfolding mp_inv_def by blast+

lemma mp_offered_upd:
  assumes "finite (dom (mp_offers s))" "mp_offers s' = (mp_offers s)((t, w) := v)"
  shows "mp_offered s' w + (case mp_offers s (t, w) of None \<Rightarrow> 0 | Some x \<Rightarrow> of_amount x) =
      mp_offered s w + (case v of None \<Rightarrow> 0 | Some x \<Rightarrow> of_amount x)"
    "w' \<noteq> w \<Longrightarrow> mp_offered s' w' = mp_offered s w'"
  using map_sum_upd [OF assms(1), of "(t, w)" "{k. snd k = w}" of_amount v]
    map_sum_upd_out [of "(t, w)" "{k. snd k = w'}" of_amount "mp_offers s" v]
  by (simp_all add: mp_offered_def assms(2))

text \<open>Every offer is covered by the reserved funds of its maker.\<close>

lemma mp_offer_covered:
  assumes "mp_inv cfg s" "mp_offers s (t, w) = Some off"
  shows "of_amount off \<le> n_reserved (mp_native cfg) (mp_ext s) RESERVE_ID w"
proof -
  have "of_amount off \<le> mp_offered s w"
    using map_sum_split [OF mp_invD(1) [OF assms(1)], of "(t, w)" "{k. snd k = w}" of_amount] assms(2)
    by (simp add: mp_offered_def)
  with mp_invD(3) [OF assms(1), of w] show ?thesis by linarith
qed

locale mp_world = cash: named_reservable "mp_native cfg" + tok: nft_store "mp_nft cfg" for cfg :: "'u mp_config" +
  assumes transfer_quiet: "n_transfer (mp_native cfg) w f t x k = Inr w' \<Longrightarrow> nft_owner (mp_nft cfg) w' = nft_owner (mp_nft cfg) w"
    and reserve_quiet: "n_reserve (mp_native cfg) w i v x = Inr w' \<Longrightarrow> nft_owner (mp_nft cfg) w' = nft_owner (mp_nft cfg) w"
    and unreserve_quiet: "n_unreserve (mp_native cfg) w i v x = (r, w') \<Longrightarrow> nft_owner (mp_nft cfg) w' = nft_owner (mp_nft cfg) w"
    and token_quiet: "nft_transfer (mp_nft cfg) w orig c j dest = Inr w' \<Longrightarrow>
      n_free (mp_native cfg) w' = n_free (mp_native cfg) w \<and> n_reserved (mp_native cfg) w' = n_reserved (mp_native cfg) w"
    and lookup_unlookup: "nft_lookup (mp_nft cfg) (nft_unlookup (mp_nft cfg) a) = Some a"
    and percent_le: "p \<le> 100 \<Longrightarrow> mp_percent_mul cfg p x \<le> x"
begin

lemma token_moves:
  assumes "nft_transfer (mp_nft cfg) w (Signed seller) c i (nft_unlookup (mp_nft cfg) buyer) = Inr w'" "buyer \<noteq> seller"
  shows "nft_owner (mp_nft cfg) w c i = Some seller"
    "nft_owner (mp_nft cfg) w' = owner_set c i (Some buyer) (nft_owner (mp_nft cfg) w)"
  using tok.only_owner(1) [OF assms(1) lookup_unlookup assms(2)] by simp_all

lemma fee_le:
  assumes "mp_cut cfg s seller c i price = (author, fee)" "\<And>t r. mp_instances s t = Some r \<Longrightarrow> ry_royalty r \<le> 100"
  shows "fee \<le> price"
  using assms percent_le by (auto simp: mp_cut_def split: option.splits if_splits)

lemma pay_effect:
  assumes "v = w \<and> x = 0 \<and> t = u \<or> n_transfer (mp_native cfg) w f t x True = Inr v"
  shows "n_free (mp_native cfg) v = pay f t x (n_free (mp_native cfg) w)"
    "n_reserved (mp_native cfg) v = n_reserved (mp_native cfg) w" "nft_owner (mp_nft cfg) v = nft_owner (mp_nft cfg) w"
    "f = t \<or> x \<le> n_free (mp_native cfg) w f"
proof -
  consider "v = w" "x = 0" | "n_transfer (mp_native cfg) w f t x True = Inr v" using assms by blast
  then have "n_free (mp_native cfg) v = pay f t x (n_free (mp_native cfg) w) \<and>
    n_reserved (mp_native cfg) v = n_reserved (mp_native cfg) w \<and> nft_owner (mp_nft cfg) v = nft_owner (mp_nft cfg) w \<and>
    (f = t \<or> x \<le> n_free (mp_native cfg) w f)"
  proof cases
    case 1
    then show ?thesis by (simp add: pay_def fun_eq_iff)
  next
    case 2
    from cash.transfer_free [OF 2] cash.transfer_reserved [OF 2] transfer_quiet [OF 2] cash.transfer_funds [OF 2]
    show ?thesis by blast
  qed
  then show "n_free (mp_native cfg) v = pay f t x (n_free (mp_native cfg) w)"
    "n_reserved (mp_native cfg) v = n_reserved (mp_native cfg) w" "nft_owner (mp_nft cfg) v = nft_owner (mp_nft cfg) w"
    "f = t \<or> x \<le> n_free (mp_native cfg) w f" by blast+
qed

lemma sale_reserved:
  assumes "mp_do_buy cfg s buyer c i is_offer = Inr s'"
  shows "n_reserved (mp_native cfg) (mp_ext s') = n_reserved (mp_native cfg) (mp_ext s)" "mp_offers s' = mp_offers s"
    "mp_instances s' = mp_instances s"
  using assms by (auto elim!: mp_do_buy_effect simp: token_quiet [THEN conjunct2] cash.transfer_reserved)

lemma sale_refines:
  assumes buy: "mp_do_buy cfg s buyer c i is_offer = Inr s'"
    and royalties: "\<And>t r. mp_instances s t = Some r \<Longrightarrow> ry_royalty r \<le> 100"
    and price: "if is_offer then map_option of_amount (mp_offers s ((c, i), buyer)) = Some price
      else mp_prices s (c, i) = Some price"
  shows "market_run (mp_sale cfg s buyer c i price) (mp_abs cfg s) = Some (mp_abs cfg s')"
  using buy
proof (rule mp_do_buy_effect)
  fix seller price' listing author fee v w
  assume own: "nft_owner (mp_nft cfg) (mp_ext s) c i = Some seller" "buyer \<noteq> seller"
    and p: "if is_offer then map_option of_amount (mp_offers s ((c, i), buyer)) = Some price' \<and> listing = mp_prices s (c, i)
     else mp_prices s (c, i) = Some price' \<and> listing = None"
    and fee: "mp_cut cfg s seller c i price' = (author, fee)"
    and v: "v = mp_ext s \<and> fee = 0 \<and> author = seller \<or> n_transfer (mp_native cfg) (mp_ext s) buyer author fee True = Inr v"
    and w: "n_transfer (mp_native cfg) v buyer seller (price' - fee) True = Inr w"
    and nft: "nft_transfer (mp_nft cfg) w (Signed seller) c i (nft_unlookup (mp_nft cfg) buyer) = Inr (mp_ext s')"
  have price': "price' = price" using p price by (simp split: if_splits)
  note le = fee_le [OF fee royalties] and moved = token_moves(2) [OF nft own(2)] and quiet = token_quiet [OF nft]
  have v': "n_free (mp_native cfg) v = pay buyer author fee (n_free (mp_native cfg) (mp_ext s))"
    "n_reserved (mp_native cfg) v = n_reserved (mp_native cfg) (mp_ext s)" "nft_owner (mp_nft cfg) v = nft_owner (mp_nft cfg) (mp_ext s)"
    "buyer = author \<or> fee \<le> n_free (mp_native cfg) (mp_ext s) buyer"
    using pay_effect [OF v] by simp_all
  have w': "n_free (mp_native cfg) w = pay buyer seller (price - fee) (n_free (mp_native cfg) v)"
    "n_reserved (mp_native cfg) w = n_reserved (mp_native cfg) v" "nft_owner (mp_nft cfg) w = nft_owner (mp_nft cfg) v"
    "price - fee \<le> n_free (mp_native cfg) v buyer"
    using cash.transfer_free [OF w] cash.transfer_reserved [OF w] transfer_quiet [OF w] cash.transfer_funds [OF w own(2)] price'
    by simp_all
  show ?thesis
    using own fee price' le moved quiet v' w' by (simp add: mp_sale_def mp_abs_def)
qed

lemma escrow_refines:
  assumes "n_reserve (mp_native cfg) (mp_ext s) RESERVE_ID w x = Inr (mp_ext s')"
  shows "market_run [Escrow w x] (mp_abs cfg s) = Some (mp_abs cfg s')"
  using cash.reserve_free [OF assms] cash.reserve_funds [OF assms] cash.reserve_reserved [OF assms] reserve_quiet [OF assms]
  by (simp add: mp_abs_def fun_eq_iff)

lemma release_refines:
  assumes "mp_ext s' = snd (n_unreserve (mp_native cfg) (mp_ext s) RESERVE_ID w x)"
    and "x \<le> n_reserved (mp_native cfg) (mp_ext s) RESERVE_ID w"
  shows "market_do (Release w x) (mp_abs cfg s) = Some (mp_abs cfg s')"
proof -
  have u: "n_unreserve (mp_native cfg) (mp_ext s) RESERVE_ID w x = (fst (n_unreserve (mp_native cfg) (mp_ext s) RESERVE_ID w x), mp_ext s')"
    using assms(1) by simp
  from cash.unreserve_free [OF u] cash.unreserve_reserved [OF u] unreserve_quiet [OF u] assms(2) show ?thesis
    by (simp add: mp_abs_def fun_eq_iff min_def)
qed

lemma unreserve_owner:
  "nft_owner (mp_nft cfg) (snd (n_unreserve (mp_native cfg) w i v x)) = nft_owner (mp_nft cfg) w"
  by (rule unreserve_quiet [of w i v x "fst (n_unreserve (mp_native cfg) w i v x)"]) simp

lemma unreserve_reserved:
  "n_reserved (mp_native cfg) (snd (n_unreserve (mp_native cfg) w i v x)) =
     reserved_set i v (n_reserved (mp_native cfg) w i v - x) (n_reserved (mp_native cfg) w)"
  by (rule cash.unreserve_reserved [of w i v x "fst (n_unreserve (mp_native cfg) w i v x)"]) simp

lemma mp_abs_cong: "mp_ext s' = mp_ext s \<Longrightarrow> mp_abs cfg s' = mp_abs cfg s"
  by (simp add: mp_abs_def)

lemma released_inv:
  assumes "mp_inv cfg s" "mp_offers s (t, w) = Some off" "mp_instances s' = mp_instances s"
    and "mp_offers s' = (mp_offers s)((t, w) := None)"
    and "n_reserved (mp_native cfg) (mp_ext s') RESERVE_ID =
      (n_reserved (mp_native cfg) (mp_ext s) RESERVE_ID)(w := n_reserved (mp_native cfg) (mp_ext s) RESERVE_ID w - of_amount off)"
  shows "mp_inv cfg s'"
proof -
  note sum = mp_offered_upd [OF mp_invD(1) [OF assms(1)] assms(4)]
  have "mp_offered s' v \<le> n_reserved (mp_native cfg) (mp_ext s') RESERVE_ID v" for v
    using sum assms(2,5) mp_invD(3) [OF assms(1), of v] mp_invD(3) [OF assms(1), of w] by (cases "v = w") auto
  with assms(1,3,4) show ?thesis by (auto simp: mp_inv_def split: if_splits)
qed

lemma inv_make_offer:
  assumes "mp_make_offer cfg s orig c i x e = Inr s'" "mp_inv cfg s"
  shows "mp_inv cfg s'"
proof -
  from assms(1) obtain w v where *: "mp_minimum_offer_amount cfg \<le> x" "mp_offers s ((c, i), w) = None"
    "n_reserve (mp_native cfg) (mp_ext s) RESERVE_ID w x = Inr v" "mp_ext s' = v" "mp_instances s' = mp_instances s"
    "mp_offers s' = (mp_offers s)(((c, i), w) \<mapsto> \<lparr>of_maker = w, of_amount = x, of_expires = e\<rparr>)"
    by (auto simp: mp_make_offer_def Let_def contains_key_def)
  note sum = mp_offered_upd [OF mp_invD(1) [OF assms(2)] *(6)]
  have "mp_offered s' u \<le> n_reserved (mp_native cfg) (mp_ext s') RESERVE_ID u" for u
    using sum *(2,4) mp_invD(3) [OF assms(2), of u] cash.reserve_reserved [OF *(3)] by (cases "u = w") auto
  with assms(2) * show ?thesis by (auto simp: mp_inv_def split: if_splits)
qed

lemma inv_withdraw_offer:
  assumes "mp_withdraw_offer cfg s orig c i m = Inr s'" "mp_inv cfg s"
  shows "mp_inv cfg s'"
proof -
  from assms(1) obtain off where *: "mp_offers s ((c, i), m) = Some off" "mp_instances s' = mp_instances s"
    "mp_offers s' = (mp_offers s)(((c, i), m) := None)"
    "mp_ext s' = snd (n_unreserve (mp_native cfg) (mp_ext s) RESERVE_ID (of_maker off) (of_amount off))"
    by (auto simp: mp_withdraw_offer_def Let_def)
  from assms(2) *(1,2,3) show ?thesis
    by (rule released_inv) (simp add: *(4) unreserve_reserved mp_invD(2) [OF assms(2) *(1)] fun_eq_iff)
qed

lemma accept_offer_effect:
  assumes "mp_accept_offer cfg s orig c i m = Inr s'" "mp_inv cfg s"
  obtains w off s1 s2 where "orig = Signed w" "nft_owner (mp_nft cfg) (mp_ext s) c i = Some w"
    "mp_offers s ((c, i), m) = Some off" "mp_block_number cfg (mp_ext s) < of_expires off"
    "s1 = mp_put (snd (n_unreserve (mp_native cfg) (mp_ext s) RESERVE_ID m (of_amount off))) s"
    "mp_do_buy cfg s1 m c i True = Inr s2" "mp_ext s' = mp_ext s2" "mp_instances s' = mp_instances s2"
    "mp_offers s' = (mp_offers s2)(((c, i), m) := None)" "mp_prices s' = mp_prices s2"
  using assms(1) mp_invD(2) [OF assms(2), of "(c, i)" m]
  by (auto simp: mp_accept_offer_def Let_def split: if_splits)

lemma inv_accept_offer:
  assumes "mp_accept_offer cfg s orig c i m = Inr s'" "mp_inv cfg s"
  shows "mp_inv cfg s'"
  using assms
proof (rule accept_offer_effect)
  fix w off s1 s2
  assume off: "mp_offers s ((c, i), m) = Some off"
    and s1: "s1 = mp_put (snd (n_unreserve (mp_native cfg) (mp_ext s) RESERVE_ID m (of_amount off))) s"
    and buy: "mp_do_buy cfg s1 m c i True = Inr s2"
    and s': "mp_ext s' = mp_ext s2" "mp_instances s' = mp_instances s2" "mp_offers s' = (mp_offers s2)(((c, i), m) := None)"
  note sr = sale_reserved [OF buy]
  from assms(2) off show ?thesis
    by (rule released_inv) (simp_all add: s' sr s1 unreserve_reserved fun_eq_iff)
qed

lemma inv_add_royalty:
  assumes "mp_add_royalty cfg s orig c i a r = Inr s'" "mp_inv cfg s"
  shows "mp_inv cfg s'"
proof -
  from assms(1) obtain w v where *: "r \<le> 100" "n_reserve (mp_native cfg) (mp_ext s) RESERVE_ID w (mp_royalty_bond_amount cfg) = Inr v"
    "mp_ext s' = v" "mp_offers s' = mp_offers s"
    "mp_instances s' = (mp_instances s)((c, i) \<mapsto> \<lparr>ry_author = a, ry_royalty = r\<rparr>)"
    by (auto simp: mp_add_royalty_def Let_def)
  have "mp_offered s' u \<le> n_reserved (mp_native cfg) (mp_ext s') RESERVE_ID u" for u
    using mp_invD(3) [OF assms(2), of u] * cash.reserve_reserved [OF *(2)] by (auto simp: mp_offered_def)
  with assms(2) * show ?thesis by (auto simp: mp_inv_def split: if_splits)
qed

lemma inv_dispatch:
  assumes "mp_dispatch cfg orig call s = Inr s'" "mp_inv cfg s"
  shows "mp_inv cfg s'"
proof (cases call)
  case (Buy c i)
  with assms(1) obtain w where buy: "mp_do_buy cfg s w c i False = Inr s'" by (auto simp: mp_buy_def)
  from assms(2) show ?thesis by (simp add: mp_inv_def mp_offered_def sale_reserved [OF buy])
next
  case (SetPrice c i p)
  with assms show ?thesis by (auto simp: mp_set_price_def Let_def mp_inv_def mp_offered_def)
qed (use assms in \<open>auto intro: inv_make_offer inv_withdraw_offer inv_accept_offer inv_add_royalty\<close>)

lemma accept_refines:
  assumes "mp_accept_offer cfg s (Signed w) c i m = Inr s'" "mp_inv cfg s"
  shows "market_run (mp_actions cfg s w (AcceptOffer c i m)) (mp_abs cfg s) = Some (mp_abs cfg s')"
  using assms
proof (rule accept_offer_effect)
  fix v off s1 s2
  assume off: "mp_offers s ((c, i), m) = Some off"
    and s1: "s1 = mp_put (snd (n_unreserve (mp_native cfg) (mp_ext s) RESERVE_ID m (of_amount off))) s"
    and buy: "mp_do_buy cfg s1 m c i True = Inr s2" and s': "mp_ext s' = mp_ext s2"
  have rel: "market_do (Release m (of_amount off)) (mp_abs cfg s) = Some (mp_abs cfg s1)"
    by (rule release_refines) (simp_all add: s1 mp_offer_covered [OF assms(2) off])
  have own: "nft_owner (mp_nft cfg) (mp_ext s1) = nft_owner (mp_nft cfg) (mp_ext s)" by (simp add: s1 unreserve_owner)
  have royalties: "\<And>t r. mp_instances s1 t = Some r \<Longrightarrow> ry_royalty r \<le> 100" using assms(2) by (simp add: s1 mp_invD(4))
  have sale: "market_run (mp_sale cfg s1 m c i (of_amount off)) (mp_abs cfg s1) = Some (mp_abs cfg s2)"
  proof (rule sale_refines [OF buy])
    show "\<And>t r. mp_instances s1 t = Some r \<Longrightarrow> ry_royalty r \<le> 100" by (rule royalties)
    show "if True then map_option of_amount (mp_offers s1 ((c, i), m)) = Some (of_amount off)
      else mp_prices s1 (c, i) = Some (of_amount off)" by (simp add: s1 off)
  qed
  have "mp_instances s1 = mp_instances s" by (simp add: s1)
  then have fee: "mp_cut cfg s1 = mp_cut cfg s" by (intro ext) (simp only: mp_cut_def)
  have same: "mp_sale cfg s1 m c i (of_amount off) = mp_sale cfg s m c i (of_amount off)"
    by (simp only: mp_sale_def own fee)
  from sale have "market_run (mp_sale cfg s m c i (of_amount off)) (mp_abs cfg s1) = Some (mp_abs cfg s')"
    by (simp only: same mp_abs_cong [OF s'])
  with rel show ?thesis by (simp only: mp_actions.simps off option.case market_run.simps Option.bind.bind_lunit)
qed

lemma dispatch_refines:
  assumes "mp_dispatch cfg (Signed w) call s = Inr s'" "mp_inv cfg s"
  shows "market_run (mp_actions cfg s w call) (mp_abs cfg s) = Some (mp_abs cfg s')"
proof (cases call)
  case (Buy c i)
  with assms(1) have buy: "mp_do_buy cfg s w c i False = Inr s'" by (simp add: mp_buy_def)
  then obtain p where p: "mp_prices s (c, i) = Some p" by (auto elim: mp_do_buy_effect)
  have "market_run (mp_sale cfg s w c i p) (mp_abs cfg s) = Some (mp_abs cfg s')"
    by (rule sale_refines [OF buy]) (simp_all add: p mp_invD(4) [OF assms(2)])
  with Buy p show ?thesis by simp
next
  case (SetPrice c i p)
  with assms(1) show ?thesis by (auto simp: mp_set_price_def Let_def mp_abs_def)
next
  case (MakeOffer c i x e)
  with assms(1) have "n_reserve (mp_native cfg) (mp_ext s) RESERVE_ID w x = Inr (mp_ext s')"
    by (auto simp: mp_make_offer_def Let_def)
  with MakeOffer show ?thesis by (simp only: mp_actions.simps escrow_refines)
next
  case (WithdrawOffer c i m)
  with assms obtain off where off: "mp_offers s ((c, i), m) = Some off"
    "mp_ext s' = snd (n_unreserve (mp_native cfg) (mp_ext s) RESERVE_ID m (of_amount off))"
    by (auto simp: mp_withdraw_offer_def Let_def mp_invD(2))
  with WithdrawOffer release_refines [OF off(2) mp_offer_covered [OF assms(2) off(1)]] show ?thesis by simp
next
  case (AcceptOffer c i m)
  with assms accept_refines show ?thesis by simp
next
  case (AddRoyalty c i a r)
  with assms(1) have "n_reserve (mp_native cfg) (mp_ext s) RESERVE_ID w (mp_royalty_bond_amount cfg) = Inr (mp_ext s')"
    by (auto simp: mp_add_royalty_def Let_def)
  with AddRoyalty show ?thesis by (simp only: mp_actions.simps escrow_refines)
qed

end

section \<open>Steps and reachable states\<close>

text \<open>A step is a successful call or a change outside the pallet that takes nothing from its reserves.\<close>

inductive mp_step :: "'u mp_config \<Rightarrow> 'u mp_state \<Rightarrow> 'u mp_state \<Rightarrow> bool" for cfg where
  call: "mp_dispatch cfg orig c s = Inr s' \<Longrightarrow> mp_step cfg s s'"
| outside: "(\<And>v. n_reserved (mp_native cfg) (mp_ext s) RESERVE_ID v \<le> n_reserved (mp_native cfg) w RESERVE_ID v) \<Longrightarrow>
    mp_step cfg s (mp_put w s)"

inductive mp_reachable :: "'u mp_config \<Rightarrow> 'u mp_state \<Rightarrow> bool" for cfg where
  genesis: "mp_reachable cfg \<lparr>mp_ext = w, mp_prices = Map.empty, mp_offers = Map.empty, mp_instances = Map.empty, mp_events = []\<rparr>"
| step: "mp_reachable cfg s \<Longrightarrow> mp_step cfg s s' \<Longrightarrow> mp_reachable cfg s'"

context mp_world
begin

lemma inv_step:
  assumes "mp_step cfg s s'" "mp_inv cfg s"
  shows "mp_inv cfg s'"
  using assms(1)
proof cases
  case (call orig c)
  with assms(2) show ?thesis by (blast intro: inv_dispatch)
next
  case (outside w)
  with assms(2) show ?thesis by (auto simp: mp_inv_def mp_offered_def intro: order_trans)
qed

lemma inv_reachable: "mp_reachable cfg s \<Longrightarrow> mp_inv cfg s"
  by (induction rule: mp_reachable.induct) (simp add: mp_inv_def mp_offered_def, blast intro: inv_step)

end

section \<open>An executable shop\<close>

record shop =
  sh_purse :: purse
  sh_tokens :: registry
  sh_block :: block_number

definition shop_native :: "shop nft_state native_ops" where
  "shop_native = lift_native (\<lambda>s. sh_purse (nft_ext s)) (\<lambda>p s. s\<lparr>nft_ext := (nft_ext s)\<lparr>sh_purse := p\<rparr>\<rparr>) purse_ops"

definition shop_nft :: "shop nft_config" where
  "shop_nft = \<lparr>nft_uniques = lift_uniques sh_tokens (\<lambda>r u. u\<lparr>sh_tokens := r\<rparr>) registry_ops,
     nft_reserve_class_id_up_to = 99, nft_class_deposit = 10, nft_lookup = Some, nft_unlookup = id\<rparr>"

text \<open>A percentage of a balance, rounded to the nearest unit.\<close>

definition percent_nearest :: "nat \<Rightarrow> balance \<Rightarrow> balance" where
  "percent_nearest p x = (x * p + 49) div 100"

definition demo_shop :: "shop mp_config" where
  "demo_shop = \<lparr>mp_native = shop_native, mp_nft = shop_nft, mp_minimum_offer_amount = 10, mp_royalty_bond_amount = 5,
     mp_block_number = (\<lambda>s. sh_block (nft_ext s)), mp_percent_mul = percent_nearest\<rparr>"

text \<open>Class 100 with token 5 of account 7; accounts 7, 8 and 9 have 1000 each.\<close>

definition demo_shop_genesis :: "shop mp_state" where
  "demo_shop_genesis = \<lparr>mp_ext = \<lparr>nft_ext = \<lparr>sh_purse = \<lparr>p_free = (\<lambda>w. if w \<in> {7, 8, 9} then 1000 else 0), p_reserved = (\<lambda>_ _. 0)\<rparr>,
        sh_tokens = \<lparr>rg_classes = [100 \<mapsto> 7], rg_tokens = [((100, 5), 7)]\<rparr>, sh_block = 1\<rparr>,
        nft_classes = [100 \<mapsto> \<lparr>ci_class_type = MarketplaceClass, ci_metadata = []\<rparr>],
        nft_instances = [(100, 5) \<mapsto> \<lparr>ii_metadata = []\<rparr>], nft_events = []\<rparr>,
     mp_prices = Map.empty, mp_offers = Map.empty, mp_instances = Map.empty, mp_events = []\<rparr>"

interpretation shop_native: named_reservable shop_native
  unfolding shop_native_def by (rule named_reservable_lift [OF purse.named_reservable_axioms]) simp

interpretation shop_nft: nft_store shop_nft
  unfolding nft_store_def shop_nft_def by (simp, rule uniques_lift [OF registry.uniques_axioms]) simp_all

lemma percent_nearest_le: "p \<le> 100 \<Longrightarrow> percent_nearest p x \<le> x"
proof -
  assume "p \<le> 100"
  then have "x * p \<le> x * 100" by (rule mult_le_mono2)
  then have "x * p + 49 < x * 100 + 100" by linarith
  then have "x * p + 49 < (x + 1) * 100" by (simp only: add_mult_distrib mult_1)
  then have "percent_nearest p x < x + 1" unfolding percent_nearest_def by (rule less_mult_imp_div_less)
  then show ?thesis by simp
qed

interpretation demo_shop: mp_world demo_shop
  by (intro mp_world.intro mp_world_axioms.intro)
    (use shop_native.named_reservable_axioms shop_nft.nft_store_axioms percent_nearest_le in
      \<open>auto simp: demo_shop_def shop_native_def shop_nft_def lift_native_def lift_uniques_def nft_owner_def nft_transfer_def
        nft_do_transfer_def nft_deposit_event_def fun_eq_iff split: prod.splits if_splits\<close>)

fun mp_run :: "(account_id \<times> mp_call) list \<Rightarrow> shop mp_state \<Rightarrow> shop mp_state result" where
  "mp_run [] s = Inr s"
| "mp_run ((w, c) # cs) s = and_then (mp_dispatch demo_shop (Signed w) c s) (mp_run cs)"

lemma mp_run_reachable: "mp_run cs s = Inr s' \<Longrightarrow> mp_reachable demo_shop s \<Longrightarrow> mp_reachable demo_shop s'"
proof (induction cs s rule: mp_run.induct)
  case (2 w c cs s)
  then obtain s1 where s1: "mp_dispatch demo_shop (Signed w) c s = Inr s1" "mp_run cs s1 = Inr s'" by auto
  from "2.IH" [OF s1(2)] mp_reachable.step [OF "2.prems"(2) mp_step.call [OF s1(1)]] show ?case by blast
qed simp

lemma demo_shop_reachable: "mp_reachable demo_shop demo_shop_genesis"
  unfolding demo_shop_genesis_def by (rule mp_reachable.genesis)

lemmas mp_run_simps = demo_shop_def shop_native_def shop_nft_def demo_shop_genesis_def lift_native_def lift_uniques_def purse_ops_def
  registry_ops_def rg_set_def rg_owner_def nft_owner_def nft_transfer_def nft_do_transfer_def nft_deposit_event_def
  mp_put_def mp_deposit_event_def mp_nat_def pay_def RESERVE_ID_def percent_nearest_def Let_def contains_key_def
  mp_buy_def mp_set_price_def mp_make_offer_def mp_withdraw_offer_def mp_accept_offer_def mp_add_royalty_def mp_do_buy_def
  mp_settle_royalty_def

section \<open>Properties\<close>

text \<open>
  C16. In every reachable state each offer is filed under its maker, reaches the minimum amount and
  is covered, together with all other offers of that account, by what the account has reserved for
  the marketplace; royalties never exceed one hundred percent.
\<close>

theorem mp_reachable_invariant:
  assumes "mp_world cfg" "mp_reachable cfg s"
  shows "mp_inv cfg s"
  using mp_world.inv_reachable [OF assms] .

theorem mp_reachable_invariant_witness:
  "\<exists>s. mp_run [(8, MakeOffer 100 5 50 10), (8, MakeOffer 100 6 30 10), (7, AddRoyalty 100 5 9 20)] demo_shop_genesis = Inr s \<and>
     mp_inv demo_shop s \<and> n_reserved (mp_native demo_shop) (mp_ext s) RESERVE_ID 8 = 80"
proof -
  have "\<exists>s. mp_run [(8, MakeOffer 100 5 50 10), (8, MakeOffer 100 6 30 10), (7, AddRoyalty 100 5 9 20)] demo_shop_genesis = Inr s \<and>
     n_reserved (mp_native demo_shop) (mp_ext s) RESERVE_ID 8 = 80"
    by (simp add: mp_run_simps del: and_then_eq_Inr)
  with mp_reachable_invariant [OF demo_shop.mp_world_axioms] mp_run_reachable [OF _ demo_shop_reachable] show ?thesis by blast
qed

text \<open>
  C4. The pallet implements the abstract market: on a reachable state every successful call has
  exactly the effect on owners, free and escrowed money of the market actions it stands for. A
  purchase is a sale at the listed price, an accepted offer releases the escrow of its maker and
  sells at the offered amount, in both the author's part goes to the author and the rest to the
  seller; placing, withdrawing and bonding move exactly their amounts.
\<close>

theorem mp_refines_market:
  assumes "mp_world cfg" "mp_reachable cfg s" "mp_dispatch cfg (Signed w) call s = Inr s'"
  shows "market_run (mp_actions cfg s w call) (mp_abs cfg s) = Some (mp_abs cfg s')"
  using mp_world.dispatch_refines [OF assms(1,3) mp_world.inv_reachable [OF assms(1,2)]] .

theorem mp_refines_market_witness:
  "\<exists>s s'. mp_run [(7, AddRoyalty 100 5 9 20), (8, MakeOffer 100 5 100 10)] demo_shop_genesis = Inr s \<and>
     mp_dispatch demo_shop (Signed 7) (AcceptOffer 100 5 8) s = Inr s' \<and>
     mp_actions demo_shop s 7 (AcceptOffer 100 5 8) = [Release 8 100, Sale 100 5 7 8 9 20 100] \<and>
     market_run [Release 8 100, Sale 100 5 7 8 9 20 100] (mp_abs demo_shop s) = Some (mp_abs demo_shop s')"
proof -
  have "\<exists>s s'. mp_run [(7, AddRoyalty 100 5 9 20), (8, MakeOffer 100 5 100 10)] demo_shop_genesis = Inr s \<and>
     mp_dispatch demo_shop (Signed 7) (AcceptOffer 100 5 8) s = Inr s' \<and>
     mp_actions demo_shop s 7 (AcceptOffer 100 5 8) = [Release 8 100, Sale 100 5 7 8 9 20 100]"
    by (simp add: mp_run_simps mp_sale_def mp_cut_def del: and_then_eq_Inr)
  then obtain s s' where *: "mp_run [(7, AddRoyalty 100 5 9 20), (8, MakeOffer 100 5 100 10)] demo_shop_genesis = Inr s"
     "mp_dispatch demo_shop (Signed 7) (AcceptOffer 100 5 8) s = Inr s'"
     "mp_actions demo_shop s 7 (AcceptOffer 100 5 8) = [Release 8 100, Sale 100 5 7 8 9 20 100]" by blast
  from mp_refines_market [OF demo_shop.mp_world_axioms mp_run_reachable [OF *(1) demo_shop_reachable] *(2)] * show ?thesis
    by metis
qed

text \<open>
  Accepting an offer leaves the listing of the previous owner in place: a token listed at 10
  and sold through an offer of 500 can be bought from its new owner for 10 by anyone.
\<close>

lemma mp_stale_listing:
  "\<exists>s s'. mp_run [(7, SetPrice 100 5 (Some 10)), (8, MakeOffer 100 5 500 10), (7, AcceptOffer 100 5 8)] demo_shop_genesis = Inr s \<and>
     nft_owner (mp_nft demo_shop) (mp_ext s) 100 5 = Some 8 \<and> n_free (mp_native demo_shop) (mp_ext s) 8 = 500 \<and>
     mp_dispatch demo_shop (Signed 9) (Buy 100 5) s = Inr s' \<and>
     nft_owner (mp_nft demo_shop) (mp_ext s') 100 5 = Some 9 \<and> n_free (mp_native demo_shop) (mp_ext s') 8 = 510 \<and>
     n_free (mp_native demo_shop) (mp_ext s') 9 = 990"
  by (simp add: mp_run_simps del: and_then_eq_Inr)

text \<open>
  An offer on a token that does not exist, or that was burned, cannot be taken back: as long as
  nobody owns the token every attempt to withdraw or accept it fails, and the maker cannot replace
  it by another offer, so the reserved funds stay reserved.
\<close>

lemma mp_offer_without_token_locked:
  assumes "mp_offers s ((c, i), m) = Some off" "nft_owner (mp_nft cfg) (mp_ext s) c i = None"
  shows "mp_withdraw_offer cfg s (Signed w) c i m = Inl (Marketplace ClassOrInstanceUnknown) \<and>
    mp_accept_offer cfg s (Signed w) c i m = Inl (Marketplace ClassOrInstanceUnknown) \<and>
    (mp_minimum_offer_amount cfg \<le> x \<longrightarrow> mp_make_offer cfg s (Signed m) c i x e = Inl (Marketplace AlreadyOffered))"
  using assms by (simp add: mp_withdraw_offer_def mp_accept_offer_def mp_make_offer_def Let_def contains_key_def)

theorem mp_offer_without_token_locked_witness:
  "\<exists>s. mp_run [(8, MakeOffer 100 6 50 10)] demo_shop_genesis = Inr s \<and>
     n_reserved (mp_native demo_shop) (mp_ext s) RESERVE_ID 8 = 50 \<and>
     mp_withdraw_offer demo_shop s (Signed 8) 100 6 8 = Inl (Marketplace ClassOrInstanceUnknown)"
proof -
  have "\<exists>s off. mp_run [(8, MakeOffer 100 6 50 10)] demo_shop_genesis = Inr s \<and>
     n_reserved (mp_native demo_shop) (mp_ext s) RESERVE_ID 8 = 50 \<and> mp_offers s ((100, 6), 8) = Some off \<and>
     nft_owner (mp_nft demo_shop) (mp_ext s) 100 6 = None"
    by (simp add: mp_run_simps del: and_then_eq_Inr)
  with mp_offer_without_token_locked show ?thesis by blast
qed

end
