(* ===== verification/Bazaar.thy ===== *)
theory Bazaar
  imports Vault Marketplace_Props
begin

text \<open>
  Liquidity mining, the marketplace and the NFT pallet together. A deposit of liquidity mining is a
  token of the NFT pallet, so it can be listed and sold on the marketplace, and whoever holds it may
  withdraw the shares. The three pallets run over one storage (\<open>hub\<close>), in any order, beside
  everything else the chain does; the theorems say that the deposits stay what the vault of
  \<open>Vault\<close> promises.
\<close>

section \<open>The pallets over one storage\<close>

text \<open>The calls of the NFT pallet.\<close>

datatype nft_op =
    OpCreateClass class_id class_type "byte list"
  | OpMint class_id instance_id "byte list"
  | OpTransfer class_id instance_id nat
  | OpBurn class_id instance_id
  | OpDestroyClass class_id

fun nft_dispatch :: "'u nft_config \<Rightarrow> 'u nft_state \<Rightarrow> origin \<Rightarrow> nft_op \<Rightarrow> 'u nft_state result" where
  "nft_dispatch cfg s orig (OpCreateClass c ty md) = nft_create_class cfg s orig c ty md"
| "nft_dispatch cfg s orig (OpMint c i md) = nft_mint cfg s orig c i md"
| "nft_dispatch cfg s orig (OpTransfer c i dest) = nft_transfer cfg s orig c i dest"
| "nft_dispatch cfg s orig (OpBurn c i) = nft_burn cfg s orig c i"
| "nft_dispatch cfg s orig (OpDestroyClass c) = nft_destroy_class cfg s orig c"

text \<open>The storage of the NFT pallet and below it is the one of the state of liquidity mining.\<close>

record 'u hub =
  hub_lm :: "'u lm_state"
  hub_mp :: "'u mp_state"

definition hub_store :: "'u hub \<Rightarrow> 'u nft_state" where
  "hub_store h = lm_ext (hub_lm h)"

definition hub_market :: "'u hub \<Rightarrow> 'u mp_state" where
  "hub_market h = mp_put (hub_store h) (hub_mp h)"

definition hub_put :: "'u nft_state \<Rightarrow> 'u hub \<Rightarrow> 'u hub" where
  "hub_put w h = h\<lparr>hub_lm := lm_put w (hub_lm h)\<rparr>"

text \<open>
  What a step beside the deposits leaves of them: the tokens of the class and their owners, the
  class, at least what the account of liquidity mining had, and the share token of every trading
  pool: pools come and go, but the share token of a pair is found by its name (\<open>st\<close> for the account of the pair).
\<close>

definition same_pools :: "'u lm_config \<Rightarrow> 'u nft_state \<Rightarrow> 'u nft_state \<Rightarrow> bool" where
  "same_pools L w w' \<longleftrightarrow> amm_exists (lm_amm L) w' = amm_exists (lm_amm L) w \<and>
     amm_get_share_token (lm_amm L) w' = amm_get_share_token (lm_amm L) w"

definition pools_ok :: "'u lm_config \<Rightarrow> (account_id \<Rightarrow> asset_id) \<Rightarrow> 'u nft_state \<Rightarrow> bool" where
  "pools_ok L st w \<longleftrightarrow>
     (\<forall>p. amm_exists (lm_amm L) w p \<longrightarrow> amm_get_share_token (lm_amm L) w p = st (amm_get_pair_id (lm_amm L) p))"

definition calm :: "'u lm_config \<Rightarrow> (account_id \<Rightarrow> asset_id) \<Rightarrow> 'u nft_state \<Rightarrow> 'u nft_state \<Rightarrow> bool" where
  "calm L st w w' \<longleftrightarrow>
     (\<forall>k. c_free_balance (lm_currency L) w k (lm_account_id L) \<le> c_free_balance (lm_currency L) w' k (lm_account_id L)) \<and>
     nft_owner (lm_nft L) w' (lm_nft_class L) = nft_owner (lm_nft L) w (lm_nft_class L) \<and>
     nft_classes w' (lm_nft_class L) = nft_classes w (lm_nft_class L) \<and> (pools_ok L st w \<longrightarrow> pools_ok L st w')"

text \<open>
  A call of a user is one of an account other than that of liquidity mining, which nobody has the key
  of. Shares are deposited only while their trading pool exists, and a farm is not paid for from the
  account that holds the deposits.
\<close>

fun lm_sound :: "'u lm_config \<Rightarrow> 'u nft_state \<Rightarrow> lm_op \<Rightarrow> bool" where
  "lm_sound L w (OpDepositShares f p x) \<longleftrightarrow> amm_exists (lm_amm L) w p"
| "lm_sound L w (OpCreateFarm r n b ia rc v y) \<longleftrightarrow> v \<noteq> lm_account_id L"
| "lm_sound L w _ \<longleftrightarrow> True"

inductive hub_step :: "'u lm_config \<Rightarrow> 'u mp_config \<Rightarrow> (account_id \<Rightarrow> asset_id) \<Rightarrow> 'u hub \<Rightarrow> 'u hub \<Rightarrow> bool"
  for L M st where
  mining: "lm_dispatch L (hub_lm h) orig c = Inr s \<Longrightarrow> orig \<noteq> Signed (lm_account_id L) \<Longrightarrow> lm_sound L (hub_store h) c \<Longrightarrow>
    hub_step L M st h (h\<lparr>hub_lm := s\<rparr>)"
| upgrade: "init_nft_class L (hub_lm h) = Some s \<Longrightarrow> hub_step L M st h (h\<lparr>hub_lm := s\<rparr>)"
| market: "mp_dispatch M orig c (hub_market h) = Inr m \<Longrightarrow> orig \<noteq> Signed (lm_account_id L) \<Longrightarrow>
    hub_step L M st h (hub_put (mp_ext m) (h\<lparr>hub_mp := m\<rparr>))"
| tokens: "nft_dispatch (lm_nft L) (hub_store h) orig c = Inr w \<Longrightarrow> orig \<noteq> Signed (lm_account_id L) \<Longrightarrow>
    hub_step L M st h (hub_put w h)"
| outside: "calm L st (hub_store h) w \<Longrightarrow> hub_step L M st h (hub_put w h)"

inductive hub_reachable :: "'u lm_config \<Rightarrow> 'u mp_config \<Rightarrow> (account_id \<Rightarrow> asset_id) \<Rightarrow> 'u hub \<Rightarrow> bool"
  for L M st where
  genesis: "nft_owner (lm_nft L) w (lm_nft_class L) = (\<lambda>_. None) \<Longrightarrow> nft_classes w (lm_nft_class L) = None \<Longrightarrow>
    pools_ok L st w \<Longrightarrow>
    hub_reachable L M st
      \<lparr>hub_lm = \<lparr>lm_ext = w, pool_id_sequencer = 0, nft_instance_sequencer = 0,
         global_pool_data = Map.empty, liquidity_pool_data = Map.empty, deposit_data = Map.empty,
         liq_pool_metadata = Map.empty, lm_storage_version = 0, lm_events = []\<rparr>,
       hub_mp = \<lparr>mp_ext = w, mp_prices = Map.empty, mp_offers = Map.empty, mp_instances = Map.empty, mp_events = []\<rparr>\<rparr>"
| step: "hub_reachable L M st h \<Longrightarrow> hub_step L M st h h' \<Longrightarrow> hub_reachable L M st h'"

definition class_ok :: "'u lm_config \<Rightarrow> 'u nft_state \<Rightarrow> bool" where
  "class_ok L w \<longleftrightarrow> (\<forall>ci. nft_classes w (lm_nft_class L) = Some ci \<longrightarrow> ci_class_type ci = LiquidityMiningClass)"

definition offers_ok :: "account_id \<Rightarrow> 'u mp_state \<Rightarrow> bool" where
  "offers_ok v m \<longleftrightarrow> (\<forall>t w off. mp_offers m (t, w) = Some off \<longrightarrow> of_maker off = w \<and> w \<noteq> v)"

definition hub_inv :: "'u lm_config \<Rightarrow> (account_id \<Rightarrow> asset_id) \<Rightarrow> 'u hub \<Rightarrow> bool" where
  "hub_inv L st h \<longleftrightarrow> lm_inv L (hub_lm h) \<and> class_ok L (hub_store h) \<and>
     pools_ok L st (hub_store h) \<and> offers_ok (lm_account_id L) (hub_mp h) \<and>
     (\<forall>n. deposit_data (hub_lm h) n \<noteq> None \<longrightarrow> 2 ^ 32 < n)"

lemma offers_sub: "offers_ok v m \<Longrightarrow> (\<And>k off. mp_offers m' k = Some off \<Longrightarrow> mp_offers m k = Some off) \<Longrightarrow> offers_ok v m'"
  unfolding offers_ok_def by blast

lemma offers_add:
  "offers_ok v m \<Longrightarrow> mp_offers m' = (mp_offers m)((t, w) \<mapsto> off) \<Longrightarrow> of_maker off = w \<Longrightarrow> w \<noteq> v \<Longrightarrow> offers_ok v m'"
  unfolding offers_ok_def by simp

lemma hub_put_sel [simp]:
  "hub_lm (hub_put w h) = lm_put w (hub_lm h)" "hub_mp (hub_put w h) = hub_mp h" "hub_store (hub_put w h) = w"
  by (simp_all add: hub_put_def hub_store_def)

lemma hub_store_upd [simp]: "hub_store (h\<lparr>hub_lm := s\<rparr>) = lm_ext s" "hub_store (h\<lparr>hub_mp := m\<rparr>) = hub_store h"
  by (simp_all add: hub_store_def)

lemma same_pools_ok: "same_pools L w w' \<Longrightarrow> pools_ok L st w' \<longleftrightarrow> pools_ok L st w"
  by (simp add: same_pools_def pools_ok_def)

lemma calmI:
  assumes "\<And>k. c_free_balance (lm_currency L) w k (lm_account_id L) \<le> c_free_balance (lm_currency L) w' k (lm_account_id L)"
    and "nft_owner (lm_nft L) w' (lm_nft_class L) = nft_owner (lm_nft L) w (lm_nft_class L)"
    and "nft_classes w' (lm_nft_class L) = nft_classes w (lm_nft_class L)" "same_pools L w w'"
  shows "calm L st w w'"
  using assms by (simp add: calm_def same_pools_ok)

lemma calm_refl [simp]: "calm L st w w"
  by (simp add: calm_def)

lemma calm_trans: "calm L st w v \<Longrightarrow> calm L st v u \<Longrightarrow> calm L st w u"
  by (auto simp: calm_def intro: order_trans)

lemma calm_class: "calm L st w w' \<Longrightarrow> class_ok L w \<Longrightarrow> class_ok L w'" "calm L st w w' \<Longrightarrow> pools_ok L st w \<Longrightarrow> pools_ok L st w'"
  by (simp_all add: calm_def class_ok_def)

text \<open>A calm change of the storage is a gain of the vault.\<close>

lemma calm_gain:
  assumes "calm L st (lm_ext s) (lm_ext s')" "lm_claims L st s' = lm_claims L st s"
  shows "vault_step (lm_vault L st s) (lm_vault L st s')"
proof -
  have "lm_vault L st s' = (lm_vault L st s)\<lparr>vt_held := (\<lambda>k. lm_free L s' k (lm_account_id L))\<rparr>"
    using assms by (simp add: lm_vault_def calm_def)
  moreover have "vt_held (lm_vault L st s) k \<le> lm_free L s' k (lm_account_id L)" for k
    using assms(1) by (simp add: lm_vault_def calm_def)
  ultimately show ?thesis using vault_step.gain by metis
qed

lemma lm_claims_put [simp]: "lm_claims L st (lm_put w s) = lm_claims L st s"
  by (rule lm_claims_cong) simp_all

lemmas nft_call_defs = nft_create_class_def nft_mint_def nft_transfer_def nft_burn_def nft_destroy_class_def

lemmas mp_call_defs = mp_buy_def mp_set_price_def mp_make_offer_def mp_withdraw_offer_def mp_accept_offer_def mp_add_royalty_def

lemma nft_keeps_classes:
  "nft_do_mint cfg w v c i md = Inr (j, w') \<Longrightarrow> nft_classes w' = nft_classes w"
  "nft_do_burn cfg w v c i = Inr w' \<Longrightarrow> nft_classes w' = nft_classes w"
  "nft_do_transfer cfg w c i v t = Inr w' \<Longrightarrow> nft_classes w' = nft_classes w"
  by (auto simp: nft_do_mint_def nft_do_burn_def nft_do_transfer_def Let_def split: if_splits)

section \<open>What the pallets rely on\<close>

text \<open>
  Beside the contracts of the two pallets: they use the same tokens, the accounts of farms and pools
  are not the account of the deposits, the currencies leave the
  records of the NFT pallet and of the trading pools alone, as the tokens do those of the pools, and money leaves an account only by a transfer or a
  reservation of that account; tokens move no money but the deposit for a class.
\<close>

locale hub_world = mining: lm_world L + shop: mp_world M for L :: "'u lm_config" and M :: "'u mp_config" +
  fixes st :: "account_id \<Rightarrow> asset_id"
  assumes same_nft: "mp_nft M = lm_nft L"
    and integrity: "lm_integrity_test L"
    and sub_apart: "i \<noteq> 0 \<Longrightarrow> lm_sub_account L i \<noteq> lm_account_id L"
    and transfer_classes: "c_transfer (lm_currency L) w a f t x = Inr w' \<Longrightarrow> nft_classes w' = nft_classes w"
    and native_transfer: "n_transfer (mp_native M) w f t x k = Inr w' \<Longrightarrow> nft_classes w' = nft_classes w \<and> same_pools L w w' \<and>
      (v \<noteq> f \<longrightarrow> c_free_balance (lm_currency L) w a v \<le> c_free_balance (lm_currency L) w' a v)"
    and native_reserve: "n_reserve (mp_native M) w ri f x = Inr w' \<Longrightarrow> nft_classes w' = nft_classes w \<and> same_pools L w w' \<and>
      (v \<noteq> f \<longrightarrow> c_free_balance (lm_currency L) w a v \<le> c_free_balance (lm_currency L) w' a v)"
    and native_unreserve: "n_unreserve (mp_native M) w ri f x = (r, w') \<Longrightarrow> nft_classes w' = nft_classes w \<and> same_pools L w w' \<and>
      c_free_balance (lm_currency L) w a v \<le> c_free_balance (lm_currency L) w' a v"
    and class_money: "nft_do_create_class (lm_nft L) w f c ty md = Inr (r', w') \<Longrightarrow> v \<noteq> f \<or> \<not> has_deposit ty \<Longrightarrow>
      c_free_balance (lm_currency L) w a v \<le> c_free_balance (lm_currency L) w' a v"
    and class_pools: "nft_do_create_class (lm_nft L) w f c ty md = Inr (r', w') \<Longrightarrow> same_pools L w w'"
    and burn_pools: "nft_do_burn (lm_nft L) w f c j = Inr w' \<Longrightarrow> same_pools L w w'"
    and move_money: "nft_do_transfer (lm_nft L) w c j f t = Inr w' \<Longrightarrow>
      c_free_balance (lm_currency L) w' = c_free_balance (lm_currency L) w \<and> same_pools L w w'"
    and destroy_money: "nft_do_destroy_class (lm_nft L) w f c = Inr w' \<Longrightarrow> same_pools L w w' \<and>
      c_free_balance (lm_currency L) w a v \<le> c_free_balance (lm_currency L) w' a v"
begin

abbreviation others :: "account_id \<Rightarrow> bool" where
  "others \<equiv> \<lambda>a. a \<noteq> lm_account_id L"

lemma subs_others: "subs_pay L others"
  by (simp add: subs_pay_def sub_apart)

lemma transfer_pools: "c_transfer (lm_currency L) w a f t x = Inr w' \<Longrightarrow> same_pools L w w'"
  using mining.transfer_quiet by (simp add: same_pools_def)

lemma transfer_calm:
  assumes "c_transfer (lm_currency L) w a f t x = Inr w'" "f \<noteq> lm_account_id L"
  shows "calm L st w w'"
  using mining.transfer_quiet [OF assms(1)] mining.cur.transfer_free [OF assms(1)] transfer_classes [OF assms(1)] assms(2)
    same_pools_ok [OF transfer_pools [OF assms(1)]]
  by (simp add: calm_def)

lemma flow_calm:
  assumes "lm_flow L others w w'"
  shows "calm L st w w'" "amm_exists (lm_amm L) w' = amm_exists (lm_amm L) w"
    "amm_get_share_token (lm_amm L) w' = amm_get_share_token (lm_amm L) w"
    "nft_owner (lm_nft L) w' = nft_owner (lm_nft L) w"
proof -
  from assms have "calm L st w w' \<and> amm_exists (lm_amm L) w' = amm_exists (lm_amm L) w \<and>
    amm_get_share_token (lm_amm L) w' = amm_get_share_token (lm_amm L) w \<and> nft_owner (lm_nft L) w' = nft_owner (lm_nft L) w"
    by (induction rule: lm_flow.induct) (auto intro: calm_trans transfer_calm dest: mining.transfer_quiet)
  then show "calm L st w w'" "amm_exists (lm_amm L) w' = amm_exists (lm_amm L) w"
    "amm_get_share_token (lm_amm L) w' = amm_get_share_token (lm_amm L) w"
    "nft_owner (lm_nft L) w' = nft_owner (lm_nft L) w" by simp_all
qed

lemma flow_classes: "lm_flow L P w w' \<Longrightarrow> nft_classes w' = nft_classes w"
  by (induction rule: lm_flow.induct) (auto dest: transfer_classes)

lemma native_calm:
  "n_transfer (mp_native M) w f t x k = Inr w' \<Longrightarrow> f \<noteq> lm_account_id L \<Longrightarrow> calm L st w w'"
  "n_reserve (mp_native M) w ri f x = Inr w' \<Longrightarrow> f \<noteq> lm_account_id L \<Longrightarrow> calm L st w w'"
  "n_unreserve (mp_native M) w ri f x = (r, w') \<Longrightarrow> calm L st w w'"
  using native_transfer [of w f t x k w'] native_reserve [of w ri f x w'] native_unreserve [of w ri f x r w']
    shop.transfer_quiet [of w f t x k w'] shop.reserve_quiet [of w ri f x w'] shop.unreserve_quiet [of w ri f x r w']
  by (auto intro!: calmI simp: same_nft)

text \<open>Liquidity mining: a deposit opens a claim, a withdrawal closes one, everything else is calm.\<close>

lemma plain_calm:
  assumes "lm_dispatch L s orig c = Inr s'" "lm_plain c" "lm_sound L (lm_ext s) c"
  shows "calm L st (lm_ext s) (lm_ext s')"
  by (rule flow_calm(1) [OF lm_plain_flow [OF assms(1,2) subs_others]]) (use assms(3) in \<open>cases c; simp\<close>)

lemma deposit_step:
  assumes dep: "lm_deposit_shares L s orig f p x = Inr s'" and inv: "lm_inv L s"
    and orig: "orig \<noteq> Signed (lm_account_id L)" and ex: "amm_exists (lm_amm L) (lm_ext s) p" and pools: "pools_ok L st (lm_ext s)"
  shows "vault_step (lm_vault L st s) (lm_vault L st s')" "nft_classes (lm_ext s') = nft_classes (lm_ext s)" "pools_ok L st (lm_ext s')"
    "deposit_data s' n \<noteq> None \<Longrightarrow> deposit_data s n \<noteq> None \<or> 2 ^ 32 < n"
proof -
  have tk: "amm_get_share_token (lm_amm L) (lm_ext s) p = st (amm_get_pair_id (lm_amm L) p)" using pools ex by (simp add: pools_ok_def)
  obtain who m j v u where who: "orig = Signed who" and flow: "lm_flow L others (lm_ext s) v"
    and pay: "c_transfer (lm_currency L) v (amm_get_share_token (lm_amm L) (lm_ext s) p) who (lm_account_id L) x = Inr u"
    and mint: "nft_do_mint (lm_nft L) u who (lm_nft_class L) m [] = Inr (j, lm_ext s')"
    and cl: "lm_claims L st s' = (lm_claims L st s)(m \<mapsto> (amm_get_share_token (lm_amm L) (lm_ext s) p, x))" "2 ^ 32 < m"
    by (rule lm_deposit_opens [OF dep inv subs_others refl, of st]) (use tk in auto)
  have fr: "calm L st (lm_ext s) u" "nft_owner (lm_nft L) u = nft_owner (lm_nft L) (lm_ext s)"
    using flow_calm(1,4) [OF flow] transfer_calm [OF pay] mining.transfer_quiet [OF pay] who orig by (auto intro: calm_trans)
  have own: "nft_owner (lm_nft L) (lm_ext s) (lm_nft_class L) m = None"
    "nft_owner (lm_nft L) (lm_ext s') = owner_set (lm_nft_class L) m (Some who) (nft_owner (lm_nft L) (lm_ext s))"
    using mining.tok.nft.mint_new [OF mint] mining.tok.nft.mint_sets [OF mint] fr(2) by simp_all
  have held: "lm_free L s k (lm_account_id L) + (if k = amm_get_share_token (lm_amm L) (lm_ext s) p then x else 0)
      \<le> lm_free L s' k (lm_account_id L)" for k
    using flow_calm(1) [OF flow] mining.cur.transfer_free [OF pay] mining.mint_quiet [OF mint] who orig
    by (auto simp: calm_def)
  let ?v = "lm_vault L st s"
  have "lm_vault L st s' = \<lparr>vt_claims = (vt_claims ?v)(m \<mapsto> (amm_get_share_token (lm_amm L) (lm_ext s) p, x)),
      vt_owner = (vt_owner ?v)(m \<mapsto> who), vt_held = (\<lambda>k. lm_free L s' k (lm_account_id L))\<rparr>"
    using cl(1) own(2) by (simp add: lm_vault_def fun_eq_iff)
  moreover have "vault_step ?v \<lparr>vt_claims = (vt_claims ?v)(m \<mapsto> (amm_get_share_token (lm_amm L) (lm_ext s) p, x)),
      vt_owner = (vt_owner ?v)(m \<mapsto> who), vt_held = (\<lambda>k. lm_free L s' k (lm_account_id L))\<rparr>"
    by (rule vault_step.open_claim) (use own(1) held in \<open>simp_all add: lm_vault_def\<close>)
  ultimately show "vault_step ?v (lm_vault L st s')" by simp
  show "nft_classes (lm_ext s') = nft_classes (lm_ext s)"
    using nft_keeps_classes(1) [OF mint] transfer_classes [OF pay] flow_classes [OF flow] by simp
  have "same_pools L u (lm_ext s')" using mining.mint_quiet [OF mint] by (simp add: same_pools_def)
  then show "pools_ok L st (lm_ext s')" using calm_class(2) [OF fr(1) pools] same_pools_ok by blast
  show "deposit_data s n \<noteq> None \<or> 2 ^ 32 < n" if "deposit_data s' n \<noteq> None"
    using that lm_claims_dom(1) [OF lm_inv_deposit [OF dep inv], of st n] lm_claims_dom(1) [OF inv, of st n] cl by (auto split: if_splits)
qed

lemma withdraw_step:
  assumes wd: "lm_withdraw_shares L s orig n = Inr s'" and inv: "lm_inv L s" and pools: "pools_ok L st (lm_ext s)"
  shows "vault_step (lm_vault L st s) (lm_vault L st s')" "nft_classes (lm_ext s') = nft_classes (lm_ext s)" "pools_ok L st (lm_ext s')"
    "deposit_data s' k \<noteq> None \<Longrightarrow> deposit_data s k \<noteq> None"
proof -
  obtain who pair x v u where who: "nft_owner (lm_nft L) (lm_ext s) (lm_nft_class L) n = Some who"
    and flow: "lm_flow L others (lm_ext s) v" and ret: "lm_return_shares L v pair who x u"
    and burn: "nft_do_burn (lm_nft L) u who (lm_nft_class L) n = Inr (lm_ext s')"
    and cl: "lm_claims L st s n = Some (st (amm_get_pair_id (lm_amm L) pair), x)"
      "lm_claims L st s' = (lm_claims L st s)(n := None)"
    by (rule lm_withdraw_closes [OF wd inv subs_others])
  let ?tk = "st (amm_get_pair_id (lm_amm L) pair)" and ?v = "lm_vault L st s"
  have pv: "pools_ok L st v" by (rule calm_class(2) [OF flow_calm(1) [OF flow] pools])
  have ret': "nft_owner (lm_nft L) u = nft_owner (lm_nft L) v" "nft_classes u = nft_classes v" "same_pools L v u"
    "c_free_balance (lm_currency L) v k (lm_account_id L) - (if k = ?tk then x else 0)
       \<le> c_free_balance (lm_currency L) u k (lm_account_id L)" for k
    using ret pv mining.transfer_quiet transfer_classes mining.cur.transfer_free
    by (auto simp: lm_return_shares_def pools_ok_def same_pools_def split: if_splits)
  have own: "nft_owner (lm_nft L) (lm_ext s') = owner_set (lm_nft_class L) n None (nft_owner (lm_nft L) (lm_ext s))"
    using mining.tok.nft.burn_clears [OF burn] ret'(1) flow_calm(4) [OF flow] by simp
  have held: "lm_free L s k (lm_account_id L) - (if k = ?tk then x else 0) \<le> lm_free L s' k (lm_account_id L)" for k
    using order_trans [OF diff_le_mono ret'(4)] flow_calm(1) [OF flow] mining.burn_quiet [OF burn] by (simp add: calm_def)
  have "lm_vault L st s' = \<lparr>vt_claims = (vt_claims ?v)(n := None),
      vt_owner = (vt_owner ?v)(n := None), vt_held = (\<lambda>k. lm_free L s' k (lm_account_id L))\<rparr>"
    using cl(2) own by (simp add: lm_vault_def fun_eq_iff)
  moreover have "vault_step ?v \<lparr>vt_claims = (vt_claims ?v)(n := None),
      vt_owner = (vt_owner ?v)(n := None), vt_held = (\<lambda>k. lm_free L s' k (lm_account_id L))\<rparr>"
    by (rule vault_step.close_claim [of _ _ ?tk x who]) (use cl(1) who held in \<open>simp_all add: lm_vault_def\<close>)
  ultimately show "vault_step ?v (lm_vault L st s')" by simp
  show "nft_classes (lm_ext s') = nft_classes (lm_ext s)"
    using nft_keeps_classes(2) [OF burn] ret'(2) flow_classes [OF flow] by simp
  show "pools_ok L st (lm_ext s')" using pv same_pools_ok [OF ret'(3)] same_pools_ok [OF burn_pools [OF burn]] by simp
  show "deposit_data s k \<noteq> None" if "deposit_data s' k \<noteq> None"
    using that lm_claims_dom(1) [OF lm_inv_withdraw [OF wd inv], of st k] lm_claims_dom(1) [OF inv, of st k] cl by (auto split: if_splits)
qed

text \<open>A transfer of a token moves a deposit to another owner, or nothing of the deposits.\<close>

lemma token_step:
  assumes tr: "nft_transfer (lm_nft L) (lm_ext s) orig c i dest = Inr w" and s': "lm_ext s' = w" "lm_claims L st s' = lm_claims L st s"
  shows "vault_step (lm_vault L st s) (lm_vault L st s')" "nft_classes w = nft_classes (lm_ext s)" "same_pools L (lm_ext s) w"
proof -
  from tr obtain v b where mv: "nft_do_transfer (lm_nft L) (lm_ext s) c i v b = Inr w" by (auto simp: nft_transfer_def)
  show cls: "nft_classes w = nft_classes (lm_ext s)" by (rule nft_keeps_classes(3) [OF mv])
  have money: "c_free_balance (lm_currency L) w = lm_free L s" and pools: "same_pools L (lm_ext s) w" using move_money [OF mv] by simp_all
  show "same_pools L (lm_ext s) w" by (rule pools)
  show "vault_step (lm_vault L st s) (lm_vault L st s')"
  proof (cases "c = lm_nft_class L \<and> v \<noteq> b")
    case True
    with mining.tok.nft.move_only_owner [OF mv] mining.tok.nft.move_sets [OF mv] s' money
    have "vt_owner (lm_vault L st s) i = Some v" "lm_vault L st s' = (lm_vault L st s)\<lparr>vt_owner := (vt_owner (lm_vault L st s))(i \<mapsto> b)\<rparr>"
      by (auto simp: lm_vault_def)
    then show ?thesis using vault_step.move by metis
  next
    case False
    then have "nft_owner (lm_nft L) w (lm_nft_class L) = nft_owner (lm_nft L) (lm_ext s) (lm_nft_class L)"
      using mining.tok.nft.move_self mining.tok.nft.move_sets [OF mv] mv by (cases "v = b") auto
    with s' money cls pools show ?thesis by (intro calm_gain calmI) simp_all
  qed
qed

lemma user_calm:
  assumes "nft_dispatch (lm_nft L) w (Signed v) c = Inr w'" "v \<noteq> lm_account_id L" "class_ok L w" "\<And>a i t. c \<noteq> OpTransfer a i t"
  shows "calm L st w w'"
proof (cases c)
  case (OpCreateClass a ty md)
  with assms(1) integrity obtain r where "nft_do_create_class (lm_nft L) w v a default_class_type md = Inr (r, w')" "a \<noteq> lm_nft_class L"
    by (auto simp: nft_create_class_def lm_integrity_test_def)
  with class_money [OF this(1)] class_pools [OF this(1)] assms(2) mining.tok.create_owner show ?thesis
    by (intro calmI) (auto simp: nft_do_create_class_def Let_def nft_owner_eq)
next
  case (OpMint a i md)
  with assms(1) obtain ci j where *: "nft_do_mint (lm_nft L) w v a i md = Inr (j, w')" "nft_classes w a = Some ci" "can_mint (ci_class_type ci)"
    by (auto simp: nft_mint_def)
  then have "a \<noteq> lm_nft_class L" using assms(3) by (auto simp: class_ok_def)
  with * mining.mint_quiet [OF *(1)] nft_keeps_classes(1) [OF *(1)] mining.tok.nft.mint_sets [OF *(1)]
  show ?thesis by (intro calmI) (auto simp: same_pools_def)
next
  case (OpBurn a i)
  with assms(1) obtain ci where *: "nft_do_burn (lm_nft L) w v a i = Inr w'" "nft_classes w a = Some ci" "can_burn (ci_class_type ci)"
    by (auto simp: nft_burn_def)
  then have "a \<noteq> lm_nft_class L" using assms(3) by (auto simp: class_ok_def)
  with * mining.burn_quiet [OF *(1)] nft_keeps_classes(2) [OF *(1)] mining.tok.nft.burn_clears [OF *(1)] burn_pools [OF *(1)]
  show ?thesis by (intro calmI) auto
next
  case (OpDestroyClass a)
  with assms(1) obtain ci where *: "nft_do_destroy_class (lm_nft L) w v a = Inr w'" "nft_classes w a = Some ci" "can_destroy (ci_class_type ci)"
    by (auto simp: nft_destroy_class_def)
  then have "a \<noteq> lm_nft_class L" using assms(3) by (auto simp: class_ok_def)
  with * destroy_money [OF *(1)] mining.tok.destroy_owner show ?thesis
    by (intro calmI) (auto simp: nft_do_destroy_class_def Let_def nft_owner_eq)
qed (use assms(4) in blast)

text \<open>The marketplace: money of others moves, and at most one token in the end.\<close>

lemma sale_calm:
  assumes "mp_do_buy M m buyer c i is_offer = Inr m'" "buyer \<noteq> lm_account_id L"
  obtains w orig dest where "calm L st (mp_ext m) w" "nft_transfer (lm_nft L) w orig c i dest = Inr (mp_ext m')"
    "mp_offers m' = mp_offers m"
  using assms(1)
proof (rule mp_do_buy_effect)
  fix seller price listing author fee v w
  assume v: "v = mp_ext m \<and> fee = 0 \<and> author = seller \<or> n_transfer (mp_native M) (mp_ext m) buyer author fee True = Inr v"
    and w: "n_transfer (mp_native M) v buyer seller (price - fee) True = Inr w"
    and tr: "nft_transfer (mp_nft M) w (Signed seller) c i (nft_unlookup (mp_nft M) buyer) = Inr (mp_ext m')"
    and off: "mp_offers m' = mp_offers m"
  have "calm L st (mp_ext m) v" using v native_calm(1) assms(2) by auto
  then have "calm L st (mp_ext m) w" using native_calm(1) [OF w assms(2)] by (rule calm_trans)
  with tr off that show thesis by (simp add: same_nft)
qed

lemma market_effect:
  assumes "mp_dispatch M (Signed v) c m = Inr m'" "v \<noteq> lm_account_id L" "offers_ok (lm_account_id L) m"
  shows "calm L st (mp_ext m) (mp_ext m') \<or>
     (\<exists>w orig a i dest. calm L st (mp_ext m) w \<and> nft_transfer (lm_nft L) w orig a i dest = Inr (mp_ext m'))"
    "offers_ok (lm_account_id L) m'"
proof -
  have "(calm L st (mp_ext m) (mp_ext m') \<or>
     (\<exists>w orig a i dest. calm L st (mp_ext m) w \<and> nft_transfer (lm_nft L) w orig a i dest = Inr (mp_ext m'))) \<and>
     offers_ok (lm_account_id L) m'"
  proof (cases c)
    case (Buy a i)
    with assms(1) have "mp_do_buy M m v a i False = Inr m'" by (simp add: mp_buy_def)
    from sale_calm [OF this assms(2)] offers_sub [OF assms(3)] show ?thesis by metis
  next
    case (SetPrice a i p)
    with assms(1) show ?thesis by (auto simp: mp_set_price_def Let_def intro!: offers_sub [OF assms(3)])
  next
    case (MakeOffer a i x e)
    with assms(1,2) show ?thesis by (auto simp: mp_make_offer_def Let_def intro: native_calm(2) intro!: offers_add [OF assms(3)])
  next
    case (WithdrawOffer a i u)
    with assms(1) show ?thesis
      by (auto simp: mp_withdraw_offer_def Let_def split: if_splits intro!: native_calm(3) [OF prod.collapse [symmetric]]
          offers_sub [OF assms(3)])
  next
    case (AcceptOffer a i u)
    with assms(1,3) obtain off m1 where off: "mp_offers m ((a, i), u) = Some off" "u \<noteq> lm_account_id L"
      and buy: "mp_do_buy M (mp_put (snd (n_unreserve (mp_native M) (mp_ext m) RESERVE_ID u (of_amount off))) m) u a i True = Inr m1"
      and m': "mp_ext m' = mp_ext m1" "mp_offers m' = (mp_offers m1)(((a, i), u) := None)"
      by (auto simp: mp_accept_offer_def Let_def offers_ok_def split: if_splits)
    let ?w = "snd (n_unreserve (mp_native M) (mp_ext m) RESERVE_ID u (of_amount off))"
    have un: "calm L st (mp_ext m) ?w" by (rule native_calm(3) [OF prod.collapse [symmetric]])
    from buy off(2) show ?thesis
    proof (rule sale_calm)
      fix w orig dest
      assume "calm L st (mp_ext (mp_put ?w m)) w" "nft_transfer (lm_nft L) w orig a i dest = Inr (mp_ext m1)"
        and "mp_offers m1 = mp_offers (mp_put ?w m)"
      with calm_trans [OF un] m' show ?thesis by (auto intro!: offers_sub [OF assms(3)] split: if_splits)
    qed
  next
    case (AddRoyalty a i u r)
    with assms(1,2) show ?thesis by (auto simp: mp_add_royalty_def Let_def intro: native_calm(2) intro!: offers_sub [OF assms(3)])
  qed
  then show "calm L st (mp_ext m) (mp_ext m') \<or>
     (\<exists>w orig a i dest. calm L st (mp_ext m) w \<and> nft_transfer (lm_nft L) w orig a i dest = Inr (mp_ext m'))"
    "offers_ok (lm_account_id L) m'" by simp_all
qed

text \<open>Every step keeps the invariant and is a run of the vault.\<close>

lemma mining_ok:
  assumes "lm_dispatch L s orig c = Inr s'" "orig \<noteq> Signed (lm_account_id L)" "lm_sound L (lm_ext s) c" "lm_inv L s"
    and "class_ok L (lm_ext s)" "pools_ok L st (lm_ext s)"
  shows "vault_step (lm_vault L st s) (lm_vault L st s')" "class_ok L (lm_ext s')" "pools_ok L st (lm_ext s')"
    "deposit_data s' n \<noteq> None \<Longrightarrow> deposit_data s n \<noteq> None \<or> 2 ^ 32 < n"
proof -
  have inv': "lm_inv L s'" by (rule lm_step_inv [OF lm_dispatch_step [OF assms(1)] assms(4)])
  consider (deposit) f p x where "c = OpDepositShares f p x" | (withdraw) m where "c = OpWithdrawShares m" | (plain) "lm_plain c"
    by (cases c) auto
  then have "vault_step (lm_vault L st s) (lm_vault L st s') \<and> class_ok L (lm_ext s') \<and> pools_ok L st (lm_ext s') \<and>
    (deposit_data s' n \<noteq> None \<longrightarrow> deposit_data s n \<noteq> None \<or> 2 ^ 32 < n)"
  proof cases
    case deposit
    with assms(1,3) have "lm_deposit_shares L s orig f p x = Inr s'" "amm_exists (lm_amm L) (lm_ext s) p" by simp_all
    note eff = deposit_step [OF this(1) assms(4,2) this(2) assms(6)]
    from eff(1-3) eff(4) [of n] assms(5) show ?thesis by (simp add: class_ok_def)
  next
    case withdraw
    with assms(1) have "lm_withdraw_shares L s orig m = Inr s'" by simp
    note eff = withdraw_step [OF this assms(4,6)]
    from eff(1-3) eff(4) [of n] assms(5) show ?thesis by (simp add: class_ok_def)
  next
    case plain
    note calm = plain_calm [OF assms(1) plain assms(3)] and cl = lm_plain_claims [OF assms(1) plain assms(4), of st]
    have "deposit_data s' n = None \<longleftrightarrow> deposit_data s n = None"
      using lm_claims_dom(1) [OF inv', of st n] lm_claims_dom(1) [OF assms(4), of st n] cl by simp
    with calm_gain [OF calm cl] calm_class(1) [OF calm assms(5)] calm_class(2) [OF calm assms(6)] show ?thesis by simp
  qed
  then show "vault_step (lm_vault L st s) (lm_vault L st s')" "class_ok L (lm_ext s')" "pools_ok L st (lm_ext s')"
    "deposit_data s' n \<noteq> None \<Longrightarrow> deposit_data s n \<noteq> None \<or> 2 ^ 32 < n" by simp_all
qed

lemma create_ok:
  assumes "nft_do_create_class (lm_nft L) (lm_ext s) (lm_account_id L) (lm_nft_class L) LiquidityMiningClass [] = Inr (r, w)"
    and s': "lm_ext s' = w" "deposit_data s' = deposit_data s" "liq_pool_metadata s' = liq_pool_metadata s"
  shows "vault_step (lm_vault L st s) (lm_vault L st s')" "class_ok L w"
proof -
  have own: "nft_owner (lm_nft L) w = nft_owner (lm_nft L) (lm_ext s)"
    and cls: "nft_classes w (lm_nft_class L) = Some \<lparr>ci_class_type = LiquidityMiningClass, ci_metadata = []\<rparr>"
    using assms(1) by (auto simp: nft_do_create_class_def Let_def nft_owner_eq dest: mining.tok.create_owner)
  show "class_ok L w" using cls by (simp add: class_ok_def)
  have "lm_claims L st s' = lm_claims L st s" by (rule lm_claims_cong) (simp_all only: s')
  then have "lm_vault L st s' = (lm_vault L st s)\<lparr>vt_held := (\<lambda>k. c_free_balance (lm_currency L) w k (lm_account_id L))\<rparr>"
    by (simp add: lm_vault_def s'(1) own)
  moreover have "vt_held (lm_vault L st s) k \<le> c_free_balance (lm_currency L) w k (lm_account_id L)" for k
    using class_money [OF assms(1), of "lm_account_id L" k] by (simp add: lm_vault_def)
  ultimately show "vault_step (lm_vault L st s) (lm_vault L st s')" using vault_step.gain by metis
qed

lemma upgrade_ok:
  assumes "init_nft_class L s = Some s'" "class_ok L (lm_ext s)" "pools_ok L st (lm_ext s)"
  shows "vault_step (lm_vault L st s) (lm_vault L st s')" "class_ok L (lm_ext s')" "pools_ok L st (lm_ext s')"
    "deposit_data s' = deposit_data s"
proof -
  have "vault_step (lm_vault L st s) (lm_vault L st s') \<and> class_ok L (lm_ext s') \<and> pools_ok L st (lm_ext s') \<and> deposit_data s' = deposit_data s"
  proof (cases "lm_storage_version s = 0")
    case True
    with assms(1) obtain r w where "nft_do_create_class (lm_nft L) (lm_ext s) (lm_account_id L) (lm_nft_class L) LiquidityMiningClass [] = Inr (r, w)"
      and s': "s' = (lm_put w s)\<lparr>lm_storage_version := 1\<rparr>"
      by (auto simp: init_nft_class_def split: sum.splits)
    from create_ok [OF this(1), of s'] same_pools_ok [OF class_pools [OF this(1)]] s' assms(3) show ?thesis by simp
  next
    case False
    with assms(1) have "s' = s" by (simp add: init_nft_class_def)
    with assms(2,3) calm_gain [of L st s s] show ?thesis by simp
  qed
  then show "vault_step (lm_vault L st s) (lm_vault L st s')" "class_ok L (lm_ext s')" "pools_ok L st (lm_ext s')" "deposit_data s' = deposit_data s" by simp_all
qed

lemma store_ok:
  assumes "calm L st (lm_ext s) w \<or> (\<exists>v orig a i dest. calm L st (lm_ext s) v \<and> nft_transfer (lm_nft L) v orig a i dest = Inr w)"
    and "class_ok L (lm_ext s)" "pools_ok L st (lm_ext s)"
  shows "vault_step\<^sup>*\<^sup>* (lm_vault L st s) (lm_vault L st (lm_put w s))" "class_ok L w" "pools_ok L st w"
proof -
  from assms(1) consider "calm L st (lm_ext s) w"
    | v orig a i dest where "calm L st (lm_ext s) v" "nft_transfer (lm_nft L) v orig a i dest = Inr w" by blast
  then have "vault_step\<^sup>*\<^sup>* (lm_vault L st s) (lm_vault L st (lm_put w s)) \<and> class_ok L w \<and> pools_ok L st w"
  proof cases
    case 1
    with calm_gain [of L st s "lm_put w s"] calm_class(1) [OF 1 assms(2)] calm_class(2) [OF 1 assms(3)] show ?thesis by simp
  next
    case 2
    have "vault_step (lm_vault L st s) (lm_vault L st (lm_put v s))" by (rule calm_gain) (simp_all add: 2)
    moreover have tr: "nft_transfer (lm_nft L) (lm_ext (lm_put v s)) orig a i dest = Inr w" using 2 by simp
    moreover have "vault_step (lm_vault L st (lm_put v s)) (lm_vault L st (lm_put w s))" by (rule token_step(1) [OF tr]) simp_all
    moreover have "class_ok L w" using token_step(2) [OF tr, of "lm_put w s"] calm_class(1) [OF 2(1) assms(2)] by (simp add: class_ok_def)
    moreover have "pools_ok L st w"
      using token_step(3) [OF tr, of "lm_put w s"] calm_class(2) [OF 2(1) assms(3)] by (simp add: same_pools_ok)
    ultimately show ?thesis by (meson converse_rtranclp_into_rtranclp r_into_rtranclp)
  qed
  then show "vault_step\<^sup>*\<^sup>* (lm_vault L st s) (lm_vault L st (lm_put w s))" "class_ok L w" "pools_ok L st w" by simp_all
qed

lemma lm_inv_put: "lm_inv L (lm_put w s) \<longleftrightarrow> lm_inv L s"
  by (simp add: lm_inv_def)

lemma step_ok:
  assumes "hub_step L M st h h'" "hub_inv L st h"
  shows "hub_inv L st h'" "vault_step\<^sup>*\<^sup>* (lm_vault L st (hub_lm h)) (lm_vault L st (hub_lm h'))"
proof -
  note inv = assms(2) [unfolded hub_inv_def]
  have "hub_inv L st h' \<and> vault_step\<^sup>*\<^sup>* (lm_vault L st (hub_lm h)) (lm_vault L st (hub_lm h'))"
    using assms(1)
  proof cases
    case (mining orig c s)
    note ok = mining_ok [OF mining(2,3) mining(4) [unfolded hub_store_def]]
    from lm_step_inv [OF lm_dispatch_step [OF mining(2)]] inv ok show ?thesis
      by (auto simp: hub_inv_def mining(1) hub_store_def)
  next
    case (upgrade s)
    from lm_inv_migrate [OF upgrade(2)] inv upgrade_ok [OF upgrade(2)] show ?thesis
      by (auto simp: hub_inv_def upgrade(1) hub_store_def)
  next
    case (market orig c m)
    from market(2) obtain v where v: "orig = Signed v" by (cases c) (auto simp: mp_call_defs)
    have "offers_ok (lm_account_id L) (hub_market h)" using inv by (auto simp: hub_market_def intro: offers_sub)
    note eff = market_effect [OF market(2) [unfolded v] _ this]
    from store_ok [of "hub_lm h" "mp_ext m"] eff v market(3) inv show ?thesis
      by (simp add: hub_inv_def market(1) hub_market_def hub_store_def lm_inv_put)
  next
    case (tokens orig c w)
    from tokens(2) obtain v where v: "orig = Signed v" by (cases c) (auto simp: nft_call_defs)
    have "calm L st (lm_ext (hub_lm h)) w \<or> (\<exists>u orig a i dest. calm L st (lm_ext (hub_lm h)) u \<and> nft_transfer (lm_nft L) u orig a i dest = Inr w)"
    proof (cases "\<exists>a i d. c = OpTransfer a i d")
      case True
      with tokens(2) show ?thesis by (metis calm_refl nft_dispatch.simps(3) hub_store_def)
    next
      case False
      with user_calm [OF tokens(2) [unfolded v]] tokens(3) v inv show ?thesis by (auto simp: hub_store_def)
    qed
    from store_ok [OF this] inv show ?thesis by (simp add: hub_inv_def tokens(1) hub_store_def lm_inv_put)
  next
    case (outside w)
    with store_ok [of "hub_lm h" w] inv show ?thesis by (simp add: hub_inv_def hub_store_def lm_inv_put)
  qed
  then show "hub_inv L st h'" "vault_step\<^sup>*\<^sup>* (lm_vault L st (hub_lm h)) (lm_vault L st (hub_lm h'))" by simp_all
qed

lemma reachable_ok:
  assumes "hub_reachable L M st h"
  shows "hub_inv L st h" "vault_ok (lm_vault L st (hub_lm h))"
  using assms
proof (induction rule: hub_reachable.induct)
  case (genesis w)
  {
    case 1
    show ?case using genesis by (auto simp: hub_inv_def lm_inv_def farms_inv_def deposits_inv_def pool_deposits_def u32_max_def
          class_ok_def offers_ok_def hub_store_def)
  next
    case 2
    have "lm_claims L st s = Map.empty" if "deposit_data s = Map.empty" for s using that by (auto simp: lm_claims_def)
    then show ?case using genesis by (simp add: vault_ok_def lm_vault_def owed_def map_sum_def)
  }
next
  case (step h h')
  {
    case 1
    from step_ok(1) [OF step.hyps(2) step.IH(1)] show ?case .
  next
    case 2
    from vault_steps_ok [OF step_ok(2) [OF step.hyps(2) step.IH(1)] step.IH(2)] show ?case .
  }
qed

text \<open>What the vault gives for the maps of the pallet.\<close>

lemma backed:
  assumes "hub_reachable L M st h" "s = hub_lm h"
  shows "deposit_data s n = None \<longleftrightarrow> nft_owner (lm_nft L) (lm_ext s) (lm_nft_class L) n = None"
    "owed (lm_claims L st s) k \<le> lm_free L s k (lm_account_id L)"
    "deposit_data s n = Some d \<Longrightarrow> \<exists>pair c f. liq_pool_metadata s (n mod 2 ^ 32) = Some (pair, c, f) \<and> c \<noteq> 0 \<and>
       dp_shares d \<le> lm_free L s (st (amm_get_pair_id (lm_amm L) pair)) (lm_account_id L)"
proof -
  note ok = reachable_ok [OF assms(1), folded assms(2)]
  have inv: "lm_inv L s" using ok(1) assms(2) by (simp add: hub_inv_def)
  note dom = lm_claims_dom [OF inv, of st]
  show "deposit_data s n = None \<longleftrightarrow> nft_owner (lm_nft L) (lm_ext s) (lm_nft_class L) n = None"
    using ok(2) dom(1) by (simp add: vault_ok_def lm_vault_def)
  show le: "owed (lm_claims L st s) k \<le> lm_free L s k (lm_account_id L)" for k
    using ok(2) by (simp add: vault_ok_def lm_vault_def)
  assume d: "deposit_data s n = Some d"
  then obtain pair c f where m: "liq_pool_metadata s (n mod 2 ^ 32) = Some (pair, c, f)" "c \<noteq> 0"
    using deposit_counted [OF inv, of n] by auto
  then have "lm_claims L st s n = Some (st (amm_get_pair_id (lm_amm L) pair), dp_shares d)" using d by (simp add: lm_claims_def)
  from claim_le_owed [OF dom(2) this] le m show "\<exists>pair c f. liq_pool_metadata s (n mod 2 ^ 32) = Some (pair, c, f) \<and> c \<noteq> 0 \<and>
       dp_shares d \<le> lm_free L s (st (amm_get_pair_id (lm_amm L) pair)) (lm_account_id L)" by (blast intro: order_trans)
qed

text \<open>The shares of a pool that its farm gave up come back: the covered transfer and the burn are all it takes.\<close>

lemma withdraw_returns:
  assumes reach: "hub_reachable L M st h" and s: "s = hub_lm h"
    and own: "nft_owner (lm_nft L) (lm_ext s) (lm_nft_class L) n = Some who"
    and m: "liq_pool_metadata s (n mod 2 ^ 32) = Some (pair, c, f)"
    and gone: "liquidity_pool_data s (f, amm_get_pair_id (lm_amm L) pair) = None"
    and pays: "\<And>k x. x \<le> lm_free L s k (lm_account_id L) \<Longrightarrow>
      \<exists>w. c_transfer (lm_currency L) (lm_ext s) k (lm_account_id L) who x = Inr w"
    and burns: "\<And>w. nft_owner (lm_nft L) w (lm_nft_class L) n = Some who \<Longrightarrow>
      \<exists>w'. nft_do_burn (lm_nft L) w who (lm_nft_class L) n = Inr w'"
  shows "\<exists>s'. lm_withdraw_shares L s (Signed who) n = Inr s'"
proof -
  note b = backed [OF reach s]
  obtain d where d: "deposit_data s n = Some d" using b(1) [of n] own by (cases "deposit_data s n") auto
  from b(3) [OF d] m have c: "c \<noteq> 0" and le: "dp_shares d \<le> lm_free L s (st (amm_get_pair_id (lm_amm L) pair)) (lm_account_id L)"
    by auto
  have big: "2 ^ 32 < n" using reachable_ok(1) [OF reach] d s by (auto simp: hub_inv_def)
  have id: "lm_get_pool_id_from_nft_id n = Inr (n mod 2 ^ 32)" using big by (simp only: lm_get_pool_id_from_nft_id_eq_Inr)
  show ?thesis
  proof (cases "amm_exists (lm_amm L) (lm_ext s) pair")
    case True
    with pays [OF le] obtain w where
      w: "c_transfer (lm_currency L) (lm_ext s) (amm_get_share_token (lm_amm L) (lm_ext s) pair) (lm_account_id L) who (dp_shares d) = Inr w"
      using reachable_ok(1) [OF reach] s by (auto simp: hub_inv_def hub_store_def pools_ok_def)
    then have cur: "c_transfer (lm_cur L) s (amm_get_share_token (lm_amm L) (lm_ext s) pair) (lm_account_id L) who (dp_shares d) = Inr (lm_put w s)"
      by simp
    from burns [of w] own mining.transfer_quiet [OF w] obtain w' where "nft_do_burn (lm_nft L) w who (lm_nft_class L) n = Inr w'"
      by auto
    with True cur own id m d gone c show ?thesis
      by (simp add: lm_withdraw_shares_def Let_def del: lm_get_pool_id_from_nft_id_eq_Inr lm_transfer_eq_Inr)
  next
    case False
    from burns [OF own] obtain w' where "nft_do_burn (lm_nft L) (lm_ext s) who (lm_nft_class L) n = Inr w'" by blast
    with False own id m d gone c show ?thesis
      by (simp add: lm_withdraw_shares_def Let_def del: lm_get_pool_id_from_nft_id_eq_Inr)
  qed
qed

end

end
