(* ===== verification/Pools.thy ===== *)
theory Pools
  imports Bazaar Runtime
begin

text \<open>
  The constant-product pallet under liquidity mining: the trading pools whose shares are deposited.
  Its calls are among the steps beside the deposits that \<open>Bazaar\<close> allows, as long as the asset
  registry finds share tokens by their name: they take nothing from the account of liquidity mining
  and leave tokens alone, and a pool that is destroyed and created again has its old share token.
\<close>

section \<open>The trading pools\<close>

definition lift_amm :: "('s \<Rightarrow> 'p) \<Rightarrow> ('p \<Rightarrow> 's \<Rightarrow> 's) \<Rightarrow> 'p amm_ops \<Rightarrow> 's amm_ops" where
  "lift_amm gt pt A = \<lparr>
     amm_exists = (\<lambda>s. amm_exists A (gt s)),
     amm_get_pair_id = amm_get_pair_id A,
     amm_get_share_token = (\<lambda>s. amm_get_share_token A (gt s)),
     amm_get_pool_assets = (\<lambda>s. amm_get_pool_assets A (gt s)),
     amm_get_spot_price_unchecked = (\<lambda>s. amm_get_spot_price_unchecked A (gt s)),
     amm_validate_sell = (\<lambda>s. amm_validate_sell A (gt s)),
     amm_execute_sell = (\<lambda>s t. and_then (amm_execute_sell A (gt s) t) (\<lambda>p. Inr (pt p s))),
     amm_validate_buy = (\<lambda>s. amm_validate_buy A (gt s)),
     amm_execute_buy = (\<lambda>s t. and_then (amm_execute_buy A (gt s) t) (\<lambda>p. Inr (pt p s))),
     amm_get_min_trading_limit = amm_get_min_trading_limit A,
     amm_get_min_pool_liquidity = amm_get_min_pool_liquidity A,
     amm_get_max_in_ratio = amm_get_max_in_ratio A,
     amm_get_max_out_ratio = amm_get_max_out_ratio A,
     amm_get_fee = (\<lambda>s. amm_get_fee A (gt s))\<rparr>"

text \<open>Who calls the pallet gets share tokens only by their name.\<close>

lemma xyk_dispatch_tokens:
  assumes "xyk_env X" "xyk_dispatch X s orig c = Inr s'" "share_token s' k = Some t"
  shows "share_token s k = Some t \<or>
    (\<exists>a b w ed w'. k = xyk_get_pair_id X (mk_pair a b) \<and>
       xyk_get_or_create_shared_asset X w (pair_name (mk_pair a b)) [a, b] ed = Inr (t, w'))"
proof (cases c)
  case (CreatePool a b x price)
  with assms(2,3) show ?thesis by (auto simp: xyk_create_pool_def Let_def split: if_splits)
next
  case (AddLiquidity a b x limit)
  with assms(2,3) show ?thesis by (auto simp: xyk_add_liquidity_def Let_def)
next
  case (RemoveLiquidity a b l)
  with assms(2,3) show ?thesis
    by (cases "xyk_total_liquidity s (xyk_get_pair_id X (mk_pair a b)) - l = 0")
      (auto simp: xyk_remove_liquidity_def Let_def simp del: diff_is_0_eq diff_is_0_eq' split: if_splits)
next
  case (Sell a b x limit discount)
  with assms(2,3) xyk_envD(5) [OF assms(1)] show ?thesis
    by (auto simp: xyk_sell_def default_sell_spec_def xyk_execute_sell_def xyk_trade_prologue_def Let_def split: if_splits)
next
  case (Buy b a x limit discount)
  with assms(2,3) xyk_envD(6) [OF assms(1)] show ?thesis
    by (auto simp: xyk_buy_def default_buy_spec_def xyk_execute_buy_def xyk_trade_prologue_def Let_def split: if_splits)
qed

text \<open>The registry has one share token for a name, so for the account of a pair.\<close>

definition shares_by_name :: "'w xyk_config \<Rightarrow> (account_id \<Rightarrow> asset_id) \<Rightarrow> bool" where
  "shares_by_name X st \<longleftrightarrow>
     (\<forall>w a b ed t w'. xyk_get_or_create_shared_asset X w (pair_name (mk_pair a b)) [a, b] ed = Inr (t, w') \<longrightarrow>
        t = st (xyk_get_pair_id X (mk_pair a b)))"

locale hub_pools = hub_world L M st for L :: "'u lm_config" and M :: "'u mp_config" and st :: "account_id \<Rightarrow> asset_id" +
  fixes X :: "'w xyk_config" and gt :: "'u nft_state \<Rightarrow> 'w xyk_state" and pt :: "'w xyk_state \<Rightarrow> 'u nft_state \<Rightarrow> 'u nft_state"
  assumes pool_env: "xyk_env X"
    and names: "shares_by_name X st"
    and same_amm: "lm_amm L = lift_amm gt pt (xyk_amm X)"
    and same_free: "c_free_balance (lm_currency L) w = xyk_free X (gt w)"
    and gt_pt: "gt (pt x w) = x"
    and pt_tokens: "nft_owner (lm_nft L) (pt x w) = nft_owner (lm_nft L) w" "nft_classes (pt x w) = nft_classes w"
    and pairs_apart: "xyk_get_pair_id X p \<noteq> lm_account_id L"
begin

lemma pools_ok_iff: "pools_ok L st w \<longleftrightarrow> (\<forall>p t. share_token (gt w) (xyk_get_pair_id X p) = Some t \<longrightarrow> t = st (xyk_get_pair_id X p))"
  by (auto simp: pools_ok_def same_amm lift_amm_def xyk_exists_def xyk_get_share_token_def xyk_share_token_def contains_key_def
      value_query_def)

lemma pool_calm:
  assumes "xyk_dispatch X (gt w) orig c = Inr x" "orig \<noteq> Signed (lm_account_id L)"
  shows "calm L st w (pt x w)"
proof -
  from xyk_dispatch_signed [OF assms(1)] obtain who where who: "orig = Signed who" by blast
  have "xyk_free X x k (lm_account_id L) = xyk_free X (gt w) k (lm_account_id L)" for k
    by (rule xyk_dispatch_touches [OF pool_env assms(1) [unfolded who]])
      (use assms(2) who pairs_apart [symmetric] in auto)
  moreover have "pools_ok L st (pt x w)" if "pools_ok L st w"
    unfolding pools_ok_iff gt_pt
  proof (intro allI impI)
    fix p t
    assume "share_token x (xyk_get_pair_id X p) = Some t"
    from xyk_dispatch_tokens [OF pool_env assms(1) this] show "t = st (xyk_get_pair_id X p)"
      using that names unfolding pools_ok_iff shares_by_name_def by metis
  qed
  ultimately show ?thesis by (simp add: calm_def same_free gt_pt pt_tokens)
qed

lemma pool_step:
  assumes "xyk_dispatch X (gt (hub_store h)) orig c = Inr x" "orig \<noteq> Signed (lm_account_id L)"
  shows "hub_step L M st h (hub_put (pt x (hub_store h)) h)"
  using pool_calm [OF assms] by (rule hub_step.outside)

end

end
