(* ===== verification/Bazaar_Props.thy ===== *)
theory Bazaar_Props
  imports Pools
begin

text \<open>
  The properties of the pallets together, over the states they reach in any order: the storage of
  liquidity mining, of the marketplace and of the tokens implements the vault, every deposit is backed
  by shares and has one owner, and a deposit of a removed pool can always be taken out. The
  instance runs all of them and the constant-product pallet over one ledger and one token store; the
  run at the end shows what happens to a deposit made while the trading pool does not exist.
\<close>

section \<open>An executable instance\<close>

record plaza =
  pz_xyk :: "ledger xyk_state"
  pz_named :: "reserve_identifier \<Rightarrow> account_id \<Rightarrow> balance"
  pz_tokens :: registry
  pz_block :: block_number

text \<open>The native currency is asset 0 of the ledger below the trading pools.\<close>

definition plaza_ledger :: "plaza \<Rightarrow> ledger" where
  "plaza_ledger s = xyk_ext (pz_xyk s)"

definition plaza_put :: "ledger \<Rightarrow> plaza \<Rightarrow> plaza" where
  "plaza_put l s = s\<lparr>pz_xyk := xyk_put l (pz_xyk s)\<rparr>"

definition plaza_purse :: "plaza native_ops" where
  "plaza_purse = \<lparr>
     n_free = (\<lambda>s. l_free (plaza_ledger s) 0),
     n_reserved = pz_named,
     n_transfer = (\<lambda>s f t x k. and_then (ledger_transfer (plaza_ledger s) 0 f t x) (\<lambda>l. Inr (plaza_put l s))),
     n_reserve = (\<lambda>s i w x. and_then (ledger_withdraw (plaza_ledger s) 0 w x) (\<lambda>l.
        Inr ((plaza_put l s)\<lparr>pz_named := reserved_set i w (pz_named s i w + x) (pz_named s)\<rparr>))),
     n_unreserve = (\<lambda>s i w x. (x - pz_named s i w,
        (plaza_put ((plaza_ledger s)\<lparr>l_free := sheet_add 0 w (min x (pz_named s i w)) (l_free (plaza_ledger s))\<rparr>) s)
          \<lparr>pz_named := reserved_set i w (pz_named s i w - x) (pz_named s)\<rparr>))\<rparr>"

definition plaza_native :: "plaza nft_state native_ops" where
  "plaza_native = lift_native nft_ext nft_put plaza_purse"

text \<open>Accounts of pools and their share tokens are told apart by the two assets.\<close>

definition pair_code :: "asset_id \<Rightarrow> asset_id \<Rightarrow> nat" where
  "pair_code a b = (a + b) * (a + b) + min a b"

definition plaza_xyk :: "ledger xyk_config" where
  "plaza_xyk = demo_xyk\<lparr>xyk_get_or_create_shared_asset := (\<lambda>w n as ed. Inr (100 + pair_code (hd as) (last as), w)),
     xyk_from_assets := (\<lambda>a b _. 1000 + pair_code a b)\<rparr>"

definition plaza_pools :: "plaza nft_state \<Rightarrow> ledger xyk_state" where
  "plaza_pools s = pz_xyk (nft_ext s)"

definition plaza_set_pools :: "ledger xyk_state \<Rightarrow> plaza nft_state \<Rightarrow> plaza nft_state" where
  "plaza_set_pools x s = s\<lparr>nft_ext := (nft_ext s)\<lparr>pz_xyk := x\<rparr>\<rparr>"

definition plaza_currency :: "plaza nft_state currency_ops" where
  "plaza_currency = lift_currency plaza_pools plaza_set_pools (xyk_cur plaza_xyk)"

definition plaza_nft :: "plaza nft_config" where
  "plaza_nft = \<lparr>nft_uniques = lift_uniques pz_tokens (\<lambda>r u. u\<lparr>pz_tokens := r\<rparr>) registry_ops,
     nft_reserve_class_id_up_to = 99, nft_class_deposit = 10, nft_lookup = Some, nft_unlookup = id\<rparr>"

definition plaza_lm :: "plaza lm_config" where
  "plaza_lm = \<lparr>lm_currency = plaza_currency, lm_amm = lift_amm plaza_pools plaza_set_pools (xyk_amm plaza_xyk),
     lm_create_origin = (\<lambda>orig. if orig = Root then Inr () else Inl BadOrigin),
     lm_pallet_account = 500, lm_sub_account = (\<lambda>i. 500 + i), lm_min_total_farm_rewards = 100,
     lm_min_planned_yielding_periods = 10, lm_current_block_number = (\<lambda>s. pz_block (nft_ext s)),
     lm_nft_class = 1, lm_nft = plaza_nft, lm_math = formula_lm_math\<rparr>"

definition plaza_mp :: "plaza mp_config" where
  "plaza_mp = \<lparr>mp_native = plaza_native, mp_nft = plaza_nft, mp_minimum_offer_amount = 10, mp_royalty_bond_amount = 5,
     mp_block_number = (\<lambda>s. pz_block (nft_ext s)), mp_percent_mul = percent_nearest\<rparr>"

definition plaza_token :: "account_id \<Rightarrow> asset_id" where
  "plaza_token a = a - 900"

lemmas plaza_parts = plaza_ledger_def plaza_put_def plaza_pools_def plaza_set_pools_def xyk_put_def

lemmas plaza_defs = plaza_lm_def plaza_mp_def plaza_native_def plaza_currency_def plaza_nft_def plaza_purse_def plaza_parts
  lift_native_def lift_currency_def lift_uniques_def lift_amm_def nft_put_def nft_deposit_event_def xyk_cur_def

lemma plaza_xyk_sel [simp]:
  "xyk_currency plaza_xyk = ledger_ops" "xyk_get_pair_id plaza_xyk p = 1000 + pair_code (asset_in p) (asset_out p)"
  "xyk_get_or_create_shared_asset plaza_xyk = (\<lambda>w n as ed. Inr (100 + pair_code (hd as) (last as), w))"
  by (simp_all add: plaza_xyk_def demo_xyk_def xyk_get_pair_id_def xyk_pair_account_from_assets_def)

interpretation plaza_purse: named_reservable plaza_purse
  by unfold_locales
    (auto simp: plaza_purse_def plaza_parts ledger_transfer_def ledger_withdraw_def pay_def fun_eq_iff split: if_splits)

interpretation plaza_native: named_reservable plaza_native
  unfolding plaza_native_def by (rule named_reservable_lift [OF plaza_purse.named_reservable_axioms]) (simp add: nft_put_def)

interpretation plaza_currency: multi_currency plaza_currency
  unfolding plaza_currency_def xyk_cur_def
  by (intro multi_currency_lift) (simp_all add: plaza_parts ledger.multi_currency_axioms)

interpretation plaza_nft: nft_store plaza_nft
  unfolding nft_store_def plaza_nft_def by (simp, rule uniques_lift [OF registry.uniques_axioms]) simp_all

lemma plaza_xyk_env: "xyk_env plaza_xyk"
  using demo_xyk_env by (auto simp: xyk_env_def plaza_xyk_def trade_handler_frame_def registry_frame_def)

lemmas plaza_amm_defs = xyk_exists_def xyk_get_share_token_def xyk_share_token_def

interpretation plaza_lm: lm_world plaza_lm
  by (intro lm_world.intro lm_world_axioms.intro)
    (use plaza_currency.multi_currency_axioms plaza_nft.nft_store_axioms in
      \<open>auto simp: plaza_lm_def plaza_currency_def plaza_nft_def plaza_parts lift_currency_def lift_uniques_def lift_amm_def xyk_cur_def
        plaza_amm_defs nft_owner_def nft_do_mint_def nft_do_burn_def nft_deposit_event_def Let_def fun_eq_iff\<close>)

interpretation plaza_mp: mp_world plaza_mp
  by (intro mp_world.intro mp_world_axioms.intro)
    (use plaza_native.named_reservable_axioms plaza_nft.nft_store_axioms percent_nearest_le in
      \<open>auto simp: plaza_defs nft_owner_def nft_transfer_def nft_do_transfer_def fun_eq_iff split: prod.splits if_splits\<close>)

interpretation plaza: hub_world plaza_lm plaza_mp plaza_token
  by (intro hub_world.intro hub_world_axioms.intro)
    (use plaza_lm.lm_world_axioms plaza_mp.mp_world_axioms in
      \<open>auto simp: plaza_defs same_pools_def plaza_amm_defs lm_integrity_test_def lm_account_id_def nft_do_create_class_def
        nft_do_transfer_def nft_do_burn_def nft_do_destroy_class_def ledger_ops_def ledger_transfer_def ledger_withdraw_def Let_def
        fun_eq_iff split: prod.splits if_splits\<close>)

interpretation plaza_pools: hub_pools plaza_lm plaza_mp plaza_token plaza_xyk plaza_pools plaza_set_pools
  by (intro hub_pools.intro hub_pools_axioms.intro)
    (use plaza.hub_world_axioms plaza_xyk_env in
      \<open>auto simp: plaza_defs shares_by_name_def plaza_token_def lm_account_id_def mk_pair_def nft_owner_def fun_eq_iff\<close>)

section \<open>Running the pallets\<close>

datatype plaza_call = Mining origin lm_op | Market origin mp_call | Tokens origin nft_op | Pools origin xyk_call | Upgrade

fun plaza_exec :: "plaza_call \<Rightarrow> plaza hub \<Rightarrow> plaza hub result" where
  "plaza_exec (Mining orig c) h =
     and_then (ensure (orig \<noteq> Signed (lm_account_id plaza_lm) \<and> lm_sound plaza_lm (hub_store h) c) BadOrigin) (\<lambda>_.
     and_then (lm_dispatch plaza_lm (hub_lm h) orig c) (\<lambda>s. Inr (h\<lparr>hub_lm := s\<rparr>)))"
| "plaza_exec (Market orig c) h =
     and_then (ensure (orig \<noteq> Signed (lm_account_id plaza_lm)) BadOrigin) (\<lambda>_.
     and_then (mp_dispatch plaza_mp orig c (hub_market h)) (\<lambda>m. Inr (hub_put (mp_ext m) (h\<lparr>hub_mp := m\<rparr>))))"
| "plaza_exec (Tokens orig c) h =
     and_then (ensure (orig \<noteq> Signed (lm_account_id plaza_lm)) BadOrigin) (\<lambda>_.
     and_then (nft_dispatch (lm_nft plaza_lm) (hub_store h) orig c) (\<lambda>w. Inr (hub_put w h)))"
| "plaza_exec (Pools orig c) h =
     and_then (ensure (orig \<noteq> Signed (lm_account_id plaza_lm)) BadOrigin) (\<lambda>_.
     and_then (xyk_dispatch plaza_xyk (plaza_pools (hub_store h)) orig c) (\<lambda>x.
     Inr (hub_put (plaza_set_pools x (hub_store h)) h)))"
| "plaza_exec Upgrade h =
     and_then (ok_or (init_nft_class plaza_lm (hub_lm h)) (External 99)) (\<lambda>s. Inr (h\<lparr>hub_lm := s\<rparr>))"

fun plaza_run :: "plaza_call list \<Rightarrow> plaza hub \<Rightarrow> plaza hub result" where
  "plaza_run [] h = Inr h"
| "plaza_run (c # cs) h = and_then (plaza_exec c h) (plaza_run cs)"

lemma plaza_exec_step: "plaza_exec c h = Inr h' \<Longrightarrow> hub_step plaza_lm plaza_mp plaza_token h h'"
  by (cases c) (auto intro: hub_step.intros plaza_pools.pool_step)

lemma plaza_run_reachable:
  "plaza_run cs h = Inr h' \<Longrightarrow> hub_reachable plaza_lm plaza_mp plaza_token h \<Longrightarrow> hub_reachable plaza_lm plaza_mp plaza_token h'"
  by (induction cs arbitrary: h) (auto dest: plaza_exec_step intro: hub_reachable.step)

text \<open>Account 7 can pay for a farm, 8 for a pool, 8 and 9 have native tokens.\<close>

definition plaza_store :: "plaza nft_state" where
  "plaza_store = \<lparr>nft_ext = \<lparr>pz_xyk = \<lparr>xyk_ext = ledger_of [((3, 7), 1000), ((1, 8), 1000), ((2, 8), 1000), ((0, 8), 500), ((0, 9), 500)],
        share_token = Map.empty, total_liquidity = Map.empty, pool_assets = Map.empty, xyk_events = []\<rparr>,
      pz_named = (\<lambda>_ _. 0), pz_tokens = \<lparr>rg_classes = Map.empty, rg_tokens = []\<rparr>, pz_block = 1\<rparr>,
    nft_classes = Map.empty, nft_instances = Map.empty, nft_events = []\<rparr>"

definition plaza_genesis :: "plaza hub" where
  "plaza_genesis = \<lparr>hub_lm = \<lparr>lm_ext = plaza_store, pool_id_sequencer = 0, nft_instance_sequencer = 0,
       global_pool_data = Map.empty, liquidity_pool_data = Map.empty, deposit_data = Map.empty,
       liq_pool_metadata = Map.empty, lm_storage_version = 0, lm_events = []\<rparr>,
     hub_mp = \<lparr>mp_ext = plaza_store, mp_prices = Map.empty, mp_offers = Map.empty, mp_instances = Map.empty, mp_events = []\<rparr>\<rparr>"

lemma plaza_reachable: "hub_reachable plaza_lm plaza_mp plaza_token plaza_genesis"
  unfolding plaza_genesis_def
  by (rule hub_reachable.genesis)
    (simp_all add: plaza_store_def plaza_defs nft_owner_def registry_ops_def rg_owner_def fun_eq_iff pools_ok_def plaza_amm_defs contains_key_def)

text \<open>A trading pool of account 8 and a farm for it; a deposit, which account 9 buys on the marketplace.\<close>

definition plaza_start :: "plaza_call list" where
  "plaza_start = [Upgrade, Pools (Signed 8) (CreatePool 1 2 1000 1000000000000000000),
     Mining Root (OpCreateFarm 1000 10 10 1 3 7 1000000),
     Mining (Signed 7) (OpAddLiquidityPool 1 (mk_pair 1 2) 1000000000000000000 None)]"

definition plaza_sale :: "plaza_call list" where
  "plaza_sale = [Mining (Signed 8) (OpDepositShares 1 (mk_pair 1 2) 5),
     Market (Signed 8) (SetPrice 1 4294967298 (Some 30)), Market (Signed 9) (mp_call.Buy 1 4294967298)]"

lemmas plaza_simps = plaza_defs plaza_xyk_def demo_xyk_def pair_code_def formula_math_def xyk_run_simps
  plaza_genesis_def plaza_store_def plaza_start_def plaza_sale_def registry_ops_def rg_set_def
  rg_owner_def ledger_ops_def ledger_defs fixed_mul_def fixed_one_def formula_lm_math_def lm_put_def lm_cur_def
  lm_deposit_event_def lm_op_defs hub_put_def hub_store_def hub_market_def nft_transfer_def nft_do_transfer_def mp_put_def
  mp_deposit_event_def mp_nat_def pay_def RESERVE_ID_def mp_buy_def mp_set_price_def mp_do_buy_def mp_settle_royalty_def
  xyk_get_share_token_def

lemma plaza_sold:
  "\<exists>h. plaza_run (plaza_start @ plaza_sale) plaza_genesis = Inr h \<and>
     nft_owner (lm_nft plaza_lm) (lm_ext (hub_lm h)) (lm_nft_class plaza_lm) 4294967298 = Some 9 \<and>
     lm_free plaza_lm (hub_lm h) 110 (lm_account_id plaza_lm) = 5 \<and> lm_free plaza_lm (hub_lm h) 0 8 = 530"
  by (simp add: plaza_simps del: and_then_eq_Inr)

section \<open>Properties\<close>







text \<open>
  Shares can be deposited while the trading pool does not exist: its share token is then the native
  asset, and native tokens are booked as shares. Account 8 removes all liquidity, which destroys the
  pool, 9 deposits native tokens, and 8 creates the pool again and deposits shares. The withdrawal
  of 9 pays out shares, which belong to 8, who cannot withdraw any more.
\<close>

lemma lm_deposit_without_pool_takes_shares:
  "\<exists>h1 s1 h2 s3. plaza_run (plaza_start @ [Pools (Signed 8) (RemoveLiquidity 1 2 1000)]) plaza_genesis = Inr h1 \<and>
     lm_deposit_shares plaza_lm (hub_lm h1) (Signed 9) 1 (mk_pair 1 2) 400 = Inr s1 \<and> lm_free plaza_lm s1 0 500 = 400 \<and>
     plaza_run [Pools (Signed 8) (CreatePool 1 2 1000 1000000000000000000),
       Mining (Signed 8) (OpDepositShares 1 (mk_pair 1 2) 500)] (h1\<lparr>hub_lm := s1\<rparr>) = Inr h2 \<and>
     lm_withdraw_shares plaza_lm (hub_lm h2) (Signed 9) 4294967298 = Inr s3 \<and> lm_free plaza_lm s3 110 9 = 400 \<and>
     deposit_data s3 8589934594 \<noteq> None \<and> lm_free plaza_lm s3 110 500 = 100 \<and>
     \<not> is_ok (lm_withdraw_shares plaza_lm s3 (Signed 8) 8589934594)"
  by (simp add: plaza_simps del: and_then_eq_Inr)

end
