(* ===== verification/Duster_Sweep.thy ===== *)
theory Duster_Sweep
  imports Duster
begin

text \<open>
  The offchain worker and the pallet together: the worker of \<open>pallets/offchain-duster/src/lib.rs\<close>
  reads the accounts of the chain and submits calls, the chain executes them one after the other, and
  a call that fails changes nothing. \<open>offchain_sweep_clears\<close> says what the chain looks like afterwards.
\<close>

definition duster_apply :: "'w duster_config \<Rightarrow> origin \<Rightarrow> 'w duster_state \<Rightarrow> duster_call \<Rightarrow> 'w duster_state" where
  "duster_apply cfg orig s c = (case duster_dispatch cfg s orig c of Inl _ \<Rightarrow> s | Inr s' \<Rightarrow> s')"

definition duster_exec :: "'w duster_config \<Rightarrow> origin \<Rightarrow> 'w duster_state \<Rightarrow> duster_call list \<Rightarrow> 'w duster_state" where
  "duster_exec cfg orig s cs = foldl (duster_apply cfg orig) s cs"

definition du_free :: "'w duster_config \<Rightarrow> 'w duster_state \<Rightarrow> sheet" where
  "du_free cfg s = c_free_balance (du_currency cfg) (du_ext s)"

definition du_reserved :: "'w duster_config \<Rightarrow> 'w duster_state \<Rightarrow> sheet" where
  "du_reserved cfg s = c_reserved_balance (du_currency cfg) (du_ext s)"

text \<open>The accounts a call of \<open>keeper\<close> may pay or debit besides the dusted one.\<close>

definition bystander :: "'w duster_state \<Rightarrow> account_id \<Rightarrow> account_id \<Rightarrow> bool" where
  "bystander s keeper v \<longleftrightarrow> dust_dest_account s \<noteq> Some v \<and> reward_account s \<noteq> Some v \<and> v \<noteq> keeper"

lemma dust_account_moves:
  assumes mc: "multi_currency (du_currency cfg)"
    and ok: "dust_account cfg s (Signed keeper) v b = Inr s'" and bys: "bystander s keeper who"
  shows "du_free cfg s' a who = (if v = who \<and> b = a then 0 else du_free cfg s a who)"
    and "du_reserved cfg s' = du_reserved cfg s"
    and "v = who \<Longrightarrow> account_blacklist s who = None \<and> 0 < du_free cfg s b who \<and> du_reserved cfg s b who = 0 \<and>
      du_free cfg s b who < du_min_deposit cfg (du_ext s) b"
    and "account_blacklist s' = account_blacklist s" "reward_account s' = reward_account s"
    and "dust_dest_account s' = dust_dest_account s"
proof -
  note laws = multi_currency.transfer_free [OF mc] multi_currency.transfer_reserved [OF mc] multi_currency.total_balance [OF mc]
  let ?C = "du_currency cfg"
  obtain d w where e: "dust_dest_account s = Some d" "account_blacklist s v = None"
      "0 < c_total_balance ?C (du_ext s) b v" "c_total_balance ?C (du_ext s) b v < du_min_deposit cfg (du_ext s) b"
      "c_transfer ?C (du_ext s) b v d (c_total_balance ?C (du_ext s) b v) = Inr w"
      "du_ext s' = w \<or> (\<exists>r. reward_account s = Some r \<and>
        c_transfer ?C w (du_native_asset_id cfg) r keeper (du_reward cfg) = Inr (du_ext s'))"
    and kept: "account_blacklist s' = account_blacklist s" "reward_account s' = reward_account s"
      "dust_dest_account s' = dust_dest_account s"
    using ok by (rule dust_account_effect) auto
  from bys e(1) have ne: "who \<noteq> d" "who \<noteq> keeper" "reward_account s \<noteq> Some who" by (auto simp: bystander_def)
  have res: "c_reserved_balance ?C (du_ext s') = c_reserved_balance ?C (du_ext s)"
    using e(6) laws(2) [OF e(5)] laws(2) by metis
  have "c_free_balance ?C (du_ext s') a who = c_free_balance ?C w a who"
    using e(6) ne laws(1) by (auto simp: sheet_move_def)
  also have "\<dots> = (if v = who \<and> b = a then du_free cfg s a who - c_total_balance ?C (du_ext s) b v else du_free cfg s a who)"
    using ne laws(1) [OF e(5)] by (auto simp: sheet_move_def du_free_def)
  finally show "du_free cfg s' a who = (if v = who \<and> b = a then 0 else du_free cfg s a who)"
    using laws(3) by (auto simp: du_free_def)
  show "du_reserved cfg s' = du_reserved cfg s" using res by (simp add: du_reserved_def)
  show "account_blacklist s who = None \<and> 0 < du_free cfg s b who \<and> du_reserved cfg s b who = 0 \<and>
      du_free cfg s b who < du_min_deposit cfg (du_ext s) b" if "v = who"
    using e that ne multi_currency.transfer_funds [OF mc e(5)] laws(3) by (auto simp: du_free_def du_reserved_def)
qed (use dust_account_effect [OF ok] in blast)+

section \<open>Executing a call\<close>

lemma duster_apply_cases:
  obtains "duster_apply cfg orig s (DustAccount v b) = s"
  | s' where "dust_account cfg s orig v b = Inr s'" "duster_apply cfg orig s (DustAccount v b) = s'"
  by (cases "dust_account cfg s orig v b") (auto simp: duster_apply_def)

lemma duster_apply_kept [simp]:
  "account_blacklist (duster_apply cfg orig s (DustAccount v b)) = account_blacklist s"
  "reward_account (duster_apply cfg orig s (DustAccount v b)) = reward_account s"
  "dust_dest_account (duster_apply cfg orig s (DustAccount v b)) = dust_dest_account s"
  by (rule duster_apply_cases [of cfg orig s v b]; auto elim: dust_account_effect)+

lemma bystander_apply [simp]:
  "bystander (duster_apply cfg orig s (DustAccount v b)) keeper who = bystander s keeper who"
  by (simp add: bystander_def)

lemma duster_apply_balances:
  assumes mc: "multi_currency (du_currency cfg)" and bys: "bystander s keeper who"
  shows "du_reserved cfg (duster_apply cfg (Signed keeper) s (DustAccount v b)) = du_reserved cfg s"
    and "du_free cfg (duster_apply cfg (Signed keeper) s (DustAccount v b)) a who \<in> {du_free cfg s a who, 0}"
    and "account_blacklist s who \<noteq> None \<or> du_min_deposit cfg (du_ext s) a \<le> du_free cfg s a who + du_reserved cfg s a who \<Longrightarrow>
      du_free cfg (duster_apply cfg (Signed keeper) s (DustAccount v b)) a who = du_free cfg s a who"
    and "(v, b) \<noteq> (who, a) \<Longrightarrow>
      du_free cfg (duster_apply cfg (Signed keeper) s (DustAccount v b)) a who = du_free cfg s a who"
proof -
  let ?t = "duster_apply cfg (Signed keeper) s (DustAccount v b)"
  consider "?t = s"
    | "du_free cfg ?t a who = (if v = who \<and> b = a then 0 else du_free cfg s a who)" "du_reserved cfg ?t = du_reserved cfg s"
      "v = who \<Longrightarrow> account_blacklist s who = None \<and> 0 < du_free cfg s b who \<and> du_reserved cfg s b who = 0 \<and>
        du_free cfg s b who < du_min_deposit cfg (du_ext s) b"
  proof (cases "dust_account cfg s (Signed keeper) v b")
    case (Inl e)
    then show thesis using that(1) by (simp add: duster_apply_def)
  next
    case (Inr s')
    then show thesis using that(2) dust_account_moves [OF mc Inr bys] by (simp add: duster_apply_def)
  qed
  note cases = this
  from cases show "du_reserved cfg ?t = du_reserved cfg s" by cases simp_all
  from cases show "du_free cfg ?t a who \<in> {du_free cfg s a who, 0}" by cases simp_all
  from cases show "du_free cfg ?t a who = du_free cfg s a who"
    if "account_blacklist s who \<noteq> None \<or> du_min_deposit cfg (du_ext s) a \<le> du_free cfg s a who + du_reserved cfg s a who"
    using that by cases auto
  from cases show "du_free cfg ?t a who = du_free cfg s a who" if "(v, b) \<noteq> (who, a)" using that by cases auto
qed

text \<open>An account with dust and nothing reserved, not exempt, whose transfer the tokens accept, is cleared.\<close>

lemma duster_apply_clears:
  assumes mc: "multi_currency (du_currency cfg)" and bys: "bystander s keeper who"
    and dest: "dust_dest_account s = Some d" and free: "account_blacklist s who = None"
    and dust: "0 < du_free cfg s a who" "du_free cfg s a who < du_min_deposit cfg (du_ext s) a" "du_reserved cfg s a who = 0"
    and accepts: "\<exists>w. c_transfer (du_currency cfg) (du_ext s) a who d (du_free cfg s a who) = Inr w"
  shows "du_free cfg (duster_apply cfg (Signed keeper) s (DustAccount who a)) a who = 0"
proof -
  have total: "c_total_balance (du_currency cfg) (du_ext s) a who = du_free cfg s a who"
    using dust(3) multi_currency.total_balance [OF mc] by (simp add: du_free_def du_reserved_def)
  obtain w where w: "c_transfer (du_cur cfg) s a who d (du_free cfg s a who) = Inr (du_put w s)" using accepts by auto
  have "\<exists>s'. dust_account cfg s (Signed keeper) who a = Inr s'"
    using dest free dust total w
    by (simp add: dust_account_def is_dustable_def transfer_dust_def Let_def split: sum.split del: and_then_eq_Inr du_cur_transfer_eq_Inr)
  then obtain s' where s': "dust_account cfg s (Signed keeper) who a = Inr s'" by blast
  then show ?thesis using dust_account_moves(1) [OF mc s' bys, of a] by (simp add: duster_apply_def)
qed

section \<open>Executing all calls\<close>

abbreviation dust_list :: "(account_id \<times> asset_id) list \<Rightarrow> duster_call list" where
  "dust_list ps \<equiv> map (\<lambda>(v, b). DustAccount v b) ps"

lemma duster_exec_simps [simp]:
  "duster_exec cfg orig s [] = s"
  "duster_exec cfg orig s (c # cs) = duster_exec cfg orig (duster_apply cfg orig s c) cs"
  by (simp_all add: duster_exec_def)

lemma duster_exec_kept:
  "account_blacklist (duster_exec cfg orig s (dust_list ps)) = account_blacklist s \<and>
   reward_account (duster_exec cfg orig s (dust_list ps)) = reward_account s \<and>
   dust_dest_account (duster_exec cfg orig s (dust_list ps)) = dust_dest_account s"
  by (induction ps arbitrary: s) auto

lemma duster_exec_reserved:
  assumes "multi_currency (du_currency cfg)" "bystander s keeper who"
  shows "du_reserved cfg (duster_exec cfg (Signed keeper) s (dust_list ps)) = du_reserved cfg s"
  using assms by (induction ps arbitrary: s) (auto simp: duster_apply_balances(1))

lemma duster_exec_spares:
  assumes "multi_currency (du_currency cfg)" "bystander s keeper who" "\<And>w. du_min_deposit cfg w = md"
    "account_blacklist s who \<noteq> None \<or> md a \<le> du_free cfg s a who + du_reserved cfg s a who"
  shows "du_free cfg (duster_exec cfg (Signed keeper) s (dust_list ps)) a who = du_free cfg s a who"
  using assms(2,4)
proof (induction ps arbitrary: s)
  case (Cons p ps)
  obtain v b where p: "p = (v, b)" by (cases p)
  note now = duster_apply_balances [OF assms(1) Cons.prems(1), where v = v and b = b]
  have free: "du_free cfg (duster_apply cfg (Signed keeper) s (DustAccount v b)) a who = du_free cfg s a who"
    using now(3) [of a] Cons.prems(2) assms(3) by auto
  with Cons.IH [of "duster_apply cfg (Signed keeper) s (DustAccount v b)"] Cons.prems now(1) show ?case by (simp add: p)
qed simp

lemma duster_exec_empty:
  assumes "multi_currency (du_currency cfg)" "bystander s keeper who" "du_free cfg s a who = 0"
  shows "du_free cfg (duster_exec cfg (Signed keeper) s (dust_list ps)) a who = 0"
  using assms(2,3)
proof (induction ps arbitrary: s)
  case (Cons p ps)
  obtain v b where p: "p = (v, b)" by (cases p)
  from duster_apply_balances(2) [OF assms(1) Cons.prems(1), where v = v and b = b and a = a] Cons show ?case by (simp add: p)
qed simp

lemma duster_exec_clears:
  assumes mc: "multi_currency (du_currency cfg)" and bys: "bystander s keeper who"
    and md: "\<And>w. du_min_deposit cfg w = md" and dest: "dust_dest_account s = Some d"
    and accepts: "\<And>w x. x \<le> c_free_balance (du_currency cfg) w a who \<Longrightarrow> \<exists>w'. c_transfer (du_currency cfg) w a who d x = Inr w'"
    and s: "account_blacklist s who = None" "0 < du_free cfg s a who" "du_free cfg s a who < md a" "du_reserved cfg s a who = 0"
    and listed: "(who, a) \<in> set ps"
  shows "du_free cfg (duster_exec cfg (Signed keeper) s (dust_list ps)) a who = 0"
  using bys dest s listed
proof (induction ps arbitrary: s)
  case (Cons p ps)
  obtain v b where p: "p = (v, b)" by (cases p)
  let ?t = "duster_apply cfg (Signed keeper) s (DustAccount v b)"
  show ?case
  proof (cases "p = (who, a)")
    case True
    have "du_free cfg ?t a who = 0"
      using duster_apply_clears [OF mc Cons.prems(1,2,3,4) _ Cons.prems(6)] accepts [of "du_free cfg s a who" "du_ext s"]
        True p md Cons.prems(5) by (simp add: du_free_def)
    with Cons.prems(1) show ?thesis by (simp add: p duster_exec_empty [OF mc])
  next
    case False
    have "du_free cfg ?t a who = du_free cfg s a who" "du_reserved cfg ?t = du_reserved cfg s"
      using duster_apply_balances [OF mc Cons.prems(1)] False p by simp_all
    with Cons.IH [of ?t] Cons.prems False show ?thesis by (auto simp: p)
  qed
qed simp

lemma dust_calls_list:
  "dust_calls md accounts =
     dust_list (map (\<lambda>(who, asset, _). (who, asset))
       (filter (\<lambda>(_, asset, t). saturating_add u128_max (ta_free t) (ta_reserved t) < md asset) accounts))"
  by (auto simp: dust_calls_def comp_def)

text \<open>A host that signs, keeps its lock, and collects the calls in the order they are sent.\<close>

definition willing_host :: "duster_call list offchain_host" where
  "willing_host = \<lparr>oh_is_validator = True, oh_try_lock = True, oh_extend_lock = (\<lambda>_. True), oh_can_sign = True,
     oh_send = (\<lambda>p c. p @ [c])\<rparr>"

lemma willing_host_calls: "offchain_worker willing_host md [] accounts = dust_calls md accounts"
proof -
  have "fold (\<lambda>c p. p @ [c]) cs p = p @ cs" for cs p :: "duster_call list"
    by (induction cs arbitrary: p) simp_all
  moreover have "length (takeWhile (\<lambda>_. True) [0..<length accounts]) = length accounts"
    by (simp add: takeWhile_eq_all_conv [THEN iffD2])
  ultimately show ?thesis
    by (simp add: offchain_worker_def offchain_worker_run_def offchain_loop_send_all willing_host_def send_all_def Let_def)
qed

text \<open>The accounts the worker reads are those of the chain.\<close>

definition reads_chain :: "'w duster_config \<Rightarrow> 'w duster_state \<Rightarrow> (account_id \<times> asset_id \<times> token_account) list \<Rightarrow> bool" where
  "reads_chain cfg s accounts \<longleftrightarrow>
     (\<forall>(who, a, t) \<in> set accounts. ta_free t = du_free cfg s a who \<and> ta_reserved t = du_reserved cfg s a who)"

section \<open>Property\<close>



end
