(* ===== verification/Pool_RPC.thy ===== *)
theory Pool_RPC
  imports Runtime
begin

text \<open>
  How a client of the node reads pools: the runtime interface (\<open>runtime/basilisk/src/lib.rs\<close>), the
  record it returns with the decimal encoding of its amount (\<open>pallets/xyk/rpc/runtime-api/src/lib.rs\<close>),
  and the two RPC servers (\<open>pallets/xyk/rpc/src/lib.rs\<close>, \<open>pallets/lbp/rpc/src/lib.rs\<close>). Printing and
  parsing of unsigned integers are those of the standard library: \<open>Display\<close> prints decimal digits, and
  \<open>FromStr\<close> accepts an optional plus sign and at least one digit and fails when the value does not
  fit.

  Shown: printing terminates and is inverted by parsing, parsing never returns a value out of range,
  and what a client decodes are the balances of the pool's account.
\<close>

section \<open>Decimal strings\<close>

definition digit_char :: "nat \<Rightarrow> char" where
  "digit_char d = char_of (48 + d)"

function nat_to_string :: "nat \<Rightarrow> string" where
  "nat_to_string n =
     (if n < 10 then [digit_char n] else nat_to_string (n div 10) @ [digit_char (n mod 10)])"
  by pat_completeness auto

termination nat_to_string
  by (relation "measure id") auto

definition digit_value :: "char \<Rightarrow> nat option" where
  "digit_value c = (let k = of_char c in if 48 \<le> k \<and> k \<le> 57 then Some (k - 48) else None)"

fun parse_digits :: "nat \<Rightarrow> nat \<Rightarrow> string \<Rightarrow> nat option" where
  "parse_digits max_value acc [] = Some acc"
| "parse_digits max_value acc (c # cs) =
     (case digit_value c of
        None \<Rightarrow> None
      | Some d \<Rightarrow>
         (case checked_mul max_value acc 10 of
            None \<Rightarrow> None
          | Some x \<Rightarrow>
             (case checked_add max_value x d of None \<Rightarrow> None | Some y \<Rightarrow> parse_digits max_value y cs)))"

definition parse_unsigned :: "nat \<Rightarrow> string \<Rightarrow> nat option" where
  "parse_unsigned max_value src =
     (case src of
        [] \<Rightarrow> None
      | c # cs \<Rightarrow>
          if c = CHR ''+'' then (if cs = [] then None else parse_digits max_value 0 cs)
          else parse_digits max_value 0 src)"

section \<open>The record of a balance\<close>

record balance_info =
  bi_amount :: balance
  bi_asset :: "asset_id option"

definition serialize_as_string :: "balance \<Rightarrow> string" where
  "serialize_as_string t = nat_to_string t"

definition deserialize_from_string :: "nat \<Rightarrow> string \<Rightarrow> string + balance" where
  "deserialize_from_string max_value s = ok_or (parse_unsigned max_value s) ''Parse from string failed''"

section \<open>The runtime interface of the pools\<close>

definition api_xyk_get_pool_balances ::
  "'w basilisk \<Rightarrow> 'w lbp_state xyk_state \<Rightarrow> account_id \<Rightarrow> balance_info list" where
  "api_xyk_get_pool_balances R s pool_address =
     (case xyk_get_pool_balances (basilisk_xyk R) s pool_address of
        Some pool_balances \<Rightarrow>
          fold (\<lambda>b vec. vec @ [\<lparr>bi_amount = snd b, bi_asset = Some (fst b)\<rparr>]) pool_balances []
      | None \<Rightarrow> [])"

definition api_xyk_get_pool_id :: "'w basilisk \<Rightarrow> asset_id \<Rightarrow> asset_id \<Rightarrow> account_id" where
  "api_xyk_get_pool_id R asset_a asset_b = xyk_pair_account_from_assets (basilisk_xyk R) asset_a asset_b"

definition api_lbp_get_pool_id :: "'w basilisk \<Rightarrow> asset_id \<Rightarrow> asset_id \<Rightarrow> account_id" where
  "api_lbp_get_pool_id R asset_a asset_b = lbp_pair_account_from_assets (basilisk_lbp R) asset_a asset_b"

section \<open>The servers\<close>

datatype rpc_failure = RuntimeError

definition rpc_failure_code :: "rpc_failure \<Rightarrow> int" where
  "rpc_failure_code e = (case e of RuntimeError \<Rightarrow> 1)"

record rpc_error =
  re_code :: int
  re_message :: string
  re_data :: "string option"

text \<open>
  What the servers ask of the client: the best block, calls into the runtime at a block, which fail
  with an error of the client, and how such an error prints.
\<close>

record ('h, 'e) rpc_client =
  cl_best_hash :: 'h
  cl_xyk_pool_balances :: "'h \<Rightarrow> account_id \<Rightarrow> 'e + balance_info list"
  cl_xyk_pool_id :: "'h \<Rightarrow> asset_id \<Rightarrow> asset_id \<Rightarrow> 'e + account_id"
  cl_lbp_pool_id :: "'h \<Rightarrow> asset_id \<Rightarrow> asset_id \<Rightarrow> 'e + account_id"
  cl_debug :: "'e \<Rightarrow> string"

definition rpc_runtime_error :: "('h, 'e) rpc_client \<Rightarrow> string \<Rightarrow> 'e \<Rightarrow> rpc_error" where
  "rpc_runtime_error cl message e =
     \<lparr>re_code = rpc_failure_code RuntimeError, re_message = message, re_data = Some (cl_debug cl e)\<rparr>"

definition rpc_xyk_get_pool_balances ::
  "('h, 'e) rpc_client \<Rightarrow> account_id \<Rightarrow> 'h option \<Rightarrow> rpc_error + balance_info list" where
  "rpc_xyk_get_pool_balances cl pool_address at_block =
     (let at_hash = (case at_block of Some h \<Rightarrow> h | None \<Rightarrow> cl_best_hash cl) in
      map_err (rpc_runtime_error cl ''Unable to retrieve pool balances.'') (cl_xyk_pool_balances cl at_hash pool_address))"

definition rpc_xyk_get_pool_id :: "('h, 'e) rpc_client \<Rightarrow> asset_id \<Rightarrow> asset_id \<Rightarrow> rpc_error + account_id" where
  "rpc_xyk_get_pool_id cl asset_a asset_b =
     map_err (rpc_runtime_error cl ''Unable to retrieve pool account address.'')
       (cl_xyk_pool_id cl (cl_best_hash cl) asset_a asset_b)"

definition rpc_lbp_get_pool_id :: "('h, 'e) rpc_client \<Rightarrow> asset_id \<Rightarrow> asset_id \<Rightarrow> rpc_error + account_id" where
  "rpc_lbp_get_pool_id cl asset_a asset_b =
     map_err (rpc_runtime_error cl ''Unable to retrieve pool account address.'')
       (cl_lbp_pool_id cl (cl_best_hash cl) asset_a asset_b)"

section \<open>Printing and parsing\<close>

lemma of_char_digit [simp]: "d < 10 \<Longrightarrow> of_char (digit_char d) = 48 + d"
  by (simp add: digit_char_def)

lemma digit_value_char [simp]: "d < 10 \<Longrightarrow> digit_value (digit_char d) = Some d"
  by (simp add: digit_value_def)

lemma digit_not_plus [simp]: "d < 10 \<Longrightarrow> digit_char d \<noteq> CHR ''+''"
proof
  assume d: "d < 10" and e: "digit_char d = CHR ''+''"
  from arg_cong [OF e, of "of_char :: char \<Rightarrow> nat"] d show False by simp
qed

lemma parse_digits_append:
  "parse_digits m acc (xs @ ys) = Option.bind (parse_digits m acc xs) (\<lambda>a. parse_digits m a ys)"
  by (induction m acc xs rule: parse_digits.induct)
     (auto simp: checked_mul_def checked_add_def split: option.splits if_splits)

declare nat_to_string.simps [simp del]

lemma parse_digits_to_string: "n \<le> m \<Longrightarrow> parse_digits m 0 (nat_to_string n) = Some n"
proof (induction n rule: nat_to_string.induct)
  case (1 n)
  show ?case
  proof (cases "n < 10")
    case True
    with 1(2) show ?thesis by (simp add: nat_to_string.simps [of n] checked_mul_def checked_add_def)
  next
    case False
    have "n div 10 \<le> m" using 1(2) by (meson div_le_dividend le_trans)
    with 1(1) False have "parse_digits m 0 (nat_to_string (n div 10)) = Some (n div 10)" by simp
    moreover have "n div 10 * 10 + n mod 10 = n" by simp
    ultimately show ?thesis using False 1(2)
      by (simp add: nat_to_string.simps [of n] parse_digits_append checked_mul_def checked_add_def)
  qed
qed

lemma nat_to_string_head: "\<exists>d cs. nat_to_string n = digit_char d # cs \<and> d < 10"
proof (induction n rule: nat_to_string.induct)
  case (1 n)
  then show ?case by (cases "n < 10") (auto simp: nat_to_string.simps [of n])
qed

lemma parse_to_string: "n \<le> m \<Longrightarrow> parse_unsigned m (nat_to_string n) = Some n"
  using nat_to_string_head [of n] parse_digits_to_string [of n m] by (auto simp: parse_unsigned_def)

lemma parse_digits_range: "parse_digits m acc s = Some n \<Longrightarrow> acc \<le> m \<Longrightarrow> n \<le> m"
  by (induction m acc s rule: parse_digits.induct) (auto split: option.splits)

lemma parse_unsigned_range: "parse_unsigned m s = Some n \<Longrightarrow> n \<le> m"
  by (auto simp: parse_unsigned_def simp del: parse_digits.simps dest!: parse_digits_range split: list.splits if_splits)

lemma nat_to_string_inj: "nat_to_string x = nat_to_string y \<Longrightarrow> x = y"
  by (metis max.cobounded1 max.cobounded2 option.inject parse_to_string)

section \<open>What the interface reports\<close>

lemma api_pool_balances:
  assumes "pool_assets s p = Some (a, b)"
  shows "api_xyk_get_pool_balances R s p =
      [\<lparr>bi_amount = xyk_free (basilisk_xyk R) s a p, bi_asset = Some a\<rparr>,
       \<lparr>bi_amount = xyk_free (basilisk_xyk R) s b p, bi_asset = Some b\<rparr>]"
  using assms by (simp add: api_xyk_get_pool_balances_def xyk_get_pool_balances_def xyk_get_pool_assets_def)

lemma api_xyk_pool_id_eq: "api_xyk_get_pool_id R a b = from_assets (bk_hash R) a b ''xyk''"
  using basilisk_from_assets(1) [of R "mk_pair a b"]
  by (simp add: api_xyk_get_pool_id_def xyk_get_pair_id_def del: basilisk_from_assets)

text \<open>The client of a node: a chain of states, one per block, behind the runtime interface.\<close>

definition node_client ::
  "'w basilisk \<Rightarrow> ('h \<rightharpoonup> 'w lbp_state xyk_state) \<Rightarrow> 'h \<Rightarrow> ('h, string) rpc_client" where
  "node_client R chain best = \<lparr>
     cl_best_hash = best,
     cl_xyk_pool_balances = (\<lambda>h p. ok_or (map_option (\<lambda>s. api_xyk_get_pool_balances R s p) (chain h)) ''UnknownBlock''),
     cl_xyk_pool_id = (\<lambda>h a b. ok_or (map_option (\<lambda>_. api_xyk_get_pool_id R a b) (chain h)) ''UnknownBlock''),
     cl_lbp_pool_id = (\<lambda>h a b. ok_or (map_option (\<lambda>_. api_lbp_get_pool_id R a b) (chain h)) ''UnknownBlock''),
     cl_debug = id\<rparr>"

text \<open>
A client that asks for the account of a pair, in either order, and then for the balances of that
account, at a block it names or else at the best block, gets the two assets of the pool, and decoding
the decimal strings of the two amounts gives the free balances of the pool's account in the state
of that block.
\<close>

lemma rpc_pool_balances_decode:
  assumes best: "chain best = Some t"
    and block: "chain (case at_block of Some h \<Rightarrow> h | None \<Rightarrow> best) = Some s"
    and inv: "xyk_inv (basilisk_xyk R) s" and pool: "pool_assets s p = Some (a, b)"
    and range: "xyk_free (basilisk_xyk R) s a p \<le> u128_max" "xyk_free (basilisk_xyk R) s b p \<le> u128_max"
  shows "rpc_xyk_get_pool_id (node_client R chain best) a b = Inr p \<and>
    rpc_xyk_get_pool_id (node_client R chain best) b a = Inr p \<and>
    (\<exists>x y. rpc_xyk_get_pool_balances (node_client R chain best) p at_block = Inr [x, y] \<and>
       bi_asset x = Some a \<and> bi_asset y = Some b \<and>
       deserialize_from_string u128_max (serialize_as_string (bi_amount x)) = Inr (xyk_free (basilisk_xyk R) s a p) \<and>
       deserialize_from_string u128_max (serialize_as_string (bi_amount y)) = Inr (xyk_free (basilisk_xyk R) s b p))"
proof -
  from pool inv have p: "p = xyk_get_pair_id (basilisk_xyk R) (mk_pair a b)" unfolding xyk_inv_def by blast
  have ids: "api_xyk_get_pool_id R a b = p" "api_xyk_get_pool_id R b a = p"
    using from_assets_commute [of "bk_hash R" b a "''xyk''"] p by (simp_all add: api_xyk_pool_id_eq)
  have "rpc_xyk_get_pool_balances (node_client R chain best) p at_block =
      Inr [\<lparr>bi_amount = xyk_free (basilisk_xyk R) s a p, bi_asset = Some a\<rparr>,
           \<lparr>bi_amount = xyk_free (basilisk_xyk R) s b p, bi_asset = Some b\<rparr>]"
    using block
    by (cases at_block) (simp_all add: rpc_xyk_get_pool_balances_def node_client_def api_pool_balances [OF pool])
  then show ?thesis using ids best range
    by (simp add: rpc_xyk_get_pool_id_def node_client_def deserialize_from_string_def serialize_as_string_def
        parse_to_string)
qed

lemma rpc_unknown_block:
  assumes "chain h = None"
  shows "rpc_xyk_get_pool_balances (node_client R chain best) p (Some h) =
    Inl \<lparr>re_code = 1, re_message = ''Unable to retrieve pool balances.'', re_data = Some ''UnknownBlock''\<rparr>"
  using assms by (simp add: rpc_xyk_get_pool_balances_def node_client_def rpc_runtime_error_def rpc_failure_code_def)

definition demo_rt_pool :: "ledger lbp_state xyk_state" where
  "demo_rt_pool = demo_rt\<lparr>share_token := [309485009965460256824457592 \<mapsto> 103],
     total_liquidity := [309485009965460256824457592 \<mapsto> 2000],
     pool_assets := [309485009965460256824457592 \<mapsto> (1, 2)],
     xyk_ext := (xyk_ext demo_rt)\<lparr>lbp_ext := ledger_of
       [((1, 309485009965460256824457592), 2000), ((2, 309485009965460256824457592), 4000)]\<rparr>\<rparr>"

lemma demo_rt_pool_inv: "xyk_inv (basilisk_xyk demo_basilisk) demo_rt_pool"
  using demo_accounts(2) by (auto simp: xyk_inv_def demo_rt_pool_def demo_basilisk_def split: if_splits)

theorem rpc_pool_balances_decode_witness:
  "rpc_xyk_get_pool_id (node_client demo_basilisk [0 \<mapsto> demo_rt_pool] (0::nat)) 2 1 = Inr 309485009965460256824457592 \<and>
   (\<exists>x y. rpc_xyk_get_pool_balances (node_client demo_basilisk [0 \<mapsto> demo_rt_pool] (0::nat)) 309485009965460256824457592 None
       = Inr [x, y] \<and>
     deserialize_from_string u128_max (serialize_as_string (bi_amount y)) = Inr 4000)"
proof -
  have "xyk_free (basilisk_xyk demo_basilisk) demo_rt_pool 1 309485009965460256824457592 = 2000"
      "xyk_free (basilisk_xyk demo_basilisk) demo_rt_pool 2 309485009965460256824457592 = 4000"
    by (simp_all add: demo_rt_pool_def basilisk_xyk_def basilisk_lbp_def demo_basilisk_def value_query_def)
  then show ?thesis
    using rpc_pool_balances_decode [of "[0 \<mapsto> demo_rt_pool]" "0::nat" demo_rt_pool None demo_rt_pool demo_basilisk
        309485009965460256824457592 1 2] demo_rt_pool_inv
    by (auto simp: demo_rt_pool_def u128_max_def)
qed

end
