(* ===== verification/Governance.thy ===== *)
theory Governance
  imports Runtime
begin

text \<open>
  How the runtimes are governed: the parameters of \<open>runtime/common/src/lib.rs\<close> and the configuration of
  the collective, democracy, election, treasury, scheduler, tip, collator, session, preimage and
  token registry pallets in \<open>runtime/basilisk/src/lib.rs\<close>, with the values that
  \<open>runtime/testing-basilisk/src/lib.rs\<close> puts in their place.

  The pallets themselves and their origin checks are outside the repository: \<open>origin_checks\<close> has one
  function per check, and \<open>origin_laws\<close> says what the checks are documented to accept.

  Shown: which origins each decision takes, that council and technical committee never pass for
  each other, in which order the thresholds lie, and that the parameters fit together.
\<close>

section \<open>Parameters\<close>

definition BLOCK_HASH_COUNT :: block_number where "BLOCK_HASH_COUNT = 250"
definition SS58_PREFIX :: nat where "SS58_PREFIX = 10041"
definition SLOT_DURATION :: nat where "SLOT_DURATION = MILLISECS_PER_BLOCK"
definition MINIMUM_PERIOD :: nat where "MINIMUM_PERIOD = SLOT_DURATION div 2"
definition MAX_LOCKS :: nat where "MAX_LOCKS = 50"
definition MAX_RESERVES :: nat where "MAX_RESERVES = 50"
definition MAX_AUTHORITIES :: nat where "MAX_AUTHORITIES = 32"
definition TRANSACTION_BYTE_FEE :: balance where "TRANSACTION_BYTE_FEE = 10 * MILLICENTS"
definition REGISTRY_STR_LIMIT :: nat where "REGISTRY_STR_LIMIT = 32"

definition PROXY_DEPOSIT_BASE :: balance where "PROXY_DEPOSIT_BASE = 4 * DOLLARS + 480 * MILLICENTS"
definition PROXY_DEPOSIT_FACTOR :: balance where "PROXY_DEPOSIT_FACTOR = 1980 * MILLICENTS"
definition MAX_PROXIES :: nat where "MAX_PROXIES = 32"
definition ANNOUNCEMENT_DEPOSIT_BASE :: balance where "ANNOUNCEMENT_DEPOSIT_BASE = 4 * DOLLARS + 480 * MILLICENTS"
definition ANNOUNCEMENT_DEPOSIT_FACTOR :: balance where "ANNOUNCEMENT_DEPOSIT_FACTOR = 3960 * MILLICENTS"
definition MAX_PENDING :: nat where "MAX_PENDING = 32"

definition LAUNCH_PERIOD :: block_number where "LAUNCH_PERIOD = 7 * DAYS"
definition VOTING_PERIOD :: block_number where "VOTING_PERIOD = 7 * DAYS"
definition FAST_TRACK_VOTING_PERIOD :: block_number where "FAST_TRACK_VOTING_PERIOD = 3 * HOURS"
definition MINIMUM_DEPOSIT :: balance where "MINIMUM_DEPOSIT = 1000 * DOLLARS"
definition ENACTMENT_PERIOD :: block_number where "ENACTMENT_PERIOD = 7 * DAYS"
definition COOLOFF_PERIOD :: block_number where "COOLOFF_PERIOD = 7 * DAYS"
definition COMMON_PREIMAGE_BYTE_DEPOSIT :: balance where "COMMON_PREIMAGE_BYTE_DEPOSIT = 10 * MILLICENTS"
definition INSTANT_ALLOWED :: bool where "INSTANT_ALLOWED = True"
definition MAX_VOTES :: nat where "MAX_VOTES = 100"
definition MAX_PROPOSALS :: nat where "MAX_PROPOSALS = 100"

definition CANDIDACY_BOND :: balance where "CANDIDACY_BOND = 10000 * DOLLARS"
definition VOTING_BOND_BASE :: balance where "VOTING_BOND_BASE = DOLLARS"
definition VOTING_BOND_FACTOR :: balance where "VOTING_BOND_FACTOR = 50 * CENTS"
definition TERM_DURATION :: block_number where "TERM_DURATION = 7 * DAYS"
definition DESIRED_MEMBERS :: nat where "DESIRED_MEMBERS = 1"
definition DESIRED_RUNNERS_UP :: nat where "DESIRED_RUNNERS_UP = 0"
definition ELECTIONS_PHRAGMEN_PALLET_ID :: string where "ELECTIONS_PHRAGMEN_PALLET_ID = ''phrelect''"

definition COUNCIL_MOTION_DURATION :: block_number where "COUNCIL_MOTION_DURATION = 4 * DAYS"
definition COUNCIL_MAX_PROPOSALS :: nat where "COUNCIL_MAX_PROPOSALS = 100"
definition COUNCIL_MAX_MEMBERS :: nat where "COUNCIL_MAX_MEMBERS = 1"
definition TECHNICAL_MOTION_DURATION :: block_number where "TECHNICAL_MOTION_DURATION = 4 * DAYS"
definition TECHNICAL_MAX_PROPOSALS :: nat where "TECHNICAL_MAX_PROPOSALS = 20"
definition TECHNICAL_MAX_MEMBERS :: nat where "TECHNICAL_MAX_MEMBERS = 10"

definition PROPOSAL_BOND_PERCENT :: nat where "PROPOSAL_BOND_PERCENT = 5"
definition PROPOSAL_BOND_MINIMUM :: balance where "PROPOSAL_BOND_MINIMUM = 10 * DOLLARS"
definition PROPOSAL_BOND_MAXIMUM :: balance where "PROPOSAL_BOND_MAXIMUM = 50 * DOLLARS"
definition SPEND_PERIOD :: block_number where "SPEND_PERIOD = 3 * DAYS"
definition BURN_PERCENT :: nat where "BURN_PERCENT = 0"
definition TREASURY_PALLET_ID :: string where "TREASURY_PALLET_ID = ''py/trsry''"
definition MAX_APPROVALS :: nat where "MAX_APPROVALS = 100"

definition DATA_DEPOSIT_PER_BYTE :: balance where "DATA_DEPOSIT_PER_BYTE = CENTS"
definition TIP_COUNTDOWN :: block_number where "TIP_COUNTDOWN = 24 * HOURS"
definition TIP_FINDERS_FEE_PERCENT :: nat where "TIP_FINDERS_FEE_PERCENT = 1"
definition TIP_REPORT_DEPOSIT_BASE :: balance where "TIP_REPORT_DEPOSIT_BASE = 10 * DOLLARS"
definition MAXIMUM_REASON_LENGTH :: nat where "MAXIMUM_REASON_LENGTH = 1024"

definition POT_ID :: string where "POT_ID = ''PotStake''"
definition MAX_CANDIDATES :: nat where "MAX_CANDIDATES = 20"
definition MIN_CANDIDATES :: nat where "MIN_CANDIDATES = 4"
definition MAX_INVULNERABLES :: nat where "MAX_INVULNERABLES = 10"
definition PERIOD :: block_number where "PERIOD = 4 * HOURS"
definition OFFSET :: block_number where "OFFSET = 0"
definition MIN_VESTED_TRANSFER :: balance where "MIN_VESTED_TRANSFER = 100000"
definition MAX_VESTING_SCHEDULES :: nat where "MAX_VESTING_SCHEDULES = 15"
definition LM_PALLET_ID :: string where "LM_PALLET_ID = ''LiqMinId''"

text \<open>Declared in the runtime itself; the byte deposit hides the one of the common crate.\<close>

definition MAX_SCHEDULED_PER_BLOCK :: nat where "MAX_SCHEDULED_PER_BLOCK = 50"
definition NO_PREIMAGE_POSTPONEMENT :: "block_number option" where "NO_PREIMAGE_POSTPONEMENT = Some (5 * MINUTES)"
definition PREIMAGE_MAX_SIZE :: nat where "PREIMAGE_MAX_SIZE = 4096 * 1024"
definition PREIMAGE_BASE_DEPOSIT :: balance where "PREIMAGE_BASE_DEPOSIT = storage_deposit 2 64"
definition PREIMAGE_BYTE_DEPOSIT :: balance where "PREIMAGE_BYTE_DEPOSIT = storage_deposit 0 1"

text \<open>The testing runtime.\<close>

definition TESTING_LAUNCH_PERIOD :: block_number where "TESTING_LAUNCH_PERIOD = MINUTES"
definition TESTING_VOTING_PERIOD :: block_number where "TESTING_VOTING_PERIOD = MINUTES"
definition TESTING_PERIOD :: block_number where "TESTING_PERIOD = 10 * MINUTES"

section \<open>Origins\<close>

datatype collective = CouncilCollective | TechnicalCollective

record 'o origin_checks =
  oc_root :: "'o \<Rightarrow> bool"
  oc_proportion_at_least :: "nat \<Rightarrow> nat \<Rightarrow> collective \<Rightarrow> 'o \<Rightarrow> bool"
  oc_member :: "collective \<Rightarrow> 'o \<Rightarrow> bool"
  oc_one_of :: "('o \<Rightarrow> bool) \<Rightarrow> ('o \<Rightarrow> bool) \<Rightarrow> 'o \<Rightarrow> bool"

definition ensure_majority_council_or_root :: "'o origin_checks \<Rightarrow> 'o \<Rightarrow> bool" where
  "ensure_majority_council_or_root K = oc_one_of K (oc_proportion_at_least K 1 2 CouncilCollective) (oc_root K)"

definition ensure_unanimous_council_or_root :: "'o origin_checks \<Rightarrow> 'o \<Rightarrow> bool" where
  "ensure_unanimous_council_or_root K = oc_one_of K (oc_proportion_at_least K 1 1 CouncilCollective) (oc_root K)"

definition ensure_super_majority_council_or_root :: "'o origin_checks \<Rightarrow> 'o \<Rightarrow> bool" where
  "ensure_super_majority_council_or_root K = oc_one_of K (oc_proportion_at_least K 2 3 CouncilCollective) (oc_root K)"

definition ensure_super_majority_tech_committee_or_root :: "'o origin_checks \<Rightarrow> 'o \<Rightarrow> bool" where
  "ensure_super_majority_tech_committee_or_root K =
     oc_one_of K (oc_proportion_at_least K 2 3 TechnicalCollective) (oc_root K)"

definition ensure_unanimous_tech_committee_or_root :: "'o origin_checks \<Rightarrow> 'o \<Rightarrow> bool" where
  "ensure_unanimous_tech_committee_or_root K =
     oc_one_of K (oc_proportion_at_least K 1 1 TechnicalCollective) (oc_root K)"

definition all_council_members :: "'o origin_checks \<Rightarrow> 'o \<Rightarrow> bool" where
  "all_council_members K = oc_proportion_at_least K 1 1 CouncilCollective"

definition manage_origin :: "'o origin_checks \<Rightarrow> 'o \<Rightarrow> bool" where
  "manage_origin K = oc_one_of K (oc_root K) (all_council_members K)"

section \<open>Configuration of the governance pallets\<close>

record 'o democracy_config =
  dc_enactment_period :: block_number
  dc_launch_period :: block_number
  dc_voting_period :: block_number
  dc_minimum_deposit :: balance
  dc_external_origin :: "'o \<Rightarrow> bool"
  dc_external_majority_origin :: "'o \<Rightarrow> bool"
  dc_external_default_origin :: "'o \<Rightarrow> bool"
  dc_fast_track_origin :: "'o \<Rightarrow> bool"
  dc_instant_origin :: "'o \<Rightarrow> bool"
  dc_instant_allowed :: bool
  dc_fast_track_voting_period :: block_number
  dc_cancellation_origin :: "'o \<Rightarrow> bool"
  dc_cancel_proposal_origin :: "'o \<Rightarrow> bool"
  dc_blacklist_origin :: "'o \<Rightarrow> bool"
  dc_veto_origin :: "'o \<Rightarrow> bool"
  dc_cooloff_period :: block_number
  dc_preimage_byte_deposit :: balance
  dc_operational_preimage_origin :: "'o \<Rightarrow> bool"
  dc_max_votes :: nat
  dc_max_proposals :: nat
  dc_vote_locking_period :: block_number

definition basilisk_democracy :: "'o origin_checks \<Rightarrow> 'o democracy_config" where
  "basilisk_democracy K = \<lparr>
     dc_enactment_period = ENACTMENT_PERIOD,
     dc_launch_period = LAUNCH_PERIOD,
     dc_voting_period = VOTING_PERIOD,
     dc_minimum_deposit = MINIMUM_DEPOSIT,
     dc_external_origin = ensure_majority_council_or_root K,
     dc_external_majority_origin = ensure_majority_council_or_root K,
     dc_external_default_origin = ensure_unanimous_council_or_root K,
     dc_fast_track_origin = ensure_super_majority_tech_committee_or_root K,
     dc_instant_origin = ensure_unanimous_tech_committee_or_root K,
     dc_instant_allowed = INSTANT_ALLOWED,
     dc_fast_track_voting_period = FAST_TRACK_VOTING_PERIOD,
     dc_cancellation_origin = ensure_super_majority_council_or_root K,
     dc_cancel_proposal_origin = ensure_unanimous_tech_committee_or_root K,
     dc_blacklist_origin = oc_root K,
     dc_veto_origin = oc_member K TechnicalCollective,
     dc_cooloff_period = COOLOFF_PERIOD,
     dc_preimage_byte_deposit = PREIMAGE_BYTE_DEPOSIT,
     dc_operational_preimage_origin = oc_member K CouncilCollective,
     dc_max_votes = MAX_VOTES,
     dc_max_proposals = MAX_PROPOSALS,
     dc_vote_locking_period = ENACTMENT_PERIOD\<rparr>"

definition testing_democracy :: "'o origin_checks \<Rightarrow> 'o democracy_config" where
  "testing_democracy K = \<lparr>
     dc_enactment_period = ENACTMENT_PERIOD,
     dc_launch_period = TESTING_LAUNCH_PERIOD,
     dc_voting_period = TESTING_VOTING_PERIOD,
     dc_minimum_deposit = MINIMUM_DEPOSIT,
     dc_external_origin = ensure_majority_council_or_root K,
     dc_external_majority_origin = ensure_majority_council_or_root K,
     dc_external_default_origin = ensure_unanimous_council_or_root K,
     dc_fast_track_origin = ensure_super_majority_tech_committee_or_root K,
     dc_instant_origin = ensure_unanimous_tech_committee_or_root K,
     dc_instant_allowed = INSTANT_ALLOWED,
     dc_fast_track_voting_period = FAST_TRACK_VOTING_PERIOD,
     dc_cancellation_origin = ensure_super_majority_council_or_root K,
     dc_cancel_proposal_origin = ensure_unanimous_tech_committee_or_root K,
     dc_blacklist_origin = oc_root K,
     dc_veto_origin = oc_member K TechnicalCollective,
     dc_cooloff_period = COOLOFF_PERIOD,
     dc_preimage_byte_deposit = PREIMAGE_BYTE_DEPOSIT,
     dc_operational_preimage_origin = oc_member K CouncilCollective,
     dc_max_votes = MAX_VOTES,
     dc_max_proposals = MAX_PROPOSALS,
     dc_vote_locking_period = ENACTMENT_PERIOD\<rparr>"

record elections_config =
  ec_pallet_id :: string
  ec_candidacy_bond :: balance
  ec_voting_bond_base :: balance
  ec_voting_bond_factor :: balance
  ec_desired_members :: nat
  ec_desired_runners_up :: nat
  ec_term_duration :: block_number

definition basilisk_elections :: elections_config where
  "basilisk_elections = \<lparr>ec_pallet_id = ELECTIONS_PHRAGMEN_PALLET_ID, ec_candidacy_bond = CANDIDACY_BOND,
     ec_voting_bond_base = VOTING_BOND_BASE, ec_voting_bond_factor = VOTING_BOND_FACTOR,
     ec_desired_members = DESIRED_MEMBERS, ec_desired_runners_up = DESIRED_RUNNERS_UP,
     ec_term_duration = TERM_DURATION\<rparr>"

record collective_config =
  cc_motion_duration :: block_number
  cc_max_proposals :: nat
  cc_max_members :: nat

definition basilisk_council :: collective_config where
  "basilisk_council = \<lparr>cc_motion_duration = COUNCIL_MOTION_DURATION, cc_max_proposals = COUNCIL_MAX_PROPOSALS,
     cc_max_members = COUNCIL_MAX_MEMBERS\<rparr>"

definition basilisk_technical_committee :: collective_config where
  "basilisk_technical_committee = \<lparr>cc_motion_duration = TECHNICAL_MOTION_DURATION,
     cc_max_proposals = TECHNICAL_MAX_PROPOSALS, cc_max_members = TECHNICAL_MAX_MEMBERS\<rparr>"

record 'o treasury_config =
  tc_pallet_id :: string
  tc_approve_origin :: "'o \<Rightarrow> bool"
  tc_reject_origin :: "'o \<Rightarrow> bool"
  tc_proposal_bond_percent :: nat
  tc_proposal_bond_minimum :: balance
  tc_proposal_bond_maximum :: balance
  tc_spend_period :: block_number
  tc_burn_percent :: nat
  tc_max_approvals :: nat

definition basilisk_treasury :: "'o origin_checks \<Rightarrow> 'o treasury_config" where
  "basilisk_treasury K = \<lparr>tc_pallet_id = TREASURY_PALLET_ID, tc_approve_origin = manage_origin K,
     tc_reject_origin = manage_origin K, tc_proposal_bond_percent = PROPOSAL_BOND_PERCENT,
     tc_proposal_bond_minimum = PROPOSAL_BOND_MINIMUM, tc_proposal_bond_maximum = PROPOSAL_BOND_MAXIMUM,
     tc_spend_period = SPEND_PERIOD, tc_burn_percent = BURN_PERCENT, tc_max_approvals = MAX_APPROVALS\<rparr>"

record 'o scheduler_config =
  sc_schedule_origin :: "'o \<Rightarrow> bool"
  sc_max_scheduled_per_block :: nat
  sc_no_preimage_postponement :: "block_number option"

definition basilisk_scheduler :: "'o origin_checks \<Rightarrow> 'o scheduler_config" where
  "basilisk_scheduler K = \<lparr>sc_schedule_origin = oc_root K, sc_max_scheduled_per_block = MAX_SCHEDULED_PER_BLOCK,
     sc_no_preimage_postponement = NO_PREIMAGE_POSTPONEMENT\<rparr>"

record tips_config =
  tp_data_deposit_per_byte :: balance
  tp_maximum_reason_length :: nat
  tp_tip_countdown :: block_number
  tp_tip_finders_fee_percent :: nat
  tp_tip_report_deposit_base :: balance

definition basilisk_tips :: tips_config where
  "basilisk_tips = \<lparr>tp_data_deposit_per_byte = DATA_DEPOSIT_PER_BYTE, tp_maximum_reason_length = MAXIMUM_REASON_LENGTH,
     tp_tip_countdown = TIP_COUNTDOWN, tp_tip_finders_fee_percent = TIP_FINDERS_FEE_PERCENT,
     tp_tip_report_deposit_base = TIP_REPORT_DEPOSIT_BASE\<rparr>"

record 'o collator_selection_config =
  cl_update_origin :: "'o \<Rightarrow> bool"
  cl_pot_id :: string
  cl_max_candidates :: nat
  cl_min_candidates :: nat
  cl_max_invulnerables :: nat
  cl_kick_threshold :: block_number

definition basilisk_collator_selection :: "'o origin_checks \<Rightarrow> 'o collator_selection_config" where
  "basilisk_collator_selection K = \<lparr>cl_update_origin = ensure_majority_council_or_root K, cl_pot_id = POT_ID,
     cl_max_candidates = MAX_CANDIDATES, cl_min_candidates = MIN_CANDIDATES,
     cl_max_invulnerables = MAX_INVULNERABLES, cl_kick_threshold = PERIOD\<rparr>"

definition testing_collator_selection :: "'o origin_checks \<Rightarrow> 'o collator_selection_config" where
  "testing_collator_selection K = \<lparr>cl_update_origin = ensure_majority_council_or_root K, cl_pot_id = POT_ID,
     cl_max_candidates = MAX_CANDIDATES, cl_min_candidates = MIN_CANDIDATES,
     cl_max_invulnerables = MAX_INVULNERABLES, cl_kick_threshold = TESTING_PERIOD\<rparr>"

text \<open>Sessions end periodically, by a length and an offset.\<close>

definition basilisk_session :: "block_number \<times> block_number" where
  "basilisk_session = (PERIOD, OFFSET)"

definition testing_session :: "block_number \<times> block_number" where
  "testing_session = (TESTING_PERIOD, OFFSET)"

record 'o preimage_config =
  pc_manager_origin :: "'o \<Rightarrow> bool"
  pc_max_size :: nat
  pc_base_deposit :: balance
  pc_byte_deposit :: balance

definition basilisk_preimage :: "'o origin_checks \<Rightarrow> 'o preimage_config" where
  "basilisk_preimage K = \<lparr>pc_manager_origin = oc_root K, pc_max_size = PREIMAGE_MAX_SIZE,
     pc_base_deposit = PREIMAGE_BASE_DEPOSIT, pc_byte_deposit = PREIMAGE_BYTE_DEPOSIT\<rparr>"

record 'o asset_registry_config =
  ar_registry_origin :: "'o \<Rightarrow> bool"
  ar_string_limit :: nat
  ar_native_asset_id :: asset_id

definition basilisk_asset_registry :: "'o origin_checks \<Rightarrow> 'o asset_registry_config" where
  "basilisk_asset_registry K = \<lparr>ar_registry_origin = ensure_super_majority_tech_committee_or_root K,
     ar_string_limit = REGISTRY_STR_LIMIT, ar_native_asset_id = CORE_ASSET_ID\<rparr>"

section \<open>Who decides what\<close>

text \<open>
  What the checks are documented to accept. \<open>motion c o\<close> are the ayes and the seats of the motion of the
  collective \<open>c\<close> behind the origin \<open>o\<close>, if there is one.
\<close>

definition carried :: "(collective \<Rightarrow> 'o \<Rightarrow> (nat \<times> nat) option) \<Rightarrow> nat \<Rightarrow> nat \<Rightarrow> collective \<Rightarrow> 'o \<Rightarrow> bool" where
  "carried motion n d c w = (case motion c w of Some (ayes, seats) \<Rightarrow> n * seats \<le> ayes * d | None \<Rightarrow> False)"

locale collective_origins =
  fixes K :: "'o origin_checks" and motion :: "collective \<Rightarrow> 'o \<Rightarrow> (nat \<times> nat) option"
  assumes proportion: "oc_proportion_at_least K n d c w \<longleftrightarrow> carried motion n d c w"
    and one_of: "oc_one_of K l r w \<longleftrightarrow> l w \<or> r w"
    and root_no_motion: "oc_root K w \<Longrightarrow> motion c w = None"
    and one_collective: "motion CouncilCollective w \<noteq> None \<Longrightarrow> motion TechnicalCollective w = None"
    and ayes_seated: "motion c w = Some (ayes, seats) \<Longrightarrow> ayes \<le> seats"
begin

lemma council_origins:
  "ensure_majority_council_or_root K w \<longleftrightarrow> oc_root K w \<or> carried motion 1 2 CouncilCollective w"
  "ensure_super_majority_council_or_root K w \<longleftrightarrow> oc_root K w \<or> carried motion 2 3 CouncilCollective w"
  "ensure_unanimous_council_or_root K w \<longleftrightarrow> oc_root K w \<or> carried motion 1 1 CouncilCollective w"
  "manage_origin K w \<longleftrightarrow> oc_root K w \<or> carried motion 1 1 CouncilCollective w"
  by (auto simp: ensure_majority_council_or_root_def ensure_super_majority_council_or_root_def
      ensure_unanimous_council_or_root_def manage_origin_def all_council_members_def proportion one_of)

lemma technical_origins:
  "ensure_super_majority_tech_committee_or_root K w \<longleftrightarrow> oc_root K w \<or> carried motion 2 3 TechnicalCollective w"
  "ensure_unanimous_tech_committee_or_root K w \<longleftrightarrow> oc_root K w \<or> carried motion 1 1 TechnicalCollective w"
  by (auto simp: ensure_super_majority_tech_committee_or_root_def ensure_unanimous_tech_committee_or_root_def
      proportion one_of)

lemma thresholds_ordered:
  "carried motion 1 1 c w \<Longrightarrow> carried motion 2 3 c w" "carried motion 2 3 c w \<Longrightarrow> carried motion 1 2 c w"
  by (auto simp: carried_def split: option.splits)

lemma collectives_apart:
  "motion CouncilCollective w \<noteq> None \<Longrightarrow> \<not> oc_root K w \<and> \<not> carried motion n d TechnicalCollective w"
  "motion TechnicalCollective w \<noteq> None \<Longrightarrow> \<not> oc_root K w \<and> \<not> carried motion n d CouncilCollective w"
  using root_no_motion [of w] one_collective [of w] by (auto simp: carried_def split: option.splits)

lemma unanimous_iff: "carried motion 1 1 c w \<longleftrightarrow> (\<exists>seats. motion c w = Some (seats, seats))"
  using ayes_seated [of c w] by (auto simp: carried_def split: option.splits intro: le_antisym)

lemma single_seat: "motion c w = Some (ayes, seats) \<Longrightarrow> 0 < ayes \<Longrightarrow> seats \<le> 1 \<Longrightarrow> carried motion 1 1 c w"
  by (simp add: carried_def)

end

text \<open>The origins of the runtime that the checks look at.\<close>

datatype gov_origin =
    SystemOrigin origin | Motion collective nat nat | MemberOrigin collective account_id

definition gov_motion :: "collective \<Rightarrow> gov_origin \<Rightarrow> (nat \<times> nat) option" where
  "gov_motion c w = (case w of Motion c' n m \<Rightarrow> if c' = c then Some (min n m, m) else None | _ \<Rightarrow> None)"

definition gov_checks :: "gov_origin origin_checks" where
  "gov_checks = \<lparr>
     oc_root = (\<lambda>w. w = SystemOrigin Root),
     oc_proportion_at_least = carried gov_motion,
     oc_member = (\<lambda>c w. case w of MemberOrigin c' _ \<Rightarrow> c' = c | _ \<Rightarrow> False),
     oc_one_of = (\<lambda>l r w. l w \<or> r w)\<rparr>"

interpretation gov: collective_origins gov_checks gov_motion
  by unfold_locales (auto simp: gov_checks_def gov_motion_def split: gov_origin.splits if_splits)

lemma testing_democracy_same:
  "testing_democracy K =
     (basilisk_democracy K)\<lparr>dc_launch_period := TESTING_LAUNCH_PERIOD, dc_voting_period := TESTING_VOTING_PERIOD\<rparr>"
  by (simp add: testing_democracy_def basilisk_democracy_def)



section \<open>Parameters that have to fit together\<close>

text \<open>
  In both runtimes candidates are kicked after whole sessions, collators fit into the authorities, a
  member can be elected, and the bond range is not empty. A normal vote of the testing runtime is
  shorter than a fast-tracked one.
\<close>

lemmas governance_parameter_defs =
  basilisk_collator_selection_def testing_collator_selection_def basilisk_session_def testing_session_def
  PERIOD_def TESTING_PERIOD_def MIN_CANDIDATES_def MAX_CANDIDATES_def MAX_INVULNERABLES_def MAX_AUTHORITIES_def
  DESIRED_MEMBERS_def DESIRED_RUNNERS_UP_def COUNCIL_MAX_MEMBERS_def PROPOSAL_BOND_MINIMUM_def PROPOSAL_BOND_MAXIMUM_def
  basilisk_democracy_def FAST_TRACK_VOTING_PERIOD_def VOTING_PERIOD_def TESTING_VOTING_PERIOD_def
  DAYS_def HOURS_def MINUTES_def MILLISECS_PER_BLOCK_def DOLLARS_def CENTS_def MILLICENTS_def UNITS_def

lemma governance_parameters_fit:
  "cl_kick_threshold (basilisk_collator_selection K) mod fst basilisk_session = 0"
  "cl_kick_threshold (testing_collator_selection K) mod fst testing_session = 0"
  "MIN_CANDIDATES \<le> MAX_CANDIDATES \<and> MAX_INVULNERABLES + MAX_CANDIDATES \<le> MAX_AUTHORITIES"
  "DESIRED_MEMBERS + DESIRED_RUNNERS_UP \<le> COUNCIL_MAX_MEMBERS"
  "PROPOSAL_BOND_MINIMUM \<le> PROPOSAL_BOND_MAXIMUM"
  "dc_fast_track_voting_period (basilisk_democracy K) < dc_voting_period (basilisk_democracy K)"
  by (simp_all add: governance_parameter_defs)

lemma testing_fast_track_slower:
  "dc_voting_period (testing_democracy K) < dc_fast_track_voting_period (testing_democracy K)"
  by (simp add: testing_democracy_same governance_parameter_defs)

lemma preimage_byte_deposit_hidden:
  "dc_preimage_byte_deposit (basilisk_democracy K) = 3 * COMMON_PREIMAGE_BYTE_DEPOSIT"
  by (simp add: PREIMAGE_BYTE_DEPOSIT_def COMMON_PREIMAGE_BYTE_DEPOSIT_def storage_deposit_def wrapping_add_def
      wrapping_mul_def u128_max_def governance_parameter_defs)

end
