(* ===== verification/Chain_Spec.thy ===== *)
theory Chain_Spec
  imports Governance "HOL-Library.Monad_Syntax"
begin

text \<open>
  The networks the node can start (\<open>node/src/chain_spec.rs\<close>, \<open>node/src/testing_chain_spec.rs\<close>): the
  constants, the genesis configuration of the main and of the testing runtime, and one function per
  built-in chain specification. Accounts and keys given as hexadecimal text are numerals of the same
  digits; boot node and telemetry addresses stay text.

  Outside the repository, in \<open>spec_env\<close>: the compiled runtimes, key derivation, the decoding of
  addresses, fixed-point conversion of a decimal fraction, and reading a specification from JSON. A
  genesis function that panics has the value \<open>None\<close>.

  Shown: with compiled runtimes and well-behaved key derivation, every built-in specification has a
  genesis configuration that the pallets accept.
\<close>

section \<open>Data\<close>

definition TOKEN_DECIMALS :: nat where "TOKEN_DECIMALS = 12"
definition TOKEN_SYMBOL :: string where "TOKEN_SYMBOL = ''BSX''"
definition PROTOCOL_ID :: string where "PROTOCOL_ID = ''bsx''"
definition TELEMETRY_URLS :: "string list" where
  "TELEMETRY_URLS = [''wss://telemetry.polkadot.io/submit/'', ''wss://telemetry.hydradx.io:9000/submit/'']"
definition PARA_ID :: nat where "PARA_ID = 2090"

type_synonym aura_id = nat
type_synonym price = nat
type_synonym vesting_entry = "account_id \<times> block_number \<times> block_number \<times> nat \<times> balance"

record extensions =
  relay_chain :: string
  para_id :: nat

record genesis_config =
  g_code :: "byte list"
  g_balances :: "(account_id \<times> balance) list"
  g_sudo_key :: "account_id option"
  g_invulnerables :: "account_id list"
  g_candidacy_bond :: balance
  g_session_keys :: "(account_id \<times> account_id \<times> aura_id) list"
  g_asset_names :: "(string \<times> balance) list"
  g_native_asset_name :: string
  g_native_existential_deposit :: balance
  g_currencies :: "(asset_id \<times> price) list"
  g_fallback_account :: "account_id option"
  g_account_currencies :: "(account_id \<times> asset_id) list"
  g_tokens :: "(account_id \<times> asset_id \<times> balance) list"
  g_elections :: "(account_id \<times> balance) list"
  g_council :: "account_id list"
  g_technical_committee :: "account_id list"
  g_vesting :: "vesting_entry list"
  g_parachain_id :: nat
  g_duster :: duster_genesis

datatype chain_type = Development | Local | Live

datatype property_value = NumberProperty nat | TextProperty string

datatype genesis_source = Factory "genesis_config option" | JsonGenesis string

record chain_spec =
  cs_name :: string
  cs_id :: string
  cs_chain_type :: chain_type
  cs_genesis :: genesis_source
  cs_boot_nodes :: "string list"
  cs_telemetry :: "(string \<times> nat) list option"
  cs_protocol_id :: "string option"
  cs_fork_id :: "string option"
  cs_properties :: "(string \<times> property_value) list option"
  cs_extensions :: "extensions option"

record spec_env =
  se_wasm_binary :: "byte list option"
  se_testing_wasm_binary :: "byte list option"
  se_public :: "string \<Rightarrow> nat option"
  se_aura_public :: "string \<Rightarrow> aura_id option"
  se_into_account :: "nat \<Rightarrow> account_id"
  se_address :: "string \<Rightarrow> account_id option"
  se_price_from_float :: "nat \<times> nat \<Rightarrow> price"
  se_from_json_bytes :: "string \<Rightarrow> string + chain_spec"
  se_from_json_file :: "string \<Rightarrow> string + chain_spec"
  se_testing_from_json_file :: "string \<Rightarrow> string + chain_spec"

definition extensions_try_get :: "chain_spec \<Rightarrow> extensions option" where
  "extensions_try_get spec = cs_extensions spec"

definition token_properties :: "(string \<times> property_value) list option" where
  "token_properties = Some [(''tokenDecimals'', NumberProperty TOKEN_DECIMALS), (''tokenSymbol'', TextProperty TOKEN_SYMBOL)]"

section \<open>Keys and vesting\<close>

definition get_from_seed :: "spec_env \<Rightarrow> string \<Rightarrow> nat option" where
  "get_from_seed E seed = se_public E (''//'' @ seed)"

definition get_aura_from_seed :: "spec_env \<Rightarrow> string \<Rightarrow> aura_id option" where
  "get_aura_from_seed E seed = se_aura_public E (''//'' @ seed)"

definition get_account_id_from_seed :: "spec_env \<Rightarrow> string \<Rightarrow> account_id option" where
  "get_account_id_from_seed E seed = map_option (se_into_account E) (get_from_seed E seed)"

text \<open>The rows of \<open>node/res/basilisk-vesting-lbp-test.json\<close>.\<close>

definition vesting_list_json :: "(string \<times> nat \<times> nat \<times> nat \<times> nat) list" where
  "vesting_list_json =
     [(''bXmPf7DcVmFuHEmzH3UX8t6AUkfNQW8pnTeXGhFhqbfngjAak'', 5, 1, 30, 100000000000),
      (''bXjpVq9SMdXuP5mVmcYZC8kFWepMX3bRSxpNwdtaAXgsSxPwd'', 5, 1, 30, 200000000000)]"

fun decode_vesting :: "spec_env \<Rightarrow> (string \<times> nat \<times> nat \<times> nat \<times> nat) list \<Rightarrow> vesting_entry list option" where
  "decode_vesting E [] = Some []"
| "decode_vesting E ((address, start, period, period_count, per_period) # rows) = do {
     who \<leftarrow> se_address E address;
     vs \<leftarrow> decode_vesting E rows;
     Some ((who, start, period, period_count, per_period) # vs)
   }"

definition get_vesting_config_for_test :: "spec_env \<Rightarrow> vesting_entry list option" where
  "get_vesting_config_for_test E = do {
     vesting_list \<leftarrow> decode_vesting E vesting_list_json;
     let unique_vesting_accounts = set (map fst vesting_list);
     if card unique_vesting_accounts = length vesting_list then Some vesting_list else None
   }"

section \<open>Genesis configurations\<close>

definition parachain_genesis ::
  "byte list \<Rightarrow> account_id \<Rightarrow> (account_id \<times> aura_id) list \<Rightarrow> account_id list \<Rightarrow> bool \<Rightarrow> nat \<Rightarrow> account_id
    \<Rightarrow> genesis_config" where
  "parachain_genesis wasm_binary root_key initial_authorities endowed_accounts enable_println
     parachain_id tx_fee_payment_account = \<lparr>
     g_code = wasm_binary,
     g_balances =
       [(0xbca8eeb9c7cf74fc28ebe4091d29ae1c12ed622f7e3656aae080b54d5ff9a23c, 15000000000 * UNITS),
        (0x6d6f646c70792f74727372790000000000000000000000000000000000000000, 9000000000 * UNITS)],
     g_sudo_key = Some root_key,
     g_invulnerables = map fst initial_authorities,
     g_candidacy_bond = 10000,
     g_session_keys = map (\<lambda>(acc, aura). (acc, acc, aura)) initial_authorities,
     g_asset_names = [],
     g_native_asset_name = TOKEN_SYMBOL,
     g_native_existential_deposit = NATIVE_EXISTENTIAL_DEPOSIT,
     g_currencies = [],
     g_fallback_account = Some tx_fee_payment_account,
     g_account_currencies = [],
     g_tokens = [],
     g_elections =
       [(0xbca8eeb9c7cf74fc28ebe4091d29ae1c12ed622f7e3656aae080b54d5ff9a23c, 14999900000 * UNITS)],
     g_council = [0xbca8eeb9c7cf74fc28ebe4091d29ae1c12ed622f7e3656aae080b54d5ff9a23c],
     g_technical_committee =
       [0xd6cf8789dce651cb54a4036406f4aa0c771914d345c004ad0567b814c71fb637,
        0xbc96ec00952efa8f0e3e08b36bf5096bcb877acac536e478aecb72868db5db02,
        0x2875dd47bc1bcb70e23de79e7538c312be12c716033bbae425130e46f5f2b35e,
        0x644643bf953233d08c4c9bae0acd49f3baa7658d9b342b7e6879bb149ee6e44c,
        0xccdb435892c9883656d0398b2b67023ba1e11bda0c7f213f70fdac54c6abab3f,
        0xf461c5ae6e80bf4af5b84452789c17b0b0a095a2d77c2a407978147de2d5b572],
     g_vesting = [],
     g_parachain_id = parachain_id,
     g_duster = \<lparr>
       gen_account_blacklist = [0x6d6f646c70792f74727372790000000000000000000000000000000000000000],
       gen_reward_account = Some 0x6d6f646c70792f74727372790000000000000000000000000000000000000000,
       gen_dust_account = Some 0x6d6f646c70792f74727372790000000000000000000000000000000000000000\<rparr>\<rparr>"

definition testnet_parachain_genesis ::
  "spec_env \<Rightarrow> byte list \<Rightarrow> account_id \<Rightarrow> (account_id \<times> aura_id) list \<Rightarrow> account_id list \<Rightarrow> bool \<Rightarrow> nat
    \<Rightarrow> account_id list \<Rightarrow> account_id list \<Rightarrow> account_id \<Rightarrow> vesting_entry list \<Rightarrow> (string \<times> balance) list
    \<Rightarrow> (asset_id \<times> price) list \<Rightarrow> account_id list \<Rightarrow> genesis_config option" where
  "testnet_parachain_genesis E wasm_binary root_key initial_authorities endowed_accounts enable_println
     parachain_id council_members tech_committee_members tx_fee_payment_account vesting_list
     registered_assets accepted_assets elections = do {
     duster \<leftarrow> get_account_id_from_seed E ''Duster'';
     Some \<lparr>
       g_code = wasm_binary,
       g_balances = map (\<lambda>k. (k, 1000000000 * UNITS)) endowed_accounts,
       g_sudo_key = Some root_key,
       g_invulnerables = map fst initial_authorities,
       g_candidacy_bond = 10000,
       g_session_keys = map (\<lambda>(acc, aura). (acc, acc, aura)) initial_authorities,
       g_asset_names = registered_assets,
       g_native_asset_name = TOKEN_SYMBOL,
       g_native_existential_deposit = NATIVE_EXISTENTIAL_DEPOSIT,
       g_currencies = accepted_assets,
       g_fallback_account = Some tx_fee_payment_account,
       g_account_currencies = [],
       g_tokens =
         (if registered_assets = [] then []
          else concat (map (\<lambda>x. [(x, 1, 1000000000 * UNITS), (x, 2, 1000000000 * UNITS)]) endowed_accounts)),
       g_elections = concat (map (\<lambda>x. [(x, 100000000 * UNITS)]) elections),
       g_council = council_members,
       g_technical_committee = tech_committee_members,
       g_vesting = vesting_list,
       g_parachain_id = parachain_id,
       g_duster = \<lparr>gen_account_blacklist = [duster], gen_reward_account = Some duster, gen_dust_account = Some duster\<rparr>\<rparr>
   }"

definition testing_testnet_parachain_genesis ::
  "spec_env \<Rightarrow> byte list \<Rightarrow> account_id \<Rightarrow> (account_id \<times> aura_id) list \<Rightarrow> account_id list \<Rightarrow> bool \<Rightarrow> nat
    \<Rightarrow> account_id list \<Rightarrow> account_id list \<Rightarrow> account_id \<Rightarrow> vesting_entry list \<Rightarrow> (string \<times> balance) list
    \<Rightarrow> (asset_id \<times> price) list \<Rightarrow> account_id list \<Rightarrow> genesis_config option" where
  "testing_testnet_parachain_genesis E wasm_binary root_key initial_authorities endowed_accounts enable_println
     parachain_id council_members tech_committee_members tx_fee_payment_account vesting_list
     registered_assets accepted_assets elections = do {
     duster \<leftarrow> get_account_id_from_seed E ''Duster'';
     Some \<lparr>
       g_code = wasm_binary,
       g_balances = map (\<lambda>k. (k, 1000000000000 * UNITS)) endowed_accounts,
       g_sudo_key = Some root_key,
       g_invulnerables = map fst initial_authorities,
       g_candidacy_bond = 10000,
       g_session_keys = map (\<lambda>(acc, aura). (acc, acc, aura)) initial_authorities,
       g_asset_names = registered_assets,
       g_native_asset_name = TOKEN_SYMBOL,
       g_native_existential_deposit = NATIVE_EXISTENTIAL_DEPOSIT,
       g_currencies = accepted_assets,
       g_fallback_account = Some tx_fee_payment_account,
       g_account_currencies = [],
       g_tokens =
         (if registered_assets = [] then []
          else concat (map (\<lambda>x. [(x, 1, 1000000000000 * UNITS), (x, 2, 1000000000000 * UNITS)]) endowed_accounts)),
       g_elections = concat (map (\<lambda>x. [(x, 100000000 * UNITS)]) elections),
       g_council = council_members,
       g_technical_committee = tech_committee_members,
       g_vesting = vesting_list,
       g_parachain_id = parachain_id,
       g_duster = \<lparr>gen_account_blacklist = [duster], gen_reward_account = Some duster, gen_dust_account = Some duster\<rparr>\<rparr>
   }"

section \<open>The networks of the main runtime\<close>

definition basilisk_parachain_config :: "spec_env \<Rightarrow> string + chain_spec" where
  "basilisk_parachain_config E = se_from_json_bytes E ''../res/basilisk.json''"

definition kusama_staging_parachain_config :: "spec_env \<Rightarrow> string + chain_spec" where
  "kusama_staging_parachain_config E =
     and_then (ok_or (se_wasm_binary E) ''Development wasm binary not available'') (\<lambda>wasm_binary.
     Inr \<lparr>
       cs_name = ''Basilisk'', cs_id = ''basilisk'', cs_chain_type = Live,
       cs_genesis = Factory
        (Some (parachain_genesis wasm_binary
            0xbca8eeb9c7cf74fc28ebe4091d29ae1c12ed622f7e3656aae080b54d5ff9a23c
            [(0xf25e5d7b43266a5b4cca762c9be917f18852d7a5db85e734776206eeb539dd4f,
                0xf25e5d7b43266a5b4cca762c9be917f18852d7a5db85e734776206eeb539dd4f),
               (0xe84a7090cb18fe39eafebdae9a3ac1111c955247a202a3ab2a3cfe8573c03c60,
                0xe84a7090cb18fe39eafebdae9a3ac1111c955247a202a3ab2a3cfe8573c03c60),
               (0xc49e3fbebac92027e0d19c2fc1ddc288eb549971831e336550832a476727f601,
                0xc49e3fbebac92027e0d19c2fc1ddc288eb549971831e336550832a476727f601),
               (0xc856aabea6e433be2dfe233c6118d156133e4e663a1223da06421058ddb56712,
                0xc856aabea6e433be2dfe233c6118d156133e4e663a1223da06421058ddb56712),
               (0xe02a753fc885bde7ea5839df8619ab80b67be6c869bc19b41f20f865a2f90578,
                0xe02a753fc885bde7ea5839df8619ab80b67be6c869bc19b41f20f865a2f90578)]
            [] True PARA_ID 0x6d6f646c70792f74727372790000000000000000000000000000000000000000)),
       cs_boot_nodes = [
         ''/dns/p2p-01.basilisk.hydradx.io/tcp/30333/p2p/12D3KooWJRdTtgFnwrrcigrMRxdJ9zfmhtpH5qgAV9budWat4UtR'',
         ''/dns/p2p-02.basilisk.hydradx.io/tcp/30333/p2p/12D3KooWQNvuYebz6Zt34LnesFfdVh5i7FWP8GUe9QxuBmKE4b9R'',
         ''/dns/p2p-03.basilisk.hydradx.io/tcp/30333/p2p/12D3KooWD2Y9VkfC9cmQEpKZLN26xWq7XPJXHDUH8LNVmhoNBrdJ''],
       cs_telemetry = Some [(TELEMETRY_URLS ! 0, 0), (TELEMETRY_URLS ! 1, 0)],
       cs_protocol_id = Some PROTOCOL_ID, cs_fork_id = None, cs_properties = token_properties,
       cs_extensions = Some \<lparr>relay_chain = ''kusama'', para_id = PARA_ID\<rparr>\<rparr>)"

definition testnet_parachain_config :: "spec_env \<Rightarrow> string + chain_spec" where
  "testnet_parachain_config E =
     and_then (ok_or (se_wasm_binary E) ''Development wasm binary not available'') (\<lambda>wasm_binary.
     Inr \<lparr>
       cs_name = ''Basilisk Egg'', cs_id = ''basilisk_egg'', cs_chain_type = Live,
       cs_genesis = Factory
        (testnet_parachain_genesis E wasm_binary
            0x30035c21ba9eda780130f2029a80c3e962f56588bc04c36be95a225cb536fb55
            [(0xda0fa4ab419def66fb4ac5224e594e82c34ee795268fc7787c8a096c4ff14f11,
                0xda0fa4ab419def66fb4ac5224e594e82c34ee795268fc7787c8a096c4ff14f11),
               (0xecd7a5439c6ab0cd6550bc2f1cef5299d425bb95bb6d7afb32aa3d95ee4f7f1f,
                0xecd7a5439c6ab0cd6550bc2f1cef5299d425bb95bb6d7afb32aa3d95ee4f7f1f),
               (0xf0ad6f1aae7a445c1e80cac883096ec8177eda276fec53ad9ccbe570f3090a26,
                0xf0ad6f1aae7a445c1e80cac883096ec8177eda276fec53ad9ccbe570f3090a26)]
            [0x30035c21ba9eda780130f2029a80c3e962f56588bc04c36be95a225cb536fb55] True PARA_ID
            [0x30035c21ba9eda780130f2029a80c3e962f56588bc04c36be95a225cb536fb55]
            [0x30035c21ba9eda780130f2029a80c3e962f56588bc04c36be95a225cb536fb55]
            0x30035c21ba9eda780130f2029a80c3e962f56588bc04c36be95a225cb536fb55 []
            [(''KSM'', 1000), (''KUSD'', 1000)]
            [(1, se_price_from_float E (212, 10000000)), (2, se_price_from_float E (806, 1000000))]
            [0x30035c21ba9eda780130f2029a80c3e962f56588bc04c36be95a225cb536fb55]),
       cs_boot_nodes = [
         ''/dns/p2p-01.basilisk-testnet.hydradx.io/tcp/30333/p2p/12D3KooW9qapYrocm6W1meShf8eQfeJzbry9PN2CN6SfBGbymxPL'',
         ''/dns/p2p-02.basilisk-testnet.hydradx.io/tcp/30333/p2p/12D3KooWPS16BYW173YxmxEJpQBoDz1t3Ht4yaPwwg5qCTED7N66'',
         ''/dns/p2p-03.basilisk-testnet.hydradx.io/tcp/30333/p2p/12D3KooWRMgQRtYrWsLvuwg3V3aQEvMgsbb88T29cKCTH6RAxTaj''],
       cs_telemetry = Some [(TELEMETRY_URLS ! 0, 0), (TELEMETRY_URLS ! 1, 0)],
       cs_protocol_id = Some PROTOCOL_ID, cs_fork_id = None, cs_properties = token_properties,
       cs_extensions = Some \<lparr>relay_chain = ''westend'', para_id = PARA_ID\<rparr>\<rparr>)"

definition parachain_development_config :: "spec_env \<Rightarrow> string + chain_spec" where
  "parachain_development_config E =
     and_then (ok_or (se_wasm_binary E) ''Development wasm binary not available'') (\<lambda>wasm_binary.
     Inr \<lparr>
       cs_name = ''Basilisk Development'', cs_id = ''dev'', cs_chain_type = Development,
       cs_genesis = Factory
        (do {
           alice \<leftarrow> get_account_id_from_seed E ''Alice'';
           alice_aura \<leftarrow> get_aura_from_seed E ''Alice'';
           bob \<leftarrow> get_account_id_from_seed E ''Bob'';
           bob_aura \<leftarrow> get_aura_from_seed E ''Bob'';
           alice_stash \<leftarrow> get_account_id_from_seed E ''Alice//stash'';
           bob_stash \<leftarrow> get_account_id_from_seed E ''Bob//stash'';
           duster \<leftarrow> get_account_id_from_seed E ''Duster'';
           eve \<leftarrow> get_account_id_from_seed E ''Eve'';
           vesting \<leftarrow> get_vesting_config_for_test E;
           testnet_parachain_genesis E wasm_binary alice [(alice, alice_aura), (bob, bob_aura)]
             [alice, bob, alice_stash, bob_stash, duster] True PARA_ID [alice] [alice, bob, eve] alice
             vesting [(''KSM'', 1000), (''KUSD'', 1000)]
             [(1, se_price_from_float E (212, 10000000)), (2, se_price_from_float E (806, 1000000))]
             [alice]
         }),
       cs_boot_nodes = [],
       cs_telemetry = None,
       cs_protocol_id = Some PROTOCOL_ID, cs_fork_id = None, cs_properties = token_properties,
       cs_extensions = Some \<lparr>relay_chain = ''rococo-dev'', para_id = PARA_ID\<rparr>\<rparr>)"

definition rococo_parachain_config :: "spec_env \<Rightarrow> string + chain_spec" where
  "rococo_parachain_config E =
     and_then (ok_or (se_wasm_binary E) ''Development wasm binary not available'') (\<lambda>wasm_binary.
     Inr \<lparr>
       cs_name = ''Basilisk testnet'', cs_id = ''basilisk_rococo'', cs_chain_type = Live,
       cs_genesis = Factory
        (testnet_parachain_genesis E wasm_binary
            0x3418b257de81886bef265495f3609def9a083869f32ef5a03f7351956497d41a
            [(0x1822c7a002c35274bd5da15690e9d0027d9d189998990fcefd4458f768109a57,
                0x1822c7a002c35274bd5da15690e9d0027d9d189998990fcefd4458f768109a57),
               (0x1a5fc9b99feaac2b2dcb8473b1b8e5d641296394233685499b7222edceb40327,
                0x1a5fc9b99feaac2b2dcb8473b1b8e5d641296394233685499b7222edceb40327)]
            [0x3418b257de81886bef265495f3609def9a083869f32ef5a03f7351956497d41a,
               0x1822c7a002c35274bd5da15690e9d0027d9d189998990fcefd4458f768109a57,
               0x1a5fc9b99feaac2b2dcb8473b1b8e5d641296394233685499b7222edceb40327]
            True PARA_ID [0x3418b257de81886bef265495f3609def9a083869f32ef5a03f7351956497d41a] []
            0x3418b257de81886bef265495f3609def9a083869f32ef5a03f7351956497d41a [] [] []
            [0x3418b257de81886bef265495f3609def9a083869f32ef5a03f7351956497d41a]),
       cs_boot_nodes = [
         ''/dns/p2p-01.basilisk-rococo.hydradx.io/tcp/30333/p2p/12D3KooWPr6PPDFpnY3A4mVE1nNfxQcLAzM98g9tVqNbv3ErZoCV'',
         ''/dns/p2p-02.basilisk-rococo.hydradx.io/tcp/30333/p2p/12D3KooWN39qskQYQkXVHnAdpCbrRQDQTomUTVv9WjnWCagZroY4''],
       cs_telemetry = Some [(TELEMETRY_URLS ! 0, 0), (TELEMETRY_URLS ! 1, 0)],
       cs_protocol_id = Some PROTOCOL_ID, cs_fork_id = None, cs_properties = token_properties,
       cs_extensions = Some \<lparr>relay_chain = ''rococo'', para_id = PARA_ID\<rparr>\<rparr>)"

definition karura_testnet_parachain_config :: "spec_env \<Rightarrow> string + chain_spec" where
  "karura_testnet_parachain_config E =
     and_then (ok_or (se_wasm_binary E) ''Development wasm binary not available'') (\<lambda>wasm_binary.
     Inr \<lparr>
       cs_name = ''Basilisk testnet'', cs_id = ''basilisk_karura_testnet'', cs_chain_type = Live,
       cs_genesis = Factory
        (testnet_parachain_genesis E wasm_binary
            0x0897746a8df7df1969bf5fdb4f048221109830994c8afa001e9454c525211404
            [(0xeaef883d17243a8f4622bd22be73a51b0ed635066063a402d5c65b55e391486d,
                0xeaef883d17243a8f4622bd22be73a51b0ed635066063a402d5c65b55e391486d),
               (0x24bcc906635829a590fe47491340b3701ed8b7f8b81c18b4feff00e8dbea0072,
                0x24bcc906635829a590fe47491340b3701ed8b7f8b81c18b4feff00e8dbea0072)]
            [0x0897746a8df7df1969bf5fdb4f048221109830994c8afa001e9454c525211404] True PARA_ID
            [0x0897746a8df7df1969bf5fdb4f048221109830994c8afa001e9454c525211404] []
            0x0897746a8df7df1969bf5fdb4f048221109830994c8afa001e9454c525211404 [] [] []
            [0x0897746a8df7df1969bf5fdb4f048221109830994c8afa001e9454c525211404]),
       cs_boot_nodes = [
         ''/dns/p2p-01.basilisk-karura-testnet.hydradx.io/tcp/30333/p2p/12D3KooWK7h9waDaJsiBGkqMMVNzK3V8xaxXgzrJd8FUaoTU3Kqk'',
         ''/dns/p2p-02.basilisk-karura-testnet.hydradx.io/tcp/30333/p2p/12D3KooWHCHDhVJEZcw8jjyx6e1cKCUyfS4QrSXFmzfDX8eB79SC''],
       cs_telemetry = Some [(TELEMETRY_URLS ! 0, 0), (TELEMETRY_URLS ! 1, 0)],
       cs_protocol_id = Some PROTOCOL_ID, cs_fork_id = None, cs_properties = token_properties,
       cs_extensions = Some \<lparr>relay_chain = ''kusama-local'', para_id = PARA_ID\<rparr>\<rparr>)"

definition benchmarks_development_config :: "spec_env \<Rightarrow> string + chain_spec" where
  "benchmarks_development_config E =
     and_then (ok_or (se_wasm_binary E) ''Development wasm binary not available'') (\<lambda>wasm_binary.
     Inr \<lparr>
       cs_name = ''Basilisk Benchmarks'', cs_id = ''benchmarks'', cs_chain_type = Development,
       cs_genesis = Factory
        (do {
           alice \<leftarrow> get_account_id_from_seed E ''Alice'';
           alice_aura \<leftarrow> get_aura_from_seed E ''Alice'';
           bob \<leftarrow> get_account_id_from_seed E ''Bob'';
           bob_aura \<leftarrow> get_aura_from_seed E ''Bob'';
           alice_stash \<leftarrow> get_account_id_from_seed E ''Alice//stash'';
           bob_stash \<leftarrow> get_account_id_from_seed E ''Bob//stash'';
           duster \<leftarrow> get_account_id_from_seed E ''Duster'';
           eve \<leftarrow> get_account_id_from_seed E ''Eve'';
           vesting \<leftarrow> get_vesting_config_for_test E;
           testnet_parachain_genesis E wasm_binary alice [(alice, alice_aura), (bob, bob_aura)]
             [alice, bob, alice_stash, bob_stash, duster] True PARA_ID [alice] [alice, bob, eve] alice
             vesting [] [] [alice]
         }),
       cs_boot_nodes = [],
       cs_telemetry = None,
       cs_protocol_id = Some PROTOCOL_ID, cs_fork_id = None, cs_properties = token_properties,
       cs_extensions = Some \<lparr>relay_chain = ''rococo-dev'', para_id = PARA_ID\<rparr>\<rparr>)"

definition local_parachain_config :: "spec_env \<Rightarrow> string + chain_spec" where
  "local_parachain_config E =
     and_then (ok_or (se_wasm_binary E) ''Development wasm binary not available'') (\<lambda>wasm_binary.
     Inr \<lparr>
       cs_name = ''Basilisk Local Testnet'', cs_id = ''local_testnet'', cs_chain_type = Local,
       cs_genesis = Factory
        (do {
           alice \<leftarrow> get_account_id_from_seed E ''Alice'';
           alice_aura \<leftarrow> get_aura_from_seed E ''Alice'';
           bob \<leftarrow> get_account_id_from_seed E ''Bob'';
           bob_aura \<leftarrow> get_aura_from_seed E ''Bob'';
           charlie \<leftarrow> get_account_id_from_seed E ''Charlie'';
           dave \<leftarrow> get_account_id_from_seed E ''Dave'';
           eve \<leftarrow> get_account_id_from_seed E ''Eve'';
           ferdie \<leftarrow> get_account_id_from_seed E ''Ferdie'';
           alice_stash \<leftarrow> get_account_id_from_seed E ''Alice//stash'';
           bob_stash \<leftarrow> get_account_id_from_seed E ''Bob//stash'';
           charlie_stash \<leftarrow> get_account_id_from_seed E ''Charlie//stash'';
           dave_stash \<leftarrow> get_account_id_from_seed E ''Dave//stash'';
           eve_stash \<leftarrow> get_account_id_from_seed E ''Eve//stash'';
           ferdie_stash \<leftarrow> get_account_id_from_seed E ''Ferdie//stash'';
           vesting \<leftarrow> get_vesting_config_for_test E;
           testnet_parachain_genesis E wasm_binary alice [(alice, alice_aura), (bob, bob_aura)]
             [alice, bob, charlie, dave, eve, ferdie, alice_stash, bob_stash, charlie_stash, dave_stash, eve_stash, ferdie_stash]
             True PARA_ID [alice] [alice, bob, eve] alice vesting [(''KSM'', 1000), (''KUSD'', 1000)]
             [(1, se_price_from_float E (212, 10000000)), (2, se_price_from_float E (806, 1000000))]
             [alice]
         }),
       cs_boot_nodes = [],
       cs_telemetry = None,
       cs_protocol_id = Some PROTOCOL_ID, cs_fork_id = None, cs_properties = token_properties,
       cs_extensions = Some \<lparr>relay_chain = ''rococo-local'', para_id = PARA_ID\<rparr>\<rparr>)"

section \<open>The networks of the testing runtime\<close>

definition testing_parachain_development_config :: "spec_env \<Rightarrow> string + chain_spec" where
  "testing_parachain_development_config E =
     and_then (ok_or (se_testing_wasm_binary E) ''Development wasm binary not available'') (\<lambda>wasm_binary.
     Inr \<lparr>
       cs_name = ''Testing Basilisk Development'', cs_id = ''dev'', cs_chain_type = Development,
       cs_genesis = Factory
        (do {
           alice \<leftarrow> get_account_id_from_seed E ''Alice'';
           alice_aura \<leftarrow> get_aura_from_seed E ''Alice'';
           bob \<leftarrow> get_account_id_from_seed E ''Bob'';
           bob_aura \<leftarrow> get_aura_from_seed E ''Bob'';
           alice_stash \<leftarrow> get_account_id_from_seed E ''Alice//stash'';
           bob_stash \<leftarrow> get_account_id_from_seed E ''Bob//stash'';
           duster \<leftarrow> get_account_id_from_seed E ''Duster'';
           eve \<leftarrow> get_account_id_from_seed E ''Eve'';
           vesting \<leftarrow> get_vesting_config_for_test E;
           testing_testnet_parachain_genesis E wasm_binary alice [(alice, alice_aura), (bob, bob_aura)]
             [alice, bob, alice_stash, bob_stash, duster] True PARA_ID [alice] [alice, bob, eve] alice
             vesting [(''KSM'', 1000), (''KUSD'', 1000)]
             [(1, se_price_from_float E (212, 10000000)), (2, se_price_from_float E (806, 1000000))]
             [alice]
         }),
       cs_boot_nodes = [],
       cs_telemetry = None,
       cs_protocol_id = Some PROTOCOL_ID, cs_fork_id = None, cs_properties = token_properties,
       cs_extensions = Some \<lparr>relay_chain = ''rococo-dev'', para_id = PARA_ID\<rparr>\<rparr>)"

definition testing_local_parachain_config :: "spec_env \<Rightarrow> string + chain_spec" where
  "testing_local_parachain_config E =
     and_then (ok_or (se_testing_wasm_binary E) ''Development wasm binary not available'') (\<lambda>wasm_binary.
     Inr \<lparr>
       cs_name = ''Testing Basilisk Local Testnet'', cs_id = ''local_testnet'', cs_chain_type = Local,
       cs_genesis = Factory
        (do {
           alice \<leftarrow> get_account_id_from_seed E ''Alice'';
           alice_aura \<leftarrow> get_aura_from_seed E ''Alice'';
           bob \<leftarrow> get_account_id_from_seed E ''Bob'';
           bob_aura \<leftarrow> get_aura_from_seed E ''Bob'';
           charlie \<leftarrow> get_account_id_from_seed E ''Charlie'';
           dave \<leftarrow> get_account_id_from_seed E ''Dave'';
           eve \<leftarrow> get_account_id_from_seed E ''Eve'';
           ferdie \<leftarrow> get_account_id_from_seed E ''Ferdie'';
           alice_stash \<leftarrow> get_account_id_from_seed E ''Alice//stash'';
           bob_stash \<leftarrow> get_account_id_from_seed E ''Bob//stash'';
           charlie_stash \<leftarrow> get_account_id_from_seed E ''Charlie//stash'';
           dave_stash \<leftarrow> get_account_id_from_seed E ''Dave//stash'';
           eve_stash \<leftarrow> get_account_id_from_seed E ''Eve//stash'';
           ferdie_stash \<leftarrow> get_account_id_from_seed E ''Ferdie//stash'';
           vesting \<leftarrow> get_vesting_config_for_test E;
           testing_testnet_parachain_genesis E wasm_binary alice [(alice, alice_aura), (bob, bob_aura)]
             [alice, bob, charlie, dave, eve, ferdie, alice_stash, bob_stash, charlie_stash, dave_stash, eve_stash, ferdie_stash]
             True PARA_ID [alice] [alice, bob, eve] alice vesting [(''KSM'', 1000), (''KUSD'', 1000)]
             [(1, se_price_from_float E (212, 10000000)), (2, se_price_from_float E (806, 1000000))]
             [alice]
         }),
       cs_boot_nodes = [],
       cs_telemetry = None,
       cs_protocol_id = Some PROTOCOL_ID, cs_fork_id = None, cs_properties = token_properties,
       cs_extensions = Some \<lparr>relay_chain = ''rococo-local'', para_id = PARA_ID\<rparr>\<rparr>)"

definition testing_k8s_testnet_parachain_config :: "spec_env \<Rightarrow> string + chain_spec" where
  "testing_k8s_testnet_parachain_config E =
     and_then (ok_or (se_testing_wasm_binary E) ''Development wasm binary not available'') (\<lambda>wasm_binary.
     Inr \<lparr>
       cs_name = ''Basilisk testnet'', cs_id = ''basilisk_testnet'', cs_chain_type = Live,
       cs_genesis = Factory
        (do {
           vesting \<leftarrow> get_vesting_config_for_test E;
           testing_testnet_parachain_genesis E wasm_binary
             0xa62f1daf8e490a1c0514c7d9f3a700999100f2aeb1d67a2ca68b241d3d6b3547
             [(0x54d469d6141e56c0aa802b00732c38477e72d1ad9d8030f45f76b61aaebc1251,
                0x54d469d6141e56c0aa802b00732c38477e72d1ad9d8030f45f76b61aaebc1251),
               (0xf4969ff6c9b4b1219a1d329d7bdeff9857dd5fc33085fd98182856f7f781b043,
                0xf4969ff6c9b4b1219a1d329d7bdeff9857dd5fc33085fd98182856f7f781b043)]
             [0xa62f1daf8e490a1c0514c7d9f3a700999100f2aeb1d67a2ca68b241d3d6b3547,
               0x2e004ce52dd68ec64093d887dbbcc69c7a5333673a7acec6109b08056e89f538,
               0xd43593c715fdd31c61141abd04a99fd6822c8558854ccde39a5684e7a56da27d,
               0x8eaf04151687736326c9fea17e25fc5287613693c912909cb226aa4794f26a48]
             True PARA_ID [0xa62f1daf8e490a1c0514c7d9f3a700999100f2aeb1d67a2ca68b241d3d6b3547] []
             0xa62f1daf8e490a1c0514c7d9f3a700999100f2aeb1d67a2ca68b241d3d6b3547 vesting
             [(''KSM'', 1000), (''KUSD'', 1000)]
             [(1, se_price_from_float E (212, 10000000)), (2, se_price_from_float E (806, 1000000))]
             [0xa62f1daf8e490a1c0514c7d9f3a700999100f2aeb1d67a2ca68b241d3d6b3547]
         }),
       cs_boot_nodes = [],
       cs_telemetry = None,
       cs_protocol_id = Some PROTOCOL_ID, cs_fork_id = None, cs_properties = token_properties,
       cs_extensions = Some \<lparr>relay_chain = ''westend'', para_id = PARA_ID\<rparr>\<rparr>)"

definition testing_moonbase_parachain_config :: "spec_env \<Rightarrow> string + chain_spec" where
  "testing_moonbase_parachain_config E =
     and_then (ok_or (se_testing_wasm_binary E) ''Development wasm binary not available'') (\<lambda>wasm_binary.
     Inr \<lparr>
       cs_name = ''Basilisk testnet'', cs_id = ''basilisk_moonbase'', cs_chain_type = Live,
       cs_genesis = Factory
        (testing_testnet_parachain_genesis E wasm_binary
            0x9eaea650948488ccc720491b8e40be7436359dc4213a6487ba758ed496f9e53f
            [(0x44cb7e89dfbafaa0a90b1838ec588d53fb01f1789d9b638d4aa4cb7de3870463,
                0x44cb7e89dfbafaa0a90b1838ec588d53fb01f1789d9b638d4aa4cb7de3870463),
               (0x8cc5f3c8e9480977f93c519522c12f5ec4cd8ab246be9eee6110aec498f22f36,
                0x8cc5f3c8e9480977f93c519522c12f5ec4cd8ab246be9eee6110aec498f22f36)]
            [0x9eaea650948488ccc720491b8e40be7436359dc4213a6487ba758ed496f9e53f] True PARA_ID
            [0x9eaea650948488ccc720491b8e40be7436359dc4213a6487ba758ed496f9e53f] []
            0x9eaea650948488ccc720491b8e40be7436359dc4213a6487ba758ed496f9e53f [] [] []
            [0x9eaea650948488ccc720491b8e40be7436359dc4213a6487ba758ed496f9e53f]),
       cs_boot_nodes = [
         ''/dns/p2p-01.basilisk-moonbase.hydradx.io/tcp/30333/p2p/12D3KooWEugVWasr2Zz8SBETvBwdG65RGo4CEp5tJJSASDarqgam'',
         ''/dns/p2p-02.basilisk-moonbase.hydradx.io/tcp/30333/p2p/12D3KooWP1bEqFb6VxqoNkp4e5ifkxNLFYzzLxzAJCH76zNq2iQB''],
       cs_telemetry = Some [(TELEMETRY_URLS ! 0, 0), (TELEMETRY_URLS ! 1, 0)],
       cs_protocol_id = Some PROTOCOL_ID, cs_fork_id = None, cs_properties = token_properties,
       cs_extensions = Some \<lparr>relay_chain = ''westend'', para_id = PARA_ID\<rparr>\<rparr>)"

section \<open>Genesis configurations the pallets accept\<close>

definition genesis_balance :: "genesis_config \<Rightarrow> account_id \<Rightarrow> balance" where
  "genesis_balance g a = (case map_of (g_balances g) a of None \<Rightarrow> 0 | Some b \<Rightarrow> b)"

text \<open>
  Balances of distinct accounts at or above the existential deposit, with a total issuance that fits;
  stakes and vested amounts covered by balances; members, collators and their keys listed once and
  within the limits of their pallets; token balances and fee currencies of registered assets only;
  and a duster that has its accounts.
\<close>

lemmas genesis_limits = basilisk_elections_def basilisk_council_def basilisk_technical_committee_def DESIRED_MEMBERS_def
  COUNCIL_MAX_MEMBERS_def TECHNICAL_MAX_MEMBERS_def MAX_INVULNERABLES_def REGISTRY_STR_LIMIT_def

definition genesis_balances_ok :: "genesis_config \<Rightarrow> bool" where
  "genesis_balances_ok g \<longleftrightarrow>
     distinct (map fst (g_balances g)) \<and>
     list_all (\<lambda>(_, b). g_native_existential_deposit g \<le> b) (g_balances g) \<and>
     sum_list (map snd (g_balances g)) \<le> u128_max"

definition genesis_members_ok :: "genesis_config \<Rightarrow> bool" where
  "genesis_members_ok g \<longleftrightarrow>
     distinct (map fst (g_elections g)) \<and>
     list_all (\<lambda>(a, stake). stake \<le> genesis_balance g a) (g_elections g) \<and>
     distinct (g_council g) \<and> distinct (g_technical_committee g) \<and>
     distinct (g_invulnerables g) \<and> map fst (g_session_keys g) = g_invulnerables g \<and>
     list_all (\<lambda>(a, v, _). v = a) (g_session_keys g) \<and>
     length (g_elections g) \<le> ec_desired_members basilisk_elections \<and>
     length (g_council g) \<le> cc_max_members basilisk_council \<and>
     length (g_technical_committee g) \<le> cc_max_members basilisk_technical_committee \<and>
     length (g_invulnerables g) \<le> MAX_INVULNERABLES"

definition genesis_assets_ok :: "genesis_config \<Rightarrow> bool" where
  "genesis_assets_ok g \<longleftrightarrow>
     (let registered = (\<lambda>k. 1 \<le> k \<and> k \<le> length (g_asset_names g)) in
      distinct (map fst (g_asset_names g)) \<and>
      list_all (\<lambda>(name, _). length name \<le> REGISTRY_STR_LIMIT) (g_asset_names g) \<and>
      list_all (\<lambda>(a, k, _). registered k \<and> a \<in> fst ` set (g_balances g)) (g_tokens g) \<and>
      distinct (map (\<lambda>(a, k, _). (a, k)) (g_tokens g)) \<and>
      list_all (\<lambda>(k, _). registered k) (g_currencies g) \<and> distinct (map fst (g_currencies g)))"

definition genesis_vesting_ok :: "genesis_config \<Rightarrow> bool" where
  "genesis_vesting_ok g \<longleftrightarrow>
     distinct (map fst (g_vesting g)) \<and>
     list_all (\<lambda>(a, _, _, n, per_period). n * per_period \<le> genesis_balance g a) (g_vesting g)"

definition genesis_ok :: "genesis_config \<Rightarrow> bool" where
  "genesis_ok g \<longleftrightarrow> genesis_balances_ok g \<and> genesis_members_ok g \<and> genesis_assets_ok g \<and> genesis_vesting_ok g \<and>
     gen_reward_account (g_duster g) \<noteq> None \<and> gen_dust_account (g_duster g) \<noteq> None"

lemma genesis_ok_duster: "genesis_ok g \<Longrightarrow> \<exists>s'. duster_build (g_duster g) s = Some s'"
  by (auto simp: genesis_ok_def duster_build_def Let_def)

lemma map_of_constant: "map_of (map (\<lambda>k. (k, c)) xs) a = (if a \<in> set xs then Some c else None)"
  by (induction xs) auto

lemma distinct_paired_tokens:
  "distinct xs \<Longrightarrow> distinct (map (\<lambda>(a, k, _). (a, k)) (concat (map (\<lambda>x. [(x, 1::nat, c), (x, 2, c)]) xs)))"
  by (induction xs) auto

text \<open>The shape both testnet functions produce.\<close>

lemma testnet_genesis_ok:
  assumes "g_balances g = map (\<lambda>k. (k, c)) endowed" "distinct endowed" "length endowed * c \<le> u128_max"
    and "g_native_existential_deposit g \<le> c"
    and "g_elections g = concat (map (\<lambda>x. [(x, stake)]) elected)" "distinct elected" "set elected \<subseteq> set endowed" "stake \<le> c"
    and "g_invulnerables g = map fst authorities" "distinct (map fst authorities)"
    and "g_session_keys g = map (\<lambda>(acc, aura). (acc, acc, aura)) authorities"
    and "distinct (g_council g)" "distinct (g_technical_committee g)"
    and "length elected \<le> 1" "length (g_council g) \<le> 1" "length (g_technical_committee g) \<le> 10" "length authorities \<le> 10"
    and "g_tokens g = (if g_asset_names g = [] then [] else concat (map (\<lambda>x. [(x, 1, d), (x, 2, d)]) endowed))"
    and "g_asset_names g = [] \<and> g_currencies g = [] \<or>
         (\<exists>n1 n2 p1 p2. g_asset_names g = [n1, n2] \<and> fst n1 \<noteq> fst n2 \<and>
           length (fst n1) \<le> 32 \<and> length (fst n2) \<le> 32 \<and> g_currencies g = [(1, p1), (2, p2)])"
    and "distinct (map fst (g_vesting g))"
    and "list_all (\<lambda>(a, _, _, n, per_period). a \<in> set endowed \<and> n * per_period \<le> c) (g_vesting g)"
    and "gen_reward_account (g_duster g) \<noteq> None" "gen_dust_account (g_duster g) \<noteq> None"
  shows "genesis_ok g"
proof -
  have bal: "genesis_balance g a = (if a \<in> set endowed then c else 0)" for a
    using assms(1) by (simp add: genesis_balance_def map_of_constant)
  have "genesis_balances_ok g"
    using assms(1-4) by (simp add: genesis_balances_ok_def comp_def sum_list_triv list_all_iff)
  moreover have "genesis_members_ok g"
  proof -
    have el: "g_elections g = map (\<lambda>x. (x, stake)) elected" using assms(5) by (induction elected) auto
    then have "map fst (g_elections g) = elected" by (simp add: comp_def)
    then show ?thesis using assms(6-17) el
      by (auto simp: genesis_members_ok_def bal list_all_iff comp_def split_beta genesis_limits)
  qed
  moreover have "genesis_assets_ok g"
    using assms(1,2,18,19) distinct_paired_tokens [of endowed d]
    by (auto simp: genesis_assets_ok_def list_all_iff image_iff genesis_limits)
  moreover have "genesis_vesting_ok g"
    using assms(20,21) by (auto simp: genesis_vesting_ok_def bal list_all_iff)
  ultimately show ?thesis using assms(22,23) by (simp add: genesis_ok_def)
qed

lemma testnet_parachain_genesis_ok:
  assumes "get_account_id_from_seed E ''Duster'' = Some duster"
    and "distinct endowed" "length endowed \<le> 100" "distinct elected" "set elected \<subseteq> set endowed"
    and "distinct (map fst authorities)" "distinct council" "distinct committee"
    and "length elected \<le> 1" "length council \<le> 1" "length committee \<le> 10" "length authorities \<le> 10"
    and "assets = [] \<and> currencies = [] \<or>
         (\<exists>n1 n2 p1 p2. assets = [n1, n2] \<and> fst n1 \<noteq> fst n2 \<and>
           length (fst n1) \<le> 32 \<and> length (fst n2) \<le> 32 \<and> currencies = [(1, p1), (2, p2)])"
    and "distinct (map fst vesting)"
    and "list_all (\<lambda>(a, _, _, n, per_period). a \<in> set endowed \<and> n * per_period \<le> UNITS * 1000) vesting"
  shows "\<exists>g. testnet_parachain_genesis E wasm root authorities endowed p para council committee fees vesting assets currencies elected = Some g
      \<and> g_parachain_id g = para \<and> genesis_ok g"
    and "\<exists>g. testing_testnet_parachain_genesis E wasm root authorities endowed p para council committee fees vesting assets currencies elected = Some g
      \<and> g_parachain_id g = para \<and> genesis_ok g"
proof -
  have vest: "list_all (\<lambda>(a, _, _, n, per_period). a \<in> set endowed \<and> n * per_period \<le> c) vesting"
    if "UNITS * 1000 \<le> c" for c
    using assms(15) that by (auto simp: list_all_iff)
  have "length endowed * (1000000000000 * UNITS) \<le> 100 * (1000000000000 * UNITS)"
    using assms(3) by (rule mult_le_mono1)
  then have total: "length endowed * (1000000000000 * UNITS) \<le> u128_max" by (simp add: UNITS_def u128_max_def)
  then have total': "length endowed * (1000000000 * UNITS) \<le> u128_max"
    by (rule order_trans [rotated]) (simp add: UNITS_def)
  show "\<exists>g. testnet_parachain_genesis E wasm root authorities endowed p para council committee fees vesting assets currencies elected = Some g
      \<and> g_parachain_id g = para \<and> genesis_ok g"
    unfolding testnet_parachain_genesis_def using assms total' vest [of "1000000000 * UNITS"]
    by (auto intro!: testnet_genesis_ok [where c = "1000000000 * UNITS" and endowed = endowed
          and elected = elected and stake = "100000000 * UNITS" and authorities = authorities
          and d = "1000000000 * UNITS"] simp: NATIVE_EXISTENTIAL_DEPOSIT_def CENTS_def DOLLARS_def UNITS_def)
  show "\<exists>g. testing_testnet_parachain_genesis E wasm root authorities endowed p para council committee fees vesting assets currencies elected = Some g
      \<and> g_parachain_id g = para \<and> genesis_ok g"
    unfolding testing_testnet_parachain_genesis_def using assms total vest [of "1000000000000 * UNITS"]
    by (auto intro!: testnet_genesis_ok [where c = "1000000000000 * UNITS" and endowed = endowed
          and elected = elected and stake = "100000000 * UNITS" and authorities = authorities
          and d = "1000000000000 * UNITS"] simp: NATIVE_EXISTENTIAL_DEPOSIT_def CENTS_def DOLLARS_def UNITS_def)
qed

section \<open>What is assumed of keys, and the networks\<close>

definition dev_seeds :: "string list" where
  "dev_seeds = [''Alice'', ''Bob'', ''Charlie'', ''Dave'', ''Eve'', ''Ferdie'', ''Alice//stash'', ''Bob//stash'',
     ''Charlie//stash'', ''Dave//stash'', ''Eve//stash'', ''Ferdie//stash'', ''Duster'']"

definition spec_env_ok :: "spec_env \<Rightarrow> bool" where
  "spec_env_ok E \<longleftrightarrow>
     se_wasm_binary E \<noteq> None \<and> se_testing_wasm_binary E \<noteq> None \<and>
     list_all (\<lambda>s. get_account_id_from_seed E s \<noteq> None) dev_seeds \<and>
     distinct (map (get_account_id_from_seed E) dev_seeds) \<and>
     get_aura_from_seed E ''Alice'' \<noteq> None \<and> get_aura_from_seed E ''Bob'' \<noteq> None \<and>
     get_account_id_from_seed E ''Alice'' = Some 0xd43593c715fdd31c61141abd04a99fd6822c8558854ccde39a5684e7a56da27d \<and>
     get_account_id_from_seed E ''Bob'' = Some 0x8eaf04151687736326c9fea17e25fc5287613693c912909cb226aa4794f26a48 \<and>
     se_address E ''bXmPf7DcVmFuHEmzH3UX8t6AUkfNQW8pnTeXGhFhqbfngjAak''
       = Some 0xd43593c715fdd31c61141abd04a99fd6822c8558854ccde39a5684e7a56da27d \<and>
     se_address E ''bXjpVq9SMdXuP5mVmcYZC8kFWepMX3bRSxpNwdtaAXgsSxPwd''
       = Some 0x8eaf04151687736326c9fea17e25fc5287613693c912909cb226aa4794f26a48"

lemma spec_env_wasm:
  assumes "spec_env_ok E"
  obtains w tw where "se_wasm_binary E = Some w" "se_testing_wasm_binary E = Some tw"
  using assms by (auto simp: spec_env_ok_def)

lemma spec_env_duster:
  assumes "spec_env_ok E"
  obtains duster where "get_account_id_from_seed E ''Duster'' = Some duster"
  using assms by (auto simp: spec_env_ok_def dev_seeds_def)

definition alice_bob_vesting :: "vesting_entry list" where
  "alice_bob_vesting =
     [(0xd43593c715fdd31c61141abd04a99fd6822c8558854ccde39a5684e7a56da27d, 5, 1, 30, 100000000000),
      (0x8eaf04151687736326c9fea17e25fc5287613693c912909cb226aa4794f26a48, 5, 1, 30, 200000000000)]"

lemma spec_env_vesting:
  assumes "spec_env_ok E" shows "get_vesting_config_for_test E = Some alice_bob_vesting"
  using assms by (simp add: spec_env_ok_def get_vesting_config_for_test_def vesting_list_json_def alice_bob_vesting_def)

lemma spec_env_keys:
  assumes "spec_env_ok E"
  obtains charlie dave eve ferdie alice_stash bob_stash charlie_stash dave_stash eve_stash ferdie_stash duster alice_aura bob_aura
  where "get_account_id_from_seed E ''Charlie'' = Some charlie" "get_account_id_from_seed E ''Dave'' = Some dave"
    "get_account_id_from_seed E ''Eve'' = Some eve" "get_account_id_from_seed E ''Ferdie'' = Some ferdie"
    "get_account_id_from_seed E ''Alice//stash'' = Some alice_stash" "get_account_id_from_seed E ''Bob//stash'' = Some bob_stash"
    "get_account_id_from_seed E ''Charlie//stash'' = Some charlie_stash" "get_account_id_from_seed E ''Dave//stash'' = Some dave_stash"
    "get_account_id_from_seed E ''Eve//stash'' = Some eve_stash" "get_account_id_from_seed E ''Ferdie//stash'' = Some ferdie_stash"
    "get_account_id_from_seed E ''Duster'' = Some duster"
    "get_aura_from_seed E ''Alice'' = Some alice_aura" "get_aura_from_seed E ''Bob'' = Some bob_aura"
    "distinct [0xd43593c715fdd31c61141abd04a99fd6822c8558854ccde39a5684e7a56da27d,
       0x8eaf04151687736326c9fea17e25fc5287613693c912909cb226aa4794f26a48, charlie, dave, eve, ferdie, alice_stash, bob_stash,
       charlie_stash, dave_stash, eve_stash, ferdie_stash, duster]"
proof -
  from assms have known: "list_all (\<lambda>s. get_account_id_from_seed E s \<noteq> None) dev_seeds"
    and dist: "distinct (map (get_account_id_from_seed E) dev_seeds)"
    and aura: "get_aura_from_seed E ''Alice'' \<noteq> None" "get_aura_from_seed E ''Bob'' \<noteq> None"
    and ab: "get_account_id_from_seed E ''Alice'' = Some 0xd43593c715fdd31c61141abd04a99fd6822c8558854ccde39a5684e7a56da27d"
      "get_account_id_from_seed E ''Bob'' = Some 0x8eaf04151687736326c9fea17e25fc5287613693c912909cb226aa4794f26a48"
    unfolding spec_env_ok_def by blast+
  from known obtain c d e f as bs cs ds es fs du where acc:
      "get_account_id_from_seed E ''Charlie'' = Some c" "get_account_id_from_seed E ''Dave'' = Some d"
      "get_account_id_from_seed E ''Eve'' = Some e" "get_account_id_from_seed E ''Ferdie'' = Some f"
      "get_account_id_from_seed E ''Alice//stash'' = Some as" "get_account_id_from_seed E ''Bob//stash'' = Some bs"
      "get_account_id_from_seed E ''Charlie//stash'' = Some cs" "get_account_id_from_seed E ''Dave//stash'' = Some ds"
      "get_account_id_from_seed E ''Eve//stash'' = Some es" "get_account_id_from_seed E ''Ferdie//stash'' = Some fs"
      "get_account_id_from_seed E ''Duster'' = Some du"
    unfolding dev_seeds_def list.pred_inject not_None_eq by blast
  from aura obtain x y where "get_aura_from_seed E ''Alice'' = Some x" "get_aura_from_seed E ''Bob'' = Some y" by blast
  moreover have "distinct (map Some [0xd43593c715fdd31c61141abd04a99fd6822c8558854ccde39a5684e7a56da27d,
       0x8eaf04151687736326c9fea17e25fc5287613693c912909cb226aa4794f26a48, c, d, e, f, as, bs, cs, ds, es, fs, du])"
    using dist unfolding dev_seeds_def list.map acc ab .
  ultimately show thesis using acc by (intro that) (assumption | simp only: distinct_map)+
qed

definition network_ok :: "string + chain_spec \<Rightarrow> bool" where
  "network_ok r = (case r of
     Inr spec \<Rightarrow>
       (case cs_genesis spec of
          Factory (Some g) \<Rightarrow> genesis_ok g \<and> map_option para_id (extensions_try_get spec) = Some (g_parachain_id g)
        | _ \<Rightarrow> False)
   | Inl _ \<Rightarrow> False)"

lemma network_okI:
  assumes "r = Inr spec" "cs_genesis spec = Factory m" "extensions_try_get spec = Some x"
    and "\<exists>g. m = Some g \<and> g_parachain_id g = para_id x \<and> genesis_ok g"
  shows "network_ok r"
  using assms by (auto simp: network_ok_def)

lemma staging_network_ok:
  assumes "spec_env_ok E" shows "network_ok (kusama_staging_parachain_config E)"
proof -
  obtain w tw where w: "se_wasm_binary E = Some w" "se_testing_wasm_binary E = Some tw" using spec_env_wasm [OF assms] .
  show ?thesis
    by (simp add: w kusama_staging_parachain_config_def network_ok_def parachain_genesis_def genesis_ok_def
        genesis_balances_ok_def genesis_members_ok_def genesis_assets_ok_def genesis_vesting_ok_def genesis_balance_def
        extensions_try_get_def NATIVE_EXISTENTIAL_DEPOSIT_def CENTS_def DOLLARS_def UNITS_def u128_max_def genesis_limits)
qed

lemma published_networks_ok:
  assumes "spec_env_ok E"
  shows "network_ok (testnet_parachain_config E)"
    and "network_ok (rococo_parachain_config E)"
    and "network_ok (karura_testnet_parachain_config E)"
    and "network_ok (testing_moonbase_parachain_config E)"
proof -
  obtain w tw where w: "se_wasm_binary E = Some w" "se_testing_wasm_binary E = Some tw" using spec_env_wasm [OF assms] .
  obtain duster where duster: "get_account_id_from_seed E ''Duster'' = Some duster" using spec_env_duster [OF assms] .
  show "network_ok (testnet_parachain_config E)"
    unfolding testnet_parachain_config_def
    by (simp add: w, rule network_okI, rule refl, simp, simp add: extensions_try_get_def, simp,
        rule testnet_parachain_genesis_ok(1) [OF duster]) simp_all
  show "network_ok (rococo_parachain_config E)"
    unfolding rococo_parachain_config_def
    by (simp add: w, rule network_okI, rule refl, simp, simp add: extensions_try_get_def, simp,
        rule testnet_parachain_genesis_ok(1) [OF duster]) simp_all
  show "network_ok (karura_testnet_parachain_config E)"
    unfolding karura_testnet_parachain_config_def
    by (simp add: w, rule network_okI, rule refl, simp, simp add: extensions_try_get_def, simp,
        rule testnet_parachain_genesis_ok(1) [OF duster]) simp_all
  show "network_ok (testing_moonbase_parachain_config E)"
    unfolding testing_moonbase_parachain_config_def
    by (simp add: w, rule network_okI, rule refl, simp, simp add: extensions_try_get_def, simp,
        rule testnet_parachain_genesis_ok(2) [OF duster]) simp_all
qed

lemma k8s_network_ok:
  assumes "spec_env_ok E" shows "network_ok (testing_k8s_testnet_parachain_config E)"
proof -
  obtain w tw where w: "se_wasm_binary E = Some w" "se_testing_wasm_binary E = Some tw" using spec_env_wasm [OF assms] .
  obtain duster where duster: "get_account_id_from_seed E ''Duster'' = Some duster" using spec_env_duster [OF assms] .
  show ?thesis unfolding testing_k8s_testnet_parachain_config_def
    by (simp add: w spec_env_vesting [OF assms], rule network_okI, rule refl, simp, simp add: extensions_try_get_def, simp,
        rule testnet_parachain_genesis_ok(2) [OF duster]) (simp_all add: alice_bob_vesting_def UNITS_def)
qed

lemma seeded_networks_ok:
  assumes "spec_env_ok E"
  shows "network_ok (parachain_development_config E)"
    and "network_ok (benchmarks_development_config E)"
    and "network_ok (local_parachain_config E)"
    and "network_ok (testing_parachain_development_config E)"
    and "network_ok (testing_local_parachain_config E)"
proof -
  obtain w tw where w: "se_wasm_binary E = Some w" "se_testing_wasm_binary E = Some tw" using spec_env_wasm [OF assms] .
  obtain charlie dave eve ferdie alice_stash bob_stash charlie_stash dave_stash eve_stash ferdie_stash duster alice_aura bob_aura
    where keys: "get_account_id_from_seed E ''Charlie'' = Some charlie" "get_account_id_from_seed E ''Dave'' = Some dave"
      "get_account_id_from_seed E ''Eve'' = Some eve" "get_account_id_from_seed E ''Ferdie'' = Some ferdie"
      "get_account_id_from_seed E ''Alice//stash'' = Some alice_stash" "get_account_id_from_seed E ''Bob//stash'' = Some bob_stash"
      "get_account_id_from_seed E ''Charlie//stash'' = Some charlie_stash" "get_account_id_from_seed E ''Dave//stash'' = Some dave_stash"
      "get_account_id_from_seed E ''Eve//stash'' = Some eve_stash" "get_account_id_from_seed E ''Ferdie//stash'' = Some ferdie_stash"
      "get_account_id_from_seed E ''Duster'' = Some duster"
      "get_aura_from_seed E ''Alice'' = Some alice_aura" "get_aura_from_seed E ''Bob'' = Some bob_aura"
    and dist: "distinct [0xd43593c715fdd31c61141abd04a99fd6822c8558854ccde39a5684e7a56da27d,
       0x8eaf04151687736326c9fea17e25fc5287613693c912909cb226aa4794f26a48, charlie, dave, eve, ferdie, alice_stash, bob_stash,
       charlie_stash, dave_stash, eve_stash, ferdie_stash, duster]"
    using spec_env_keys [OF assms] .
  have ab: "get_account_id_from_seed E ''Alice'' = Some 0xd43593c715fdd31c61141abd04a99fd6822c8558854ccde39a5684e7a56da27d"
    "get_account_id_from_seed E ''Bob'' = Some 0x8eaf04151687736326c9fea17e25fc5287613693c912909cb226aa4794f26a48"
    using assms unfolding spec_env_ok_def by blast+
  note known = w keys ab spec_env_vesting [OF assms]
  show "network_ok (parachain_development_config E)" unfolding parachain_development_config_def
    by (simp add: known, rule network_okI, rule refl, simp, simp add: extensions_try_get_def, simp,
        rule testnet_parachain_genesis_ok(1) [OF keys(11)]) (use dist in \<open>simp_all add: alice_bob_vesting_def UNITS_def\<close>)
  show "network_ok (benchmarks_development_config E)" unfolding benchmarks_development_config_def
    by (simp add: known, rule network_okI, rule refl, simp, simp add: extensions_try_get_def, simp,
        rule testnet_parachain_genesis_ok(1) [OF keys(11)]) (use dist in \<open>simp_all add: alice_bob_vesting_def UNITS_def\<close>)
  show "network_ok (local_parachain_config E)" unfolding local_parachain_config_def
    by (simp add: known, rule network_okI, rule refl, simp, simp add: extensions_try_get_def, simp,
        rule testnet_parachain_genesis_ok(1) [OF keys(11)]) (use dist in \<open>simp_all add: alice_bob_vesting_def UNITS_def\<close>)
  show "network_ok (testing_parachain_development_config E)" unfolding testing_parachain_development_config_def
    by (simp add: known, rule network_okI, rule refl, simp, simp add: extensions_try_get_def, simp,
        rule testnet_parachain_genesis_ok(2) [OF keys(11)]) (use dist in \<open>simp_all add: alice_bob_vesting_def UNITS_def\<close>)
  show "network_ok (testing_local_parachain_config E)" unfolding testing_local_parachain_config_def
    by (simp add: known, rule network_okI, rule refl, simp, simp add: extensions_try_get_def, simp,
        rule testnet_parachain_genesis_ok(2) [OF keys(11)]) (use dist in \<open>simp_all add: alice_bob_vesting_def UNITS_def\<close>)
qed

text \<open>
  The account the staging network gives to treasury and duster is the one derived from the pallet
  identifier of the treasury: the prefix of pallet accounts, the identifier, and zeros.
\<close>

lemma staging_duster_is_treasury:
  "gen_dust_account (g_duster (parachain_genesis w root auth endowed p para fees)) =
     Some (from_le_bytes (rev (map of_char (''modl'' @ TREASURY_PALLET_ID) @ replicate 20 0)))"
proof -
  have zeros: "replicate 20 (0::nat) = [0, 0, 0, 0, 0, 0, 0, 0, 0, 0, 0, 0, 0, 0, 0, 0, 0, 0, 0, 0]" by code_simp
  show ?thesis unfolding zeros by (simp add: parachain_genesis_def TREASURY_PALLET_ID_def of_char_def)
qed

text \<open>An environment that meets the assumptions: a table of keys.\<close>

definition demo_keys :: "string \<rightharpoonup> nat" where
  "demo_keys = map_of
     [(''//Alice'', 0xd43593c715fdd31c61141abd04a99fd6822c8558854ccde39a5684e7a56da27d),
      (''//Bob'', 0x8eaf04151687736326c9fea17e25fc5287613693c912909cb226aa4794f26a48),
      (''//Charlie'', 3), (''//Dave'', 4), (''//Eve'', 5), (''//Ferdie'', 6), (''//Alice//stash'', 11), (''//Bob//stash'', 12),
      (''//Charlie//stash'', 13), (''//Dave//stash'', 14), (''//Eve//stash'', 15), (''//Ferdie//stash'', 16), (''//Duster'', 7)]"

definition demo_spec_env :: spec_env where
  "demo_spec_env = \<lparr>
     se_wasm_binary = Some [0, 97, 115, 109], se_testing_wasm_binary = Some [0, 97, 115, 110],
     se_public = demo_keys, se_aura_public = demo_keys, se_into_account = id,
     se_address = map_of
       [(''bXmPf7DcVmFuHEmzH3UX8t6AUkfNQW8pnTeXGhFhqbfngjAak'', 0xd43593c715fdd31c61141abd04a99fd6822c8558854ccde39a5684e7a56da27d),
        (''bXjpVq9SMdXuP5mVmcYZC8kFWepMX3bRSxpNwdtaAXgsSxPwd'', 0x8eaf04151687736326c9fea17e25fc5287613693c912909cb226aa4794f26a48)],
     se_price_from_float = (\<lambda>(n, d). n * 10 ^ 18 div d),
     se_from_json_bytes = (\<lambda>_. Inl ''no specification''),
     se_from_json_file = (\<lambda>path. Inl ''no such file''),
     se_testing_from_json_file = (\<lambda>path. Inl ''no such file'')\<rparr>"

lemma demo_spec_env_ok: "spec_env_ok demo_spec_env"
  by (simp add: spec_env_ok_def demo_spec_env_def dev_seeds_def get_account_id_from_seed_def get_from_seed_def
      get_aura_from_seed_def demo_keys_def)

end
