(* ===== verification/Node.thy ===== *)
theory Node
  imports Chain_Spec "HOL-Library.Sublist"
begin

text \<open>
  The node binary: the runtime option and the relay chain arguments (\<open>node/src/cli.rs\<close>), loading of
  chain specifications, the subcommands (\<open>node/src/command.rs\<close>), and which client is built and started
  (\<open>node/src/service.rs\<close>, \<open>node/src/client.rs\<close>).

  Outside the repository, in \<open>node_env\<close>: the process (executable name, features), the runner of the
  command line library, the generation of a genesis block, and the parts of the service; a part that
  fails yields its message. A panic is the error \<open>Panic\<close>.

  Shown: every built-in network loads and has an acceptable genesis; when the two loaders of the code
  agree; for which networks the runtime is recognised; what the export commands write; in which
  order a node starts.
\<close>

section \<open>The runtime option\<close>

datatype runtime_instance = Basilisk | Testing

definition runtime_variants :: "string list" where
  "runtime_variants = [''basilisk'', ''testing'']"

definition instance_is_testing :: "runtime_instance \<Rightarrow> bool" where
  "instance_is_testing r = (case r of Basilisk \<Rightarrow> False | Testing \<Rightarrow> True)"

definition instance_fmt :: "runtime_instance \<Rightarrow> string" where
  "instance_fmt r = (case r of Basilisk \<Rightarrow> ''basilisk'' | Testing \<Rightarrow> ''testing'')"

definition default_instance :: runtime_instance where
  "default_instance = Basilisk"

text \<open>Lower case of the ASCII letters; other characters stay.\<close>

definition lower_char :: "char \<Rightarrow> char" where
  "lower_char c = (let k = of_char c :: nat in if 65 \<le> k \<and> k \<le> 90 then char_of (k + 32) else c)"

definition to_lowercase :: "string \<Rightarrow> string" where
  "to_lowercase s = map lower_char s"

definition instance_from_str :: "string \<Rightarrow> string + runtime_instance" where
  "instance_from_str input =
     (let input_lower = to_lowercase input in
      if input_lower = ''testing'' then Inr Testing
      else if input_lower = ''basilisk'' \<or> input_lower = '''' then Inr Basilisk
      else Inl (''Invalid variant: `'' @ input_lower @ ''`''))"

definition instance_error_fmt :: "string \<Rightarrow> string" where
  "instance_error_fmt message = ''RuntimeInstanceError: '' @ message"

section \<open>The command line\<close>

record export_params =
  ex_output :: "string option"
  ex_parachain_id :: nat
  ex_raw :: bool
  ex_chain :: "string option"
  ex_runtime :: runtime_instance

record export_wasm_params =
  ew_output :: "string option"
  ew_raw :: bool
  ew_chain :: "string option"
  ew_runtime :: runtime_instance

datatype subcommand =
    BuildSpec | CheckBlock | ExportBlocks | ExportState | ImportBlocks | PurgeChain | Revert | Benchmark
  | ExportGenesisState export_params | ExportGenesisWasm export_wasm_params | TryRuntime

text \<open>The chain option and the relay chain arguments are kept as the library parsed them.\<close>

record cli =
  cli_subcommand :: "subcommand option"
  cli_chain :: string
  cli_runtime :: runtime_instance
  cli_relaychain_chain :: string
  cli_relaychain_base_path :: "string option"

datatype role = Full | Light | Authority

record configuration =
  cf_chain_spec :: chain_spec
  cf_role :: role
  cf_base_path :: "string option"
  cf_keystore_in_memory :: bool

record relay_chain_cli =
  rc_base_chain_id :: string
  rc_base_base_path :: "string option"
  rc_chain_id :: "string option"
  rc_base_path :: "string option"

definition relay_chain_cli_new :: "configuration \<Rightarrow> cli \<Rightarrow> relay_chain_cli" where
  "relay_chain_cli_new para_config args =
     (let extension = extensions_try_get (cf_chain_spec para_config) in
      \<lparr>rc_base_chain_id = cli_relaychain_chain args, rc_base_base_path = cli_relaychain_base_path args,
       rc_chain_id = map_option relay_chain extension,
       rc_base_path = map_option (\<lambda>x. x @ ''/polkadot'') (cf_base_path para_config)\<rparr>)"

definition relay_chain_id :: "relay_chain_cli \<Rightarrow> string" where
  "relay_chain_id c =
     (let chain_id = rc_base_chain_id c in
      if chain_id = '''' then (case rc_chain_id c of Some r \<Rightarrow> r | None \<Rightarrow> '''') else chain_id)"

definition relay_base_path :: "relay_chain_cli \<Rightarrow> string option" where
  "relay_base_path c = (case rc_base_base_path c of Some p \<Rightarrow> Some p | None \<Rightarrow> rc_base_path c)"

definition relay_p2p_listen_port :: nat where "relay_p2p_listen_port = 30334"
definition relay_rpc_ws_listen_port :: nat where "relay_rpc_ws_listen_port = 9945"
definition relay_rpc_http_listen_port :: nat where "relay_rpc_http_listen_port = 9934"
definition relay_prometheus_listen_port :: nat where "relay_prometheus_listen_port = 9616"

section \<open>Versions and clients\<close>

record runtime_version =
  rv_spec_name :: string
  rv_impl_name :: string
  rv_authoring_version :: nat
  rv_spec_version :: nat
  rv_impl_version :: nat
  rv_transaction_version :: nat
  rv_state_version :: nat

definition BASILISK_VERSION :: runtime_version where
  "BASILISK_VERSION = \<lparr>rv_spec_name = ''basilisk'', rv_impl_name = ''basilisk'', rv_authoring_version = 1,
     rv_spec_version = 47, rv_impl_version = 0, rv_transaction_version = 1, rv_state_version = 0\<rparr>"

definition TESTING_VERSION :: runtime_version where
  "TESTING_VERSION = \<lparr>rv_spec_name = ''testing-basilisk'', rv_impl_name = ''testing-basilisk'', rv_authoring_version = 1,
     rv_spec_version = 47, rv_impl_version = 0, rv_transaction_version = 1, rv_state_version = 0\<rparr>"

datatype client = BasiliskClient | TestingBasiliskClient

datatype node_error = Message string | Panic string

datatype service_part =
    PartialComponents | RelayChainInterface | BuildNetwork | SpawnTasks | BuildConsensus | StartCollator
  | StartFullNode | StartNetwork

record node_env =
  ne_spec :: spec_env
  ne_exec_name :: "string option"
  ne_runtime_benchmarks :: bool
  ne_try_runtime :: bool
  ne_create_runner :: "(string \<Rightarrow> string + chain_spec) \<Rightarrow> cli \<Rightarrow> string + configuration"
  ne_relay_configuration :: "relay_chain_cli \<Rightarrow> string + unit"
  ne_state_version :: "runtime_version \<Rightarrow> nat"
  ne_genesis_header :: "chain_spec \<Rightarrow> nat \<Rightarrow> string + byte list"
  ne_genesis_code :: "chain_spec \<Rightarrow> string + byte list option"
  ne_hex :: "byte list \<Rightarrow> string"
  ne_service :: "client \<Rightarrow> service_part \<Rightarrow> configuration \<Rightarrow> string + unit"

definition is_basilisk_runtime :: "chain_spec \<Rightarrow> bool" where
  "is_basilisk_runtime spec \<longleftrightarrow>
     prefix ''basilisk'' (to_lowercase (cs_name spec)) \<or> prefix ''bsx'' (to_lowercase (cs_name spec))"

definition is_testing_runtime :: "chain_spec \<Rightarrow> bool" where
  "is_testing_runtime spec \<longleftrightarrow> prefix ''test'' (to_lowercase (cs_name spec))"

definition native_runtime_version :: "chain_spec \<Rightarrow> runtime_version" where
  "native_runtime_version spec = (if is_testing_runtime spec then TESTING_VERSION else BASILISK_VERSION)"

section \<open>Loading a specification\<close>

definition load_spec :: "node_env \<Rightarrow> string \<Rightarrow> bool \<Rightarrow> string + chain_spec" where
  "load_spec N id_text is_testing =
     (let E = ne_spec N in
      if is_testing then
        (if id_text = ''dev'' then testing_parachain_development_config E
         else if id_text = ''local'' then testing_local_parachain_config E
         else if id_text = ''testnet-k8s'' then testing_k8s_testnet_parachain_config E
         else if id_text = ''moonbase'' then testing_moonbase_parachain_config E
         else se_testing_from_json_file E id_text)
      else
        (if id_text = '''' then basilisk_parachain_config E
         else if id_text = ''dev'' then parachain_development_config E
         else if id_text = ''benchmarks'' then benchmarks_development_config E
         else if id_text = ''testnet'' then testnet_parachain_config E
         else if id_text = ''rococo'' then rococo_parachain_config E
         else if id_text = ''local'' then local_parachain_config E
         else if id_text = ''staging'' then kusama_staging_parachain_config E
         else if id_text = ''karura-testnet'' then karura_testnet_parachain_config E
         else se_from_json_file E id_text))"

definition get_exec_name :: "node_env \<Rightarrow> string option" where
  "get_exec_name N = ne_exec_name N"

definition testing_selected :: "node_env \<Rightarrow> runtime_instance \<Rightarrow> bool" where
  "testing_selected N r =
     (if prefix ''testing'' (case get_exec_name N of Some n \<Rightarrow> n | None \<Rightarrow> '''') then True else instance_is_testing r)"

definition cli_load_spec :: "node_env \<Rightarrow> cli \<Rightarrow> string \<Rightarrow> string + chain_spec" where
  "cli_load_spec N c id_arg =
     (let E = ne_spec N;
          id_text = (if id_arg = '''' then ''basilisk'' else id_arg);
          is_testing_runtime = testing_selected N (cli_runtime c)
      in
      if is_testing_runtime then
        (if id_text = ''dev'' then testing_parachain_development_config E
         else if id_text = ''local'' then testing_local_parachain_config E
         else if id_text = ''testnet-k8s'' then testing_k8s_testnet_parachain_config E
         else if id_text = ''moonbase'' then testing_moonbase_parachain_config E
         else se_testing_from_json_file E id_text)
      else
        (if id_text = ''basilisk'' then basilisk_parachain_config E
         else if id_text = ''dev'' then parachain_development_config E
         else if id_text = ''benchmarks'' then benchmarks_development_config E
         else if id_text = ''testnet'' then testnet_parachain_config E
         else if id_text = ''local'' then local_parachain_config E
         else if id_text = ''staging'' then kusama_staging_parachain_config E
         else if id_text = ''rococo'' then rococo_parachain_config E
         else if id_text = ''karura-testnet'' then karura_testnet_parachain_config E
         else se_from_json_file E id_text))"

section \<open>The service\<close>

definition part :: "node_env \<Rightarrow> client \<Rightarrow> configuration \<Rightarrow> service_part \<Rightarrow> node_error + unit" where
  "part N c config p = map_err Message (ne_service N c p config)"

definition new_partial :: "node_env \<Rightarrow> configuration \<Rightarrow> node_error + client \<times> configuration" where
  "new_partial N config_in =
     (let config = config_in\<lparr>cf_keystore_in_memory := True\<rparr> in
      if is_testing_runtime (cf_chain_spec config) then
        and_then (part N TestingBasiliskClient config PartialComponents) (\<lambda>_. Inr (TestingBasiliskClient, config))
      else
        and_then (part N BasiliskClient config PartialComponents) (\<lambda>_. Inr (BasiliskClient, config)))"

text \<open>The result lists the parts that were put to work, in their order.\<close>

definition start_node_impl :: "node_env \<Rightarrow> client \<Rightarrow> configuration \<Rightarrow> node_error + service_part list" where
  "start_node_impl N c parachain_config =
     (if cf_role parachain_config = Light then Inl (Message ''Light client not supported!'')
      else
        and_then (part N c parachain_config PartialComponents) (\<lambda>_.
        and_then (part N c parachain_config RelayChainInterface) (\<lambda>_.
        let validator = (cf_role parachain_config = Authority) in
        and_then (part N c parachain_config BuildNetwork) (\<lambda>_.
        and_then (part N c parachain_config SpawnTasks) (\<lambda>_.
        and_then
          (if validator then
             and_then (part N c parachain_config BuildConsensus) (\<lambda>_.
             and_then (part N c parachain_config StartCollator) (\<lambda>_. Inr [BuildConsensus, StartCollator]))
           else and_then (part N c parachain_config StartFullNode) (\<lambda>_. Inr [StartFullNode]))
          (\<lambda>started.
             Inr ([PartialComponents, RelayChainInterface, BuildNetwork, SpawnTasks] @ started @ [StartNetwork])))))))"

definition start_node :: "node_env \<Rightarrow> configuration \<Rightarrow> node_error + client \<times> service_part list" where
  "start_node N parachain_config =
     (if is_testing_runtime (cf_chain_spec parachain_config)
      then and_then (start_node_impl N TestingBasiliskClient parachain_config) (\<lambda>ps. Inr (TestingBasiliskClient, ps))
      else and_then (start_node_impl N BasiliskClient parachain_config) (\<lambda>ps. Inr (BasiliskClient, ps)))"

section \<open>The commands\<close>

definition unwrap_or_default :: "string option \<Rightarrow> string" where
  "unwrap_or_default s = (case s of Some x \<Rightarrow> x | None \<Rightarrow> '''')"

definition extract_genesis_wasm :: "node_env \<Rightarrow> chain_spec \<Rightarrow> string + byte list" where
  "extract_genesis_wasm N spec =
     and_then (ne_genesis_code N spec) (\<lambda>code. ok_or code ''Could not find wasm file in genesis state!'')"

definition hex_text :: "node_env \<Rightarrow> byte list \<Rightarrow> byte list" where
  "hex_text N bs = map of_char (''0x'' @ ne_hex N bs)"

datatype outcome =
    SpecBuilt chain_spec
  | ClientCommand subcommand client configuration
  | ChainPurged configuration relay_chain_cli
  | Benchmarked configuration
  | Written "string option" "byte list"
  | RuntimeTried configuration
  | NodeStarted client nat relay_chain_cli "byte list" "service_part list"

definition run_export_genesis_state :: "node_env \<Rightarrow> export_params \<Rightarrow> node_error + outcome" where
  "run_export_genesis_state N params =
     (let is_testing_runtime = testing_selected N (ex_runtime params) in
      map_err Message
       (and_then (load_spec N (unwrap_or_default (ex_chain params)) False) (\<lambda>spec.
        let state_version = ne_state_version N (native_runtime_version spec) in
        and_then (load_spec N (unwrap_or_default (ex_chain params)) is_testing_runtime) (\<lambda>chosen.
        and_then (ne_genesis_header N chosen state_version) (\<lambda>raw_header.
        let output_buf = (if ex_raw params then raw_header else hex_text N raw_header) in
        Inr (Written (ex_output params) output_buf))))))"

definition run_export_genesis_wasm :: "node_env \<Rightarrow> export_wasm_params \<Rightarrow> node_error + outcome" where
  "run_export_genesis_wasm N params =
     (let is_testing_runtime = testing_selected N (ew_runtime params) in
      map_err Message
       (and_then (load_spec N (unwrap_or_default (ew_chain params)) is_testing_runtime) (\<lambda>spec.
        and_then (extract_genesis_wasm N spec) (\<lambda>raw_wasm_blob.
        let output_buf = (if ew_raw params then raw_wasm_blob else hex_text N raw_wasm_blob) in
        Inr (Written (ew_output params) output_buf)))))"

definition create_runner :: "node_env \<Rightarrow> cli \<Rightarrow> node_error + configuration" where
  "create_runner N c = map_err Message (ne_create_runner N (cli_load_spec N c) c)"

definition relay_configuration :: "node_env \<Rightarrow> relay_chain_cli \<Rightarrow> node_error + unit" where
  "relay_configuration N relay =
     map_err (\<lambda>err. Message (''Relay chain argument error: '' @ err)) (ne_relay_configuration N relay)"

definition run_node :: "node_env \<Rightarrow> cli \<Rightarrow> node_error + outcome" where
  "run_node N c =
     and_then (create_runner N c) (\<lambda>config.
     if ne_runtime_benchmarks N \<and> cf_role config = Authority
     then Inl (Message ''It is not allowed to run a collator node with the benchmarking runtime.'')
     else
       (case extensions_try_get (cf_chain_spec config) of
          None \<Rightarrow> Inl (Panic ''Could not find parachain ID in chain-spec.'')
        | Some e \<Rightarrow>
            let polkadot_cli = relay_chain_cli_new config c;
                state_version = ne_state_version N (native_runtime_version (cf_chain_spec config))
            in
            and_then (map_err Message (ne_genesis_header N (cf_chain_spec config) state_version)) (\<lambda>header.
            and_then (relay_configuration N polkadot_cli) (\<lambda>_.
            and_then (start_node N config) (\<lambda>(cl, parts).
            Inr (NodeStarted cl (para_id e) polkadot_cli header parts))))))"

definition run_with_client :: "node_env \<Rightarrow> cli \<Rightarrow> subcommand \<Rightarrow> node_error + outcome" where
  "run_with_client N c cmd =
     and_then (create_runner N c) (\<lambda>config.
     and_then (new_partial N config) (\<lambda>(cl, config). Inr (ClientCommand cmd cl config)))"

definition run :: "node_env \<Rightarrow> cli \<Rightarrow> node_error + outcome" where
  "run N c =
     (case cli_subcommand c of
        None \<Rightarrow> run_node N c
      | Some cmd \<Rightarrow>
       (case cmd of
          BuildSpec \<Rightarrow> and_then (create_runner N c) (\<lambda>config. Inr (SpecBuilt (cf_chain_spec config)))
        | CheckBlock \<Rightarrow> run_with_client N c CheckBlock
        | ExportBlocks \<Rightarrow> run_with_client N c ExportBlocks
        | ExportState \<Rightarrow> run_with_client N c ExportState
        | ImportBlocks \<Rightarrow> run_with_client N c ImportBlocks
        | PurgeChain \<Rightarrow>
            and_then (create_runner N c) (\<lambda>config.
            let polkadot_cli = relay_chain_cli_new config c in
            and_then (relay_configuration N polkadot_cli) (\<lambda>_. Inr (ChainPurged config polkadot_cli)))
        | Revert \<Rightarrow> run_with_client N c Revert
        | Benchmark \<Rightarrow>
            if ne_runtime_benchmarks N then and_then (create_runner N c) (\<lambda>config. Inr (Benchmarked config))
            else Inl (Message (''Benchmarking wasn'' @ [CHR 0x27] @
              ''t enabled when building the node. You can enable it with `--features runtime-benchmarks`.''))
        | ExportGenesisState params \<Rightarrow> run_export_genesis_state N params
        | ExportGenesisWasm params \<Rightarrow> run_export_genesis_wasm N params
        | TryRuntime \<Rightarrow>
            if ne_try_runtime N then and_then (create_runner N c) (\<lambda>config. Inr (RuntimeTried config))
            else Inl (Message (''TryRuntime wasn'' @ [CHR 0x27] @
              ''t enabled when building the node. You can enable it with `--features try-runtime`.''))))"

section \<open>The runtime option and the relay chain\<close>

lemma to_lowercase_simps [simp]:
  "to_lowercase [] = []" "to_lowercase (c # cs) = lower_char c # to_lowercase cs"
  by (simp_all add: to_lowercase_def)

lemma to_lowercase_idem: "to_lowercase (to_lowercase s) = to_lowercase s"
proof -
  have "lower_char (lower_char c) = lower_char c" for c
    by (auto simp: lower_char_def Let_def)
  then show ?thesis by (simp add: to_lowercase_def)
qed

lemma instance_from_str_case: "to_lowercase s = to_lowercase t \<Longrightarrow> instance_from_str s = instance_from_str t"
  by (simp add: instance_from_str_def)

lemma instance_round_trip: "instance_from_str (instance_fmt r) = Inr r \<and> instance_fmt r \<in> set runtime_variants"
  by (cases r) (simp_all add: instance_fmt_def instance_from_str_def runtime_variants_def lower_char_def Let_def)

lemma instance_from_str_fails:
  "(\<exists>e. instance_from_str s = Inl e) \<longleftrightarrow> to_lowercase s \<notin> insert '''' (set runtime_variants)"
  by (auto simp: instance_from_str_def runtime_variants_def Let_def)

lemma relay_chain_id_new:
  "relay_chain_id (relay_chain_cli_new config c) =
     (if cli_relaychain_chain c \<noteq> '''' then cli_relaychain_chain c
      else case extensions_try_get (cf_chain_spec config) of Some e \<Rightarrow> relay_chain e | None \<Rightarrow> '''')"
  by (auto simp: relay_chain_id_def relay_chain_cli_new_def Let_def split: option.splits)

section \<open>The built-in networks\<close>

definition builtin_networks :: "bool \<Rightarrow> string list" where
  "builtin_networks is_testing =
     (if is_testing then [''dev'', ''local'', ''testnet-k8s'', ''moonbase'']
      else [''dev'', ''benchmarks'', ''testnet'', ''rococo'', ''local'', ''staging'', ''karura-testnet''])"

lemma load_spec_network_ok:
  assumes "spec_env_ok (ne_spec N)" "i \<in> set (builtin_networks t)"
  shows "network_ok (load_spec N i t)"
proof (cases t)
  case True
  with assms(2) have "i \<in> {''dev'', ''local'', ''testnet-k8s'', ''moonbase''}" by (simp add: builtin_networks_def)
  with True show ?thesis
    using seeded_networks_ok [OF assms(1)] k8s_network_ok [OF assms(1)] published_networks_ok [OF assms(1)]
    by (auto simp: load_spec_def)
next
  case False
  with assms(2) have "i \<in> {''dev'', ''benchmarks'', ''testnet'', ''rococo'', ''local'', ''staging'', ''karura-testnet''}"
    by (simp add: builtin_networks_def)
  with False show ?thesis
    using seeded_networks_ok [OF assms(1)] staging_network_ok [OF assms(1)] published_networks_ok [OF assms(1)]
    by (auto simp: load_spec_def)
qed

lemma cli_load_spec_eq:
  assumes "i \<noteq> ''''" "i \<noteq> ''basilisk''"
  shows "cli_load_spec N c i = load_spec N i (testing_selected N (cli_runtime c))"
  using assms by (auto simp: cli_load_spec_def load_spec_def Let_def)

lemma builtin_not_default: "i \<in> set (builtin_networks t) \<Longrightarrow> i \<noteq> '''' \<and> i \<noteq> ''basilisk''"
  by (auto simp: builtin_networks_def split: if_splits)


definition demo_node :: "string option \<Rightarrow> node_env" where
  "demo_node exec = \<lparr>
     ne_spec = demo_spec_env, ne_exec_name = exec, ne_runtime_benchmarks = False, ne_try_runtime = False,
     ne_create_runner = (\<lambda>load c. and_then (load (cli_chain c)) (\<lambda>spec.
       Inr \<lparr>cf_chain_spec = spec, cf_role = Authority, cf_base_path = Some ''/data'', cf_keystore_in_memory = False\<rparr>)),
     ne_relay_configuration = (\<lambda>_. Inr ()), ne_state_version = rv_state_version,
     ne_genesis_header = (\<lambda>spec v. Inr (map of_char (cs_id spec) @ [v])),
     ne_genesis_code = (\<lambda>spec. Inr (case cs_genesis spec of Factory (Some g) \<Rightarrow> Some (g_code g) | _ \<Rightarrow> None)),
     ne_hex = map char_of, ne_service = (\<lambda>_ _ _. Inr ())\<rparr>"

definition demo_cli :: "string \<Rightarrow> runtime_instance \<Rightarrow> cli" where
  "demo_cli chain r = \<lparr>cli_subcommand = None, cli_chain = chain, cli_runtime = r, cli_relaychain_chain = '''',
     cli_relaychain_base_path = None\<rparr>"

lemma demo_node_simps [simp]:
  "ne_spec (demo_node x) = demo_spec_env" "ne_exec_name (demo_node x) = x"
  "cli_runtime (demo_cli i r) = r" "cli_chain (demo_cli i r) = i"
  by (simp_all add: demo_node_def demo_cli_def)


section \<open>The two loaders\<close>

text \<open>
The loader of the command line and the loader of the export commands return the same for every
chain except two spellings: with the main runtime the command line reads both the empty name and
"basilisk" as the embedded network, while the export commands take "basilisk" for the path of a file;
with the testing runtime neither knows a default network, and the empty name is read as the file
"basilisk" by the one and as the file with the empty name by the other.
\<close>

lemma loaders_agree:
  "(i \<notin> {'''', ''basilisk''} \<longrightarrow> cli_load_spec N c i = load_spec N i (testing_selected N (cli_runtime c))) \<and>
   (\<not> testing_selected N (cli_runtime c) \<longrightarrow>
      cli_load_spec N c '''' = load_spec N '''' False \<and> cli_load_spec N c ''basilisk'' = load_spec N '''' False \<and>
      load_spec N ''basilisk'' False = se_from_json_file (ne_spec N) ''basilisk'') \<and>
   (testing_selected N (cli_runtime c) \<longrightarrow>
      cli_load_spec N c '''' = se_testing_from_json_file (ne_spec N) ''basilisk'' \<and>
      load_spec N '''' True = se_testing_from_json_file (ne_spec N) '''')"
  using cli_load_spec_eq [of i N c] by (simp add: cli_load_spec_def load_spec_def Let_def)

theorem loaders_agree_witness:
  "cli_load_spec (demo_node None) (demo_cli ''moonbase'' Testing) ''moonbase'' = load_spec (demo_node None) ''moonbase'' True \<and>
   load_spec (demo_node None) ''basilisk'' False = Inl ''no such file''"
  using loaders_agree [of "''moonbase''" "demo_node None" "demo_cli ''moonbase'' Testing"]
    loaders_agree [of "''moonbase''" "demo_node None" "demo_cli ''moonbase'' Basilisk"]
  by (simp add: testing_selected_def get_exec_name_def instance_is_testing_def demo_spec_env_def)

section \<open>Which runtime a specification is taken for\<close>

lemma config_names:
  "kusama_staging_parachain_config E = Inr spec \<Longrightarrow> cs_name spec = ''Basilisk''"
  "testnet_parachain_config E = Inr spec \<Longrightarrow> cs_name spec = ''Basilisk Egg''"
  "parachain_development_config E = Inr spec \<Longrightarrow> cs_name spec = ''Basilisk Development''"
  "rococo_parachain_config E = Inr spec \<Longrightarrow> cs_name spec = ''Basilisk testnet''"
  "karura_testnet_parachain_config E = Inr spec \<Longrightarrow> cs_name spec = ''Basilisk testnet''"
  "benchmarks_development_config E = Inr spec \<Longrightarrow> cs_name spec = ''Basilisk Benchmarks''"
  "local_parachain_config E = Inr spec \<Longrightarrow> cs_name spec = ''Basilisk Local Testnet''"
  "testing_parachain_development_config E = Inr spec \<Longrightarrow> cs_name spec = ''Testing Basilisk Development''"
  "testing_local_parachain_config E = Inr spec \<Longrightarrow> cs_name spec = ''Testing Basilisk Local Testnet''"
  "testing_k8s_testnet_parachain_config E = Inr spec \<Longrightarrow> cs_name spec = ''Basilisk testnet''"
  "testing_moonbase_parachain_config E = Inr spec \<Longrightarrow> cs_name spec = ''Basilisk testnet''"
  by (auto simp: kusama_staging_parachain_config_def
      testnet_parachain_config_def
      parachain_development_config_def
      rococo_parachain_config_def
      karura_testnet_parachain_config_def
      benchmarks_development_config_def
      local_parachain_config_def
      testing_parachain_development_config_def
      testing_local_parachain_config_def
      testing_k8s_testnet_parachain_config_def
      testing_moonbase_parachain_config_def)

lemma builtin_names:
  assumes "load_spec N i t = Inr spec" "i \<in> set (builtin_networks t)"
  shows "t \<and> i \<notin> {''testnet-k8s'', ''moonbase''} \<Longrightarrow>
      cs_name spec \<in> {''Testing Basilisk Development'', ''Testing Basilisk Local Testnet''}"
    and "\<not> (t \<and> i \<notin> {''testnet-k8s'', ''moonbase''}) \<Longrightarrow>
      cs_name spec \<in> {''Basilisk'', ''Basilisk Egg'', ''Basilisk Development'', ''Basilisk testnet'',
        ''Basilisk Benchmarks'', ''Basilisk Local Testnet''}"
  using assms by (auto simp: builtin_networks_def load_spec_def dest!: config_names split: if_splits)

lemma char_of_codes: "char_of (116::nat) = CHR ''t''" "char_of (98::nat) = CHR ''b''"
  by code_simp+

lemma recognised_names:
  "cs_name spec \<in> {''Testing Basilisk Development'', ''Testing Basilisk Local Testnet''} \<Longrightarrow>
     is_testing_runtime spec \<and> \<not> is_basilisk_runtime spec"
  "cs_name spec \<in> {''Basilisk'', ''Basilisk Egg'', ''Basilisk Development'', ''Basilisk testnet'',
     ''Basilisk Benchmarks'', ''Basilisk Local Testnet''} \<Longrightarrow> \<not> is_testing_runtime spec \<and> is_basilisk_runtime spec"
  by (auto simp: is_testing_runtime_def is_basilisk_runtime_def lower_char_def char_of_codes)

text \<open>
A specification is taken for one of the two runtimes by its name, and exactly one: for every
built-in network of the main runtime this is the main runtime, and for the development and the
local network of the testing runtime the testing runtime. The other two networks of the testing
runtime, for k8s and for Moonbase, are named like a main network, so the node builds the client of
the main runtime for them, announces its version and starts it.
\<close>

lemma runtime_recognised:
  assumes "load_spec N i t = Inr spec" "i \<in> set (builtin_networks t)"
  shows "(is_testing_runtime spec \<longleftrightarrow> t \<and> i \<notin> {''testnet-k8s'', ''moonbase''}) \<and>
    (is_basilisk_runtime spec \<longleftrightarrow> \<not> is_testing_runtime spec) \<and>
    native_runtime_version spec = (if t \<and> i \<notin> {''testnet-k8s'', ''moonbase''} then TESTING_VERSION else BASILISK_VERSION) \<and>
    (\<forall>config cl parts. cf_chain_spec config = spec \<and> start_node N config = Inr (cl, parts) \<longrightarrow>
       cl = (if t \<and> i \<notin> {''testnet-k8s'', ''moonbase''} then TestingBasiliskClient else BasiliskClient)) \<and>
    (\<forall>config cl config'. cf_chain_spec config = spec \<and> new_partial N config = Inr (cl, config') \<longrightarrow>
       cl = (if t \<and> i \<notin> {''testnet-k8s'', ''moonbase''} then TestingBasiliskClient else BasiliskClient))"
proof -
  have rec: "is_testing_runtime spec \<longleftrightarrow> t \<and> i \<notin> {''testnet-k8s'', ''moonbase''}"
    and bas: "is_basilisk_runtime spec \<longleftrightarrow> \<not> is_testing_runtime spec"
    using builtin_names [OF assms] recognised_names [of spec] by blast+
  show ?thesis using rec bas
    by (auto simp: native_runtime_version_def start_node_def new_partial_def Let_def split: if_splits)
qed

lemma network_loaded: "network_ok r \<Longrightarrow> \<exists>spec. r = Inr spec"
  by (cases r) (auto simp: network_ok_def)

theorem runtime_recognised_witness:
  "\<exists>spec. load_spec (demo_node None) ''moonbase'' True = Inr spec \<and> \<not> is_testing_runtime spec \<and>
     native_runtime_version spec = BASILISK_VERSION"
proof -
  have builtin: "''moonbase'' \<in> set (builtin_networks True)" by (simp add: builtin_networks_def)
  have "network_ok (load_spec (demo_node None) ''moonbase'' True)"
    by (rule load_spec_network_ok [OF _ builtin]) (simp add: demo_spec_env_ok)
  from network_loaded [OF this] obtain spec where "load_spec (demo_node None) ''moonbase'' True = Inr spec" ..
  with runtime_recognised [OF this builtin] show ?thesis by simp
qed

section \<open>Starting a node\<close>

lemma start_node_impl_parts:
  assumes "start_node_impl N cl config = Inr parts"
  shows "cf_role config \<noteq> Light"
    and "parts = [PartialComponents, RelayChainInterface, BuildNetwork, SpawnTasks] @
      (if cf_role config = Authority then [BuildConsensus, StartCollator] else [StartFullNode]) @ [StartNetwork]"
    and "\<forall>p \<in> set parts - {StartNetwork}. ne_service N cl p config = Inr ()"
  using assms by (auto simp: start_node_impl_def part_def Let_def split: if_splits)

text \<open>
A node that starts is not a light client, has put every part of the service to work in the fixed
order with the network last, each on the same client, and builds consensus and a collator exactly if
its role is that of an authority. It runs under the parachain id of its specification, with the relay
chain of the specification unless the arguments name another one; with the benchmarking runtime it
is not a collator.
\<close>

lemma node_starts_in_order:
  assumes "run_node N c = Inr (NodeStarted cl pid relay header parts)"
  shows "\<exists>config e. create_runner N c = Inr config \<and> extensions_try_get (cf_chain_spec config) = Some e \<and>
    pid = para_id e \<and> cf_role config \<noteq> Light \<and>
    relay_chain_id relay = (if cli_relaychain_chain c = '''' then relay_chain e else cli_relaychain_chain c) \<and>
    cl = (if is_testing_runtime (cf_chain_spec config) then TestingBasiliskClient else BasiliskClient) \<and>
    parts = [PartialComponents, RelayChainInterface, BuildNetwork, SpawnTasks] @
      (if cf_role config = Authority then [BuildConsensus, StartCollator] else [StartFullNode]) @ [StartNetwork] \<and>
    (\<forall>p \<in> set parts - {StartNetwork}. ne_service N cl p config = Inr ()) \<and>
    (ne_runtime_benchmarks N \<longrightarrow> StartCollator \<notin> set parts)"
proof -
  from assms obtain config e where run: "create_runner N c = Inr config" "\<not> (ne_runtime_benchmarks N \<and> cf_role config = Authority)"
      "extensions_try_get (cf_chain_spec config) = Some e" "pid = para_id e" "relay = relay_chain_cli_new config c"
      "start_node N config = Inr (cl, parts)"
    by (auto simp: run_node_def Let_def split: if_splits option.splits)
  from run(6) have cl: "cl = (if is_testing_runtime (cf_chain_spec config) then TestingBasiliskClient else BasiliskClient)"
    and impl: "start_node_impl N cl config = Inr parts"
    by (auto simp: start_node_def split: if_splits)
  note parts = start_node_impl_parts [OF impl]
  have "relay_chain_id relay = (if cli_relaychain_chain c = '''' then relay_chain e else cli_relaychain_chain c)"
    using run(3,5) by (simp add: relay_chain_id_new)
  moreover have "ne_runtime_benchmarks N \<longrightarrow> StartCollator \<notin> set parts" using run(2) parts(2) by auto
  ultimately show ?thesis using run cl parts by blast
qed

lemma demo_node_runs:
  "\<exists>parts relay. run_node (demo_node None) (demo_cli ''staging'' Basilisk) =
     Inr (NodeStarted BasiliskClient 2090 relay (map of_char ''basilisk'' @ [0]) parts)"
  by (simp add: run_node_def create_runner_def demo_node_def demo_cli_def cli_load_spec_def testing_selected_def
      get_exec_name_def instance_is_testing_def kusama_staging_parachain_config_def demo_spec_env_def
      extensions_try_get_def PARA_ID_def relay_configuration_def start_node_def start_node_impl_def part_def
      native_runtime_version_def is_testing_runtime_def BASILISK_VERSION_def lower_char_def char_of_codes
      del: and_then_eq_Inr)

theorem node_starts_in_order_witness:
  "\<exists>parts relay cl. run_node (demo_node None) (demo_cli ''staging'' Basilisk) =
     Inr (NodeStarted cl 2090 relay (map of_char ''basilisk'' @ [0]) parts) \<and> last parts = StartNetwork"
proof -
  from demo_node_runs obtain parts relay where "run_node (demo_node None) (demo_cli ''staging'' Basilisk) =
     Inr (NodeStarted BasiliskClient 2090 relay (map of_char ''basilisk'' @ [0]) parts)" by blast
  from this node_starts_in_order [OF this] show ?thesis by auto
qed

section \<open>The export commands\<close>

text \<open>What is assumed of the runner: it loads the chain of the command line.\<close>

definition runner_loads_chain :: "node_env \<Rightarrow> cli \<Rightarrow> bool" where
  "runner_loads_chain N c \<longleftrightarrow>
     (\<forall>load config. ne_create_runner N load c = Inr config \<longrightarrow> load (cli_chain c) = Inr (cf_chain_spec config))"

lemma run_node_header:
  assumes "run_node N c = Inr (NodeStarted cl pid relay header parts)" "runner_loads_chain N c"
  shows "\<exists>spec. cli_load_spec N c (cli_chain c) = Inr spec \<and>
    ne_genesis_header N spec (ne_state_version N (native_runtime_version spec)) = Inr header"
  using assms by (auto simp: run_node_def create_runner_def runner_loads_chain_def Let_def split: if_splits option.splits)

lemma same_state_version:
  assumes "\<forall>v. ne_state_version N v = sv (rv_state_version v)"
  shows "ne_state_version N (native_runtime_version s) = ne_state_version N (native_runtime_version s')"
  using assms by (simp add: native_runtime_version_def BASILISK_VERSION_def TESTING_VERSION_def)


definition demo_export :: "string \<Rightarrow> runtime_instance \<Rightarrow> export_params" where
  "demo_export chain r = \<lparr>ex_output = None, ex_parachain_id = 200, ex_raw = True, ex_chain = Some chain, ex_runtime = r\<rparr>"


text \<open>
For the networks that only the testing runtime has, the export of the genesis state asks the
loader of the main runtime first, which takes the name for a path, so the command fails with the
error of opening that file, although the specification loads and the code of the very same network
is exported.
\<close>

lemma export_state_testing_only:
  assumes env: "spec_env_ok (ne_spec N)" and i: "i \<in> {''testnet-k8s'', ''moonbase''}"
    and missing: "se_from_json_file (ne_spec N) i = Inl e"
    and code: "\<forall>spec g. cs_genesis spec = Factory (Some g) \<longrightarrow> ne_genesis_code N spec = Inr (Some (g_code g))"
  shows "run_export_genesis_state N
      \<lparr>ex_output = out, ex_parachain_id = pid, ex_raw = True, ex_chain = Some i, ex_runtime = Testing\<rparr> = Inl (Message e) \<and>
    (\<exists>blob. run_export_genesis_wasm N \<lparr>ew_output = out, ew_raw = True, ew_chain = Some i, ew_runtime = Testing\<rparr>
       = Inr (Written out blob))"
proof -
  have sel: "testing_selected N Testing" by (simp add: testing_selected_def instance_is_testing_def)
  have "load_spec N i False = Inl e" using i missing by (auto simp: load_spec_def)
  moreover have "network_ok (load_spec N i True)"
    by (rule load_spec_network_ok [OF env]) (use i in \<open>auto simp: builtin_networks_def\<close>)
  then obtain spec g where "load_spec N i True = Inr spec" "cs_genesis spec = Factory (Some g)"
    by (auto simp: network_ok_def split: sum.splits genesis_source.splits option.splits)
  ultimately show ?thesis using code sel
    by (auto simp: run_export_genesis_state_def run_export_genesis_wasm_def unwrap_or_default_def
        extract_genesis_wasm_def map_err_def and_then_def)
qed

theorem export_state_testing_only_witness:
  "run_export_genesis_state (demo_node None)
     \<lparr>ex_output = None, ex_parachain_id = 200, ex_raw = True, ex_chain = Some ''moonbase'', ex_runtime = Testing\<rparr>
     = Inl (Message ''no such file'')"
proof -
  have "se_from_json_file (ne_spec (demo_node None)) ''moonbase'' = Inl ''no such file''" by (simp add: demo_spec_env_def)
  moreover have "\<forall>spec g. cs_genesis spec = Factory (Some g) \<longrightarrow>
      ne_genesis_code (demo_node None) spec = Inr (Some (g_code g))" by (simp add: demo_node_def)
  ultimately show ?thesis
    using export_state_testing_only [of "demo_node None" "''moonbase''" "''no such file''" None 200]
    by (simp add: demo_spec_env_ok)
qed

end
