(* ===== verification/Testing_Runtime.thy ===== *)
theory Testing_Runtime
  imports Governance
begin

text \<open>
  The runtime of the test networks (\<open>runtime/testing-basilisk/src/lib.rs\<close>): its call filter, its own
  parameters and the configuration of the pallets of the repository. Pool accounts, proxy types, fees
  and locations are the code of the main runtime once more. \<open>relay_block\<close> is the block number provider
  of the parachain system crate, which the testing runtime uses where the main one has its own.

  Shown: up to that provider the pallets are configured as in the main runtime, except for the
  classes that are reserved and the deposit of a class; and what the open filter lets through.
\<close>

section \<open>Configuration\<close>

definition TESTING_RESERVE_CLASS_ID_UP_TO :: class_id where "TESTING_RESERVE_CLASS_ID_UP_TO = 999"
definition TESTING_CLASS_DEPOSIT :: balance where "TESTING_CLASS_DEPOSIT = 10000 * UNITS"
definition TESTING_MINIMUM_OFFER_AMOUNT :: balance where "TESTING_MINIMUM_OFFER_AMOUNT = 10000 * UNITS"
definition TESTING_ROYALTY_BOND_AMOUNT :: balance where "TESTING_ROYALTY_BOND_AMOUNT = 2000 * UNITS"

definition testing_base_filter :: "runtime_call \<Rightarrow> bool" where
  "testing_base_filter call = True"

definition testing_nft :: "'u uniques_ops \<Rightarrow> 'u nft_config" where
  "testing_nft U = \<lparr>
     nft_uniques = U,
     nft_reserve_class_id_up_to = TESTING_RESERVE_CLASS_ID_UP_TO,
     nft_class_deposit = TESTING_CLASS_DEPOSIT,
     nft_lookup = Some,
     nft_unlookup = (\<lambda>a. a)\<rparr>"

definition testing_lbp :: "('w \<Rightarrow> block_number) \<Rightarrow> 'w basilisk \<Rightarrow> 'w lbp_config" where
  "testing_lbp relay_block R = \<lparr>
     lbp_currency = bk_currency R,
     lbp_locked_balance = get_by_lock (bk_currency R),
     lbp_create_pool_origin = bk_technical_committee R,
     lbp_weight_function = lbp_calculate_weight (bk_math R),
     lbp_from_assets = from_assets (bk_hash R),
     lbp_min_trading_limit = MIN_TRADING_LIMIT,
     lbp_min_pool_liquidity = MIN_POOL_LIQUIDITY,
     lbp_max_in_ratio = MAX_IN_RATIO,
     lbp_max_out_ratio = MAX_OUT_RATIO,
     lbp_current_block_number = relay_block,
     lbp_math = bk_math R,
     lbp_default_sell = bk_lbp_sell R,
     lbp_default_buy = bk_lbp_buy R\<rparr>"

definition testing_xyk :: "('w \<Rightarrow> block_number) \<Rightarrow> 'w basilisk \<Rightarrow> 'w lbp_state xyk_config" where
  "testing_xyk relay_block R = \<lparr>
     xyk_currency = lbp_cur (testing_lbp relay_block R),
     xyk_get_or_create_shared_asset = (\<lambda>s name assets ed.
        and_then (bk_get_or_create_shared_asset R (lbp_ext s) name assets ed) (\<lambda>(t, w). Inr (t, lbp_put w s))),
     xyk_from_assets = from_assets (bk_hash R),
     xyk_native_asset_id = CORE_ASSET_ID,
     xyk_exchange_fee = (2, 1000),
     xyk_min_trading_limit = MIN_TRADING_LIMIT,
     xyk_min_pool_liquidity = MIN_POOL_LIQUIDITY,
     xyk_max_in_ratio = MAX_IN_RATIO,
     xyk_max_out_ratio = MAX_OUT_RATIO,
     xyk_can_create = disallow_when_lbp_pool_running (testing_lbp relay_block R),
     xyk_on_create_pool = (\<lambda>s a b. and_then (bk_oracle_on_create_pool R (lbp_ext s) a b) (\<lambda>w. Inr (lbp_put w s))),
     xyk_on_trade = (\<lambda>s a b x y l. lbp_put (bk_oracle_on_trade R (lbp_ext s) a b x y l) s),
     xyk_math = bk_math R,
     xyk_default_sell = bk_xyk_sell R,
     xyk_default_buy = bk_xyk_buy R\<rparr>"

definition testing_exchange :: "('w \<Rightarrow> block_number) \<Rightarrow> 'w basilisk \<Rightarrow> 'w lbp_state xyk_state exchange_config" where
  "testing_exchange relay_block R = \<lparr>
     x_amm = xyk_amm (testing_xyk relay_block R),
     x_currency = xyk_cur (testing_xyk relay_block R),
     x_trade_fee = m_pool_trade_fee (bk_math R),
     x_hash = bk_intention_hash R,
     x_block_number = (\<lambda>s. bk_block_number R (lbp_ext (xyk_ext s))),
     x_iter = bk_iter R\<rparr>"

definition testing_duster :: "'w basilisk \<Rightarrow> 'w duster_config" where
  "testing_duster R = \<lparr>
     du_currency = bk_currency R,
     du_min_deposit = bk_existential_deposit R,
     du_reward = DUSTING_REWARD,
     du_native_asset_id = CORE_ASSET_ID\<rparr>"

definition testing_marketplace ::
  "'u uniques_ops \<Rightarrow> 'u nft_state native_ops \<Rightarrow> ('u nft_state \<Rightarrow> block_number) \<Rightarrow> (nat \<Rightarrow> balance \<Rightarrow> balance) \<Rightarrow> 'u mp_config" where
  "testing_marketplace U N block percent_mul = \<lparr>
     mp_native = N,
     mp_nft = testing_nft U,
     mp_minimum_offer_amount = TESTING_MINIMUM_OFFER_AMOUNT,
     mp_royalty_bond_amount = TESTING_ROYALTY_BOND_AMOUNT,
     mp_block_number = block,
     mp_percent_mul = percent_mul\<rparr>"

definition testing_liquidity_mining ::
  "'u uniques_ops \<Rightarrow> 'u nft_state currency_ops \<Rightarrow> 'u nft_state amm_ops \<Rightarrow> ('u nft_state \<Rightarrow> block_number)
   \<Rightarrow> account_id \<Rightarrow> (nat \<Rightarrow> account_id) \<Rightarrow> lm_math_ops \<Rightarrow> 'u lm_config" where
  "testing_liquidity_mining U C A relay_block acc sub_acc M = \<lparr>
     lm_currency = C,
     lm_amm = A,
     lm_create_origin = ensure_root,
     lm_pallet_account = acc,
     lm_sub_account = sub_acc,
     lm_min_total_farm_rewards = MIN_TOTAL_FARM_REWARDS,
     lm_min_planned_yielding_periods = MIN_PLANNED_YIELDING_PERIODS,
     lm_current_block_number = relay_block,
     lm_nft_class = NFT_CLASS,
     lm_nft = testing_nft U,
     lm_math = M\<rparr>"

section \<open>Comparison with the main runtime\<close>

lemma testing_marketplace_same:
  "testing_marketplace U N block percent_mul = (basilisk_marketplace U N block percent_mul)\<lparr>mp_nft := testing_nft U\<rparr>"
  by (simp add: testing_marketplace_def basilisk_marketplace_def TESTING_MINIMUM_OFFER_AMOUNT_def
      MINIMUM_OFFER_AMOUNT_def TESTING_ROYALTY_BOND_AMOUNT_def ROYALTY_BOND_AMOUNT_def)

text \<open>
  If the provider of the crate reads the relay parent number like that of the main runtime, both pool
  pallets, the exchange, the duster and, but for the NFT pallet below them, marketplace and liquidity
  mining are the same functions in both runtimes, so what is shown of the main runtime holds of them.
\<close>

lemma testing_runtime_same_pallets:
  assumes "\<forall>w. relay_block w = relay_chain_block_number (bk_validation_data R w)"
  shows "testing_lbp relay_block R = basilisk_lbp R" "testing_xyk relay_block R = basilisk_xyk R"
    "testing_exchange relay_block R = basilisk_exchange R" "testing_duster R = basilisk_duster R"
proof -
  have "relay_block = (\<lambda>w. relay_chain_block_number (bk_validation_data R w))" using assms by blast
  then show lbp: "testing_lbp relay_block R = basilisk_lbp R" by (simp add: testing_lbp_def basilisk_lbp_def)
  show xyk: "testing_xyk relay_block R = basilisk_xyk R" by (simp add: testing_xyk_def basilisk_xyk_def lbp)
  show "testing_exchange relay_block R = basilisk_exchange R" by (simp add: testing_exchange_def basilisk_exchange_def xyk)
  show "testing_duster R = basilisk_duster R" by (simp add: testing_duster_def basilisk_duster_def)
qed

lemma testing_liquidity_mining_same:
  assumes "\<forall>w. relay_block w = relay_chain_block_number (validation_data w)"
  shows "testing_liquidity_mining U C A relay_block acc sub_acc M =
    (basilisk_liquidity_mining U C A validation_data acc sub_acc M)\<lparr>lm_nft := testing_nft U\<rparr>"
proof -
  have "relay_block = (\<lambda>w. relay_chain_block_number (validation_data w))" using assms by blast
  then show ?thesis by (simp add: testing_liquidity_mining_def basilisk_liquidity_mining_def)
qed

lemma testing_filter_open: "base_filter call \<Longrightarrow> testing_base_filter call"
  by (simp add: testing_base_filter_def)

lemma testing_reserves_fewer_classes:
  "nft_reserve_class_id_up_to (testing_nft U) < nft_reserve_class_id_up_to (basilisk_nft U) \<and>
   NFT_CLASS \<le> nft_reserve_class_id_up_to (testing_nft U)"
  by (simp add: testing_nft_def basilisk_nft_def TESTING_RESERVE_CLASS_ID_UP_TO_def RESERVE_CLASS_ID_UP_TO_def NFT_CLASS_def)

lemma testing_lm_integrity: "lm_integrity_test (testing_liquidity_mining U C A relay_block acc sub_acc M)"
  by (simp add: lm_integrity_test_def testing_liquidity_mining_def testing_nft_def NFT_CLASS_def
      TESTING_RESERVE_CLASS_ID_UP_TO_def)

end
