(* ===== verification/Composition.thy ===== *)
theory Composition
  imports Testing_Runtime
begin

text \<open>
  How the runtimes compose their pallets (\<open>construct_runtime!\<close> of \<open>runtime/basilisk/src/lib.rs\<close> and
  \<open>runtime/testing-basilisk/src/lib.rs\<close>): name, parts and index of each pallet. The index is the first
  byte of an encoded call, so it decides what a signed transaction calls, and the order of the
  table decides the order of the hooks. The configuration of the token store is here too,
  and the code the testing runtime has a second time.
\<close>

datatype pallet_part = PalletPart | CallPart | StoragePart | EventPart | ConfigPart | OriginPart | InherentPart | ValidateUnsignedPart

datatype pallet_decl = pallet_decl (pd_name: string) (pd_parts: "pallet_part list") (pd_index: nat)

definition basilisk_pallets :: "pallet_decl list" where
  "basilisk_pallets =
    [pallet_decl ''System'' [PalletPart, CallPart, ConfigPart, StoragePart, EventPart] 0,
     pallet_decl ''Timestamp'' [PalletPart, CallPart, StoragePart, InherentPart] 1,
     pallet_decl ''Balances'' [PalletPart, CallPart, StoragePart, ConfigPart, EventPart] 2,
     pallet_decl ''TransactionPayment'' [PalletPart, StoragePart] 3,
     pallet_decl ''Treasury'' [PalletPart, CallPart, StoragePart, ConfigPart, EventPart] 4,
     pallet_decl ''Utility'' [PalletPart, CallPart, EventPart] 5,
     pallet_decl ''Scheduler'' [PalletPart, CallPart, StoragePart, EventPart] 6,
     pallet_decl ''Democracy'' [PalletPart, CallPart, StoragePart, EventPart] 7,
     pallet_decl ''Elections'' [PalletPart, CallPart, StoragePart, EventPart, ConfigPart] 8,
     pallet_decl ''Council'' [PalletPart, CallPart, StoragePart, OriginPart, EventPart, ConfigPart] 9,
     pallet_decl ''TechnicalCommittee'' [PalletPart, CallPart, StoragePart, OriginPart, EventPart, ConfigPart] 10,
     pallet_decl ''Vesting'' [PalletPart, CallPart, StoragePart, EventPart, ConfigPart] 11,
     pallet_decl ''Proxy'' [PalletPart, CallPart, StoragePart, EventPart] 12,
     pallet_decl ''Tips'' [PalletPart, CallPart, StoragePart, EventPart] 13,
     pallet_decl ''Authorship'' [PalletPart, CallPart, StoragePart] 14,
     pallet_decl ''CollatorSelection'' [PalletPart, CallPart, StoragePart, EventPart, ConfigPart] 15,
     pallet_decl ''Session'' [PalletPart, CallPart, StoragePart, EventPart, ConfigPart] 16,
     pallet_decl ''Aura'' [PalletPart, ConfigPart] 17,
     pallet_decl ''AuraExt'' [PalletPart, ConfigPart] 18,
     pallet_decl ''Preimage'' [PalletPart, CallPart, StoragePart, EventPart] 19,
     pallet_decl ''Uniques'' [PalletPart, CallPart, StoragePart, EventPart] 20,
     pallet_decl ''ParachainSystem'' [PalletPart, CallPart, StoragePart, InherentPart, EventPart, ValidateUnsignedPart] 50,
     pallet_decl ''ParachainInfo'' [PalletPart, StoragePart, ConfigPart] 51,
     pallet_decl ''PolkadotXcm'' [PalletPart, CallPart, StoragePart, EventPart, OriginPart, ConfigPart] 52,
     pallet_decl ''CumulusXcm'' [PalletPart, CallPart, StoragePart, EventPart, OriginPart] 53,
     pallet_decl ''XcmpQueue'' [PalletPart, StoragePart, EventPart] 54,
     pallet_decl ''DmpQueue'' [PalletPart, CallPart, StoragePart, EventPart] 55,
     pallet_decl ''AssetRegistry'' [PalletPart, CallPart, ConfigPart, StoragePart, EventPart] 100,
     pallet_decl ''XYK'' [PalletPart, CallPart, StoragePart, EventPart] 101,
     pallet_decl ''Duster'' [PalletPart, CallPart, ConfigPart, StoragePart, EventPart] 102,
     pallet_decl ''Exchange'' [PalletPart, CallPart, StoragePart, EventPart] 103,
     pallet_decl ''LBP'' [PalletPart, CallPart, StoragePart, EventPart] 104,
     pallet_decl ''NFT'' [PalletPart, CallPart, EventPart, StoragePart] 105,
     pallet_decl ''LiquidityMining'' [PalletPart, CallPart, StoragePart, EventPart] 156,
     pallet_decl ''MultiTransactionPayment'' [PalletPart, CallPart, ConfigPart, StoragePart, EventPart] 106,
     pallet_decl ''PriceOracle'' [PalletPart, CallPart, StoragePart, EventPart] 107,
     pallet_decl ''RelayChainInfo'' [PalletPart, EventPart] 108,
     pallet_decl ''Marketplace'' [PalletPart, CallPart, EventPart, StoragePart] 109,
     pallet_decl ''Currencies'' [PalletPart, CallPart, EventPart] 150,
     pallet_decl ''Tokens'' [PalletPart, StoragePart, CallPart, EventPart, ConfigPart] 151,
     pallet_decl ''OrmlXcm'' [PalletPart, CallPart, EventPart] 153,
     pallet_decl ''XTokens'' [PalletPart, StoragePart, CallPart, EventPart] 154,
     pallet_decl ''UnknownTokens'' [PalletPart, StoragePart, EventPart] 155,
     pallet_decl ''Sudo'' [PalletPart, CallPart, ConfigPart, StoragePart, EventPart] 255]"

definition testing_pallets :: "pallet_decl list" where
  "testing_pallets =
    [pallet_decl ''System'' [PalletPart, CallPart, ConfigPart, StoragePart, EventPart] 0,
     pallet_decl ''Timestamp'' [PalletPart, CallPart, StoragePart, InherentPart] 1,
     pallet_decl ''Balances'' [PalletPart, CallPart, StoragePart, ConfigPart, EventPart] 2,
     pallet_decl ''TransactionPayment'' [PalletPart, StoragePart] 3,
     pallet_decl ''Treasury'' [PalletPart, CallPart, StoragePart, ConfigPart, EventPart] 4,
     pallet_decl ''Utility'' [PalletPart, CallPart, EventPart] 5,
     pallet_decl ''Scheduler'' [PalletPart, CallPart, StoragePart, EventPart] 6,
     pallet_decl ''Democracy'' [PalletPart, CallPart, StoragePart, EventPart] 7,
     pallet_decl ''Elections'' [PalletPart, CallPart, StoragePart, EventPart, ConfigPart] 8,
     pallet_decl ''Council'' [PalletPart, CallPart, StoragePart, OriginPart, EventPart, ConfigPart] 9,
     pallet_decl ''TechnicalCommittee'' [PalletPart, CallPart, StoragePart, OriginPart, EventPart, ConfigPart] 10,
     pallet_decl ''Vesting'' [PalletPart, CallPart, StoragePart, EventPart, ConfigPart] 11,
     pallet_decl ''Proxy'' [PalletPart, CallPart, StoragePart, EventPart] 12,
     pallet_decl ''Tips'' [PalletPart, CallPart, StoragePart, EventPart] 13,
     pallet_decl ''Authorship'' [PalletPart, CallPart, StoragePart] 14,
     pallet_decl ''CollatorSelection'' [PalletPart, CallPart, StoragePart, EventPart, ConfigPart] 15,
     pallet_decl ''Session'' [PalletPart, CallPart, StoragePart, EventPart, ConfigPart] 16,
     pallet_decl ''Aura'' [PalletPart, ConfigPart] 17,
     pallet_decl ''AuraExt'' [PalletPart, ConfigPart] 18,
     pallet_decl ''Preimage'' [PalletPart, CallPart, StoragePart, EventPart] 19,
     pallet_decl ''Uniques'' [PalletPart, CallPart, StoragePart, EventPart] 20,
     pallet_decl ''ParachainSystem'' [PalletPart, CallPart, StoragePart, InherentPart, EventPart, ValidateUnsignedPart] 50,
     pallet_decl ''ParachainInfo'' [PalletPart, StoragePart, ConfigPart] 51,
     pallet_decl ''PolkadotXcm'' [PalletPart, CallPart, StoragePart, EventPart, OriginPart, ConfigPart] 52,
     pallet_decl ''CumulusXcm'' [PalletPart, CallPart, StoragePart, EventPart, OriginPart] 53,
     pallet_decl ''XcmpQueue'' [PalletPart, StoragePart, EventPart] 54,
     pallet_decl ''DmpQueue'' [PalletPart, CallPart, StoragePart, EventPart] 55,
     pallet_decl ''AssetRegistry'' [PalletPart, CallPart, ConfigPart, StoragePart, EventPart] 100,
     pallet_decl ''XYK'' [PalletPart, CallPart, StoragePart, EventPart] 101,
     pallet_decl ''Duster'' [PalletPart, CallPart, ConfigPart, StoragePart, EventPart] 102,
     pallet_decl ''Exchange'' [PalletPart, CallPart, StoragePart, EventPart] 103,
     pallet_decl ''LBP'' [PalletPart, CallPart, StoragePart, EventPart] 104,
     pallet_decl ''NFT'' [PalletPart, CallPart, EventPart, StoragePart] 105,
     pallet_decl ''LiquidityMining'' [PalletPart, CallPart, StoragePart, EventPart] 156,
     pallet_decl ''MultiTransactionPayment'' [PalletPart, CallPart, ConfigPart, StoragePart, EventPart] 106,
     pallet_decl ''PriceOracle'' [PalletPart, CallPart, StoragePart, EventPart] 107,
     pallet_decl ''RelayChainInfo'' [PalletPart, EventPart] 108,
     pallet_decl ''Marketplace'' [PalletPart, CallPart, EventPart, StoragePart] 109,
     pallet_decl ''Currencies'' [PalletPart, CallPart, EventPart] 150,
     pallet_decl ''Tokens'' [PalletPart, StoragePart, CallPart, EventPart, ConfigPart] 151,
     pallet_decl ''OrmlXcm'' [PalletPart, CallPart, EventPart] 153,
     pallet_decl ''XTokens'' [PalletPart, StoragePart, CallPart, EventPart] 154,
     pallet_decl ''UnknownTokens'' [PalletPart, StoragePart, EventPart] 155,
     pallet_decl ''Sudo'' [PalletPart, CallPart, ConfigPart, StoragePart, EventPart] 255]"

text \<open>The pallet of a call, and its byte in an encoded call.\<close>

fun call_pallet :: "runtime_call \<Rightarrow> string" where
  "call_pallet (SystemCall _) = ''System''"
| "call_pallet (TimestampCall _) = ''Timestamp''"
| "call_pallet (BalancesCall _) = ''Balances''"
| "call_pallet (TreasuryCall _) = ''Treasury''"
| "call_pallet (UtilityCall _) = ''Utility''"
| "call_pallet (SchedulerCall _) = ''Scheduler''"
| "call_pallet (DemocracyCall _) = ''Democracy''"
| "call_pallet (ElectionsCall _) = ''Elections''"
| "call_pallet (CouncilCall _) = ''Council''"
| "call_pallet (TechnicalCommitteeCall _) = ''TechnicalCommittee''"
| "call_pallet (VestingCall _) = ''Vesting''"
| "call_pallet (ProxyCall _) = ''Proxy''"
| "call_pallet (TipsCall _) = ''Tips''"
| "call_pallet (AuthorshipCall _) = ''Authorship''"
| "call_pallet (CollatorSelectionCall _) = ''CollatorSelection''"
| "call_pallet (SessionCall _) = ''Session''"
| "call_pallet (PreimageCall _) = ''Preimage''"
| "call_pallet (UniquesCall _) = ''Uniques''"
| "call_pallet (ParachainSystemCall _) = ''ParachainSystem''"
| "call_pallet (PolkadotXcmCall _) = ''PolkadotXcm''"
| "call_pallet (CumulusXcmCall _) = ''CumulusXcm''"
| "call_pallet (DmpQueueCall _) = ''DmpQueue''"
| "call_pallet (AssetRegistryCall _) = ''AssetRegistry''"
| "call_pallet (XYKCall _) = ''XYK''"
| "call_pallet (DusterCall _) = ''Duster''"
| "call_pallet (ExchangeCall _) = ''Exchange''"
| "call_pallet (LBPCall _) = ''LBP''"
| "call_pallet (NFTCall _) = ''NFT''"
| "call_pallet (LiquidityMiningCall _) = ''LiquidityMining''"
| "call_pallet (MultiTransactionPaymentCall _) = ''MultiTransactionPayment''"
| "call_pallet (PriceOracleCall _) = ''PriceOracle''"
| "call_pallet (MarketplaceCall _) = ''Marketplace''"
| "call_pallet (CurrenciesCall _) = ''Currencies''"
| "call_pallet (TokensCall _) = ''Tokens''"
| "call_pallet (OrmlXcmCall _) = ''OrmlXcm''"
| "call_pallet (XTokensCall _) = ''XTokens''"
| "call_pallet (SudoCall _) = ''Sudo''"

definition call_index :: "pallet_decl list \<Rightarrow> runtime_call \<Rightarrow> nat option" where
  "call_index ps c = map_of (map (\<lambda>p. (pd_name p, pd_index p)) ps) (call_pallet c)"

definition pallet_at :: "pallet_decl list \<Rightarrow> nat \<Rightarrow> pallet_decl option" where
  "pallet_at ps i = map_of (map (\<lambda>p. (pd_index p, p)) ps) i"

text \<open>Hooks run for \<open>System\<close> first and then against the order of the table.\<close>

definition hook_order :: "pallet_decl list \<Rightarrow> pallet_decl list" where
  "hook_order ps = filter (\<lambda>p. pd_name p = ''System'') ps @ rev (filter (\<lambda>p. pd_name p \<noteq> ''System'') ps)"

section \<open>The token store\<close>

record uniques_params =
  up_class_deposit :: balance
  up_instance_deposit :: balance
  up_metadata_deposit_base :: balance
  up_attribute_deposit_base :: balance
  up_deposit_per_byte :: balance
  up_string_limit :: nat
  up_key_limit :: nat
  up_value_limit :: nat
  up_force_origin :: "origin \<Rightarrow> unit result"

definition basilisk_uniques :: uniques_params where
  "basilisk_uniques = \<lparr>up_class_deposit = CLASS_DEPOSIT, up_instance_deposit = 100 * UNITS,
     up_metadata_deposit_base = 100 * UNITS, up_attribute_deposit_base = 10 * UNITS, up_deposit_per_byte = UNITS,
     up_string_limit = 60, up_key_limit = 256, up_value_limit = 1024, up_force_origin = ensure_root\<rparr>"

definition testing_uniques :: uniques_params where
  "testing_uniques = \<lparr>up_class_deposit = TESTING_CLASS_DEPOSIT, up_instance_deposit = 100 * UNITS,
     up_metadata_deposit_base = 100 * UNITS, up_attribute_deposit_base = 10 * UNITS, up_deposit_per_byte = UNITS,
     up_string_limit = 128, up_key_limit = 256, up_value_limit = 1024, up_force_origin = ensure_root\<rparr>"

text \<open>The NFT pallet reserves for a class what the token store would.\<close>

lemma class_deposits_agree:
  "nft_class_deposit (basilisk_nft U) = up_class_deposit basilisk_uniques"
  "nft_class_deposit (testing_nft U) = up_class_deposit testing_uniques"
  by (simp_all add: basilisk_nft_def basilisk_uniques_def testing_nft_def testing_uniques_def)

section \<open>The tables\<close>

lemma pallets_same: "testing_pallets = basilisk_pallets"
  by (simp add: testing_pallets_def basilisk_pallets_def)

lemma pallets_distinct: "distinct (map pd_index basilisk_pallets)" "distinct (map pd_name basilisk_pallets)"
  by (simp_all add: basilisk_pallets_def)

lemma pallets_bytes: "\<forall>p \<in> set basilisk_pallets. pd_index p < 256"
  by (simp add: basilisk_pallets_def)

lemma pallet_at_index:
  assumes "distinct (map pd_index ps)" "p \<in> set ps"
  shows "pallet_at ps (pd_index p) = Some p"
  unfolding pallet_at_def by (rule map_of_is_SomeI) (use assms in \<open>auto simp: comp_def\<close>)

text \<open>
  A signed call means the same pallet in both runtimes: every call has an index of one byte, the
  same in both, under which the other runtime finds the pallet of the call, with calls.
\<close>

lemma call_index_decodes:
  "\<exists>i p. call_index basilisk_pallets c = Some i \<and> i < 256 \<and> call_index testing_pallets c = Some i \<and>
     pallet_at testing_pallets i = Some p \<and> pd_name p = call_pallet c \<and> CallPart \<in> set (pd_parts p)"
proof -
  have "list_ex (\<lambda>p. pd_name p = call_pallet c \<and> CallPart \<in> set (pd_parts p)) basilisk_pallets"
    by (cases c) (simp_all add: basilisk_pallets_def)
  then obtain p where p: "p \<in> set basilisk_pallets" "pd_name p = call_pallet c" "CallPart \<in> set (pd_parts p)"
    by (auto simp: list_ex_iff)
  have "call_index basilisk_pallets c = Some (pd_index p)"
    unfolding call_index_def p(2) [symmetric]
    by (rule map_of_is_SomeI) (use pallets_distinct(2) p(1) in \<open>auto simp: comp_def\<close>)
  with p pallets_bytes pallet_at_index [OF pallets_distinct(1) p(1)] show ?thesis by (auto simp: pallets_same)
qed

lemma call_index_inj:
  "call_index basilisk_pallets c = call_index basilisk_pallets d \<Longrightarrow> call_pallet c = call_pallet d"
  using call_index_decodes [of c] call_index_decodes [of d] by fastforce

text \<open>No hook is left out and the hooks of \<open>System\<close> run first.\<close>

lemma hooks_complete: "set (hook_order ps) = set ps" "hd (hook_order basilisk_pallets) = hd basilisk_pallets"
  by (auto simp: hook_order_def) (simp add: hook_order_def basilisk_pallets_def)

section \<open>What the testing runtime repeats\<close>

text \<open>
  The code the testing runtime has in common with the main one is there a second time, so each copy is
  translated from its own source; the lemmas say that the copies have not drifted apart.
\<close>

definition testing_from_assets :: "(byte list \<Rightarrow> account_id) \<Rightarrow> asset_id \<Rightarrow> asset_id \<Rightarrow> string \<Rightarrow> account_id" where
  "testing_from_assets hash asset_a asset_b identifier =
     (let buf = map of_char identifier;
          buf = (if asset_a < asset_b
                 then buf @ to_le_bytes 4 asset_a @ to_le_bytes 4 asset_b
                 else buf @ to_le_bytes 4 asset_b @ to_le_bytes 4 asset_a)
      in hash buf)"

definition testing_ensure_root_or_treasury :: "account_id \<Rightarrow> runtime_origin \<Rightarrow> runtime_origin + account_id" where
  "testing_ensure_root_or_treasury treasury o_in =
     (case o_in of
        PalletOrigin n \<Rightarrow> Inl (PalletOrigin n)
      | RawOrigin r \<Rightarrow>
         (case r of
            Root \<Rightarrow> Inr treasury
          | Signed caller \<Rightarrow> if caller = treasury then Inr caller else Inl (RawOrigin (Signed caller))
          | Unsigned \<Rightarrow> Inl (RawOrigin r)))"

definition testing_proxy_filter :: "proxy_type \<Rightarrow> runtime_call \<Rightarrow> bool" where
  "testing_proxy_filter self c =
     (case self of
        AnyProxy \<Rightarrow> True
      | CancelProxy \<Rightarrow> (case c of ProxyCall RejectAnnouncement \<Rightarrow> True | _ \<Rightarrow> False)
      | GovernanceProxy \<Rightarrow>
          (case c of DemocracyCall _ \<Rightarrow> True | CouncilCall _ \<Rightarrow> True | TechnicalCommitteeCall _ \<Rightarrow> True
           | ElectionsCall _ \<Rightarrow> True | TreasuryCall _ \<Rightarrow> True | TipsCall _ \<Rightarrow> True | UtilityCall _ \<Rightarrow> True
           | _ \<Rightarrow> False)
      | ExchangeProxy \<Rightarrow>
          (case c of XYKCall _ \<Rightarrow> True | ExchangeCall _ \<Rightarrow> True | LBPCall _ \<Rightarrow> True | NFTCall _ \<Rightarrow> True
           | _ \<Rightarrow> False)
      | TransferProxy \<Rightarrow>
          (case c of BalancesCall _ \<Rightarrow> True | CurrenciesCall _ \<Rightarrow> True | TokensCall _ \<Rightarrow> True | _ \<Rightarrow> False))"

definition testing_is_superset :: "proxy_type \<Rightarrow> proxy_type \<Rightarrow> bool" where
  "testing_is_superset self other = (if self = other then True else if self = AnyProxy then True else False)"

definition testing_weight_to_fee_polynomial :: "(nat \<Rightarrow> nat \<Rightarrow> nat) \<Rightarrow> nat \<Rightarrow> fee_coefficient list" where
  "testing_weight_to_fee_polynomial perbill_from_rational weight_per_micros =
     (let p = CENTS;
          q = 10 * extrinsic_base_weight weight_per_micros
      in [\<lparr>fc_degree = 1, fc_negative = False, fc_coeff_frac = perbill_from_rational (p mod q) q,
           fc_coeff_integer = p div q\<rparr>])"

definition testing_ensure_majority_council_or_root :: "'o origin_checks \<Rightarrow> 'o \<Rightarrow> bool" where
  "testing_ensure_majority_council_or_root K = oc_one_of K (oc_proportion_at_least K 1 2 CouncilCollective) (oc_root K)"

definition testing_ensure_unanimous_council_or_root :: "'o origin_checks \<Rightarrow> 'o \<Rightarrow> bool" where
  "testing_ensure_unanimous_council_or_root K = oc_one_of K (oc_proportion_at_least K 1 1 CouncilCollective) (oc_root K)"

definition testing_ensure_super_majority_council_or_root :: "'o origin_checks \<Rightarrow> 'o \<Rightarrow> bool" where
  "testing_ensure_super_majority_council_or_root K = oc_one_of K (oc_proportion_at_least K 2 3 CouncilCollective) (oc_root K)"

definition testing_ensure_super_majority_tech_committee_or_root :: "'o origin_checks \<Rightarrow> 'o \<Rightarrow> bool" where
  "testing_ensure_super_majority_tech_committee_or_root K =
     oc_one_of K (oc_proportion_at_least K 2 3 TechnicalCollective) (oc_root K)"

definition testing_ensure_unanimous_tech_committee_or_root :: "'o origin_checks \<Rightarrow> 'o \<Rightarrow> bool" where
  "testing_ensure_unanimous_tech_committee_or_root K =
     oc_one_of K (oc_proportion_at_least K 1 1 TechnicalCollective) (oc_root K)"

definition testing_all_council_members :: "'o origin_checks \<Rightarrow> 'o \<Rightarrow> bool" where
  "testing_all_council_members K = oc_proportion_at_least K 1 1 CouncilCollective"

definition testing_manage_origin :: "'o origin_checks \<Rightarrow> 'o \<Rightarrow> bool" where
  "testing_manage_origin K = oc_one_of K (oc_root K) (testing_all_council_members K)"

definition testing_elections :: elections_config where
  "testing_elections = \<lparr>ec_pallet_id = ELECTIONS_PHRAGMEN_PALLET_ID, ec_candidacy_bond = CANDIDACY_BOND,
     ec_voting_bond_base = VOTING_BOND_BASE, ec_voting_bond_factor = VOTING_BOND_FACTOR,
     ec_desired_members = DESIRED_MEMBERS, ec_desired_runners_up = DESIRED_RUNNERS_UP,
     ec_term_duration = TERM_DURATION\<rparr>"

definition testing_council :: collective_config where
  "testing_council = \<lparr>cc_motion_duration = COUNCIL_MOTION_DURATION, cc_max_proposals = COUNCIL_MAX_PROPOSALS,
     cc_max_members = COUNCIL_MAX_MEMBERS\<rparr>"

definition testing_technical_committee :: collective_config where
  "testing_technical_committee = \<lparr>cc_motion_duration = TECHNICAL_MOTION_DURATION,
     cc_max_proposals = TECHNICAL_MAX_PROPOSALS, cc_max_members = TECHNICAL_MAX_MEMBERS\<rparr>"

definition testing_treasury :: "'o origin_checks \<Rightarrow> 'o treasury_config" where
  "testing_treasury K = \<lparr>tc_pallet_id = TREASURY_PALLET_ID, tc_approve_origin = testing_manage_origin K,
     tc_reject_origin = testing_manage_origin K, tc_proposal_bond_percent = PROPOSAL_BOND_PERCENT,
     tc_proposal_bond_minimum = PROPOSAL_BOND_MINIMUM, tc_proposal_bond_maximum = PROPOSAL_BOND_MAXIMUM,
     tc_spend_period = SPEND_PERIOD, tc_burn_percent = BURN_PERCENT, tc_max_approvals = MAX_APPROVALS\<rparr>"

definition testing_scheduler :: "'o origin_checks \<Rightarrow> 'o scheduler_config" where
  "testing_scheduler K = \<lparr>sc_schedule_origin = oc_root K, sc_max_scheduled_per_block = MAX_SCHEDULED_PER_BLOCK,
     sc_no_preimage_postponement = NO_PREIMAGE_POSTPONEMENT\<rparr>"

definition testing_tips :: tips_config where
  "testing_tips = \<lparr>tp_data_deposit_per_byte = DATA_DEPOSIT_PER_BYTE, tp_maximum_reason_length = MAXIMUM_REASON_LENGTH,
     tp_tip_countdown = TIP_COUNTDOWN, tp_tip_finders_fee_percent = TIP_FINDERS_FEE_PERCENT,
     tp_tip_report_deposit_base = TIP_REPORT_DEPOSIT_BASE\<rparr>"

definition testing_preimage :: "'o origin_checks \<Rightarrow> 'o preimage_config" where
  "testing_preimage K = \<lparr>pc_manager_origin = oc_root K, pc_max_size = PREIMAGE_MAX_SIZE,
     pc_base_deposit = PREIMAGE_BASE_DEPOSIT, pc_byte_deposit = PREIMAGE_BYTE_DEPOSIT\<rparr>"

definition testing_asset_registry :: "'o origin_checks \<Rightarrow> 'o asset_registry_config" where
  "testing_asset_registry K = \<lparr>ar_registry_origin = testing_ensure_super_majority_tech_committee_or_root K,
     ar_string_limit = REGISTRY_STR_LIMIT, ar_native_asset_id = CORE_ASSET_ID\<rparr>"

lemmas testing_copy_defs =
  testing_from_assets_def from_assets_def
  testing_ensure_root_or_treasury_def ensure_root_or_treasury_def
  testing_proxy_filter_def proxy_filter_def
  testing_is_superset_def is_superset_def
  testing_weight_to_fee_polynomial_def weight_to_fee_polynomial_def
  testing_ensure_majority_council_or_root_def ensure_majority_council_or_root_def
  testing_ensure_unanimous_council_or_root_def ensure_unanimous_council_or_root_def
  testing_ensure_super_majority_council_or_root_def ensure_super_majority_council_or_root_def
  testing_ensure_super_majority_tech_committee_or_root_def ensure_super_majority_tech_committee_or_root_def
  testing_ensure_unanimous_tech_committee_or_root_def ensure_unanimous_tech_committee_or_root_def
  testing_all_council_members_def all_council_members_def
  testing_manage_origin_def manage_origin_def
  testing_elections_def basilisk_elections_def
  testing_council_def basilisk_council_def
  testing_technical_committee_def basilisk_technical_committee_def
  testing_treasury_def basilisk_treasury_def
  testing_scheduler_def basilisk_scheduler_def
  testing_tips_def basilisk_tips_def
  testing_preimage_def basilisk_preimage_def
  testing_asset_registry_def basilisk_asset_registry_def

lemma testing_copies_agree:
  "testing_from_assets = from_assets"
  "testing_ensure_root_or_treasury = ensure_root_or_treasury"
  "testing_proxy_filter = proxy_filter"
  "testing_is_superset = is_superset"
  "testing_weight_to_fee_polynomial = weight_to_fee_polynomial"
  "testing_ensure_majority_council_or_root = ensure_majority_council_or_root"
  "testing_ensure_unanimous_council_or_root = ensure_unanimous_council_or_root"
  "testing_ensure_super_majority_council_or_root = ensure_super_majority_council_or_root"
  "testing_ensure_super_majority_tech_committee_or_root = ensure_super_majority_tech_committee_or_root"
  "testing_ensure_unanimous_tech_committee_or_root = ensure_unanimous_tech_committee_or_root"
  "testing_all_council_members = all_council_members"
  "testing_manage_origin = manage_origin"
  "testing_elections = basilisk_elections"
  "testing_council = basilisk_council"
  "testing_technical_committee = basilisk_technical_committee"
  "testing_treasury = basilisk_treasury"
  "testing_scheduler = basilisk_scheduler"
  "testing_tips = basilisk_tips"
  "testing_preimage = basilisk_preimage"
  "testing_asset_registry = basilisk_asset_registry"
  by (simp_all add: testing_copy_defs fun_eq_iff)

end
