(* ===== verification/Weight_Tables.thy ===== *)
theory Weight_Tables
  imports Prelude
begin

text \<open>
  The weights of extrinsics and hooks: the tables of \<open>runtime/common/src/weights\<close> and of the
  \<open>weights.rs\<close> of each pallet. A \<open>WeightInfo\<close> trait is a record with a field for each method, an
  implementation is a value of it. Weights are \<open>u64\<close>; a method adds its terms with \<open>saturating_add\<close>,
  which is \<open>weight_of\<close>. What a database access costs (\<open>T::DbWeight\<close> or \<open>RocksDbWeight\<close>) comes from
  outside the repository: \<open>db_weight\<close> has the two methods used, the locale \<open>db_weights\<close> what they
  promise. The lemmas give every table in closed form where nothing saturates, and bound it where
  something may.
\<close>

section \<open>Arithmetic of weights\<close>

definition saturating_mul :: "nat \<Rightarrow> nat \<Rightarrow> nat \<Rightarrow> nat" where
  "saturating_mul m a b = min m (a * b)"

definition weight_of :: "nat \<Rightarrow> nat list \<Rightarrow> nat" where
  "weight_of base terms = foldl (saturating_add u64_max) base terms"

record db_weight =
  db_reads :: "nat \<Rightarrow> nat"
  db_writes :: "nat \<Rightarrow> nat"

lemma weight_of_le: "weight_of b ts \<le> b + sum_list ts"
proof (induction ts rule: rev_induct)
  case Nil
  then show ?case by (simp add: weight_of_def)
next
  case (snoc t ts)
  then show ?case by (simp add: weight_of_def saturating_add_def)
qed

lemma weight_of_exact: "b + sum_list ts \<le> u64_max \<Longrightarrow> weight_of b ts = b + sum_list ts"
proof (induction ts rule: rev_induct)
  case Nil
  then show ?case by (simp add: weight_of_def)
next
  case (snoc t ts)
  then have "weight_of b ts = b + sum_list ts" by simp
  with snoc.prems show ?case by (simp add: weight_of_def saturating_add_def)
qed

lemma saturating_mul_le: "saturating_mul m a b \<le> a * b"
  by (simp add: saturating_mul_def)

text \<open>
  The methods of \<open>RuntimeDbWeight\<close>: a number of accesses times the weight of one, saturating.
\<close>

locale db_weights =
  fixes db :: db_weight and rd wr :: nat
  assumes reads: "db_reads db n = saturating_mul u64_max rd n"
    and writes: "db_writes db n = saturating_mul u64_max wr n"
begin

lemma reads_le: "db_reads db n \<le> rd * n"
  by (simp add: reads saturating_mul_le)

lemma writes_le: "db_writes db n \<le> wr * n"
  by (simp add: writes saturating_mul_le)

lemma reads_mul_le: "db_reads db (saturating_mul m k n) \<le> rd * k * n"
  by (metis reads_le saturating_mul_le mult.assoc mult_le_mono2 order_trans)

lemma writes_mul_le: "db_writes db (saturating_mul m k n) \<le> wr * k * n"
  by (metis writes_le saturating_mul_le mult.assoc mult_le_mono2 order_trans)

lemma reads_exact: "rd * n \<le> u64_max \<Longrightarrow> db_reads db n = rd * n"
  by (simp add: reads saturating_mul_def)

lemma writes_exact: "wr * n \<le> u64_max \<Longrightarrow> db_writes db n = wr * n"
  by (simp add: writes saturating_mul_def)

text \<open>A method with constant numbers of accesses, in closed form and bounded.\<close>

lemma weight_rw:
  assumes "b + rd * r + wr * w \<le> u64_max"
  shows "weight_of b [db_reads db r, db_writes db w] = b + rd * r + wr * w"
  using assms by (subst weight_of_exact) (simp_all add: reads_exact writes_exact)

lemma weight_r: "b + rd * r \<le> u64_max \<Longrightarrow> weight_of b [db_reads db r] = b + rd * r"
  by (subst weight_of_exact) (simp_all add: reads_exact)

lemma weight_w: "b + wr * w \<le> u64_max \<Longrightarrow> weight_of b [db_writes db w] = b + wr * w"
  by (subst weight_of_exact) (simp_all add: writes_exact)

text \<open>A method with a parameter is bounded by the linear function it stands for.\<close>

lemma weight_linear_le:
  "weight_of b [saturating_mul u64_max c t, db_reads db r, db_reads db (saturating_mul u64_max r' t),
     db_writes db w, db_writes db (saturating_mul u64_max w' t)]
   \<le> b + rd * r + wr * w + (c + rd * r' + wr * w') * t"
proof -
  note weight_of_le [of b "[saturating_mul u64_max c t, db_reads db r, db_reads db (saturating_mul u64_max r' t),
     db_writes db w, db_writes db (saturating_mul u64_max w' t)]"]
  also have "b + sum_list [saturating_mul u64_max c t, db_reads db r, db_reads db (saturating_mul u64_max r' t),
       db_writes db w, db_writes db (saturating_mul u64_max w' t)]
     \<le> b + (c * t + (rd * r + (rd * r' * t + (wr * w + wr * w' * t))))"
    by (simp add: saturating_mul_le reads_le writes_le reads_mul_le writes_mul_le add_mono)
  also have "\<dots> = b + rd * r + wr * w + (c + rd * r' + wr * w') * t" by (simp add: algebra_simps)
  finally show ?thesis .
qed

end

text \<open>The weights of RocksDB, as an instance.\<close>

definition rocks_db :: db_weight where
  "rocks_db = \<lparr>db_reads = saturating_mul u64_max 25000000, db_writes = saturating_mul u64_max 100000000\<rparr>"

interpretation rocks_db: db_weights rocks_db 25000000 100000000
  by unfold_locales (simp_all add: rocks_db_def)

section \<open>The pallets of this repository\<close>

subsection \<open>\<open>pallets/xyk/src/weights.rs\<close>\<close>

record xyk_weight_info =
  xykw_create_pool :: nat
  xykw_add_liquidity :: nat
  xykw_remove_liquidity :: nat
  xykw_sell :: nat
  xykw_buy :: nat

definition xyk_pallet_weight :: "db_weight \<Rightarrow> xyk_weight_info" where
  "xyk_pallet_weight db = \<lparr>
     xykw_create_pool = weight_of 189645000 [db_reads db 11, db_writes db 13],
     xykw_add_liquidity = weight_of 171602000 [db_reads db 9, db_writes db 8],
     xykw_remove_liquidity = weight_of 170846000 [db_reads db 8, db_writes db 7],
     xykw_sell = weight_of 122125000 [db_reads db 5, db_writes db 4],
     xykw_buy = weight_of 121289000 [db_reads db 5, db_writes db 4]\<rparr>"

definition xyk_unit_weight :: "db_weight \<Rightarrow> xyk_weight_info" where
  "xyk_unit_weight db = \<lparr>
     xykw_create_pool = weight_of 189645000 [db_reads db 11, db_writes db 13],
     xykw_add_liquidity = weight_of 171602000 [db_reads db 9, db_writes db 8],
     xykw_remove_liquidity = weight_of 170846000 [db_reads db 8, db_writes db 7],
     xykw_sell = weight_of 122125000 [db_reads db 5, db_writes db 4],
     xykw_buy = weight_of 121289000 [db_reads db 5, db_writes db 4]\<rparr>"

definition xyk_runtime_weight :: "db_weight \<Rightarrow> xyk_weight_info" where
  "xyk_runtime_weight db = \<lparr>
     xykw_create_pool = weight_of 204077000 [db_reads db 17, db_writes db 15],
     xykw_add_liquidity = weight_of 151436000 [db_reads db 12, db_writes db 8],
     xykw_remove_liquidity = weight_of 146728000 [db_reads db 12, db_writes db 7],
     xykw_sell = weight_of 128312000 [db_reads db 11, db_writes db 5],
     xykw_buy = weight_of 128093000 [db_reads db 11, db_writes db 5]\<rparr>"

subsection \<open>\<open>pallets/lbp/src/weights.rs\<close>\<close>

record lbp_weight_info =
  lbpw_create_pool :: nat
  lbpw_update_pool_data :: nat
  lbpw_add_liquidity :: nat
  lbpw_remove_liquidity :: nat
  lbpw_sell :: nat
  lbpw_buy :: nat

definition lbp_pallet_weight :: "db_weight \<Rightarrow> lbp_weight_info" where
  "lbp_pallet_weight db = \<lparr>
     lbpw_create_pool = weight_of 121358000 [db_reads db 6, db_writes db 6],
     lbpw_update_pool_data = weight_of 29130000 [db_reads db 1, db_writes db 1],
     lbpw_add_liquidity = weight_of 101859000 [db_reads db 5, db_writes db 4],
     lbpw_remove_liquidity = weight_of 122961000 [db_reads db 6, db_writes db 6],
     lbpw_sell = weight_of 160655000 [db_reads db 6, db_writes db 6],
     lbpw_buy = weight_of 161152000 [db_reads db 6, db_writes db 6]\<rparr>"

definition lbp_unit_weight :: "db_weight \<Rightarrow> lbp_weight_info" where
  "lbp_unit_weight db = \<lparr>
     lbpw_create_pool = weight_of 121358000 [db_reads db 6, db_writes db 6],
     lbpw_update_pool_data = weight_of 29130000 [db_reads db 1, db_writes db 1],
     lbpw_add_liquidity = weight_of 101859000 [db_reads db 5, db_writes db 4],
     lbpw_remove_liquidity = weight_of 122961000 [db_reads db 6, db_writes db 6],
     lbpw_sell = weight_of 160655000 [db_reads db 6, db_writes db 6],
     lbpw_buy = weight_of 161152000 [db_reads db 6, db_writes db 6]\<rparr>"

definition lbp_runtime_weight :: "db_weight \<Rightarrow> lbp_weight_info" where
  "lbp_runtime_weight db = \<lparr>
     lbpw_create_pool = weight_of 140984000 [db_reads db 10, db_writes db 7],
     lbpw_update_pool_data = weight_of 34779000 [db_reads db 2, db_writes db 3],
     lbpw_add_liquidity = weight_of 103702000 [db_reads db 8, db_writes db 4],
     lbpw_remove_liquidity = weight_of 122228000 [db_reads db 9, db_writes db 7],
     lbpw_sell = weight_of 183378000 [db_reads db 12, db_writes db 7],
     lbpw_buy = weight_of 183014000 [db_reads db 12, db_writes db 7]\<rparr>"

subsection \<open>\<open>pallets/exchange/src/weights.rs\<close>\<close>

record exchange_weight_info =
  exw_known_overhead_for_on_finalize :: nat
  exw_sell_intention :: nat
  exw_buy_intention :: nat
  exw_on_finalize :: "nat \<Rightarrow> nat"
  exw_on_finalize_buys_no_matches :: "nat \<Rightarrow> nat"
  exw_on_finalize_sells_no_matches :: "nat \<Rightarrow> nat"
  exw_sell_extrinsic :: nat
  exw_on_finalize_for_one_sell_extrinsic :: nat
  exw_buy_extrinsic :: nat
  exw_on_finalize_for_one_buy_extrinsic :: nat

definition exchange_pallet_weight :: "db_weight \<Rightarrow> exchange_weight_info" where
  "exchange_pallet_weight db = \<lparr>
     exw_known_overhead_for_on_finalize = weight_of 11782000 [db_reads db 1],
     exw_sell_intention = weight_of 109767000 [db_reads db 6, db_writes db 2],
     exw_buy_intention = weight_of 112747000 [db_reads db 6, db_writes db 2],
     exw_on_finalize = (\<lambda>t. weight_of 0
       [saturating_mul u64_max 110967000 t, db_reads db 4,
        db_reads db (saturating_mul u64_max 2 t), db_writes db 2, db_writes db (saturating_mul u64_max 2 t)]),
     exw_on_finalize_buys_no_matches = (\<lambda>t. weight_of 0
       [saturating_mul u64_max 125236000 t, db_reads db 4,
        db_reads db (saturating_mul u64_max 2 t), db_writes db 2, db_writes db (saturating_mul u64_max 2 t)]),
     exw_on_finalize_sells_no_matches = (\<lambda>t. weight_of 8528000
       [saturating_mul u64_max 109453000 t, db_reads db 4,
        db_reads db (saturating_mul u64_max 2 t), db_writes db 2, db_writes db (saturating_mul u64_max 2 t)]),
     exw_sell_extrinsic = weight_of 121370000 [db_reads db 5, db_writes db 4],
     exw_on_finalize_for_one_sell_extrinsic = weight_of 163828000 [db_reads db 9, db_writes db 6],
     exw_buy_extrinsic = weight_of 120942000 [db_reads db 5, db_writes db 4],
     exw_on_finalize_for_one_buy_extrinsic = weight_of 179585000 [db_reads db 9, db_writes db 6]\<rparr>"

definition exchange_unit_weight :: "db_weight \<Rightarrow> exchange_weight_info" where
  "exchange_unit_weight db = \<lparr>
     exw_known_overhead_for_on_finalize = weight_of 11782000 [db_reads db 1],
     exw_sell_intention = weight_of 109767000 [db_reads db 6, db_writes db 2],
     exw_buy_intention = weight_of 112747000 [db_reads db 6, db_writes db 2],
     exw_on_finalize = (\<lambda>t. weight_of 0
       [saturating_mul u64_max 110967000 t, db_reads db 4,
        db_reads db (saturating_mul u64_max 2 t), db_writes db 2, db_writes db (saturating_mul u64_max 2 t)]),
     exw_on_finalize_buys_no_matches = (\<lambda>t. weight_of 0
       [saturating_mul u64_max 125236000 t, db_reads db 4,
        db_reads db (saturating_mul u64_max 2 t), db_writes db 2, db_writes db (saturating_mul u64_max 2 t)]),
     exw_on_finalize_sells_no_matches = (\<lambda>t. weight_of 8528000
       [saturating_mul u64_max 109453000 t, db_reads db 4,
        db_reads db (saturating_mul u64_max 2 t), db_writes db 2, db_writes db (saturating_mul u64_max 2 t)]),
     exw_sell_extrinsic = weight_of 121370000 [db_reads db 5, db_writes db 4],
     exw_on_finalize_for_one_sell_extrinsic = weight_of 163828000 [db_reads db 9, db_writes db 6],
     exw_buy_extrinsic = weight_of 120942000 [db_reads db 5, db_writes db 4],
     exw_on_finalize_for_one_buy_extrinsic = weight_of 179585000 [db_reads db 9, db_writes db 6]\<rparr>"

definition exchange_runtime_weight :: "db_weight \<Rightarrow> exchange_weight_info" where
  "exchange_runtime_weight db = \<lparr>
     exw_known_overhead_for_on_finalize = weight_of 10094000 [db_reads db 1],
     exw_sell_intention = weight_of 93292000 [db_reads db 6, db_writes db 2],
     exw_buy_intention = weight_of 95420000 [db_reads db 6, db_writes db 2],
     exw_on_finalize = (\<lambda>t. weight_of 0
       [saturating_mul u64_max 66175000 t, db_reads db 5,
        db_reads db (saturating_mul u64_max 2 t), db_writes db 2, db_writes db (saturating_mul u64_max 2 t)]),
     exw_on_finalize_buys_no_matches = (\<lambda>t. weight_of 0
       [saturating_mul u64_max 118616000 t, db_reads db 6,
        db_reads db (saturating_mul u64_max 3 t), db_writes db 2, db_writes db (saturating_mul u64_max 2 t)]),
     exw_on_finalize_sells_no_matches = (\<lambda>t. weight_of 6740000
       [saturating_mul u64_max 108168000 t, db_reads db 6,
        db_reads db (saturating_mul u64_max 3 t), db_writes db 2, db_writes db (saturating_mul u64_max 2 t)]),
     exw_sell_extrinsic = weight_of 129608000 [db_reads db 11, db_writes db 5],
     exw_on_finalize_for_one_sell_extrinsic = weight_of 165468000 [db_reads db 15, db_writes db 7],
     exw_buy_extrinsic = weight_of 129766000 [db_reads db 11, db_writes db 5],
     exw_on_finalize_for_one_buy_extrinsic = weight_of 175645000 [db_reads db 15, db_writes db 7]\<rparr>"

subsection \<open>\<open>pallets/nft/src/weights.rs\<close>\<close>

record nft_weight_info =
  nftw_create_class :: nat
  nftw_mint :: nat
  nftw_transfer :: nat
  nftw_destroy_class :: nat
  nftw_burn :: nat

definition nft_pallet_weight :: "db_weight \<Rightarrow> nft_weight_info" where
  "nft_pallet_weight db = \<lparr>
     nftw_create_class = weight_of 26000000 [db_reads db 2, db_writes db 4],
     nftw_mint = weight_of 34000000 [db_reads db 4, db_writes db 5],
     nftw_transfer = weight_of 29000000 [db_reads db 3, db_writes db 3],
     nftw_destroy_class = weight_of 40000000 [db_reads db 4, db_writes db 5],
     nftw_burn = weight_of 36000000 [db_reads db 4, db_writes db 5]\<rparr>"

definition nft_runtime_weight :: "db_weight \<Rightarrow> nft_weight_info" where
  "nft_runtime_weight db = \<lparr>
     nftw_create_class = weight_of 26000000 [db_reads db 2, db_writes db 4],
     nftw_mint = weight_of 34000000 [db_reads db 4, db_writes db 5],
     nftw_transfer = weight_of 29000000 [db_reads db 3, db_writes db 3],
     nftw_destroy_class = weight_of 40000000 [db_reads db 4, db_writes db 5],
     nftw_burn = weight_of 36000000 [db_reads db 4, db_writes db 5]\<rparr>"

subsection \<open>\<open>pallets/liquidity-mining/src/weights.rs\<close>\<close>

record lm_weight_info =
  lmw_create_farm :: nat
  lmw_destroy_farm :: nat
  lmw_withdraw_undistributed_rewards :: nat
  lmw_add_liquidity_pool :: nat
  lmw_update_liquidity_pool :: nat
  lmw_cancel_liquidity_pool :: nat
  lmw_remove_liquidity_pool :: nat
  lmw_deposit_shares :: nat
  lmw_claim_rewards :: nat
  lmw_withdraw_shares :: nat
  lmw_resume_liquidity_pool :: nat

definition lm_pallet_weight :: "db_weight \<Rightarrow> lm_weight_info" where
  "lm_pallet_weight db = \<lparr>
     lmw_create_farm = weight_of 60093000 [db_reads db 3, db_writes db 4],
     lmw_destroy_farm = weight_of 21360000 [db_reads db 2, db_writes db 1],
     lmw_withdraw_undistributed_rewards = weight_of 51577000 [db_reads db 3, db_writes db 2],
     lmw_add_liquidity_pool = weight_of 36999000 [db_reads db 4, db_writes db 4],
     lmw_update_liquidity_pool = weight_of 27472000 [db_reads db 2, db_writes db 2],
     lmw_cancel_liquidity_pool = weight_of 52218000 [db_reads db 3, db_writes db 2],
     lmw_remove_liquidity_pool = weight_of 37571000 [db_reads db 4, db_writes db 3],
     lmw_deposit_shares = weight_of 130025000 [db_reads db 13, db_writes db 13],
     lmw_claim_rewards = weight_of 142548000 [db_reads db 8, db_writes db 6],
     lmw_withdraw_shares = weight_of 258877000 [db_reads db 14, db_writes db 14],
     lmw_resume_liquidity_pool = weight_of 27301000 [db_reads db 2, db_writes db 2]\<rparr>"

definition lm_unit_weight :: "db_weight \<Rightarrow> lm_weight_info" where
  "lm_unit_weight db = \<lparr>
     lmw_create_farm = weight_of 60093000 [db_reads db 3, db_writes db 4],
     lmw_destroy_farm = weight_of 21360000 [db_reads db 2, db_writes db 1],
     lmw_withdraw_undistributed_rewards = weight_of 51577000 [db_reads db 3, db_writes db 2],
     lmw_add_liquidity_pool = weight_of 36999000 [db_reads db 4, db_writes db 4],
     lmw_update_liquidity_pool = weight_of 27472000 [db_reads db 2, db_writes db 2],
     lmw_cancel_liquidity_pool = weight_of 52218000 [db_reads db 3, db_writes db 2],
     lmw_remove_liquidity_pool = weight_of 37571000 [db_reads db 4, db_writes db 3],
     lmw_deposit_shares = weight_of 130025000 [db_reads db 13, db_writes db 13],
     lmw_claim_rewards = weight_of 142548000 [db_reads db 8, db_writes db 6],
     lmw_withdraw_shares = weight_of 258877000 [db_reads db 14, db_writes db 14],
     lmw_resume_liquidity_pool = weight_of 27301000 [db_reads db 2, db_writes db 2]\<rparr>"

subsection \<open>\<open>pallets/marketplace/src/weights.rs\<close>\<close>

record mp_weight_info =
  mpw_set_price :: nat
  mpw_buy :: nat
  mpw_make_offer :: nat
  mpw_withdraw_offer :: nat
  mpw_accept_offer :: nat
  mpw_add_royalty :: nat

definition mp_pallet_weight :: "db_weight \<Rightarrow> mp_weight_info" where
  "mp_pallet_weight db = \<lparr>
     mpw_set_price = weight_of 15000000 [db_reads db 2, db_writes db 1],
     mpw_buy = weight_of 54000000 [db_reads db 7, db_writes db 6],
     mpw_make_offer = weight_of 25000000 [db_reads db 3, db_writes db 3],
     mpw_withdraw_offer = weight_of 29000000 [db_reads db 4, db_writes db 3],
     mpw_accept_offer = weight_of 73000000 [db_reads db 9, db_writes db 8],
     mpw_add_royalty = weight_of 27000000 [db_reads db 4, db_writes db 3]\<rparr>"

definition mp_runtime_weight :: "db_weight \<Rightarrow> mp_weight_info" where
  "mp_runtime_weight db = \<lparr>
     mpw_set_price = weight_of 15000000 [db_reads db 2, db_writes db 1],
     mpw_buy = weight_of 54000000 [db_reads db 7, db_writes db 6],
     mpw_make_offer = weight_of 25000000 [db_reads db 3, db_writes db 3],
     mpw_withdraw_offer = weight_of 29000000 [db_reads db 4, db_writes db 3],
     mpw_accept_offer = weight_of 73000000 [db_reads db 9, db_writes db 8],
     mpw_add_royalty = weight_of 27000000 [db_reads db 4, db_writes db 3]\<rparr>"

subsection \<open>\<open>pallets/duster/src/weights.rs\<close>\<close>

record duster_weight_info =
  duw_dust_account :: nat
  duw_add_nondustable_account :: nat
  duw_remove_nondustable_account :: nat

definition duster_pallet_weight :: "db_weight \<Rightarrow> duster_weight_info" where
  "duster_pallet_weight db = \<lparr>
     duw_dust_account = weight_of 0 [],
     duw_add_nondustable_account = weight_of 0 [],
     duw_remove_nondustable_account = weight_of 0 []\<rparr>"

definition duster_unit_weight :: "db_weight \<Rightarrow> duster_weight_info" where
  "duster_unit_weight db = \<lparr>
     duw_dust_account = weight_of 0 [],
     duw_add_nondustable_account = weight_of 0 [],
     duw_remove_nondustable_account = weight_of 0 []\<rparr>"

definition duster_runtime_weight :: "db_weight \<Rightarrow> duster_weight_info" where
  "duster_runtime_weight db = \<lparr>
     duw_dust_account = weight_of 76038000 [db_reads db 7, db_writes db 3],
     duw_add_nondustable_account = weight_of 15058000 [db_writes db 1],
     duw_remove_nondustable_account = weight_of 18275000 [db_reads db 1, db_writes db 1]\<rparr>"

section \<open>The other pallets of the runtime\<close>

subsection \<open>\<open>runtime/common/src/weights/system.rs\<close>\<close>

record system_weight_info =
  sysw_remark :: "nat \<Rightarrow> nat"
  sysw_remark_with_event :: "nat \<Rightarrow> nat"
  sysw_set_heap_pages :: nat
  sysw_set_storage :: "nat \<Rightarrow> nat"
  sysw_kill_storage :: "nat \<Rightarrow> nat"
  sysw_kill_prefix :: "nat \<Rightarrow> nat"

definition system_runtime_weight :: "db_weight \<Rightarrow> system_weight_info" where
  "system_runtime_weight db = \<lparr>
     sysw_remark = (\<lambda>b. weight_of 0 []),
     sysw_remark_with_event = (\<lambda>b. weight_of 0 [saturating_mul u64_max 1000 b]),
     sysw_set_heap_pages = weight_of 4412000 [db_reads db 1, db_writes db 2],
     sysw_set_storage = (\<lambda>i. weight_of 0
       [saturating_mul u64_max 697000 i, db_writes db (saturating_mul u64_max 1 i)]),
     sysw_kill_storage = (\<lambda>i. weight_of 2431000
       [saturating_mul u64_max 466000 i, db_writes db (saturating_mul u64_max 1 i)]),
     sysw_kill_prefix = (\<lambda>p. weight_of 9937000
       [saturating_mul u64_max 718000 p, db_writes db (saturating_mul u64_max 1 p)])\<rparr>"

subsection \<open>\<open>runtime/common/src/weights/timestamp.rs\<close>\<close>

record timestamp_weight_info =
  tsw_set :: nat
  tsw_on_finalize :: nat

definition timestamp_runtime_weight :: "db_weight \<Rightarrow> timestamp_weight_info" where
  "timestamp_runtime_weight db = \<lparr>
     tsw_set = weight_of 6814000 [db_reads db 1, db_writes db 1],
     tsw_on_finalize = weight_of 4207000 []\<rparr>"

subsection \<open>\<open>runtime/common/src/weights/balances.rs\<close>\<close>

record balances_weight_info =
  balw_transfer :: nat
  balw_transfer_keep_alive :: nat
  balw_set_balance_creating :: nat
  balw_set_balance_killing :: nat
  balw_force_transfer :: nat
  balw_transfer_all :: nat
  balw_force_unreserve :: nat

definition balances_runtime_weight :: "db_weight \<Rightarrow> balances_weight_info" where
  "balances_runtime_weight db = \<lparr>
     balw_transfer = weight_of 75165000 [db_reads db 2, db_writes db 2],
     balw_transfer_keep_alive = weight_of 46261000 [db_reads db 1, db_writes db 1],
     balw_set_balance_creating = weight_of 26151000 [db_reads db 1, db_writes db 1],
     balw_set_balance_killing = weight_of 30365000 [db_reads db 1, db_writes db 1],
     balw_force_transfer = weight_of 77042000 [db_reads db 3, db_writes db 3],
     balw_transfer_all = weight_of 56307000 [db_reads db 1, db_writes db 1],
     balw_force_unreserve = weight_of 23743000 [db_reads db 1, db_writes db 1]\<rparr>"

subsection \<open>\<open>runtime/common/src/weights/tokens.rs\<close>\<close>

record tokens_weight_info =
  tokw_transfer :: nat
  tokw_transfer_all :: nat
  tokw_transfer_keep_alive :: nat
  tokw_force_transfer :: nat
  tokw_set_balance :: nat

definition tokens_runtime_weight :: "db_weight \<Rightarrow> tokens_weight_info" where
  "tokens_runtime_weight db = \<lparr>
     tokw_transfer = weight_of 66923000 [db_reads db 4, db_writes db 3],
     tokw_transfer_all = weight_of 72657000 [db_reads db 4, db_writes db 3],
     tokw_transfer_keep_alive = weight_of 55058000 [db_reads db 4, db_writes db 3],
     tokw_force_transfer = weight_of 59423000 [db_reads db 5, db_writes db 3],
     tokw_set_balance = weight_of 46355000 [db_reads db 4, db_writes db 3]\<rparr>"

subsection \<open>\<open>runtime/common/src/weights/currencies.rs\<close>\<close>

record currencies_weight_info =
  curw_transfer_non_native_currency :: nat
  curw_transfer_native_currency :: nat
  curw_update_balance_non_native_currency :: nat
  curw_update_balance_native_currency_creating :: nat
  curw_update_balance_native_currency_killing :: nat

definition currencies_runtime_weight :: "db_weight \<Rightarrow> currencies_weight_info" where
  "currencies_runtime_weight db = \<lparr>
     curw_transfer_non_native_currency = weight_of 73058000 [db_reads db 4, db_writes db 3],
     curw_transfer_native_currency = weight_of 56520000 [db_reads db 1, db_writes db 1],
     curw_update_balance_non_native_currency = weight_of 46784000 [db_reads db 4, db_writes db 3],
     curw_update_balance_native_currency_creating = weight_of 43847000 [db_reads db 1, db_writes db 1],
     curw_update_balance_native_currency_killing = weight_of 38291000 [db_reads db 1, db_writes db 1]\<rparr>"

subsection \<open>\<open>runtime/common/src/weights/payment.rs\<close>\<close>

record payment_weight_info =
  payw_add_currency :: nat
  payw_remove_currency :: nat
  payw_set_currency :: nat
  payw_get_spot_price :: nat

definition payment_runtime_weight :: "db_weight \<Rightarrow> payment_weight_info" where
  "payment_runtime_weight db = \<lparr>
     payw_add_currency = weight_of 16131000 [db_reads db 1, db_writes db 1],
     payw_remove_currency = weight_of 16685000 [db_reads db 1, db_writes db 1],
     payw_set_currency = weight_of 100353000 [db_reads db 9, db_writes db 4],
     payw_get_spot_price = weight_of 17519000 [db_reads db 3]\<rparr>"

subsection \<open>\<open>runtime/common/src/weights/asset_registry.rs\<close>\<close>

record asset_registry_weight_info =
  arw_register :: nat
  arw_update :: nat
  arw_set_metadata :: nat
  arw_set_location :: nat

definition asset_registry_runtime_weight :: "db_weight \<Rightarrow> asset_registry_weight_info" where
  "asset_registry_runtime_weight db = \<lparr>
     arw_register = weight_of 27492000 [db_reads db 2, db_writes db 3],
     arw_update = weight_of 29646000 [db_reads db 2, db_writes db 3],
     arw_set_metadata = weight_of 23373000 [db_reads db 1, db_writes db 1],
     arw_set_location = weight_of 24765000 [db_reads db 1, db_writes db 2]\<rparr>"

subsection \<open>\<open>runtime/common/src/weights/price_oracle.rs\<close>\<close>

record price_oracle_weight_info =
  pow_on_finalize_no_entry :: nat
  pow_on_finalize_one_token :: nat
  pow_on_finalize_multiple_tokens_all_bucket_levels :: "nat \<Rightarrow> nat"
  pow_on_finalize_multiple_tokens :: "nat \<Rightarrow> nat"

definition price_oracle_runtime_weight :: "db_weight \<Rightarrow> price_oracle_weight_info" where
  "price_oracle_runtime_weight db = \<lparr>
     pow_on_finalize_no_entry = weight_of 16180000 [db_reads db 3, db_writes db 3],
     pow_on_finalize_one_token = weight_of 25497000 [db_reads db 4, db_writes db 4],
     pow_on_finalize_multiple_tokens_all_bucket_levels = (\<lambda>a. weight_of 19828000
       [saturating_mul u64_max 5457000 a, db_reads db 3,
        db_reads db (saturating_mul u64_max 1 a), db_writes db 3, db_writes db (saturating_mul u64_max 1 a)]),
     pow_on_finalize_multiple_tokens = (\<lambda>b. weight_of 19989000
       [saturating_mul u64_max 5250000 b, db_reads db 3,
        db_reads db (saturating_mul u64_max 1 b), db_writes db 3, db_writes db (saturating_mul u64_max 1 b)])\<rparr>"

subsection \<open>\<open>runtime/common/src/weights/collator_selection.rs\<close>\<close>

record collator_selection_weight_info =
  csw_set_invulnerables :: "nat \<Rightarrow> nat"
  csw_set_desired_candidates :: nat
  csw_set_candidacy_bond :: nat
  csw_register_as_candidate :: "nat \<Rightarrow> nat"
  csw_leave_intent :: "nat \<Rightarrow> nat"
  csw_note_author :: nat
  csw_new_session :: "nat \<Rightarrow> nat \<Rightarrow> nat"

definition collator_selection_runtime_weight :: "db_weight \<Rightarrow> collator_selection_weight_info" where
  "collator_selection_runtime_weight db = \<lparr>
     csw_set_invulnerables = (\<lambda>b. weight_of 14175000
       [saturating_mul u64_max 151000 b, db_writes db 1]),
     csw_set_desired_candidates = weight_of 17262000 [db_writes db 1],
     csw_set_candidacy_bond = weight_of 13505000 [db_writes db 1],
     csw_register_as_candidate = (\<lambda>c. weight_of 56337000
       [saturating_mul u64_max 449000 c, db_reads db 5,
        db_writes db 2]),
     csw_leave_intent = (\<lambda>c. weight_of 40897000
       [saturating_mul u64_max 487000 c, db_reads db 1,
        db_writes db 2]),
     csw_note_author = weight_of 54712000 [db_reads db 3, db_writes db 4],
     csw_new_session = (\<lambda>r c. weight_of 0
       [saturating_mul u64_max 5475000 r, saturating_mul u64_max 23563000 c,
        db_reads db (saturating_mul u64_max 2 c), db_writes db (saturating_mul u64_max 1 c)])\<rparr>"

subsection \<open>\<open>runtime/common/src/weights/democracy.rs\<close>\<close>

record democracy_weight_info =
  dmw_propose :: nat
  dmw_second :: "nat \<Rightarrow> nat"
  dmw_vote_new :: "nat \<Rightarrow> nat"
  dmw_vote_existing :: "nat \<Rightarrow> nat"
  dmw_emergency_cancel :: nat
  dmw_blacklist :: "nat \<Rightarrow> nat"
  dmw_external_propose :: "nat \<Rightarrow> nat"
  dmw_external_propose_majority :: nat
  dmw_external_propose_default :: nat
  dmw_fast_track :: nat
  dmw_veto_external :: "nat \<Rightarrow> nat"
  dmw_cancel_proposal :: "nat \<Rightarrow> nat"
  dmw_cancel_referendum :: nat
  dmw_cancel_queued :: "nat \<Rightarrow> nat"
  dmw_on_initialize_base :: "nat \<Rightarrow> nat"
  dmw_on_initialize_base_with_launch_period :: "nat \<Rightarrow> nat"
  dmw_delegate :: "nat \<Rightarrow> nat"
  dmw_undelegate :: "nat \<Rightarrow> nat"
  dmw_clear_public_proposals :: nat
  dmw_note_preimage :: "nat \<Rightarrow> nat"
  dmw_note_imminent_preimage :: "nat \<Rightarrow> nat"
  dmw_reap_preimage :: "nat \<Rightarrow> nat"
  dmw_unlock_remove :: "nat \<Rightarrow> nat"
  dmw_unlock_set :: "nat \<Rightarrow> nat"
  dmw_remove_vote :: "nat \<Rightarrow> nat"
  dmw_remove_other_vote :: "nat \<Rightarrow> nat"

definition democracy_runtime_weight :: "db_weight \<Rightarrow> democracy_weight_info" where
  "democracy_runtime_weight db = \<lparr>
     dmw_propose = weight_of 60700000 [db_reads db 3, db_writes db 3],
     dmw_second = (\<lambda>s. weight_of 34526000
       [saturating_mul u64_max 170000 s, db_reads db 1,
        db_writes db 1]),
     dmw_vote_new = (\<lambda>r. weight_of 36917000
       [saturating_mul u64_max 202000 r, db_reads db 3,
        db_writes db 3]),
     dmw_vote_existing = (\<lambda>r. weight_of 37413000
       [saturating_mul u64_max 192000 r, db_reads db 3,
        db_writes db 3]),
     dmw_emergency_cancel = weight_of 22325000 [db_reads db 2, db_writes db 2],
     dmw_blacklist = (\<lambda>p. weight_of 56444000
       [saturating_mul u64_max 753000 p, db_reads db 4,
        db_writes db 5]),
     dmw_external_propose = (\<lambda>v. weight_of 11348000
       [saturating_mul u64_max 76000 v, db_reads db 2,
        db_writes db 1]),
     dmw_external_propose_majority = weight_of 2641000 [db_writes db 1],
     dmw_external_propose_default = weight_of 2617000 [db_writes db 1],
     dmw_fast_track = weight_of 24448000 [db_reads db 2, db_writes db 3],
     dmw_veto_external = (\<lambda>v. weight_of 24754000
       [saturating_mul u64_max 98000 v, db_reads db 2,
        db_writes db 2]),
     dmw_cancel_proposal = (\<lambda>p. weight_of 57781000
       [saturating_mul u64_max 411000 p, db_reads db 4,
        db_writes db 4]),
     dmw_cancel_referendum = weight_of 14687000 [db_writes db 1],
     dmw_cancel_queued = (\<lambda>r. weight_of 26100000
       [saturating_mul u64_max 1471000 r, db_reads db 2,
        db_writes db 2]),
     dmw_on_initialize_base = (\<lambda>r. weight_of 4859000
       [saturating_mul u64_max 4231000 r, db_reads db 2,
        db_reads db (saturating_mul u64_max 1 r), db_writes db 1]),
     dmw_on_initialize_base_with_launch_period = (\<lambda>r. weight_of 12029000
       [saturating_mul u64_max 4186000 r, db_reads db 5,
        db_reads db (saturating_mul u64_max 1 r), db_writes db 1]),
     dmw_delegate = (\<lambda>r. weight_of 49410000
       [saturating_mul u64_max 5682000 r, db_reads db 4,
        db_reads db (saturating_mul u64_max 1 r), db_writes db 4, db_writes db (saturating_mul u64_max 1 r)]),
     dmw_undelegate = (\<lambda>r. weight_of 24580000
       [saturating_mul u64_max 5621000 r, db_reads db 2,
        db_reads db (saturating_mul u64_max 1 r), db_writes db 2, db_writes db (saturating_mul u64_max 1 r)]),
     dmw_clear_public_proposals = weight_of 2827000 [db_writes db 1],
     dmw_note_preimage = (\<lambda>b. weight_of 29421000
       [saturating_mul u64_max 3000 b, db_reads db 1,
        db_writes db 1]),
     dmw_note_imminent_preimage = (\<lambda>b. weight_of 24980000
       [saturating_mul u64_max 2000 b, db_reads db 1,
        db_writes db 1]),
     dmw_reap_preimage = (\<lambda>b. weight_of 31000000
       [saturating_mul u64_max 2000 b, db_reads db 1,
        db_writes db 1]),
     dmw_unlock_remove = (\<lambda>r. weight_of 32637000
       [saturating_mul u64_max 103000 r, db_reads db 3,
        db_writes db 3]),
     dmw_unlock_set = (\<lambda>r. weight_of 31896000
       [saturating_mul u64_max 139000 r, db_reads db 3,
        db_writes db 3]),
     dmw_remove_vote = (\<lambda>r. weight_of 16623000
       [saturating_mul u64_max 171000 r, db_reads db 2,
        db_writes db 2]),
     dmw_remove_other_vote = (\<lambda>r. weight_of 16688000
       [saturating_mul u64_max 163000 r, db_reads db 2,
        db_writes db 2])\<rparr>"

subsection \<open>\<open>runtime/common/src/weights/treasury.rs\<close>\<close>

record treasury_weight_info =
  trw_propose_spend :: nat
  trw_reject_proposal :: nat
  trw_approve_proposal :: "nat \<Rightarrow> nat"
  trw_on_initialize_proposals :: "nat \<Rightarrow> nat"

definition treasury_runtime_weight :: "db_weight \<Rightarrow> treasury_weight_info" where
  "treasury_runtime_weight db = \<lparr>
     trw_propose_spend = weight_of 35336000 [db_reads db 1, db_writes db 2],
     trw_reject_proposal = weight_of 54782000 [db_reads db 3, db_writes db 3],
     trw_approve_proposal = (\<lambda>p. weight_of 11107000
       [saturating_mul u64_max 111000 p, db_reads db 2,
        db_writes db 1]),
     trw_on_initialize_proposals = (\<lambda>p. weight_of 26350000
       [saturating_mul u64_max 52156000 p, db_reads db 2,
        db_reads db (saturating_mul u64_max 3 p), db_writes db 1, db_writes db (saturating_mul u64_max 3 p)])\<rparr>"

subsection \<open>\<open>runtime/common/src/weights/scheduler.rs\<close>\<close>

record scheduler_weight_info =
  schw_on_initialize_periodic_named_resolved :: "nat \<Rightarrow> nat"
  schw_on_initialize_named_resolved :: "nat \<Rightarrow> nat"
  schw_on_initialize_periodic_resolved :: "nat \<Rightarrow> nat"
  schw_on_initialize_resolved :: "nat \<Rightarrow> nat"
  schw_on_initialize_named_aborted :: "nat \<Rightarrow> nat"
  schw_on_initialize_aborted :: "nat \<Rightarrow> nat"
  schw_on_initialize_periodic_named :: "nat \<Rightarrow> nat"
  schw_on_initialize_periodic :: "nat \<Rightarrow> nat"
  schw_on_initialize_named :: "nat \<Rightarrow> nat"
  schw_on_initialize :: "nat \<Rightarrow> nat"
  schw_schedule :: "nat \<Rightarrow> nat"
  schw_cancel :: "nat \<Rightarrow> nat"
  schw_schedule_named :: "nat \<Rightarrow> nat"
  schw_cancel_named :: "nat \<Rightarrow> nat"

definition scheduler_runtime_weight :: "db_weight \<Rightarrow> scheduler_weight_info" where
  "scheduler_runtime_weight db = \<lparr>
     schw_on_initialize_periodic_named_resolved = (\<lambda>s. weight_of 0
       [saturating_mul u64_max 39315000 s, db_reads db 1,
        db_reads db (saturating_mul u64_max 3 s), db_writes db 1, db_writes db (saturating_mul u64_max 4 s)]),
     schw_on_initialize_named_resolved = (\<lambda>s. weight_of 4231000
       [saturating_mul u64_max 30830000 s, db_reads db 1,
        db_reads db (saturating_mul u64_max 2 s), db_writes db 1, db_writes db (saturating_mul u64_max 3 s)]),
     schw_on_initialize_periodic_resolved = (\<lambda>s. weight_of 0
       [saturating_mul u64_max 33897000 s, db_reads db 1,
        db_reads db (saturating_mul u64_max 3 s), db_writes db 1, db_writes db (saturating_mul u64_max 3 s)]),
     schw_on_initialize_resolved = (\<lambda>s. weight_of 3095000
       [saturating_mul u64_max 28718000 s, db_reads db 1,
        db_reads db (saturating_mul u64_max 2 s), db_writes db 1, db_writes db (saturating_mul u64_max 2 s)]),
     schw_on_initialize_named_aborted = (\<lambda>s. weight_of 8499000
       [saturating_mul u64_max 14712000 s, db_reads db 2,
        db_reads db (saturating_mul u64_max 1 s), db_writes db 2, db_writes db (saturating_mul u64_max 1 s)]),
     schw_on_initialize_aborted = (\<lambda>s. weight_of 9314000
       [saturating_mul u64_max 9745000 s, db_reads db 2,
        db_reads db (saturating_mul u64_max 1 s), db_writes db 2]),
     schw_on_initialize_periodic_named = (\<lambda>s. weight_of 10351000
       [saturating_mul u64_max 22248000 s, db_reads db 1,
        db_reads db (saturating_mul u64_max 1 s), db_writes db 1, db_writes db (saturating_mul u64_max 2 s)]),
     schw_on_initialize_periodic = (\<lambda>s. weight_of 12597000
       [saturating_mul u64_max 16961000 s, db_reads db 1,
        db_reads db (saturating_mul u64_max 1 s), db_writes db 1, db_writes db (saturating_mul u64_max 1 s)]),
     schw_on_initialize_named = (\<lambda>s. weight_of 14024000
       [saturating_mul u64_max 14306000 s, db_reads db 1,
        db_writes db 1, db_writes db (saturating_mul u64_max 1 s)]),
     schw_on_initialize = (\<lambda>s. weight_of 13450000
       [saturating_mul u64_max 12353000 s, db_reads db 1,
        db_writes db 1]),
     schw_schedule = (\<lambda>s. weight_of 21777000
       [saturating_mul u64_max 130000 s, db_reads db 1,
        db_writes db 1]),
     schw_cancel = (\<lambda>s. weight_of 21872000
       [saturating_mul u64_max 1203000 s, db_reads db 1,
        db_writes db 2]),
     schw_schedule_named = (\<lambda>s. weight_of 26985000
       [saturating_mul u64_max 143000 s, db_reads db 2,
        db_writes db 2]),
     schw_cancel_named = (\<lambda>s. weight_of 23942000
       [saturating_mul u64_max 1237000 s, db_reads db 2,
        db_writes db 2])\<rparr>"

subsection \<open>\<open>runtime/common/src/weights/utility.rs\<close>\<close>

record utility_weight_info =
  utw_batch :: "nat \<Rightarrow> nat"
  utw_as_derivative :: nat
  utw_batch_all :: "nat \<Rightarrow> nat"
  utw_dispatch_as :: nat

definition utility_runtime_weight :: "db_weight \<Rightarrow> utility_weight_info" where
  "utility_runtime_weight db = \<lparr>
     utw_batch = (\<lambda>c. weight_of 9151000 [saturating_mul u64_max 5394000 c]),
     utw_as_derivative = weight_of 3546000 [],
     utw_batch_all = (\<lambda>c. weight_of 10528000 [saturating_mul u64_max 5798000 c]),
     utw_dispatch_as = weight_of 14626000 []\<rparr>"

subsection \<open>\<open>runtime/common/src/weights/vesting.rs\<close>\<close>

record vesting_weight_info =
  vew_vested_transfer :: nat
  vew_claim :: "nat \<Rightarrow> nat"
  vew_update_vesting_schedules :: "nat \<Rightarrow> nat"

definition vesting_runtime_weight :: "db_weight \<Rightarrow> vesting_weight_info" where
  "vesting_runtime_weight db = \<lparr>
     vew_vested_transfer = weight_of 84281000 [db_reads db 4, db_writes db 4],
     vew_claim = (\<lambda>i. weight_of 44707000
       [saturating_mul u64_max 142000 i, db_reads db 2,
        db_writes db 2]),
     vew_update_vesting_schedules = (\<lambda>i. weight_of 38799000
       [saturating_mul u64_max 233000 i, db_reads db 2,
        db_writes db 3])\<rparr>"

end
