(* ===== verification/Weights.thy ===== *)
theory Weights
  imports Weight_Tables Governance
begin

text \<open>
  What a call of a pallet is charged and what a block can hold. The \<open>#[pallet::weight]\<close> attributes
  are functions of the table (\<open>+\<close> and \<open>-\<close> on \<open>u64\<close> wrap), \<open>basilisk_weights\<close> and \<open>testing_weights\<close> are
  the tables the two runtimes choose, \<open>block_weights\<close> the limits of a block. The exchange resolves
  intentions at the end of the block, where nothing can be charged any more, so it charges every
  intention for its share in advance: \<open>exchange_prepaid\<close> shows that what a block has charged always
  covers the measured weight of the resolution.
\<close>

section \<open>The weights of the calls\<close>

datatype xyk_extrinsic = XykCreatePool | XykAddLiquidity | XykRemoveLiquidity | XykSell | XykBuy

text \<open>\<open>on_trade\<close> is the weight of the hook of the price oracle.\<close>

fun xyk_weight :: "xyk_weight_info \<Rightarrow> nat \<Rightarrow> xyk_extrinsic \<Rightarrow> nat" where
  "xyk_weight wi on_trade XykCreatePool = xykw_create_pool wi"
| "xyk_weight wi on_trade XykAddLiquidity = xykw_add_liquidity wi"
| "xyk_weight wi on_trade XykRemoveLiquidity = xykw_remove_liquidity wi"
| "xyk_weight wi on_trade XykSell = wrapping_add u64_max (xykw_sell wi) on_trade"
| "xyk_weight wi on_trade XykBuy = wrapping_add u64_max (xykw_buy wi) on_trade"

datatype lbp_extrinsic = LbpCreatePool | LbpUpdatePoolData | LbpAddLiquidity | LbpRemoveLiquidity | LbpSell | LbpBuy

fun lbp_weight :: "lbp_weight_info \<Rightarrow> lbp_extrinsic \<Rightarrow> nat" where
  "lbp_weight wi LbpCreatePool = lbpw_create_pool wi"
| "lbp_weight wi LbpUpdatePoolData = lbpw_update_pool_data wi"
| "lbp_weight wi LbpAddLiquidity = lbpw_add_liquidity wi"
| "lbp_weight wi LbpRemoveLiquidity = lbpw_remove_liquidity wi"
| "lbp_weight wi LbpSell = lbpw_sell wi"
| "lbp_weight wi LbpBuy = lbpw_buy wi"

datatype exchange_extrinsic = ExchangeSell | ExchangeBuy

definition exchange_sell_weight :: "exchange_weight_info \<Rightarrow> nat" where
  "exchange_sell_weight wi =
     wrapping_sub u64_max
       (wrapping_add u64_max (exw_sell_intention wi) (exw_on_finalize_for_one_sell_extrinsic wi))
       (exw_known_overhead_for_on_finalize wi)"

definition exchange_buy_weight :: "exchange_weight_info \<Rightarrow> nat" where
  "exchange_buy_weight wi =
     wrapping_sub u64_max
       (wrapping_add u64_max (exw_buy_intention wi) (exw_on_finalize_for_one_buy_extrinsic wi))
       (exw_known_overhead_for_on_finalize wi)"

fun exchange_weight :: "exchange_weight_info \<Rightarrow> exchange_extrinsic \<Rightarrow> nat" where
  "exchange_weight wi ExchangeSell = exchange_sell_weight wi"
| "exchange_weight wi ExchangeBuy = exchange_buy_weight wi"

definition exchange_on_initialize :: "exchange_weight_info \<Rightarrow> nat" where
  "exchange_on_initialize wi = exw_known_overhead_for_on_finalize wi"

datatype nft_extrinsic = NftCreateClass | NftMint | NftTransfer | NftDestroyClass | NftBurn

fun nft_weight :: "nft_weight_info \<Rightarrow> nft_extrinsic \<Rightarrow> nat" where
  "nft_weight wi NftCreateClass = nftw_create_class wi"
| "nft_weight wi NftMint = nftw_mint wi"
| "nft_weight wi NftTransfer = nftw_transfer wi"
| "nft_weight wi NftDestroyClass = nftw_destroy_class wi"
| "nft_weight wi NftBurn = nftw_burn wi"

datatype lm_extrinsic =
    LmCreateFarm | LmDestroyFarm | LmWithdrawUndistributedRewards | LmAddLiquidityPool | LmUpdateLiquidityPool
  | LmCancelLiquidityPool | LmResumeLiquidityPool | LmRemoveLiquidityPool | LmDepositShares | LmClaimRewards
  | LmWithdrawShares

fun lm_weight :: "lm_weight_info \<Rightarrow> lm_extrinsic \<Rightarrow> nat" where
  "lm_weight wi LmCreateFarm = lmw_create_farm wi"
| "lm_weight wi LmDestroyFarm = lmw_destroy_farm wi"
| "lm_weight wi LmWithdrawUndistributedRewards = lmw_withdraw_undistributed_rewards wi"
| "lm_weight wi LmAddLiquidityPool = lmw_add_liquidity_pool wi"
| "lm_weight wi LmUpdateLiquidityPool = lmw_update_liquidity_pool wi"
| "lm_weight wi LmCancelLiquidityPool = lmw_cancel_liquidity_pool wi"
| "lm_weight wi LmResumeLiquidityPool = lmw_resume_liquidity_pool wi"
| "lm_weight wi LmRemoveLiquidityPool = lmw_remove_liquidity_pool wi"
| "lm_weight wi LmDepositShares = lmw_deposit_shares wi"
| "lm_weight wi LmClaimRewards = lmw_claim_rewards wi"
| "lm_weight wi LmWithdrawShares = lmw_withdraw_shares wi"

datatype mp_extrinsic = MpBuy | MpSetPrice | MpMakeOffer | MpWithdrawOffer | MpAcceptOffer | MpAddRoyalty

fun mp_weight :: "mp_weight_info \<Rightarrow> mp_extrinsic \<Rightarrow> nat" where
  "mp_weight wi MpBuy = mpw_buy wi"
| "mp_weight wi MpSetPrice = mpw_set_price wi"
| "mp_weight wi MpMakeOffer = mpw_make_offer wi"
| "mp_weight wi MpWithdrawOffer = mpw_withdraw_offer wi"
| "mp_weight wi MpAcceptOffer = mpw_accept_offer wi"
| "mp_weight wi MpAddRoyalty = mpw_add_royalty wi"

datatype duster_extrinsic = DusterDustAccount | DusterAddNondustable | DusterRemoveNondustable

fun duster_weight :: "duster_weight_info \<Rightarrow> duster_extrinsic \<Rightarrow> nat" where
  "duster_weight wi DusterDustAccount = duw_dust_account wi"
| "duster_weight wi DusterAddNondustable = duw_add_nondustable_account wi"
| "duster_weight wi DusterRemoveNondustable = duw_remove_nondustable_account wi"

text \<open>Only the last two calls of the duster are free; all calls are in the normal class.\<close>

fun duster_pays :: "duster_extrinsic \<Rightarrow> bool" where
  "duster_pays DusterDustAccount \<longleftrightarrow> True"
| "duster_pays DusterAddNondustable \<longleftrightarrow> False"
| "duster_pays DusterRemoveNondustable \<longleftrightarrow> False"

section \<open>The tables of the runtimes\<close>

record runtime_weights =
  rw_xyk :: xyk_weight_info
  rw_on_trade :: nat
  rw_lbp :: lbp_weight_info
  rw_exchange :: exchange_weight_info
  rw_nft :: nft_weight_info
  rw_lm :: lm_weight_info
  rw_mp :: mp_weight_info
  rw_duster :: duster_weight_info

definition basilisk_weights :: "db_weight \<Rightarrow> nat \<Rightarrow> runtime_weights" where
  "basilisk_weights db on_trade = \<lparr>rw_xyk = xyk_runtime_weight db, rw_on_trade = on_trade,
     rw_lbp = lbp_runtime_weight db, rw_exchange = exchange_runtime_weight db, rw_nft = nft_runtime_weight db,
     rw_lm = lm_unit_weight db, rw_mp = mp_pallet_weight db, rw_duster = duster_runtime_weight db\<rparr>"

definition testing_weights :: "db_weight \<Rightarrow> nat \<Rightarrow> runtime_weights" where
  "testing_weights db on_trade = (basilisk_weights db on_trade)\<lparr>rw_nft := nft_pallet_weight db\<rparr>"

datatype pallet_extrinsic =
    XykExt xyk_extrinsic
  | LbpExt lbp_extrinsic
  | ExchangeExt exchange_extrinsic
  | NftExt nft_extrinsic
  | LmExt lm_extrinsic
  | MpExt mp_extrinsic
  | DusterExt duster_extrinsic

fun extrinsic_weight :: "runtime_weights \<Rightarrow> pallet_extrinsic \<Rightarrow> nat" where
  "extrinsic_weight rw (XykExt e) = xyk_weight (rw_xyk rw) (rw_on_trade rw) e"
| "extrinsic_weight rw (LbpExt e) = lbp_weight (rw_lbp rw) e"
| "extrinsic_weight rw (ExchangeExt e) = exchange_weight (rw_exchange rw) e"
| "extrinsic_weight rw (NftExt e) = nft_weight (rw_nft rw) e"
| "extrinsic_weight rw (LmExt e) = lm_weight (rw_lm rw) e"
| "extrinsic_weight rw (MpExt e) = mp_weight (rw_mp rw) e"
| "extrinsic_weight rw (DusterExt e) = duster_weight (rw_duster rw) e"

section \<open>The limits of a block\<close>

text \<open>
  Ratios are in parts per billion; \<open>perbill_mul\<close> is the product of a \<open>Perbill\<close> and a weight, from the
  arithmetic crate, and \<open>wps\<close>, \<open>wpm\<close> are the weights of a second and a microsecond.
\<close>

definition AVERAGE_ON_INITIALIZE_RATIO :: nat where "AVERAGE_ON_INITIALIZE_RATIO = 25 * 1000000"

definition NORMAL_DISPATCH_RATIO :: nat where "NORMAL_DISPATCH_RATIO = 75 * 10000000"

definition MAXIMUM_BLOCK_WEIGHT :: "nat \<Rightarrow> nat" where "MAXIMUM_BLOCK_WEIGHT wps = wps div 2"

record block_weights =
  bw_base_extrinsic :: nat
  bw_normal_max_total :: nat
  bw_operational_max_total :: nat
  bw_operational_reserved :: nat
  bw_avg_block_initialization :: nat

definition basilisk_block_weights :: "(nat \<Rightarrow> nat \<Rightarrow> nat) \<Rightarrow> nat \<Rightarrow> nat \<Rightarrow> block_weights" where
  "basilisk_block_weights perbill_mul wps wpm = \<lparr>
     bw_base_extrinsic = extrinsic_base_weight wpm,
     bw_normal_max_total = perbill_mul NORMAL_DISPATCH_RATIO (MAXIMUM_BLOCK_WEIGHT wps),
     bw_operational_max_total = MAXIMUM_BLOCK_WEIGHT wps,
     bw_operational_reserved =
       MAXIMUM_BLOCK_WEIGHT wps - perbill_mul NORMAL_DISPATCH_RATIO (MAXIMUM_BLOCK_WEIGHT wps),
     bw_avg_block_initialization = AVERAGE_ON_INITIALIZE_RATIO\<rparr>"

definition maximum_scheduler_weight :: "(nat \<Rightarrow> nat \<Rightarrow> nat) \<Rightarrow> nat \<Rightarrow> nat" where
  "maximum_scheduler_weight perbill_mul max_block = perbill_mul (10 * 10000000) max_block"

text \<open>The weights of an agenda of the scheduler, by the shape of its entries.\<close>

definition agenda_weights :: "scheduler_weight_info \<Rightarrow> (nat \<Rightarrow> nat) list" where
  "agenda_weights wi = [schw_on_initialize_periodic_named_resolved wi, schw_on_initialize_named_resolved wi,
     schw_on_initialize_periodic_resolved wi, schw_on_initialize_resolved wi]"

section \<open>Closed forms\<close>

text \<open>
  Weights of database accesses up to \<open>10 ^ 12\<close> keep every constant method of the tables away from
  the end of \<open>u64\<close>.
\<close>

lemma wrapping_charge:
  assumes "k \<le> a + b" "a + b \<le> u64_max"
  shows "wrapping_sub u64_max (wrapping_add u64_max a b) k = a + b - k"
  using assms by (simp add: wrapping_add_exact wrapping_sub_exact)

text \<open>What registering an intention costs by itself.\<close>

fun intention_weight :: "exchange_weight_info \<Rightarrow> exchange_extrinsic \<Rightarrow> nat" where
  "intention_weight wi ExchangeSell = exw_sell_intention wi"
| "intention_weight wi ExchangeBuy = exw_buy_intention wi"

text \<open>
  If every call is charged \<open>d\<close> on top of its own cost, and the resolution costs at most a constant and
  \<open>m\<close> for each intention, the charges cover it once there is a call.
\<close>

lemma charges_cover:
  fixes charge own :: "'c \<Rightarrow> nat"
  assumes each: "\<And>e. own e + d \<le> charge e" and cost: "c \<le> b + m * t"
    and "m \<le> d" "b + m \<le> k + d" "1 \<le> t" "t \<le> length es"
  shows "sum_list (map own es) + c \<le> k + sum_list (map charge es)"
proof -
  have "sum_list (map own es) + d * length es \<le> sum_list (map charge es)"
  proof (induction es)
    case (Cons e es)
    with each [of e] show ?case by simp
  qed simp
  moreover have "b + m * t \<le> k + d * length es"
  proof -
    obtain n where n: "length es = Suc n" "t \<le> Suc n" using assms(5,6) by (cases "length es") auto
    have "m * t \<le> m * Suc n" using n(2) by (rule mult_le_mono2)
    also have "\<dots> = m + m * n" by simp
    also have "m * n \<le> d * n" using assms(3) by simp
    finally show ?thesis using assms(4) by (simp add: n)
  qed
  ultimately show ?thesis using cost by linarith
qed

definition finalize_weights :: "exchange_weight_info \<Rightarrow> (nat \<Rightarrow> nat) list" where
  "finalize_weights wi =
     [exw_on_finalize wi, exw_on_finalize_buys_no_matches wi, exw_on_finalize_sells_no_matches wi]"

context db_weights
begin

lemma exchange_runtime_closed:
  assumes "rd \<le> 10 ^ 12" "wr \<le> 10 ^ 12"
  shows "exw_known_overhead_for_on_finalize (exchange_runtime_weight db) = 10094000 + rd"
    and "exchange_weight (exchange_runtime_weight db) ExchangeSell = 248666000 + rd * 20 + wr * 9"
    and "exchange_weight (exchange_runtime_weight db) ExchangeBuy = 260971000 + rd * 20 + wr * 9"
    and "intention_weight (exchange_runtime_weight db) ExchangeSell = 93292000 + rd * 6 + wr * 2"
    and "intention_weight (exchange_runtime_weight db) ExchangeBuy = 95420000 + rd * 6 + wr * 2"
  using assms
  by (simp_all add: exchange_runtime_weight_def exchange_sell_weight_def exchange_buy_weight_def
      weight_rw weight_r u64_max_def wrapping_charge [unfolded u64_max_def])

lemma exchange_pallet_closed:
  assumes "rd \<le> 10 ^ 12" "wr \<le> 10 ^ 12"
  shows "exw_known_overhead_for_on_finalize (exchange_pallet_weight db) = 11782000 + rd"
    and "exchange_weight (exchange_pallet_weight db) ExchangeSell = 261813000 + rd * 14 + wr * 8"
    and "exchange_weight (exchange_pallet_weight db) ExchangeBuy = 280550000 + rd * 14 + wr * 8"
    and "intention_weight (exchange_pallet_weight db) ExchangeSell = 109767000 + rd * 6 + wr * 2"
    and "intention_weight (exchange_pallet_weight db) ExchangeBuy = 112747000 + rd * 6 + wr * 2"
  using assms
  by (simp_all add: exchange_pallet_weight_def exchange_sell_weight_def exchange_buy_weight_def
      weight_rw weight_r u64_max_def wrapping_charge [unfolded u64_max_def])

lemma exchange_runtime_prepaid:
  assumes "rd \<le> 10 ^ 12" "wr \<le> 10 ^ 12" "1 \<le> t" "t \<le> length es" "f \<in> set (finalize_weights (exchange_runtime_weight db))"
  shows "sum_list (map (intention_weight (exchange_runtime_weight db)) es) + f t
    \<le> exchange_on_initialize (exchange_runtime_weight db) + sum_list (map (exchange_weight (exchange_runtime_weight db)) es)"
proof (rule charges_cover)
  show "intention_weight (exchange_runtime_weight db) e + (155374000 + rd * 14 + wr * 7)
      \<le> exchange_weight (exchange_runtime_weight db) e" for e
    by (cases e) (simp_all only: exchange_runtime_closed [OF assms(1,2)])
  show "f t \<le> 6740000 + rd * 6 + wr * 2 + (118616000 + rd * 3 + wr * 2) * t"
  proof -
    consider "f = exw_on_finalize (exchange_runtime_weight db)"
      | "f = exw_on_finalize_buys_no_matches (exchange_runtime_weight db)"
      | "f = exw_on_finalize_sells_no_matches (exchange_runtime_weight db)"
      using assms(5) by (auto simp: finalize_weights_def)
    then show ?thesis
      by cases (simp_all add: exchange_runtime_weight_def, (rule order_trans [OF weight_linear_le], simp add: add_mono mult_le_mono1)+)
  qed
qed (use assms in \<open>simp_all add: exchange_on_initialize_def exchange_runtime_closed\<close>)

lemma exchange_pallet_prepaid:
  assumes "rd \<le> 10 ^ 12" "wr \<le> 10 ^ 12" "1 \<le> t" "t \<le> length es" "f \<in> set (finalize_weights (exchange_pallet_weight db))"
  shows "sum_list (map (intention_weight (exchange_pallet_weight db)) es) + f t
    \<le> exchange_on_initialize (exchange_pallet_weight db) + sum_list (map (exchange_weight (exchange_pallet_weight db)) es)"
proof (rule charges_cover)
  show "intention_weight (exchange_pallet_weight db) e + (152046000 + rd * 8 + wr * 6)
      \<le> exchange_weight (exchange_pallet_weight db) e" for e
    by (cases e) (simp_all only: exchange_pallet_closed [OF assms(1,2)])
  show "f t \<le> 8528000 + rd * 4 + wr * 2 + (125236000 + rd * 2 + wr * 2) * t"
  proof -
    consider "f = exw_on_finalize (exchange_pallet_weight db)"
      | "f = exw_on_finalize_buys_no_matches (exchange_pallet_weight db)"
      | "f = exw_on_finalize_sells_no_matches (exchange_pallet_weight db)"
      using assms(5) by (auto simp: finalize_weights_def)
    then show ?thesis
      by cases (simp_all add: exchange_pallet_weight_def, (rule order_trans [OF weight_linear_le], simp add: add_mono mult_le_mono1)+)
  qed
qed (use assms in \<open>simp_all add: exchange_on_initialize_def exchange_pallet_closed\<close>)

text \<open>Bounds of the methods with constant numbers of accesses.\<close>

lemma weight_rw_le:
  assumes "rd \<le> R" "wr \<le> W"
  shows "weight_of b [db_reads db r, db_writes db w] \<le> b + R * r + W * w"
proof -
  have "weight_of b [db_reads db r, db_writes db w] \<le> b + (db_reads db r + db_writes db w)"
    using weight_of_le [of b "[db_reads db r, db_writes db w]"] by simp
  also have "db_reads db r \<le> R * r" using reads_le [of r] assms(1) by (meson mult_le_mono1 order_trans)
  also have "db_writes db w \<le> W * w" using writes_le [of w] assms(2) by (meson mult_le_mono1 order_trans)
  finally show ?thesis by (simp add: add.assoc)
qed

lemma weight_w_le:
  assumes "wr \<le> W"
  shows "weight_of b [db_writes db w] \<le> b + W * w"
proof -
  have "db_writes db w \<le> W * w" using writes_le [of w] assms by (meson mult_le_mono1 order_trans)
  with weight_of_le [of b "[db_writes db w]"] show ?thesis by simp
qed

end

lemma exchange_unit_pallet: "exchange_unit_weight = exchange_pallet_weight"
  by (simp add: exchange_unit_weight_def exchange_pallet_weight_def fun_eq_iff)

lemma weight_of_ge: "b \<le> u64_max \<Longrightarrow> b \<le> weight_of b ts"
proof (induction ts rule: rev_induct)
  case Nil
  then show ?case by (simp add: weight_of_def)
next
  case (snoc t ts)
  then show ?case by (simp add: weight_of_def saturating_add_def)
qed

lemma weight_pos: "0 < b \<Longrightarrow> b \<le> u64_max \<Longrightarrow> 0 < weight_of b ts"
  using weight_of_ge [of b ts] by simp

lemma wrapping_add_bounds:
  assumes "a \<le> x" "b \<le> y" "x + y \<le> u64_max"
  shows "wrapping_add u64_max a b \<le> x + y" "a \<le> wrapping_add u64_max a b"
  using assms by (simp_all add: wrapping_add_exact)

lemmas weight_table_defs = xyk_runtime_weight_def lbp_runtime_weight_def nft_runtime_weight_def nft_pallet_weight_def
  lm_unit_weight_def mp_pallet_weight_def duster_runtime_weight_def

lemma runtime_tables:
  assumes "rw \<in> {basilisk_weights db on_trade, testing_weights db on_trade}"
  shows "rw_xyk rw = xyk_runtime_weight db" "rw_on_trade rw = on_trade" "rw_lbp rw = lbp_runtime_weight db"
    "rw_exchange rw = exchange_runtime_weight db" "rw_nft rw \<in> {nft_runtime_weight db, nft_pallet_weight db}"
    "rw_lm rw = lm_unit_weight db" "rw_mp rw = mp_pallet_weight db" "rw_duster rw = duster_runtime_weight db"
  using assms by (auto simp: basilisk_weights_def testing_weights_def)

context db_weights
begin

lemmas rocks_rw_le = weight_rw_le [where R = 25000000 and W = 100000000, THEN order_trans]
lemmas rocks_w_le = weight_w_le [where W = 100000000, THEN order_trans]

lemma xyk_weight_bounds:
  assumes "rd \<le> 25000000" "wr \<le> 100000000" "on_trade \<le> 1000000000"
  shows "0 < xyk_weight (xyk_runtime_weight db) on_trade e \<and> xyk_weight (xyk_runtime_weight db) on_trade e \<le> 2200000000"
proof -
  have trade: "0 < wrapping_add u64_max (weight_of b [db_reads db r, db_writes db w]) on_trade \<and>
      wrapping_add u64_max (weight_of b [db_reads db r, db_writes db w]) on_trade \<le> 2200000000"
    if "0 < b" "b + 25000000 * r + 100000000 * w \<le> 1200000000" for b r w
  proof -
    have le: "weight_of b [db_reads db r, db_writes db w] \<le> 1200000000" using rocks_rw_le that(2) assms by blast
    have "b \<le> weight_of b [db_reads db r, db_writes db w]" using that by (intro weight_of_ge) (simp add: u64_max_def)
    with wrapping_add_bounds [OF le assms(3)] that(1) show ?thesis by (simp add: u64_max_def)
  qed
  show ?thesis
    by (cases e) (simp_all add: xyk_runtime_weight_def trade [unfolded u64_max_def] rocks_rw_le assms weight_pos u64_max_def)
qed

lemma lbp_weight_bounds:
  assumes "rd \<le> 25000000" "wr \<le> 100000000"
  shows "0 < lbp_weight (lbp_runtime_weight db) e \<and> lbp_weight (lbp_runtime_weight db) e \<le> 2200000000"
  by (cases e) (simp_all add: lbp_runtime_weight_def rocks_rw_le assms weight_pos u64_max_def)

lemma exchange_weight_bounds:
  assumes "rd \<le> 25000000" "wr \<le> 100000000"
  shows "0 < exchange_weight (exchange_runtime_weight db) e \<and> exchange_weight (exchange_runtime_weight db) e \<le> 2200000000"
proof -
  have "rd \<le> 10 ^ 12" "wr \<le> 10 ^ 12" using assms by simp_all
  note closed = exchange_runtime_closed [OF this]
  show ?thesis using assms by (cases e) (simp_all only: closed, linarith+)
qed

lemma nft_weight_bounds:
  assumes "rd \<le> 25000000" "wr \<le> 100000000" "wi \<in> {nft_runtime_weight db, nft_pallet_weight db}"
  shows "0 < nft_weight wi e \<and> nft_weight wi e \<le> 2200000000"
  using assms(3)
  by (cases e) (auto simp: nft_runtime_weight_def nft_pallet_weight_def rocks_rw_le assms(1,2) weight_pos u64_max_def)

lemma lm_weight_bounds:
  assumes "rd \<le> 25000000" "wr \<le> 100000000"
  shows "0 < lm_weight (lm_unit_weight db) e \<and> lm_weight (lm_unit_weight db) e \<le> 2200000000"
  by (cases e) (simp_all add: lm_unit_weight_def rocks_rw_le assms weight_pos u64_max_def)

lemma mp_weight_bounds:
  assumes "rd \<le> 25000000" "wr \<le> 100000000"
  shows "0 < mp_weight (mp_pallet_weight db) e \<and> mp_weight (mp_pallet_weight db) e \<le> 2200000000"
  by (cases e) (simp_all add: mp_pallet_weight_def rocks_rw_le assms weight_pos u64_max_def)

lemma duster_weight_bounds:
  assumes "rd \<le> 25000000" "wr \<le> 100000000"
  shows "0 < duster_weight (duster_runtime_weight db) e \<and> duster_weight (duster_runtime_weight db) e \<le> 2200000000"
  by (cases e) (simp_all add: duster_runtime_weight_def rocks_rw_le rocks_w_le assms weight_pos u64_max_def)

lemma extrinsic_weight_bounds:
  assumes "rd \<le> 25000000" "wr \<le> 100000000" "on_trade \<le> 1000000000"
    and "rw \<in> {basilisk_weights db on_trade, testing_weights db on_trade}"
  shows "0 < extrinsic_weight rw e \<and> extrinsic_weight rw e \<le> 2200000000"
  using xyk_weight_bounds [OF assms(1-3)] lbp_weight_bounds [OF assms(1,2)] exchange_weight_bounds [OF assms(1,2)]
    nft_weight_bounds [OF assms(1,2) runtime_tables(5) [OF assms(4)]] lm_weight_bounds [OF assms(1,2)]
    mp_weight_bounds [OF assms(1,2)] duster_weight_bounds [OF assms(1,2)]
  by (cases e) (simp_all add: runtime_tables [OF assms(4)])

end

section \<open>Properties\<close>

text \<open>
C24. Every intention of the exchange is paid for in advance: in a block with any calls that register
intentions, of which t (at least one) stand at the end, the weight charged when the block starts
and for the calls covers what the calls themselves take and the weight measured for resolving t
intentions, whether they match, are all buys or all sells, with the table of the runtime and with
both tables of the pallet; no sum or difference of the charge wraps around.
\<close>

theorem exchange_prepaid:
  assumes db: "db_weights db rd wr" "rd \<le> 10 ^ 12" "wr \<le> 10 ^ 12"
    and wi: "wi \<in> {exchange_runtime_weight db, exchange_pallet_weight db, exchange_unit_weight db}"
    and t: "1 \<le> t" "t \<le> length es"
  shows "(\<forall>f \<in> set (finalize_weights wi).
      sum_list (map (intention_weight wi) es) + f t
        \<le> exchange_on_initialize wi + sum_list (map (exchange_weight wi) es)) \<and>
    exchange_sell_weight wi + exw_known_overhead_for_on_finalize wi =
      exw_sell_intention wi + exw_on_finalize_for_one_sell_extrinsic wi \<and>
    exchange_buy_weight wi + exw_known_overhead_for_on_finalize wi =
      exw_buy_intention wi + exw_on_finalize_for_one_buy_extrinsic wi"
proof -
  have wi2: "wi \<in> {exchange_runtime_weight db, exchange_pallet_weight db}" using wi by (auto simp: exchange_unit_pallet)
  then have "\<forall>f \<in> set (finalize_weights wi). sum_list (map (intention_weight wi) es) + f t
      \<le> exchange_on_initialize wi + sum_list (map (exchange_weight wi) es)"
    using db_weights.exchange_runtime_prepaid [OF db t] db_weights.exchange_pallet_prepaid [OF db t] by auto
  moreover have "exchange_sell_weight wi + exw_known_overhead_for_on_finalize wi =
      exw_sell_intention wi + exw_on_finalize_for_one_sell_extrinsic wi \<and>
    exchange_buy_weight wi + exw_known_overhead_for_on_finalize wi =
      exw_buy_intention wi + exw_on_finalize_for_one_buy_extrinsic wi"
    using wi2 db(2,3) db_weights.exchange_runtime_closed [OF db] db_weights.exchange_pallet_closed [OF db]
    by (auto simp: exchange_runtime_weight_def exchange_pallet_weight_def db_weights.weight_rw [OF db(1)] u64_max_def)
  ultimately show ?thesis by blast
qed

theorem exchange_prepaid_witness:
  "exw_sell_intention (exchange_runtime_weight rocks_db) + exw_on_finalize_sells_no_matches (exchange_runtime_weight rocks_db) 1
     \<le> exchange_on_initialize (exchange_runtime_weight rocks_db) + exchange_sell_weight (exchange_runtime_weight rocks_db)"
  using exchange_prepaid [OF rocks_db.db_weights_axioms, of "exchange_runtime_weight rocks_db" 1 "[ExchangeSell]"]
  by (simp add: finalize_weights_def)

text \<open>
No block is too small for the calls of the pallets: in both runtimes every call of the seven
pallets has a positive weight, and any 150 calls, in any mix, with the base weight of an extrinsic
each and the average share of the hooks, fit into what a block gives to normal extrinsics; so no
single call is ever refused for its weight.
\<close>

lemma calls_fit_block:
  assumes db: "db_weights db rd wr" "rd \<le> 25000000" "wr \<le> 100000000" and trade: "on_trade \<le> 1000000000"
    and perbill: "\<And>p x. 1000000000 dvd p * x \<Longrightarrow> perbill_mul p x = p * x div 1000000000"
    and rw: "rw \<in> {basilisk_weights db on_trade, testing_weights db on_trade}"
    and bw: "bw = basilisk_block_weights perbill_mul 1000000000000 1000000" and calls: "length es \<le> 150"
  shows "(\<forall>e. 0 < extrinsic_weight rw e) \<and>
    perbill_mul (bw_avg_block_initialization bw) (bw_operational_max_total bw) +
      sum_list (map (\<lambda>e. bw_base_extrinsic bw + extrinsic_weight rw e) es) \<le> bw_normal_max_total bw"
proof -
  note bounds = db_weights.extrinsic_weight_bounds [OF db trade rw]
  have "sum_list (map (\<lambda>e. bw_base_extrinsic bw + extrinsic_weight rw e) es) \<le> sum_list (map (\<lambda>e. 2400000000) es)"
    using bounds by (intro sum_list_mono) (simp add: bw basilisk_block_weights_def extrinsic_base_weight_def)
  also have "\<dots> \<le> 150 * 2400000000" using calls by (simp add: sum_list_triv)
  finally show ?thesis
    using bounds by (simp add: bw basilisk_block_weights_def perbill NORMAL_DISPATCH_RATIO_def
        AVERAGE_ON_INITIALIZE_RATIO_def MAXIMUM_BLOCK_WEIGHT_def)
qed

theorem calls_fit_block_witness:
  "extrinsic_weight (basilisk_weights rocks_db 1000000) (XykExt XykSell) > 0 \<and>
   bw_base_extrinsic (basilisk_block_weights (\<lambda>p x. p * x div 1000000000) 1000000000000 1000000) +
     extrinsic_weight (basilisk_weights rocks_db 1000000) (XykExt XykSell)
   \<le> bw_normal_max_total (basilisk_block_weights (\<lambda>p x. p * x div 1000000000) 1000000000000 1000000)"
  using calls_fit_block [OF rocks_db.db_weights_axioms, of 1000000 "\<lambda>p x. p * x div 1000000000"
      "basilisk_weights rocks_db 1000000", OF _ _ _ _ _ refl, of "[XykExt XykSell]"]
  by (auto simp del: extrinsic_weight.simps)

text \<open>
The hooks of the other pallets at the limits the runtime sets: a full agenda of the scheduler costs,
in each of its shapes, no more than the weight the scheduler may use, and with that weight used up,
the treasury paying as many proposals as it can have approved, and up to a hundred referenda due,
the hooks fit into the part of the block that normal extrinsics cannot take.
\<close>

lemma hooks_fit_reserve:
  assumes bw: "bw = basilisk_block_weights (\<lambda>p x. p * x div 1000000000) 1000000000000 1000000" and r: "r \<le> 100"
    and f: "f \<in> set (agenda_weights (scheduler_runtime_weight rocks_db))"
    and limit: "limit = maximum_scheduler_weight (\<lambda>p x. p * x div 1000000000) (bw_operational_max_total bw)"
  shows "f MAX_SCHEDULED_PER_BLOCK \<le> limit"
    and "limit + trw_on_initialize_proposals (treasury_runtime_weight rocks_db) MAX_APPROVALS
       + dmw_on_initialize_base_with_launch_period (democracy_runtime_weight rocks_db) r
       + exchange_on_initialize (exchange_runtime_weight rocks_db) \<le> bw_operational_reserved bw"
proof -
  have limit: "limit = 50000000000"
    by (simp add: limit bw basilisk_block_weights_def maximum_scheduler_weight_def MAXIMUM_BLOCK_WEIGHT_def)
  show "f MAX_SCHEDULED_PER_BLOCK \<le> limit"
    using f unfolding limit
    by (auto simp: agenda_weights_def scheduler_runtime_weight_def MAX_SCHEDULED_PER_BLOCK_def
        intro!: rocks_db.weight_linear_le [THEN order_trans])
  have t: "trw_on_initialize_proposals (treasury_runtime_weight rocks_db) MAX_APPROVALS \<le> 43000000000"
    by (auto simp: treasury_runtime_weight_def MAX_APPROVALS_def intro!: rocks_db.weight_linear_le [THEN order_trans])
  have e: "exchange_on_initialize (exchange_runtime_weight rocks_db) \<le> 36000000"
    by (simp add: exchange_on_initialize_def rocks_db.exchange_runtime_closed)
  have d: "dmw_on_initialize_base_with_launch_period (democracy_runtime_weight rocks_db) r \<le> 4000000000"
  proof -
    have "dmw_on_initialize_base_with_launch_period (democracy_runtime_weight rocks_db) r
        \<le> 12029000 + (saturating_mul u64_max 4186000 r + (db_reads rocks_db 5 +
            (db_reads rocks_db (saturating_mul u64_max 1 r) + db_writes rocks_db 1)))"
      by (simp add: democracy_runtime_weight_def) (rule order_trans [OF weight_of_le], simp)
    also have "\<dots> \<le> 12029000 + (4186000 * r + (25000000 * 5 + (25000000 * 1 * r + 100000000 * 1)))"
      by (intro add_mono order_refl saturating_mul_le rocks_db.reads_le rocks_db.reads_mul_le rocks_db.writes_le)
    also have "\<dots> \<le> 4000000000" using r by simp
    finally show ?thesis .
  qed
  show "limit + trw_on_initialize_proposals (treasury_runtime_weight rocks_db) MAX_APPROVALS
       + dmw_on_initialize_base_with_launch_period (democracy_runtime_weight rocks_db) r
       + exchange_on_initialize (exchange_runtime_weight rocks_db) \<le> bw_operational_reserved bw"
    using t d e unfolding limit
    by (simp add: bw basilisk_block_weights_def NORMAL_DISPATCH_RATIO_def MAXIMUM_BLOCK_WEIGHT_def)
qed

end
