(* ===== verification/Spec2Isabelle.thy ===== *)
theory Spec2Isabelle
  imports XYK_Shares LBP_Props Exchange_Props NFT_Props Bazaar_Props Duster_Sweep Pool_RPC Node Composition Weights
begin

text \<open>
  A verification library for the Basilisk node.

  \<^bold>\<open>The program.\<close> Basilisk is a Substrate parachain. Its own logic is in the pallets under
  \<open>src/pallets\<close>, each a storage with extrinsics that check, write and emit events; shared types are in
  \<open>src/primitives\<close>, and \<open>src/runtime/basilisk\<close> and \<open>src/runtime/common\<close> put the pallets together.
  The pallets call each other through traits: the exchange and liquidity mining trade and look up
  pools through \<open>AMM\<close>, which the two pool pallets implement; liquidity mining mints a token per
  deposit and the marketplace sells tokens through the NFT pallet; the constant-product pallet asks
  the bootstrapping pallet whether a pool may be created; all of them move balances through the
  currency traits. Around the runtime, \<open>src/node\<close> picks a network, builds its genesis, chooses the
  runtime and starts the service, and two RPC servers read the pools.

  \<^bold>\<open>Conventions.\<close> Unsigned integers are natural numbers, with the largest value of the Rust type
  written where an operation checks, saturates or wraps (\<open>Prelude\<close>). A handler is a function of the
  configuration, the state and the origin; \<open>?\<close> is \<open>and_then\<close>, \<open>ensure!\<close> is \<open>ensure\<close>, and every
  error path is an \<open>Inl\<close> of the one \<open>dispatch_error\<close> (\<open>Primitives\<close>). The state of a pallet is a record
  of its storage maps and events on top of the storage outside it, so a call that spans pallets
  changes one value. Code outside the repository is a field of a configuration: token pallets
  (\<open>currency_ops\<close>, \<open>native_ops\<close>, \<open>uniques_ops\<close>), the math crate (\<open>math_ops\<close>, \<open>lm_math_ops\<close>), the provided
  methods of \<open>AMM\<close>, the registry and the oracle. What is assumed of it is stated as a locale or a named
  predicate and met by an executable instance (\<open>Ledger\<close>, \<open>Instances\<close>, \<open>purse\<close>, the registry of
  \<open>Uniques\<close>), on which the concrete runs of each theory evaluate.

  \<^bold>\<open>Theories and what they show.\<close>

  \<^item> \<open>Prelude\<close>, \<open>Primitives\<close>: arithmetic, results, bytes, maps; asset pairs, intentions, class types
    and permissions, chain constants (\<open>src/primitives/src\<close>).

  \<^item> \<open>Currency\<close>, \<open>Ledger\<close>, \<open>Native\<close>: the contracts of the currency traits as locales; the adapter and the
    locked balances of \<open>src/runtime/common/src/adapter.rs\<close> and \<open>locked_balance.rs\<close>, with the proof that
    the adapter keeps the contract.

  \<^item> \<open>AMM\<close>, \<open>Instances\<close>: the interface of pools as the locale \<open>amm\<close>, interpreted for both pool pallets.

  \<^item> \<open>XYK\<close>, \<open>XYK_Props\<close> (\<open>src/pallets/xyk/src\<close>): creation, liquidity, trades. The product of the reserves
    never falls, traders get their limits, shares and records stay consistent in all reachable states.
    \<open>XYK_Shares\<close>: the liquidity recorded for a pool is the number of its shares in circulation.

  \<^item> \<open>LBP\<close>, \<open>LBP_Props\<close> (\<open>src/pallets/lbp/src/lib.rs\<close>): sales with moving weights. Pool parameters and the
    table of fee collectors are consistent in all reachable states, a running sale cannot be changed,
    trades happen inside the sale only and within their limits.

  \<^item> \<open>Exchange\<close>, \<open>Exchange_Props\<close> (\<open>src/pallets/exchange/src/lib.rs\<close>, \<open>direct.rs\<close>): intentions, matching,
    direct trades and the end of a block. The panic of the resolver is the value \<open>None\<close>; loops recurse
    over the lists they consume, so no fuel is needed. Direct trades settle exactly, reverting one
    restores all balances, counters match the stored intentions, and the resolution returns when amounts
    are in proportion (it panics on a concrete block otherwise).

  \<^item> \<open>Uniques\<close>, \<open>NFT\<close>, \<open>NFT_Props\<close> (\<open>src/pallets/nft/src\<close>): classes and tokens over \<open>pallet_uniques\<close>.
    Records agree with the registry, only owners move tokens, the classes of the protocol are protected.

  \<^item> \<open>Liquidity_Mining\<close>, \<open>LM_Invariant\<close>, \<open>LM_Props\<close> (\<open>src/pallets/liquidity-mining/src\<close>): farms, pools,
    deposits, rewards. One invariant ties counters, stakes, metadata and deposits together in all
    reachable states; a deposit withdrawn in the same period is a round trip; updates conserve rewards.

  \<^item> \<open>Marketplace\<close>, \<open>Marketplace_Props\<close> (\<open>src/pallets/marketplace/src\<close>): listings, offers, royalties. Every
    call refines an abstract market of owners, purses and escrow; offers are covered by reserves.

  \<^item> \<open>Vault\<close>, \<open>Bazaar\<close>, \<open>Pools\<close>, \<open>Bazaar_Props\<close>: liquidity mining, the marketplace and the NFT pallet over one
    storage, beside anything else that leaves the deposits alone, the calls of the constant-product
    pallet among it. \<open>Vault\<close> specifies claims on shares with their
    owners and what is held for them, and says what each call of liquidity mining means for it;
    \<open>Bazaar\<close> states what the pallets rely on (the locale \<open>hub_world\<close>) and proves that every step is a run of
    the vault. So deposits are backed and owned by who holds their token, also after a sale, and those
    of removed pools can be withdrawn. Calls are those of accounts other than the account of the
    pallet, and deposits are made while their trading pool exists: without that, which the code does not
    check, a run shows shares paid out to somebody who never had any.

  \<^item> \<open>Duster\<close> (\<open>src/pallets/duster/src\<close>, \<open>src/pallets/offchain-duster/src\<close>): what a dusting moves, what
    genesis fixes, which calls the offchain worker submits. \<open>Duster_Sweep\<close>: the worker and the pallet
    together; a sweep clears the dust it lists and takes nothing else.

  \<^item> \<open>Runtime\<close> (\<open>src/runtime/basilisk/src/lib.rs\<close>, \<open>xcm.rs\<close>): the pallets' configurations, which meet
    the hypotheses of the pallets' theorems whenever the outside crates meet theirs, the accounts of
    pools, filters and proxies, fees, locations. The properties below span the two pool pallets.

  \<^item> \<open>Governance\<close> (\<open>src/runtime/common/src/lib.rs\<close>, \<open>src/runtime/basilisk/src/lib.rs\<close>,
    \<open>src/runtime/testing-basilisk/src/lib.rs\<close>): parameters and origins of the governance pallets of both
    runtimes. The origin checks are a locale of documented laws; which motion passes for which decision
    follows from it. \<open>Testing_Runtime\<close> configures the pallets of the testing runtime and compares them with
    the main one. \<open>Composition\<close>: the tables of pallets of both runtimes; the index of a call names the same
    pallet in both, and what the testing runtime repeats has not drifted from the main one.

  \<^item> \<open>Pool_RPC\<close> (\<open>src/pallets/xyk/rpc\<close>, \<open>src/pallets/lbp/rpc\<close>): the runtime interface of the pools, decimal
    strings and the RPC methods. What a client decodes is what the pool holds.

  \<^item> \<open>Chain_Spec\<close>, \<open>Node\<close> (\<open>src/node/src\<close>): every built-in network with its genesis configuration, the
    command line, the two loaders of specifications, the subcommands, the choice of the client and the
    start of a node. Every network has a genesis the pallets accept; the loaders agree up to two
    names; the exported genesis state is that of the node; the networks for which the runtime is not
    recognised, or the export fails, are named.

  \<^item> \<open>Weight_Tables\<close>, \<open>Weights\<close> (\<open>src/runtime/common/src/weights\<close>, the \<open>weights.rs\<close> of each pallet): the
    weight tables, what each call is charged, the limits of a block. The charges of the exchange cover
    the resolution at the end of the block, and calls and hooks fit into a block.

  \<^bold>\<open>Shape of the proofs.\<close> For each operation an effect lemma turns its success into guards and new
  values; frames say what it leaves alone; invariants follow by rule induction over a step relation
  whose last rule lets the storage outside the pallet change at will. A property that is about a
  fault of the code is a concrete run.

  \<^bold>\<open>Bounds.\<close> Nothing is bounded beyond the widths of the Rust types. The balances of the token
  contracts are exact: reaping below the existential deposit is not part of them.

  \<^bold>\<open>Not modelled.\<close> Benchmarks only measure. The import queue, network,
  consensus and task manager of the service, and the forwarding methods of the client, only call the
  Substrate crates; they are functions of the environment of \<open>Node\<close>. The XCM executor only names types of other
  crates. Storage migrations beyond the one of liquidity mining, log lines and metadata are left out.
\<close>

section \<open>Properties that span the pallets\<close>

text \<open>
The accounts of the pools: if the hash tells the seeds apart, two pairs of assets share the
account of their constant-product pool exactly if they are the same two assets in some order, the
same holds for bootstrapping pools, and no account belongs to pools of both kinds.
\<close>

lemma runtime_pool_accounts:
  assumes hash: "inj_on (bk_hash R) pair_seeds"
    and u32: "a \<le> u32_max" "b \<le> u32_max" "c \<le> u32_max" "d \<le> u32_max"
  shows "(xyk_get_pair_id (basilisk_xyk R) (mk_pair a b) = xyk_get_pair_id (basilisk_xyk R) (mk_pair c d)
            \<longleftrightarrow> {a, b} = {c, d}) \<and>
         (lbp_get_pair_id (basilisk_lbp R) (mk_pair a b) = lbp_get_pair_id (basilisk_lbp R) (mk_pair c d)
            \<longleftrightarrow> {a, b} = {c, d}) \<and>
         xyk_get_pair_id (basilisk_xyk R) (mk_pair a b) \<noteq> lbp_get_pair_id (basilisk_lbp R) (mk_pair c d)"
  using u32 by (simp add: from_assets_eq_iff [OF hash])

theorem runtime_pool_accounts_witness:
  "xyk_get_pair_id (basilisk_xyk demo_basilisk) (mk_pair 1 2) = xyk_get_pair_id (basilisk_xyk demo_basilisk) (mk_pair 2 1) \<and>
   xyk_get_pair_id (basilisk_xyk demo_basilisk) (mk_pair 1 2) \<noteq> lbp_get_pair_id (basilisk_lbp demo_basilisk) (mk_pair 2 1)"
proof -
  have "inj_on (bk_hash demo_basilisk) pair_seeds" using digits_hash_inj by (simp add: demo_basilisk_def)
  from runtime_pool_accounts [OF this, of 1 2 2 1] show ?thesis by (simp add: u32_max_def insert_commute)
qed

text \<open>
C10. Calls of the constant-product pallet leave the bootstrapping pools alone: a successful call,
signed by anyone but the pool's own account, changes no record of any sale and not one balance of the
account of any sale, the sale of the very same pair included.
\<close>

theorem runtime_pools_spare_sales:
  assumes env: "basilisk_env R" and hash: "inj_on (bk_hash R) pair_seeds"
    and ok: "xyk_dispatch (basilisk_xyk R) s orig call = Inr s'"
    and call: "xyk_call_assets call = (a, b)" and u32: "a \<le> u32_max" "b \<le> u32_max" "c \<le> u32_max" "d \<le> u32_max"
    and q: "q = lbp_get_pair_id (basilisk_lbp R) (mk_pair c d)" "orig \<noteq> Signed q"
  shows "lbp_pool_data (xyk_ext s') = lbp_pool_data (xyk_ext s) \<and>
    fee_collector_with_asset (xyk_ext s') = fee_collector_with_asset (xyk_ext s) \<and>
    lbp_events (xyk_ext s') = lbp_events (xyk_ext s) \<and>
    (\<forall>k. lbp_free (basilisk_lbp R) (xyk_ext s') k q = lbp_free (basilisk_lbp R) (xyk_ext s) k q)"
proof -
  note xenv = basilisk_xyk_env [OF env]
  obtain who where who: "orig = Signed who" using xyk_dispatch_signed [OF ok] by blast
  have "q \<noteq> xyk_get_pair_id (basilisk_xyk R) (mk_pair a b)"
    using u32 by (simp add: q(1) from_assets_eq_iff [OF hash])
  then have "xyk_free (basilisk_xyk R) s' k q = xyk_free (basilisk_xyk R) s k q" for k
    using xyk_dispatch_touches [OF xenv ok [unfolded who]] who q(2) by (simp add: call)
  moreover have "xyk_free (basilisk_xyk R) t = lbp_free (basilisk_lbp R) (xyk_ext t)" for t
    by (simp add: basilisk_xyk_def)
  moreover have "sale_records (xyk_ext s') = sale_records (xyk_ext s)"
    by (rule xyk_dispatch_keeps [OF xenv basilisk_keeps_sales ok])
  ultimately show ?thesis by (simp add: sale_records_def)
qed

theorem runtime_pools_spare_sales_witness:
  "\<exists>s'. xyk_dispatch (basilisk_xyk demo_basilisk) demo_rt (Signed 7) (CreatePool 1 2 2000 2000000000000000000) = Inr s' \<and>
     lbp_pool_data (xyk_ext s') = lbp_pool_data (xyk_ext demo_rt)"
proof -
  obtain s' where s': "xyk_dispatch (basilisk_xyk demo_basilisk) demo_rt (Signed 7)
      (CreatePool 1 2 2000 2000000000000000000) = Inr s'" using demo_pool_created by blast
  have hash: "inj_on (bk_hash demo_basilisk) pair_seeds" using digits_hash_inj by (simp add: demo_basilisk_def)
  have "lbp_get_pair_id (basilisk_lbp demo_basilisk) (mk_pair 1 2) = 309485009965460256824779372"
    using demo_accounts(1) by (simp add: demo_basilisk_def)
  then have "Signed 7 \<noteq> Signed (lbp_get_pair_id (basilisk_lbp demo_basilisk) (mk_pair 1 2))" by simp
  from runtime_pools_spare_sales [OF demo_basilisk_env hash s' _ _ _ _ _ refl this] s' show ?thesis
    by (auto simp: u32_max_def)
qed



end
